(* ===== verification/Prelude.thy ===== *)
theory Prelude
  imports Main "HOL-Library.Word" "HOL-Library.Finite_Map" "HOL-Library.List_Lexorder"
    "HOL-Library.Char_ord" "HOL-Library.Sublist"
begin

text \<open>
  Shared vocabulary of the development: the machine integers and dictionaries of the Go
  sources, the pieces of Go's standard library that the turn kernel calls
  (\<open>strings.TrimSpace\<close>, the \<open>%016x\<close> and \<open>%d\<close> verbs of \<open>fmt\<close>, \<open>slices.Sort\<close> over map
  keys), the two ways a Go function reports failure (an \<open>error\<close> alone, or a value and an
  \<open>error\<close>), and the generic lemmas about them that the component theories use.

  Strings are byte strings, as in Go: \<^typ>\<open>string\<close> is a list of 8-bit characters, and
  \<open>len\<close> counts bytes. A map is an \<open>fmap\<close>: finite by construction, equal when it has the
  same entries. Where the source ranges over a map and stops at the first error, Go leaves
  the order open; the model visits the keys in ascending order, and every statement made
  about such a loop is independent of the order.
\<close>

named_theorems ledger_simps "lookups in and sizes of the kernel's ledgers"
named_theorems frame_simps "what an operation leaves unchanged"

section \<open>Machine integers and dictionaries\<close>

type_synonym u32 = "32 word"
type_synonym u64 = "64 word"
type_synonym 'v dict = "(string, 'v) fmap"

text \<open>\<open>m[k]\<close> for a missing key is the zero value of the element type.\<close>

definition lookup_zero :: "'v \<Rightarrow> ('k, 'v) fmap \<Rightarrow> 'k \<Rightarrow> 'v" where
  "lookup_zero z m k = (case fmlookup m k of None \<Rightarrow> z | Some v \<Rightarrow> v)"

text \<open>Collect the keys of a map and sort them.\<close>

definition sorted_keys :: "('k::linorder, 'v) fmap \<Rightarrow> 'k list" where
  "sorted_keys m = sorted_list_of_fset (fmdom m)"

text \<open>The first error of a list of checks, \<open>None\<close> being Go's \<open>nil\<close>.\<close>

fun first_error :: "'e option list \<Rightarrow> 'e option" where
  "first_error [] = None"
| "first_error (None # rest) = first_error rest"
| "first_error (Some e # rest) = Some e"

definition range_error :: "('k::linorder \<Rightarrow> 'v \<Rightarrow> 'e option) \<Rightarrow> ('k, 'v) fmap \<Rightarrow> 'e option" where
  "range_error f m =
     first_error (map (\<lambda>k. case fmlookup m k of None \<Rightarrow> None | Some v \<Rightarrow> f k v) (sorted_keys m))"

text \<open>The same over a slice, with the index of each element.\<close>

definition index_error :: "(nat \<Rightarrow> 'a \<Rightarrow> 'e option) \<Rightarrow> 'a list \<Rightarrow> 'e option" where
  "index_error f xs = first_error (map (\<lambda>(i, x). f i x) (enumerate 0 xs))"

definition require :: "bool \<Rightarrow> 'e \<Rightarrow> 'e option" where
  "require ok e = (if ok then None else Some e)"

lemma first_error_None [simp]: "first_error xs = None \<longleftrightarrow> (\<forall>x \<in> set xs. x = None)"
  by (induction xs rule: first_error.induct) auto

lemma require_None [simp]: "require ok e = None \<longleftrightarrow> ok"
  by (simp add: require_def)

lemma set_sorted_keys [simp]: "set (sorted_keys m) = fset (fmdom m)"
  by (simp add: sorted_keys_def)

lemma distinct_sorted_keys [simp]: "distinct (sorted_keys m)"
  by (simp add: sorted_keys_def sorted_list_of_fset.rep_eq)

lemma sorted_sorted_keys [simp]: "sorted (sorted_keys m)"
  by (simp add: sorted_keys_def sorted_list_of_fset.rep_eq)

text \<open>A loop over a map that checks every entry succeeds in whatever order it runs.\<close>

lemma range_error_None:
  "range_error f m = None \<longleftrightarrow> fmpred (\<lambda>k v. f k v = None) m"
proof
  assume *: "range_error f m = None"
  show "fmpred (\<lambda>k v. f k v = None) m"
  proof (rule fmpredI)
    fix k v assume kv: "fmlookup m k = Some v"
    then have "k \<in> fset (fmdom m)" by (auto intro: fmdomI)
    with * kv show "f k v = None" by (fastforce simp: range_error_def)
  qed
qed (auto simp: range_error_def fmpred_iff split: option.splits)

lemma index_error_None:
  "index_error f xs = None \<longleftrightarrow> (\<forall>i < length xs. f i (xs ! i) = None)"
proof -
  have "set (enumerate 0 xs) = (\<lambda>i. (i, xs ! i)) ` {..<length xs}"
    by (auto simp: in_set_enumerate_eq image_iff)
  then show ?thesis by (auto simp: index_error_def)
qed

lemma index_error_zip_None:
  "index_error (\<lambda>i (x, y). f i x y) (zip xs ys) = None \<longleftrightarrow>
     (\<forall>i < min (length xs) (length ys). f i (xs ! i) (ys ! i) = None)"
  by (auto simp: index_error_None)

lemma index_error_Nil [simp]: "index_error f [] = None"
  by (simp add: index_error_def)

lemma fmpred_upd_iff [simp]:
  "fmpred P (fmupd k v m) \<longleftrightarrow> P k v \<and> fmpred (\<lambda>k' v'. k' = k \<or> P k' v') m"
  by (auto simp: fmpred_iff split: if_splits)

lemma fmpred_drop_iff [simp]:
  "fmpred P (fmdrop k m) \<longleftrightarrow> fmpred (\<lambda>k' v'. k' = k \<or> P k' v') m"
  by (auto simp: fmpred_iff)

lemma fmpredE: "fmpred P m \<Longrightarrow> fmlookup m k = Some v \<Longrightarrow> P k v"
  by (simp add: fmpred_iff)

lemma fmempty_iff_no_entry: "m = fmempty \<longleftrightarrow> (\<forall>k. fmlookup m k = None)"
  by (auto intro: fmap_ext)

lemma fmlookup_not_empty: "fmlookup m k = Some v \<Longrightarrow> m \<noteq> fmempty"
  by auto

lemma lookup_zero_Some [simp]: "fmlookup m k = Some v \<Longrightarrow> lookup_zero z m k = v"
  by (simp add: lookup_zero_def)

lemma lookup_zero_None [simp]: "fmlookup m k = None \<Longrightarrow> lookup_zero z m k = z"
  by (simp add: lookup_zero_def)

lemma sorted_keys_empty [simp]: "sorted_keys fmempty = []"
  by (simp add: sorted_keys_def sorted_list_of_fset.rep_eq)

lemma sorted_keys_upd:
  "sorted_keys (fmupd k v m) = insort k (remove1 k (sorted_keys m))"
proof -
  have "sorted_list_of_set (insert k (fset (fmdom m)))
      = insort k (sorted_list_of_set (fset (fmdom m) - {k}))"
    by (metis finite_fset sorted_list_of_set.fold_insort_key.insert_remove)
  then show ?thesis
    by (simp add: sorted_keys_def sorted_list_of_fset.rep_eq sorted_list_of_set.fold_insort_key.remove
        sorted_list_of_set_remove)
qed

section \<open>Results\<close>

text \<open>A pair of a value and an \<open>error\<close>, exactly one of which is meaningful.\<close>

definition bind_result :: "'e + 'a \<Rightarrow> ('a \<Rightarrow> 'e + 'b) \<Rightarrow> 'e + 'b" where
  "bind_result r k = (case r of Inl e \<Rightarrow> Inl e | Inr x \<Rightarrow> k x)"

lemma bind_result_simps [simp]:
  "bind_result (Inl e) k = Inl e"
  "bind_result (Inr x) k = k x"
  by (simp_all add: bind_result_def)

lemma bind_result_eq_Inr:
  "bind_result r k = Inr y \<longleftrightarrow> (\<exists>x. r = Inr x \<and> k x = Inr y)"
  by (cases r) auto

text \<open>An early return: the error wins, otherwise the rest of the body runs.\<close>

definition guard_error :: "'e option \<Rightarrow> 'e + 'a \<Rightarrow> 'e + 'a" where
  "guard_error err rest = (case err of None \<Rightarrow> rest | Some e \<Rightarrow> Inl e)"

lemma guard_error_simps [simp]:
  "guard_error None rest = rest"
  "guard_error (Some e) rest = Inl e"
  by (simp_all add: guard_error_def)

lemma guard_error_eq_Inr [simp]: "guard_error err rest = Inr y \<longleftrightarrow> err = None \<and> rest = Inr y"
  by (cases err) auto

section \<open>Go strings\<close>

text \<open>
  The UTF-8 encodings of the code points for which \<open>unicode.IsSpace\<close> holds: the six ASCII
  ones, U+0085, U+00A0, U+1680, U+2000 to U+200A, U+2028, U+2029, U+202F, U+205F and U+3000.
  \<open>strings.TrimSpace\<close> removes them from both ends.
\<close>

definition space_encodings :: "string list" where
  "space_encodings =
     [[CHR 0x09], [CHR 0x0A], [CHR 0x0B], [CHR 0x0C], [CHR 0x0D], [CHR 0x20],
      [CHR 0xC2, CHR 0x85], [CHR 0xC2, CHR 0xA0],
      [CHR 0xE1, CHR 0x9A, CHR 0x80],
      [CHR 0xE2, CHR 0x80, CHR 0x80], [CHR 0xE2, CHR 0x80, CHR 0x81],
      [CHR 0xE2, CHR 0x80, CHR 0x82], [CHR 0xE2, CHR 0x80, CHR 0x83],
      [CHR 0xE2, CHR 0x80, CHR 0x84], [CHR 0xE2, CHR 0x80, CHR 0x85],
      [CHR 0xE2, CHR 0x80, CHR 0x86], [CHR 0xE2, CHR 0x80, CHR 0x87],
      [CHR 0xE2, CHR 0x80, CHR 0x88], [CHR 0xE2, CHR 0x80, CHR 0x89],
      [CHR 0xE2, CHR 0x80, CHR 0x8A], [CHR 0xE2, CHR 0x80, CHR 0xA8],
      [CHR 0xE2, CHR 0x80, CHR 0xA9], [CHR 0xE2, CHR 0x80, CHR 0xAF],
      [CHR 0xE2, CHR 0x81, CHR 0x9F], [CHR 0xE3, CHR 0x80, CHR 0x80]]"

fun strip_front :: "string list \<Rightarrow> string \<Rightarrow> string" where
  "strip_front ps [] = []"
| "strip_front ps (c # cs) =
     (case find (\<lambda>p. p \<noteq> [] \<and> prefix p (c # cs)) ps of
        None \<Rightarrow> c # cs
      | Some p \<Rightarrow> strip_front ps (drop (length p - 1) cs))"

definition TrimSpace :: "string \<Rightarrow> string" where
  "TrimSpace s =
     rev (strip_front (map rev space_encodings) (rev (strip_front space_encodings s)))"

abbreviation blank :: "string \<Rightarrow> bool" where
  "blank s \<equiv> TrimSpace s = []"

lemma strip_front_suffix: "suffix (strip_front ps s) s"
proof (induction ps s rule: strip_front.induct)
  case (2 ps c cs)
  then show ?case
    by (auto split: option.splits intro: suffix_ConsI suffix_order.trans [OF _ suffix_drop])
qed simp

lemma strip_front_idem: "strip_front ps (strip_front ps s) = strip_front ps s"
  by (induction ps s rule: strip_front.induct) (auto split: option.splits)

lemma TrimSpace_Nil [simp]: "TrimSpace [] = []"
  by (simp add: TrimSpace_def)

text \<open>A byte that no white-space encoding contains ends the trimming on either side.\<close>

definition solid :: "char \<Rightarrow> bool" where
  "solid c \<longleftrightarrow> (\<forall>p \<in> set space_encodings. c \<notin> set p)"

lemma strip_front_solid:
  assumes "c \<in> set s" "\<forall>p \<in> set ps. c \<notin> set p"
  shows "c \<in> set (strip_front ps s)"
  using assms
proof (induction ps s rule: strip_front.induct)
  case (2 ps d cs)
  show ?case
  proof (cases "find (\<lambda>p. p \<noteq> [] \<and> prefix p (d # cs)) ps")
    case None
    with 2 show ?thesis by simp
  next
    case (Some p)
    then have p: "p \<in> set ps" "p \<noteq> []" "prefix p (d # cs)"
      by (auto simp: find_Some_iff)
    then obtain rest where rest: "d # cs = p @ rest" by (auto simp: prefix_def)
    with p(2) have "rest = drop (length p - 1) cs" by (cases p) auto
    moreover have "c \<in> set rest"
      using 2(2) rest 2(3) p(1) by (metis Un_iff set_append)
    ultimately show ?thesis using 2(1) [OF Some] Some 2(3) by simp
  qed
qed simp

lemma TrimSpace_not_blank: "c \<in> set s \<Longrightarrow> solid c \<Longrightarrow> TrimSpace s \<noteq> []"
proof -
  assume c: "c \<in> set s" "solid c"
  have "c \<in> set (strip_front space_encodings s)"
    using strip_front_solid [OF c(1)] c(2) by (simp add: solid_def)
  then have "c \<in> set (rev (strip_front space_encodings s))" by simp
  from strip_front_solid [OF this, of "map rev space_encodings"] c(2)
  have "c \<in> set (TrimSpace s)"
    by (auto simp: TrimSpace_def solid_def)
  then show ?thesis by auto
qed

section \<open>The verbs of fmt that name effects\<close>

definition hex_digit :: "nat \<Rightarrow> char" where
  "hex_digit d = ''0123456789abcdef'' ! d"

text \<open>The last \<open>n\<close> hexadecimal digits of a number, most significant first.\<close>

fun hex_digits :: "nat \<Rightarrow> nat \<Rightarrow> string" where
  "hex_digits 0 x = []"
| "hex_digits (Suc n) x = hex_digits n (x div 16) @ [hex_digit (x mod 16)]"

definition format_016x :: "u64 \<Rightarrow> string" where
  "format_016x w = hex_digits 16 (unat w)"

fun decimal :: "nat \<Rightarrow> string" where
  "decimal n =
     (if n < 10 then [char_of (48 + n)] else decimal (n div 10) @ [char_of (48 + n mod 10)])"

declare decimal.simps [simp del]

definition format_d :: "u64 \<Rightarrow> string" where
  "format_d w = decimal (unat w)"

lemma hex_digit_inj: "a < 16 \<Longrightarrow> b < 16 \<Longrightarrow> hex_digit a = hex_digit b \<Longrightarrow> a = b"
proof -
  assume "a < 16" "b < 16" "hex_digit a = hex_digit b"
  moreover have "distinct ''0123456789abcdef''" "length ''0123456789abcdef'' = 16" by simp_all
  ultimately show "a = b" unfolding hex_digit_def using nth_eq_iff_index_eq by metis
qed

lemma length_hex_digits [simp]: "length (hex_digits n x) = n"
  by (induction n arbitrary: x) auto

lemma hex_digits_inj:
  "x < 16 ^ n \<Longrightarrow> y < 16 ^ n \<Longrightarrow> hex_digits n x = hex_digits n y \<Longrightarrow> x = y"
proof (induction n arbitrary: x y)
  case (Suc n)
  have "x div 16 < 16 ^ n" "y div 16 < 16 ^ n" using Suc.prems(1,2) by auto
  moreover have "hex_digits n (x div 16) = hex_digits n (y div 16)"
    and "hex_digit (x mod 16) = hex_digit (y mod 16)" using Suc.prems(3) by auto
  ultimately have "x div 16 = y div 16" "x mod 16 = y mod 16"
    using Suc.IH hex_digit_inj [of "x mod 16" "y mod 16"] by auto
  then show ?case by (metis div_mult_mod_eq)
qed simp

lemma format_016x_inj [simp]: "format_016x a = format_016x b \<longleftrightarrow> a = b"
proof
  assume "format_016x a = format_016x b"
  moreover have "unat w < 16 ^ 16" for w :: u64
    by (rule order_less_le_trans [OF unsigned_less]) simp
  ultimately have "unat a = unat b" unfolding format_016x_def using hex_digits_inj by blast
  then show "a = b" by (simp add: word_unat_eq_iff)
qed simp

end
