(* ===== verification/ProviderTypes.thy ===== *)
theory ProviderTypes
  imports Prelude
begin

text \<open>
  The provider-neutral vocabulary of \<open>internal/adapter/provider\<close>: content blocks, stream
  events and their well-formedness checks, token usage with its two ways of merging, transport
  metadata, replay and failure records (\<open>types.go\<close>, \<open>projection.go\<close>, \<open>replay.go\<close>,
  \<open>failure.go\<close>).

  An enumeration of string constants is a datatype with one constructor per constant, one for
  the empty string where the code uses it as the zero value, and one for any other string, so
  that the default branches of the code's switches stay reachable. Go's \<open>int\<close> is \<^typ>\<open>int\<close>
  where it is only compared or copied. A pointer is an \<open>option\<close>; a nil slice and an empty
  slice are the same list.
\<close>

section \<open>Error values\<close>

text \<open>Arguments of a format string, and the errors of \<open>errors.New\<close> and \<open>fmt.Errorf\<close> (the
  last one with a wrapped cause). Keeping the format and its arguments apart identifies the
  error without rendering it.\<close>

datatype fmt_arg = ArgS string | ArgN nat | ArgI int

datatype go_error =
    ErrorNew string
  | ErrorF string "fmt_arg list"
  | ErrorWrap string "fmt_arg list" go_error

section \<open>Content blocks\<close>

datatype ContentType =
    ContentText | ContentReasoning | ContentToolCall | ContentToolResult
  | ContentSearch | ContentCitation | ContentImage | ContentOther string

record AdmissionReceipt =
  arKind :: string
  arReason :: string
  arDigest :: string
  arHandle :: string
  arOriginalBytes :: int
  arRetainedBytes :: int
  arOriginalTokens :: u64
  arRetainedTokens :: u64
  arTokenLimit :: u64
  arTruncated :: bool

record Attachment =
  atMediaType :: string
  atData :: string
  atName :: string
  atHandle :: string

record ToolCall =
  tlID :: string
  tlName :: string
  tlArguments :: string
  tlCatalogID :: string
  tlCatalogGeneration :: u64
  tlCatalogRevision :: u64
  tlCatalogAuthority :: u64

record ToolResult =
  tuCallID :: string
  tuContent :: string
  tuIsError :: bool
  tuAdmission :: "AdmissionReceipt option"

record Source =
  soID :: string
  soTitle :: string
  soURL :: string

record SearchResult =
  srQuery :: string
  srSources :: "Source list"
  srError :: string

record Citation =
  ciSourceID :: string
  ciURL :: string
  ciTitle :: string
  ciStart :: int
  ciEnd :: int

record ContentBlock =
  cbType :: ContentType
  cbText :: string
  cbID :: string
  cbToolCall :: "ToolCall option"
  cbToolResult :: "ToolResult option"
  cbSearch :: "SearchResult option"
  cbCitation :: "Citation option"
  cbAttachment :: "Attachment option"

definition empty_block :: "ContentType \<Rightarrow> ContentBlock" where
  "empty_block ty = \<lparr>cbType = ty, cbText = [], cbID = [], cbToolCall = None,
     cbToolResult = None, cbSearch = None, cbCitation = None, cbAttachment = None\<rparr>"

fun ContentBlock_Validate :: "ContentBlock \<Rightarrow> go_error option" where
  "ContentBlock_Validate b =
     (case cbType b of
        ContentText \<Rightarrow> require (cbText b \<noteq> []) (ErrorNew ''text is required'')
      | ContentReasoning \<Rightarrow> require (cbText b \<noteq> []) (ErrorNew ''reasoning text is required'')
      | ContentToolCall \<Rightarrow>
          require (case cbToolCall b of None \<Rightarrow> False
                   | Some call \<Rightarrow> tlID call \<noteq> [] \<and> tlName call \<noteq> [])
            (ErrorNew ''complete tool call is required'')
      | ContentToolResult \<Rightarrow>
          require (case cbToolResult b of None \<Rightarrow> False | Some r \<Rightarrow> tuCallID r \<noteq> [])
            (ErrorNew ''tool result call_id is required'')
      | ContentSearch \<Rightarrow>
          require (cbSearch b \<noteq> None) (ErrorNew ''search result is required'')
      | ContentCitation \<Rightarrow>
          require (case cbCitation b of None \<Rightarrow> False | Some c \<Rightarrow> ciURL c \<noteq> [])
            (ErrorNew ''citation URL is required'')
      | ContentImage \<Rightarrow>
          (case cbAttachment b of
             None \<Rightarrow> Some (ErrorNew ''image bytes are required'')
           | Some att \<Rightarrow>
               if atData att = [] then Some (ErrorNew ''image bytes are required'')
               else require (prefix ''image/'' (atMediaType att))
                 (ErrorF ''image media type %q is not an image'' [ArgS (atMediaType att)]))
      | ContentOther other \<Rightarrow>
          Some (ErrorF ''unknown content block type %q'' [ArgS other]))"

section \<open>Transport metadata, usage, replay and failures\<close>

record ProjectionReceipt =
  pjMode :: string
  pjIncrementalEligible :: bool
  pjFallbackReason :: string
  pjRouteDigest :: string
  pjPropertyDigest :: string
  pjStablePrefixDigest :: string
  pjInputDigest :: string
  pjDeltaDigest :: string
  pjContextRevision :: u64
  pjWindowID :: string
  pjWindowNumber :: u64
  pjLogicalItems :: int
  pjTransportItems :: int
  pjLogicalTransportEquivalent :: bool

record TransportMetadata =
  tmLogicalRequestID :: string
  tmTransportRequestID :: string
  tmAttempt :: u32
  tmRequestBytes :: u64
  tmRouteCooldownWaitMS :: u64
  tmLogicalRequestDigest :: string
  tmTransportPayloadDigest :: string
  tmIncremental :: bool
  tmProjection :: ProjectionReceipt

definition empty_transport :: TransportMetadata where
  "empty_transport = \<lparr>tmLogicalRequestID = [], tmTransportRequestID = [], tmAttempt = 0,
     tmRequestBytes = 0, tmRouteCooldownWaitMS = 0, tmLogicalRequestDigest = [],
     tmTransportPayloadDigest = [], tmIncremental = False,
     tmProjection = \<lparr>pjMode = [], pjIncrementalEligible = False, pjFallbackReason = [],
       pjRouteDigest = [], pjPropertyDigest = [], pjStablePrefixDigest = [], pjInputDigest = [],
       pjDeltaDigest = [], pjContextRevision = 0, pjWindowID = [], pjWindowNumber = 0,
       pjLogicalItems = 0, pjTransportItems = 0, pjLogicalTransportEquivalent = False\<rparr>\<rparr>"

record Usage =
  ugInputTokens :: u64
  ugOutputTokens :: u64
  ugReasoningTokens :: u64
  ugCachedTokens :: u64
  ugTransport :: TransportMetadata

definition empty_usage :: Usage where
  "empty_usage = \<lparr>ugInputTokens = 0, ugOutputTokens = 0, ugReasoningTokens = 0,
     ugCachedTokens = 0, ugTransport = empty_transport\<rparr>"

definition Usage_Total :: "Usage \<Rightarrow> u64" where
  "Usage_Total u = ugInputTokens u + ugOutputTokens u"

text \<open>Whether the subset counters stay inside their totals.\<close>

definition Usage_Consistent :: "Usage \<Rightarrow> bool" where
  "Usage_Consistent u \<longleftrightarrow>
     ugCachedTokens u \<le> ugInputTokens u \<and> ugReasoningTokens u \<le> ugOutputTokens u"

definition Usage_Add :: "Usage \<Rightarrow> Usage \<Rightarrow> Usage" where
  "Usage_Add u other =
     u\<lparr>ugInputTokens := ugInputTokens u + ugInputTokens other,
       ugOutputTokens := ugOutputTokens u + ugOutputTokens other,
       ugReasoningTokens := ugReasoningTokens u + ugReasoningTokens other,
       ugCachedTokens := ugCachedTokens u + ugCachedTokens other\<rparr>"

definition MergeCumulative :: "Usage \<Rightarrow> Usage \<Rightarrow> Usage" where
  "MergeCumulative current update =
     (let m0 = update;
          m1 = (if ugInputTokens current > ugInputTokens m0
                then m0\<lparr>ugInputTokens := ugInputTokens current\<rparr> else m0);
          m2 = (if ugOutputTokens current > ugOutputTokens m1
                then m1\<lparr>ugOutputTokens := ugOutputTokens current\<rparr> else m1);
          m3 = (if ugReasoningTokens current > ugReasoningTokens m2
                then m2\<lparr>ugReasoningTokens := ugReasoningTokens current\<rparr> else m2);
          m4 = (if ugCachedTokens current > ugCachedTokens m3
                then m3\<lparr>ugCachedTokens := ugCachedTokens current\<rparr> else m3)
      in if ugTransport m4 = empty_transport
         then m4\<lparr>ugTransport := ugTransport current\<rparr> else m4)"

definition SameSnapshot :: "Usage \<Rightarrow> Usage \<Rightarrow> bool" where
  "SameSnapshot left right \<longleftrightarrow>
     ugInputTokens left = ugInputTokens right \<and>
     ugOutputTokens left = ugOutputTokens right \<and>
     ugReasoningTokens left = ugReasoningTokens right \<and>
     ugCachedTokens left = ugCachedTokens right"

definition DoubledSnapshot :: "Usage \<Rightarrow> Usage \<Rightarrow> bool" where
  "DoubledSnapshot prev nxt \<longleftrightarrow>
     (if ugInputTokens prev = 0 \<or> ugOutputTokens prev = 0 then False
      else if ugInputTokens nxt \<noteq> ugInputTokens prev * 2 \<or>
              ugOutputTokens nxt \<noteq> ugOutputTokens prev * 2 then False
      else if ugReasoningTokens prev \<noteq> 0 \<and>
              ugReasoningTokens nxt \<noteq> ugReasoningTokens prev * 2 then False
      else if ugCachedTokens prev \<noteq> 0 \<and>
              ugCachedTokens nxt \<noteq> ugCachedTokens prev * 2 then False
      else True)"

record ReplayState =
  rsVersion :: u32
  rsContentDigest :: string
  rsData :: string

definition ReplayVersion :: u32 where
  "ReplayVersion = 1"

record ResponseState =
  spID :: string
  spOutput :: "string list"

record Failure =
  flCode :: string
  flMessage :: string
  flHTTPStatus :: int
  flRetryAfterMS :: u64
  flRequestID :: string

section \<open>Stream events\<close>

datatype StopReason =
    StopReasonUnset | StopReasonEndTurn | StopReasonToolUse | StopReasonMaxTokens
  | StopReasonContentFilter | StopReasonIncomplete | StopReasonUnknown | StopReasonOther string

fun StopReason_Incomplete :: "StopReason \<Rightarrow> bool" where
  "StopReason_Incomplete StopReasonMaxTokens = True"
| "StopReason_Incomplete StopReasonContentFilter = True"
| "StopReason_Incomplete StopReasonIncomplete = True"
| "StopReason_Incomplete _ = False"

datatype StreamEventType =
    EventMessageStart | EventTextDelta | EventReasoningDelta | EventReasoningSignature
  | EventToolCallDelta | EventSearchResult | EventCitation | EventUsage | EventReplayState
  | EventResponseState | EventTransportProgress | EventMessageStop | EventTypeOther string

record ToolCallFragment =
  tfIndex :: int
  tfID :: string
  tfName :: string
  tfArguments :: string

record StreamEvent =
  seType :: StreamEventType
  seEventID :: string
  seSequenced :: bool
  seSequence :: u64
  seOrdinal :: u32
  seStopReason :: StopReason
  seIndex :: int
  seBlock :: "ContentBlock option"
  seText :: string
  seSignature :: string
  seToolCall :: "ToolCallFragment option"
  seSearch :: "SearchResult option"
  seCitation :: "Citation option"
  seUsage :: "Usage option"
  seReplay :: "ReplayState option"
  seReplayFragment :: string
  seResponse :: "ResponseState option"

text \<open>
  The parts of Go's standard library whose results the code only compares or stores:
  \<open>json.Valid\<close>, the lower-case hexadecimal form of a SHA-256 digest, the JSON encoding of a
  stream event (\<open>None\<close> when \<open>json.Marshal\<close> fails) and the JSON round trip by which a content
  block is copied. They are parameters of the model; a theorem that needs something of them
  says so as a hypothesis.
\<close>

record codec =
  json_valid :: "string \<Rightarrow> bool"
  sha256_hex :: "string \<Rightarrow> string"
  marshal_event :: "StreamEvent \<Rightarrow> string option"
  clone_block :: "ContentBlock \<Rightarrow> ContentBlock"

definition search_source_error :: "SearchResult \<Rightarrow> go_error option" where
  "search_source_error s =
     index_error (\<lambda>i src. require (soURL src \<noteq> [])
       (ErrorF ''search source %d URL is required'' [ArgN i])) (srSources s)"

fun StreamEvent_Validate :: "'z codec_scheme \<Rightarrow> StreamEvent \<Rightarrow> go_error option" where
  "StreamEvent_Validate c e =
     (case (case seBlock e of None \<Rightarrow> None | Some b \<Rightarrow> ContentBlock_Validate b) of
        Some err \<Rightarrow> Some (ErrorWrap ''stream block: %w'' [] err)
      | None \<Rightarrow>
     (case seType e of
        EventMessageStart \<Rightarrow>
          require (seStopReason e = StopReasonUnset)
            (ErrorNew ''message start cannot have a stop reason'')
      | EventMessageStop \<Rightarrow>
          (case seStopReason e of
             StopReasonOther r \<Rightarrow> Some (ErrorF ''unknown stop reason %q'' [ArgS r])
           | _ \<Rightarrow> None)
      | EventTextDelta \<Rightarrow>
          require (\<not> (seText e = [] \<and> seBlock e = None)) (ErrorNew ''stream text delta is empty'')
      | EventReasoningDelta \<Rightarrow>
          require (\<not> (seText e = [] \<and> seBlock e = None)) (ErrorNew ''stream text delta is empty'')
      | EventReasoningSignature \<Rightarrow>
          require (seSignature e \<noteq> []) (ErrorNew ''reasoning signature is empty'')
      | EventToolCallDelta \<Rightarrow>
          require (seToolCall e \<noteq> None) (ErrorNew ''tool call fragment is required'')
      | EventUsage \<Rightarrow> require (seUsage e \<noteq> None) (ErrorNew ''usage is required'')
      | EventReplayState \<Rightarrow>
          require (case seReplay e of None \<Rightarrow> False
                   | Some r \<Rightarrow> rsVersion r = ReplayVersion \<and> rsData r \<noteq> [] \<and> json_valid c (rsData r))
            (ErrorNew ''versioned replay state is required'')
      | EventResponseState \<Rightarrow>
          require (case seResponse e of None \<Rightarrow> False | Some r \<Rightarrow> spID r \<noteq> [])
            (ErrorNew ''response state id is required'')
      | EventTransportProgress \<Rightarrow> None
      | EventSearchResult \<Rightarrow>
          (case seSearch e of
             None \<Rightarrow> Some (ErrorNew ''search result is required'')
           | Some s \<Rightarrow> search_source_error s)
      | EventCitation \<Rightarrow>
          require (case seCitation e of None \<Rightarrow> False | Some ci \<Rightarrow> ciURL ci \<noteq> [])
            (ErrorNew ''citation URL is required'')
      | EventTypeOther t \<Rightarrow> Some (ErrorF ''unknown stream event type %q'' [ArgS t])))"

declare StreamEvent_Validate.simps [simp del]

section \<open>Usage merging\<close>

text \<open>Counter by counter, a cumulative merge is the maximum.\<close>

lemma MergeCumulative_max [simp]:
  "ugInputTokens (MergeCumulative a b) = max (ugInputTokens a) (ugInputTokens b)"
  "ugOutputTokens (MergeCumulative a b) = max (ugOutputTokens a) (ugOutputTokens b)"
  "ugReasoningTokens (MergeCumulative a b) = max (ugReasoningTokens a) (ugReasoningTokens b)"
  "ugCachedTokens (MergeCumulative a b) = max (ugCachedTokens a) (ugCachedTokens b)"
  by (auto simp: MergeCumulative_def Let_def max_def)

text \<open>The order of growth on usage snapshots.\<close>

definition usage_le :: "Usage \<Rightarrow> Usage \<Rightarrow> bool" where
  "usage_le a b \<longleftrightarrow>
     ugInputTokens a \<le> ugInputTokens b \<and> ugOutputTokens a \<le> ugOutputTokens b \<and>
     ugReasoningTokens a \<le> ugReasoningTokens b \<and> ugCachedTokens a \<le> ugCachedTokens b"

lemma MergeCumulative_grows [simp]:
  "usage_le a (MergeCumulative a b)" "usage_le b (MergeCumulative a b)"
  by (simp_all add: usage_le_def)

lemma usage_le_refl [simp]: "usage_le a a"
  by (simp add: usage_le_def)

lemma MergeCumulative_Consistent:
  "Usage_Consistent a \<Longrightarrow> Usage_Consistent b \<Longrightarrow> Usage_Consistent (MergeCumulative a b)"
  by (auto simp: Usage_Consistent_def intro: max.coboundedI1 max.coboundedI2)

end
