(* ===== verification/KernelState.thy ===== *)
theory KernelState
  imports ProviderTypes
begin

text \<open>
  The data of the turn state machine: \<open>state.go\<close>, the types of \<open>command.go\<close> and
  \<open>work_item.go\<close>, and the persisted response assembly that a sample carries
  (\<open>provider/assembly\<close>). One record per struct, one datatype per enumeration, the field names
  of the source behind a prefix that names the struct.

  The seven ledgers of the state are maps that the code requires to be allocated; the model's
  maps have no nil value, so the state carries the flag \<open>stLedgersNil\<close> for \<open>some ledger is the
  nil map\<close>.
\<close>

section \<open>Enumerations\<close>

datatype Phase =
    PhaseCreated | PhasePreparing | PhaseSampling | PhaseExecutingTools
  | PhaseAwaitingApproval | PhaseAwaitingInput | PhaseVerifying | PhaseCommitting
  | PhaseCompleted | PhaseFailed | PhaseCanceled | PhaseOther string

fun Phase_Terminal :: "Phase \<Rightarrow> bool" where
  "Phase_Terminal p = (p = PhaseCompleted \<or> p = PhaseFailed \<or> p = PhaseCanceled)"

datatype VerificationStatus =
    VerificationNotEvaluated | VerificationPassed | VerificationFailed | VerificationUnavailable
  | VerificationStatusOther string

datatype JournalStatus =
    JournalNone | JournalOpen | JournalSuspended | JournalCommitted | JournalRolledBack
  | JournalOther string

datatype SampleStatus =
    SampleStatusUnset | SampleRequested | SampleRunning | SampleCompleted | SampleFailed
  | SampleStatusOther string

datatype EffectLifecycleStatus =
    EffectStatusUnset | EffectRequested | EffectRunning | EffectSucceeded | EffectFailed
  | EffectStatusOther string

datatype TerminalKind =
    TerminalCompleted | TerminalFailed | TerminalCanceled | TerminalOther string

datatype RepairKind =
    RepairUnset | RepairCompletion | RepairWorkspace | RepairDeclaration | RepairVerification
  | RepairOther string

datatype StepAction =
    StepActionNone | StepActionRepairToolFailure | StepActionRepairCompletion
  | StepActionRepairWorkspace | StepActionRepairDeclaration | StepActionVerify
  | StepActionFinalize | StepActionBlock | StepActionComplete | StepActionOther string

datatype ConvergenceCause =
    ConvergenceOutputLimit | ConvergenceNoProgress | ConvergenceRepairBudget
  | ConvergenceStepLimit | ConvergenceIncomplete | ConvergenceOther string

datatype VerificationAction =
    VerificationActionUnset | VerificationActionPassed | VerificationActionRepair
  | VerificationActionReported | VerificationActionBlocked | VerificationActionFailed
  | VerificationActionReverted | VerificationActionOther string

datatype ProgressStage =
    ProgressStageNone | ProgressStageConverge | ProgressStageFinishOnly
  | ProgressStageExhausted | ProgressStageOther string

datatype TurnIntent =
    TurnIntentUnset | TurnIntentAnswer | TurnIntentPlan | TurnIntentWorkspaceChange
  | TurnIntentOperation | TurnIntentOther string

definition NormalizeTurnIntent :: "TurnIntent \<Rightarrow> TurnIntent" where
  "NormalizeTurnIntent intent = (if intent = TurnIntentUnset then TurnIntentAnswer else intent)"

datatype FaultDisposition =
    FaultFailTurn | FaultRetryStep | FaultRetryTurn | FaultResumeTurn | FaultReject
  | FaultDispositionOther string

datatype EffectKind =
    EffectKindUnset | EffectSampleProvider | EffectExecuteTool | EffectAwaitApproval
  | EffectAwaitInput | EffectRunVerification | EffectCommitJournal | EffectSuspendJournal
  | EffectRollbackJournal | EffectKindOther string

datatype EventKind =
    EventTransition | EventToolStarted | EventToolClosed | EventMutationObserved
  | EventCompletionDecided | EventVerification | EventOutputReleased | EventOutputDiscarded
  | EventRepairRequested | EventConvergence | EventSampleStarted | EventSampleFinished
  | EventProviderRetry | EventUsageRecorded | EventCancelAccepted | EventRecoveryBound
  | EventEffectRequested | EventEffectStarted | EventEffectRequeued | EventEffectFinished
  | EventTerminalPrepared | EventTerminalCommitted

section \<open>The response assembly of a sample\<close>

datatype ResponseCompleteness =
    ResponseEmpty | ResponseStreaming | ResponseIncomplete | ResponseComplete | ResponseFailed
  | ResponseOther string

record ResponseSegment =
  sgTransport :: TransportMetadata
  sgState :: ResponseCompleteness
  sgStopReason :: StopReason
  sgBlocks :: "ContentBlock list"
  sgToolFragments :: "ToolCallFragment list"
  sgUsage :: Usage
  sgReplay :: "ReplayState option"
  sgResponse :: "ResponseState option"
  sgSeen :: "string dict"
  sgHasSequence :: bool
  sgLastSequence :: u64
  sgLastOrdinal :: u32
  sgEventCount :: u64
  sgMeaningful :: bool
  sgError :: string

record ResponseAssembly =
  raVersion :: int
  raLogicalRequestID :: string
  raState :: ResponseCompleteness
  raSegments :: "ResponseSegment list"

section \<open>Policy\<close>

record ConvergencePolicy =
  cpProgressConverge :: u32
  cpProgressFinishOnly :: u32
  cpProgressLimit :: u32
  cpResearchConverge :: u32
  cpResearchFinishOnly :: u32
  cpResearchLimit :: u32

definition zero_ConvergencePolicy :: ConvergencePolicy where
  "zero_ConvergencePolicy = \<lparr>cpProgressConverge = 0, cpProgressFinishOnly = 0,
     cpProgressLimit = 0, cpResearchConverge = 0, cpResearchFinishOnly = 0,
     cpResearchLimit = 0\<rparr>"

record Policy =
  plCompletionRequired :: bool
  plStructuredTerminalRequired :: bool
  plVerificationRequired :: bool
  plVerificationMustPass :: bool
  plVerificationMode :: string
  plVerificationOnFailure :: string
  plCompletionRepairLimit :: u32
  plWorkspaceRepairLimit :: u32
  plDeclarationRepairLimit :: u32
  plVerificationRepairLimit :: u32
  plExecutionStepLimit :: u32
  plJournalRequired :: bool
  plConvergence :: ConvergencePolicy
  plImplementNoProgressSamples :: u32

text \<open>The thirds of the lease: the product is taken in 64 bits and cut back to 32.\<close>

definition ConvergencePolicyForStepLimit :: "u32 \<Rightarrow> ConvergencePolicy" where
  "ConvergencePolicyForStepLimit limit =
     (if limit = 0 then zero_ConvergencePolicy
      else let converge = max 1 (limit div 3);
               finishOnly = max converge (ucast ((ucast limit :: u64) * 2 div 3))
           in \<lparr>cpProgressConverge = converge, cpProgressFinishOnly = finishOnly,
               cpProgressLimit = limit, cpResearchConverge = converge,
               cpResearchFinishOnly = finishOnly, cpResearchLimit = limit\<rparr>)"

definition DefaultPolicy :: Policy where
  "DefaultPolicy = \<lparr>plCompletionRequired = True, plStructuredTerminalRequired = False,
     plVerificationRequired = True, plVerificationMustPass = True,
     plVerificationMode = ''hard'', plVerificationOnFailure = ''fail'',
     plCompletionRepairLimit = 2, plWorkspaceRepairLimit = 1, plDeclarationRepairLimit = 1,
     plVerificationRepairLimit = 1, plExecutionStepLimit = 0, plJournalRequired = False,
     plConvergence = zero_ConvergencePolicy, plImplementNoProgressSamples = 0\<rparr>"

section \<open>The parts of the state\<close>

record RepairBudget =
  rbProgressKey :: string
  rbConsecutive :: u32
  rbSteps :: u32

definition zero_RepairBudget :: RepairBudget where
  "zero_RepairBudget = \<lparr>rbProgressKey = [], rbConsecutive = 0, rbSteps = 0\<rparr>"

record ProgressState =
  pgSignature :: string
  pgSampleIdentity :: string
  pgPendingIdentity :: string
  pgObservedSamples :: u32
  pgNoProgressSamples :: u32
  pgStage :: ProgressStage

record ConvergenceState =
  cvCause :: ConvergenceCause
  cvUsed :: u32
  cvLimit :: u32
  cvRepairKind :: RepairKind
  cvFinalizationAttempted :: bool
  cvSummary :: string
  cvPendingActions :: "string list"

record ToolCallState =
  tcID :: string
  tcName :: string
  tcArguments :: string
  tcCatalogID :: string
  tcCatalogGeneration :: u64
  tcCatalogRevision :: u64
  tcCatalogAuthority :: u64

record ToolResultState =
  trID :: string
  trName :: string
  trIsError :: bool

record ObservedChange =
  ocPath :: string
  ocKind :: string

record ApprovalState =
  apRequestID :: string
  apCallID :: string

record InputState =
  inRequestID :: string

record CompletionDecision =
  cdAccepted :: bool
  cdSummary :: string
  cdReason :: string
  cdRequiredAction :: string
  cdOutputMode :: string
  cdPendingActions :: "string list"
  cdMutation :: u64
  cdChangedPaths :: "string list"
  cdVerificationCalls :: "string list"
  cdCompletionCall :: string

record VerificationState =
  vsStatus :: VerificationStatus
  vsAction :: VerificationAction
  vsMutation :: u64
  vsEvidenceCalls :: "string list"
  vsFailureMessage :: string

definition unevaluated :: VerificationState where
  "unevaluated = \<lparr>vsStatus = VerificationNotEvaluated, vsAction = VerificationActionUnset,
     vsMutation = 0, vsEvidenceCalls = [], vsFailureMessage = []\<rparr>"

record DeadlineMetadata =
  dmScope :: string
  dmTimeoutMS :: u64
  dmRenewable :: bool

record FaultMetadata =
  fmOrigin :: string
  fmDisposition :: FaultDisposition
  fmSideEffects :: string
  fmStage :: string
  fmOperationID :: string
  fmRetryOwner :: string
  fmResumeHint :: string
  fmDeadline :: "DeadlineMetadata option"
  fmRecoveryAction :: string

record TerminalDecision =
  tdKind :: TerminalKind
  tdCode :: string
  tdMessage :: string
  tdFault :: "FaultMetadata option"
  tdConvergence :: "ConvergenceState option"

record UsageState =
  usCalls :: u32
  usInputTokens :: u64
  usOutputTokens :: u64
  usReasoningTokens :: u64
  usCachedTokens :: u64
  usCostMicrounits :: u64
  usCostKnown :: bool
  usFrozen :: bool

definition zero_UsageState :: UsageState where
  "zero_UsageState = \<lparr>usCalls = 0, usInputTokens = 0, usOutputTokens = 0,
     usReasoningTokens = 0, usCachedTokens = 0, usCostMicrounits = 0, usCostKnown = False,
     usFrozen = False\<rparr>"

record ContextState =
  cxDigest :: string
  cxHistoryBytes :: int
  cxMaxBytes :: int
  cxCompactions :: u32
  cxFrozen :: bool
  cxTruncated :: bool
  cxTruncateCause :: string

definition zero_ContextState :: ContextState where
  "zero_ContextState = \<lparr>cxDigest = [], cxHistoryBytes = 0, cxMaxBytes = 0, cxCompactions = 0,
     cxFrozen = False, cxTruncated = False, cxTruncateCause = []\<rparr>"

text \<open>\<open>time.Time\<close> counts from Go's zero time, for which \<open>IsZero\<close> holds.\<close>

type_synonym go_time = int

record ProviderRetryState =
  prEffectID :: string
  prAttempt :: u32
  prRetry :: u32
  prEffectiveDelayMS :: u64
  prRetryAt :: go_time
  prPolicyRevision :: string

record ModelSampleState =
  smID :: string
  smAttempt :: u32
  smStatus :: SampleStatus
  smProviderRetries :: u32
  smLastFailure :: "Failure option"
  smRetry :: "ProviderRetryState option"
  smAssembly :: "ResponseAssembly option"
  smError :: string

definition zero_ModelSampleState :: ModelSampleState where
  "zero_ModelSampleState = \<lparr>smID = [], smAttempt = 0, smStatus = SampleStatusUnset,
     smProviderRetries = 0, smLastFailure = None, smRetry = None, smAssembly = None,
     smError = []\<rparr>"

record Commentary =
  cmSampleID :: string
  cmText :: string
  cmCallIDs :: "string list"

record CancellationState =
  cnRequested :: bool
  cnAccepted :: bool
  cnReason :: string

record RecoveryRelation =
  rrSourceTurnID :: string
  rrRecoveryTurnID :: string
  rrAction :: string
  rrDraftResumed :: bool

record ContinuationCursor =
  ccSequence :: u64
  ccHandle :: string
  ccDigest :: string

record Effect =
  efID :: string
  efKind :: EffectKind
  efPayload :: string
  efPayloadDigest :: string
  efAttempt :: u32
  efIdempotencyKey :: string
  efStatus :: EffectLifecycleStatus
  efCallID :: string
  efError :: string

definition zero_Effect :: Effect where
  "zero_Effect = \<lparr>efID = [], efKind = EffectKindUnset, efPayload = [], efPayloadDigest = [],
     efAttempt = 0, efIdempotencyKey = [], efStatus = EffectStatusUnset, efCallID = [],
     efError = []\<rparr>"

record WorkItemRead =
  wrWindow :: string
  wrContentDigest :: string
  wrTurn :: u64
  wrStartLine :: int
  wrEndLine :: int
  wrResultHandle :: string
  wrCallID :: string

record WorkItemEdit =
  weMutationRevision :: u64

record WorkItemOpen =
  woUnverifiedPaths :: "string list"
  woSessions :: "string list"
  woCoveredPaths :: "string list"

record WorkItem =
  wiGoalDigest :: string
  wiKnownReads :: "WorkItemRead dict"
  wiKnownEdits :: "WorkItemEdit dict"
  wiOpen :: WorkItemOpen
  wiRequiredAction :: string

record WorkItemObservation =
  obReadPath :: string
  obReadWindow :: string
  obReadStart :: int
  obReadEnd :: int
  obResultHandle :: string
  obCallID :: string
  obContentDigest :: string
  obOpenSession :: string
  obCloseSession :: string
  obCoveredPaths :: "string list"

section \<open>The turn state\<close>

record State =
  stLedgersNil :: bool
  stPhase :: Phase
  stIntent :: TurnIntent
  stMode :: string
  stProfileRevision :: u64
  stPolicy :: Policy
  stMutationRevision :: u64
  stOpenCalls :: "ToolCallState dict"
  stClosedCalls :: "ToolResultState dict"
  stPendingApprovals :: "ApprovalState dict"
  stPendingInput :: "InputState option"
  stChanges :: "ObservedChange list"
  stCompletion :: "CompletionDecision option"
  stContinuation :: "ContinuationCursor option"
  stVerification :: VerificationState
  stJournal :: JournalStatus
  stUsage :: UsageState
  stContext :: ContextState
  stSampleLedger :: "ModelSampleState dict"
  stActiveSampleID :: string
  stCancellation :: CancellationState
  stRecoveryRelation :: "RecoveryRelation option"
  stPendingEffects :: "Effect dict"
  stCompletedEffects :: "Effect dict"
  stNextEffectSequence :: u64
  stProvisionalOutput :: "string list"
  stFinalOutput :: "string list"
  stCommentary :: "Commentary list"
  stOutputEligibility :: bool
  stRepairBudgets :: "(RepairKind, RepairBudget) fmap"
  stProgress :: ProgressState
  stWorkItem :: WorkItem
  stConvergence :: "ConvergenceState option"
  stNextAction :: StepAction
  stLastModelContinued :: bool
  stUnresolvedToolFailure :: bool
  stRecoveryToolSucceeded :: bool
  stPendingTerminal :: "TerminalDecision option"
  stTerminal :: "TerminalDecision option"

end
