(* ===== verification/Assembly.thy ===== *)
theory Assembly
  imports KernelState
begin

text \<open>
  The response assembly of \<open>provider/assembly/response_assembly.go\<close>: the persistable record
  of one logical model sample, one segment per transport attempt. The operations that change
  it (\<open>BeginTransport\<close>, \<open>Apply\<close>, \<open>Interrupt\<close>, \<open>Fail\<close>) work in place in the source, also
  when they return an error; each is a function from the assembly and its arguments to the
  changed assembly and the result. The receiver is never nil here: a method called on a nil
  assembly returns an error or a zero value and changes nothing.

  The theorems: the assembly stays valid, tool fragments keep distinct indices, a repeated
  event changes nothing, and every accepted event extends the durable record in the sense of
  \<open>ValidateExtension\<close>, the check the turn kernel runs before it persists progress.
\<close>

section \<open>Reading\<close>

definition ResponseAssemblyVersion :: int where
  "ResponseAssemblyVersion = 1"

definition NewResponseAssembly :: "string \<Rightarrow> ResponseAssembly" where
  "NewResponseAssembly rid = \<lparr>raVersion = ResponseAssemblyVersion, raLogicalRequestID = rid,
     raState = ResponseEmpty, raSegments = []\<rparr>"

definition new_segment :: "TransportMetadata \<Rightarrow> ResponseSegment" where
  "new_segment metadata = \<lparr>sgTransport = metadata, sgState = ResponseStreaming,
     sgStopReason = StopReasonUnset, sgBlocks = [], sgToolFragments = [], sgUsage = empty_usage,
     sgReplay = None, sgResponse = None, sgSeen = fmempty, sgHasSequence = False,
     sgLastSequence = 0, sgLastOrdinal = 0, sgEventCount = 0, sgMeaningful = False,
     sgError = []\<rparr>"

definition current_segment :: "ResponseAssembly \<Rightarrow> ResponseSegment option" where
  "current_segment a = (if raSegments a = [] then None else Some (last (raSegments a)))"

text \<open>\<open>*segment = seg\<close>, where \<open>segment\<close> points at the last element of the slice.\<close>

definition put_current :: "ResponseSegment \<Rightarrow> ResponseAssembly \<Rightarrow> ResponseAssembly" where
  "put_current seg a = a\<lparr>raSegments := butlast (raSegments a) @ [seg]\<rparr>"

definition TotalUsage :: "ResponseAssembly \<Rightarrow> Usage" where
  "TotalUsage a = foldl (\<lambda>u seg. Usage_Add u (sgUsage seg)) empty_usage (raSegments a)"

definition CurrentUsage :: "ResponseAssembly \<Rightarrow> Usage" where
  "CurrentUsage a = (case current_segment a of None \<Rightarrow> empty_usage | Some seg \<Rightarrow> sgUsage seg)"

definition CurrentStopReason :: "ResponseAssembly \<Rightarrow> StopReason" where
  "CurrentStopReason a =
     (case current_segment a of None \<Rightarrow> StopReasonUnset | Some seg \<Rightarrow> sgStopReason seg)"

definition CurrentMeaningful :: "ResponseAssembly \<Rightarrow> bool" where
  "CurrentMeaningful a =
     (case current_segment a of None \<Rightarrow> False | Some seg \<Rightarrow> sgMeaningful seg)"

definition NextTransportAttempt :: "ResponseAssembly \<Rightarrow> u32" where
  "NextTransportAttempt a = of_nat (length (raSegments a) + 1)"

definition EventCount :: "ResponseAssembly \<Rightarrow> u64" where
  "EventCount a = foldl (\<lambda>n seg. n + sgEventCount seg) 0 (raSegments a)"

section \<open>Blocks and tool fragments\<close>

definition append_response_block :: "ContentBlock list \<Rightarrow> ContentBlock \<Rightarrow> ContentBlock list" where
  "append_response_block blocks block =
     (if blocks \<noteq> [] \<and> cbType block = cbType (last blocks) then
        (let lst = last blocks in
         if cbType block = ContentText then
           butlast blocks @ [lst\<lparr>cbText := cbText lst @ cbText block\<rparr>]
         else if cbType block = ContentReasoning \<and>
                 (cbID lst = [] \<or> cbID block = [] \<or> cbID lst = cbID block) then
           butlast blocks @
             [lst\<lparr>cbText := cbText lst @ cbText block,
                  cbID := (if cbID lst = [] then cbID block else cbID lst)\<rparr>]
         else blocks @ [block])
      else blocks @ [block])"

definition ConfirmedBlocks :: "'z codec_scheme \<Rightarrow> ResponseAssembly \<Rightarrow> ContentBlock list" where
  "ConfirmedBlocks c a =
     foldl append_response_block []
       (concat (map (\<lambda>seg. map (clone_block c) (sgBlocks seg)) (raSegments a)))"

definition response_event_block :: "'z codec_scheme \<Rightarrow> StreamEvent \<Rightarrow> ContentType \<Rightarrow> ContentBlock" where
  "response_event_block c event fallback =
     (case seBlock event of
        Some b \<Rightarrow> clone_block c b
      | None \<Rightarrow>
          (case seType event of
             EventTextDelta \<Rightarrow> (empty_block ContentText)\<lparr>cbText := seText event\<rparr>
           | EventReasoningDelta \<Rightarrow> (empty_block ContentReasoning)\<lparr>cbText := seText event\<rparr>
           | EventSearchResult \<Rightarrow> (empty_block ContentSearch)\<lparr>cbSearch := seSearch event\<rparr>
           | EventCitation \<Rightarrow> (empty_block ContentCitation)\<lparr>cbCitation := seCitation event\<rparr>
           | _ \<Rightarrow> (empty_block fallback)\<lparr>cbText := seText event\<rparr>))"

text \<open>
  The fragment with the index of the new one absorbs it; an id or a name that is already set
  may not change. The id is stored before the name is checked.
\<close>

fun append_tool_fragment ::
  "ToolCallFragment list \<Rightarrow> ToolCallFragment \<Rightarrow> ToolCallFragment list \<times> go_error option" where
  "append_tool_fragment [] fragment = ([fragment], None)"
| "append_tool_fragment (cur # rest) fragment =
     (if tfIndex cur \<noteq> tfIndex fragment then
        (let (rest', err) = append_tool_fragment rest fragment in (cur # rest', err))
      else if tfID fragment \<noteq> [] \<and> tfID cur \<noteq> [] \<and> tfID cur \<noteq> tfID fragment then
        (cur # rest, Some (ErrorF ''tool call %d changed id from %q to %q''
           [ArgI (tfIndex fragment), ArgS (tfID cur), ArgS (tfID fragment)]))
      else
        let cur1 = (if tfID fragment \<noteq> [] then cur\<lparr>tfID := tfID fragment\<rparr> else cur) in
        if tfName fragment \<noteq> [] \<and> tfName cur \<noteq> [] \<and> tfName cur \<noteq> tfName fragment then
          (cur1 # rest, Some (ErrorF ''tool call %d changed name from %q to %q''
             [ArgI (tfIndex fragment), ArgS (tfName cur), ArgS (tfName fragment)]))
        else
          let cur2 = (if tfName fragment \<noteq> [] then cur1\<lparr>tfName := tfName fragment\<rparr> else cur1) in
          (cur2\<lparr>tfArguments := tfArguments cur2 @ tfArguments fragment\<rparr> # rest, None))"

definition tool_fragments_complete :: "'z codec_scheme \<Rightarrow> ToolCallFragment list \<Rightarrow> bool" where
  "tool_fragments_complete c fragments \<longleftrightarrow>
     (\<forall>f \<in> set fragments.
        (blank (tfArguments f) \<and> tfID f \<noteq> [] \<and> tfName f \<noteq> []) \<or>
        \<not> (tfID f = [] \<or> tfName f = [] \<or> \<not> json_valid c (tfArguments f)))"

definition IncompleteToolFragments ::
  "'z codec_scheme \<Rightarrow> ResponseAssembly \<Rightarrow> ToolCallFragment list" where
  "IncompleteToolFragments c a =
     concat (map (\<lambda>seg.
        if sgState seg \<noteq> ResponseComplete \<or> \<not> tool_fragments_complete c (sgToolFragments seg)
        then sgToolFragments seg else []) (raSegments a))"

definition executable_call ::
  "'z codec_scheme \<Rightarrow> ToolCallFragment \<Rightarrow> go_error + ToolCall" where
  "executable_call c fragment =
     (let arguments = (if blank (tfArguments fragment) then ''{}'' else tfArguments fragment) in
      if tfID fragment = [] \<or> tfName fragment = [] \<or> \<not> json_valid c arguments
      then Inl (ErrorF ''tool call fragment %d is incomplete'' [ArgI (tfIndex fragment)])
      else Inr \<lparr>tlID = tfID fragment, tlName = tfName fragment, tlArguments = arguments,
                tlCatalogID = [], tlCatalogGeneration = 0, tlCatalogRevision = 0,
                tlCatalogAuthority = 0\<rparr>)"

fun collect_calls ::
  "'z codec_scheme \<Rightarrow> ToolCallFragment list \<Rightarrow> go_error + ToolCall list" where
  "collect_calls c [] = Inr []"
| "collect_calls c (f # fs) =
     bind_result (executable_call c f)
       (\<lambda>call. bind_result (collect_calls c fs) (\<lambda>calls. Inr (call # calls)))"

definition ExecutableToolCalls ::
  "'z codec_scheme \<Rightarrow> ResponseAssembly \<Rightarrow> go_error + ToolCall list" where
  "ExecutableToolCalls c a =
     (case current_segment a of
        None \<Rightarrow> Inl (ErrorNew ''response is not complete'')
      | Some seg \<Rightarrow>
          if sgState seg \<noteq> ResponseComplete then Inl (ErrorNew ''response is not complete'')
          else collect_calls c (sort_key tfIndex (sgToolFragments seg)))"

section \<open>Changing the assembly\<close>

fun completeness_name :: "ResponseCompleteness \<Rightarrow> string" where
  "completeness_name ResponseEmpty = ''empty''"
| "completeness_name ResponseStreaming = ''streaming''"
| "completeness_name ResponseIncomplete = ''incomplete''"
| "completeness_name ResponseComplete = ''complete''"
| "completeness_name ResponseFailed = ''failed''"
| "completeness_name (ResponseOther s) = s"

definition BeginTransport ::
  "ResponseAssembly \<Rightarrow> TransportMetadata \<Rightarrow> ResponseAssembly \<times> go_error option" where
  "BeginTransport a0 metadata0 =
     (let a1 = (if raVersion a0 = 0 then a0\<lparr>raVersion := ResponseAssemblyVersion\<rparr> else a0);
          a2 = (if raLogicalRequestID a1 = []
                then a1\<lparr>raLogicalRequestID := tmLogicalRequestID metadata0\<rparr> else a1) in
      if raLogicalRequestID a2 = [] then
        (a2, Some (ErrorNew ''response assembly logical request id is empty''))
      else
      let m1 = (if tmLogicalRequestID metadata0 = []
                then metadata0\<lparr>tmLogicalRequestID := raLogicalRequestID a2\<rparr> else metadata0) in
      if tmLogicalRequestID m1 \<noteq> raLogicalRequestID a2 then
        (a2, Some (ErrorNew ''response transport changed logical request identity''))
      else if raState a2 = ResponseFailed then
        (a2, Some (ErrorF ''response assembly is already %s''
           [ArgS (completeness_name (raState a2))]))
      else
      let a3 = (case current_segment a2 of
                  None \<Rightarrow> a2
                | Some prev \<Rightarrow>
                    if sgState prev = ResponseStreaming
                    then put_current (prev\<lparr>sgState := ResponseIncomplete,
                           sgError := ''transport replaced before a complete stop event''\<rparr>) a2
                    else a2);
          m2 = (if tmAttempt m1 = 0
                then m1\<lparr>tmAttempt := of_nat (length (raSegments a3) + 1)\<rparr> else m1);
          m3 = (if tmTransportRequestID m2 = []
                then m2\<lparr>tmTransportRequestID := raLogicalRequestID a3 @ ''/transport/'' @
                       decimal (unat (tmAttempt m2))\<rparr> else m2) in
      if (\<exists>seg \<in> set (raSegments a3).
            tmTransportRequestID (sgTransport seg) = tmTransportRequestID m3) then
        (a3, Some (ErrorF ''response transport id %q is duplicated''
           [ArgS (tmTransportRequestID m3)]))
      else
        (a3\<lparr>raSegments := raSegments a3 @ [new_segment m3], raState := ResponseStreaming\<rparr>, None))"

text \<open>The identity under which an event is remembered, and the digest of what it carried.\<close>

definition response_event_identity ::
  "'z codec_scheme \<Rightarrow> StreamEvent \<Rightarrow> go_error + string \<times> string" where
  "response_event_identity c event =
     (let key = (if seSequenced event
                 then ''sequence:'' @ decimal (unat (seSequence event)) @ '':'' @
                      decimal (unat (seOrdinal event))
                 else seEventID event) in
      if key = [] then Inr ([], [])
      else case marshal_event c event of
             None \<Rightarrow> Inl (ErrorNew ''json: event cannot be marshaled'')
           | Some data \<Rightarrow> Inr (key, ''sha256:'' @ sha256_hex c data))"

text \<open>
  The block under \<open>if key != ""\<close>: \<open>Inl\<close> is an early return of \<open>Apply\<close> (a changed payload, an
  exact duplicate, a step backwards), \<open>Inr\<close> the segment that remembers the event.
\<close>

definition admit_event ::
  "ResponseSegment \<Rightarrow> StreamEvent \<Rightarrow> string \<Rightarrow> string \<Rightarrow>
     (go_error + bool) + ResponseSegment" where
  "admit_event segment event key digest =
     (if key = [] then Inr segment
      else case fmlookup (sgSeen segment) key of
        Some prev \<Rightarrow>
          if prev \<noteq> digest
          then Inl (Inl (ErrorF ''provider event identity %q changed payload'' [ArgS key]))
          else Inl (Inr False)
      | None \<Rightarrow>
          if seSequenced event \<and> sgHasSequence segment \<and>
             seSequence event < sgLastSequence segment
          then Inl (Inl (ErrorF ''provider event sequence moved backward from %d to %d''
                 [ArgN (unat (sgLastSequence segment)), ArgN (unat (seSequence event))]))
          else if seSequenced event \<and> sgHasSequence segment \<and>
                  seSequence event = sgLastSequence segment \<and>
                  seOrdinal event \<le> sgLastOrdinal segment
          then Inl (Inl (ErrorF ''provider event ordinal moved backward at sequence %d''
                 [ArgN (unat (seSequence event))]))
          else
            let seg1 = (if seSequenced event
                        then segment\<lparr>sgHasSequence := True,
                               sgLastSequence := seSequence event,
                               sgLastOrdinal := seOrdinal event\<rparr>
                        else segment)
            in Inr (seg1\<lparr>sgSeen := fmupd key digest (sgSeen seg1)\<rparr>))"

text \<open>The switch over the event type, on the segment and the state of the assembly.\<close>

definition record_event ::
  "'z codec_scheme \<Rightarrow> ResponseCompleteness \<Rightarrow> ResponseSegment \<Rightarrow> StreamEvent \<Rightarrow>
     ResponseSegment \<times> ResponseCompleteness \<times> (go_error + bool)" where
  "record_event c st segment event =
     (case seType event of
        EventMessageStart \<Rightarrow> (segment, st, Inr True)
      | EventTransportProgress \<Rightarrow> (segment, st, Inr True)
      | EventTextDelta \<Rightarrow>
          (segment\<lparr>sgMeaningful := True, sgBlocks := append_response_block (sgBlocks segment)
             (response_event_block c event ContentText)\<rparr>, st, Inr True)
      | EventReasoningDelta \<Rightarrow>
          (segment\<lparr>sgMeaningful := True, sgBlocks := append_response_block (sgBlocks segment)
             (response_event_block c event ContentReasoning)\<rparr>, st, Inr True)
      | EventReasoningSignature \<Rightarrow>
          (segment, st, Inl (ErrorNew ''provider signature was not captured as replay state''))
      | EventSearchResult \<Rightarrow>
          (segment\<lparr>sgMeaningful := True, sgBlocks := sgBlocks segment @
             [response_event_block c event ContentSearch]\<rparr>, st, Inr True)
      | EventCitation \<Rightarrow>
          (segment\<lparr>sgMeaningful := True, sgBlocks := sgBlocks segment @
             [response_event_block c event ContentCitation]\<rparr>, st, Inr True)
      | EventToolCallDelta \<Rightarrow>
          (case seToolCall event of
             None \<Rightarrow> (segment\<lparr>sgMeaningful := True\<rparr>, st, Inl (ErrorNew ''nil dereference''))
           | Some fragment \<Rightarrow>
               (let (fs, err) = append_tool_fragment (sgToolFragments segment) fragment;
                    seg1 = segment\<lparr>sgMeaningful := True, sgToolFragments := fs\<rparr>
                in (seg1, st, case err of None \<Rightarrow> Inr True | Some e \<Rightarrow> Inl e)))
      | EventUsage \<Rightarrow>
          (case seUsage event of
             None \<Rightarrow> (segment, st, Inl (ErrorNew ''nil dereference''))
           | Some u \<Rightarrow>
               (segment\<lparr>sgUsage := MergeCumulative (sgUsage segment) u\<rparr>, st, Inr True))
      | EventReplayState \<Rightarrow>
          (case sgReplay segment of
             Some _ \<Rightarrow> (segment, st, Inl (ErrorNew ''provider emitted duplicate replay state''))
           | None \<Rightarrow> (segment\<lparr>sgReplay := seReplay event\<rparr>, st, Inr True))
      | EventResponseState \<Rightarrow>
          (if (case (sgResponse segment, seResponse event) of
                 (Some old, Some new) \<Rightarrow> spID old \<noteq> spID new
               | _ \<Rightarrow> False)
           then (segment, st, Inl (ErrorNew ''provider changed response state identity''))
           else (segment\<lparr>sgResponse := seResponse event\<rparr>, st, Inr True))
      | EventMessageStop \<Rightarrow>
          (let reason = (if seStopReason event = StopReasonUnset then StopReasonEndTurn
                         else seStopReason event);
               st' = (if StopReason_Incomplete reason then ResponseIncomplete
                      else ResponseComplete)
           in (segment\<lparr>sgStopReason := reason, sgState := st'\<rparr>, st', Inr True))
      | EventTypeOther t \<Rightarrow>
          (segment, st, Inl (ErrorF ''unknown provider event %q'' [ArgS t])))"

definition assembly_Apply ::
  "'z codec_scheme \<Rightarrow> ResponseAssembly \<Rightarrow> StreamEvent \<Rightarrow> ResponseAssembly \<times> (go_error + bool)" where
  "assembly_Apply c a event =
     (case current_segment a of
        None \<Rightarrow> (a, Inl (ErrorNew ''response transport has not started''))
      | Some segment \<Rightarrow>
          if sgState segment \<noteq> ResponseStreaming then
            (a, Inl (ErrorF ''response segment is already %s''
               [ArgS (completeness_name (sgState segment))]))
          else case StreamEvent_Validate c event of
            Some err \<Rightarrow> (a, Inl err)
          | None \<Rightarrow>
          case response_event_identity c event of
            Inl err \<Rightarrow> (a, Inl err)
          | Inr (key, digest) \<Rightarrow>
          case admit_event segment event key digest of
            Inl result \<Rightarrow> (a, result)
          | Inr seg1 \<Rightarrow>
              let (seg2, st, result) =
                    record_event c (raState a) (seg1\<lparr>sgEventCount := sgEventCount seg1 + 1\<rparr>) event
              in ((put_current seg2 a)\<lparr>raState := st\<rparr>, result))"

text \<open>The cause is the message of the error passed in, \<open>None\<close> for nil.\<close>

definition Interrupt :: "ResponseAssembly \<Rightarrow> string option \<Rightarrow> ResponseAssembly \<times> go_error option" where
  "Interrupt a cause =
     (case current_segment a of
        None \<Rightarrow> (a, Some (ErrorNew ''response transport has not started''))
      | Some segment \<Rightarrow>
          if sgState segment = ResponseComplete \<or> sgState segment = ResponseFailed then (a, None)
          else ((put_current (segment\<lparr>sgState := ResponseIncomplete,
                   sgStopReason := StopReasonIncomplete,
                   sgError := (case cause of None \<Rightarrow> sgError segment | Some m \<Rightarrow> m)\<rparr>) a)
                 \<lparr>raState := ResponseIncomplete\<rparr>, None))"

definition Fail :: "ResponseAssembly \<Rightarrow> string option \<Rightarrow> ResponseAssembly \<times> go_error option" where
  "Fail a cause =
     (case current_segment a of
        None \<Rightarrow> (a, Some (ErrorNew ''response transport has not started''))
      | Some segment \<Rightarrow>
          ((put_current (segment\<lparr>sgState := ResponseFailed,
              sgError := (case cause of None \<Rightarrow> sgError segment | Some m \<Rightarrow> m)\<rparr>) a)
            \<lparr>raState := ResponseFailed\<rparr>, None))"

section \<open>Validity and durable extension\<close>

definition known_completeness :: "ResponseCompleteness \<Rightarrow> bool" where
  "known_completeness s \<longleftrightarrow>
     s \<in> {ResponseEmpty, ResponseStreaming, ResponseIncomplete, ResponseComplete, ResponseFailed}"

definition segment_error :: "string \<Rightarrow> nat \<Rightarrow> ResponseSegment \<Rightarrow> go_error option" where
  "segment_error rid index segment =
     (if tmLogicalRequestID (sgTransport segment) \<noteq> rid \<or>
         tmTransportRequestID (sgTransport segment) = [] \<or>
         tmAttempt (sgTransport segment) = 0
      then Some (ErrorF ''response segment %d has invalid attribution'' [ArgN index])
      else if sgState segment \<notin> {ResponseStreaming, ResponseIncomplete, ResponseComplete, ResponseFailed}
      then Some (ErrorF ''response segment %d has invalid state %q''
             [ArgN index, ArgS (completeness_name (sgState segment))])
      else None)"

definition Assembly_Validate :: "ResponseAssembly \<Rightarrow> go_error option" where
  "Assembly_Validate a =
     (if raVersion a \<noteq> ResponseAssemblyVersion
      then Some (ErrorF ''unsupported response assembly version %d'' [ArgI (raVersion a)])
      else if blank (raLogicalRequestID a)
      then Some (ErrorNew ''response assembly logical request id is empty'')
      else if \<not> known_completeness (raState a)
      then Some (ErrorF ''invalid response assembly state %q''
             [ArgS (completeness_name (raState a))])
      else if raSegments a = []
      then require (raState a = ResponseEmpty)
             (ErrorNew ''response assembly without segments is not empty'')
      else case index_error (segment_error (raLogicalRequestID a)) (raSegments a) of
             Some err \<Rightarrow> Some err
           | None \<Rightarrow>
               require (raState a = sgState (last (raSegments a)))
                 (ErrorNew ''response assembly state does not match last segment''))"

definition block_extends :: "ContentBlock \<Rightarrow> ContentBlock \<Rightarrow> bool" where
  "block_extends old new \<longleftrightarrow>
     old\<lparr>cbText := []\<rparr> =
       (if cbID old = [] then new\<lparr>cbText := [], cbID := []\<rparr> else new\<lparr>cbText := []\<rparr>) \<and>
     prefix (cbText old) (cbText new)"

definition validate_block_prefix :: "ContentBlock list \<Rightarrow> ContentBlock list \<Rightarrow> go_error option" where
  "validate_block_prefix before after =
     (if length before > length after then Some (ErrorNew ''response blocks were removed'')
      else index_error (\<lambda>i (old, new). require (block_extends old new)
             (ErrorF ''response block %d changed'' [ArgN i]))
             (zip before after))"

definition fragment_extends :: "ToolCallFragment \<Rightarrow> ToolCallFragment \<Rightarrow> bool" where
  "fragment_extends old new \<longleftrightarrow>
     tfIndex old = tfIndex new \<and> (tfID old = [] \<or> tfID old = tfID new) \<and>
     (tfName old = [] \<or> tfName old = tfName new) \<and>
     prefix (tfArguments old) (tfArguments new)"

definition validate_tool_fragment_prefix ::
  "ToolCallFragment list \<Rightarrow> ToolCallFragment list \<Rightarrow> go_error option" where
  "validate_tool_fragment_prefix before after =
     (if length before > length after then Some (ErrorNew ''tool fragments were removed'')
      else index_error (\<lambda>i (old, new). require (fragment_extends old new)
             (ErrorF ''tool fragment %d changed'' [ArgN i]))
             (zip before after))"

definition validate_response_state_prefix ::
  "ResponseState option \<Rightarrow> ResponseState option \<Rightarrow> go_error option" where
  "validate_response_state_prefix before after =
     (case before of None \<Rightarrow> None
      | Some old \<Rightarrow>
          (case after of None \<Rightarrow> Some (ErrorNew ''response state changed'')
           | Some new \<Rightarrow>
               if spID old \<noteq> spID new \<or> length (spOutput old) > length (spOutput new)
               then Some (ErrorNew ''response state changed'')
               else index_error (\<lambda>i (x, y). require (x = y)
                      (ErrorF ''response output %d changed'' [ArgN i]))
                      (zip (spOutput old) (spOutput new))))"

definition validate_segment_extension ::
  "ResponseSegment \<Rightarrow> ResponseSegment \<Rightarrow> go_error option" where
  "validate_segment_extension before after =
     (if sgTransport before \<noteq> sgTransport after
      then Some (ErrorNew ''transport metadata changed'')
      else if sgEventCount before > sgEventCount after \<or> \<not> usage_le (sgUsage before) (sgUsage after)
      then Some (ErrorNew ''counters moved backward'')
      else if sgMeaningful before \<and> \<not> sgMeaningful after \<or>
              sgHasSequence before \<and> \<not> sgHasSequence after \<or>
              sgHasSequence before \<and>
                (sgLastSequence after < sgLastSequence before \<or>
                 sgLastSequence after = sgLastSequence before \<and>
                   sgLastOrdinal after < sgLastOrdinal before)
      then Some (ErrorNew ''stream progress moved backward'')
      else if sgStopReason before \<noteq> StopReasonUnset \<and> sgStopReason before \<noteq> sgStopReason after \<or>
              sgError before \<noteq> [] \<and> sgError before \<noteq> sgError after
      then Some (ErrorNew ''terminal metadata changed'')
      else if sgState before \<noteq> ResponseStreaming \<and> sgState before \<noteq> sgState after
      then Some (ErrorNew ''settled response state changed'')
      else case validate_block_prefix (sgBlocks before) (sgBlocks after) of
        Some err \<Rightarrow> Some err
      | None \<Rightarrow>
      case validate_tool_fragment_prefix (sgToolFragments before) (sgToolFragments after) of
        Some err \<Rightarrow> Some err
      | None \<Rightarrow>
      if sgReplay before \<noteq> None \<and> sgReplay before \<noteq> sgReplay after
      then Some (ErrorNew ''replay state changed'')
      else case validate_response_state_prefix (sgResponse before) (sgResponse after) of
        Some err \<Rightarrow> Some err
      | None \<Rightarrow>
          range_error (\<lambda>key digest. require (lookup_zero [] (sgSeen after) key = digest)
            (ErrorF ''event %q changed'' [ArgS key])) (sgSeen before))"

definition ValidateExtension ::
  "ResponseAssembly \<Rightarrow> ResponseAssembly option \<Rightarrow> go_error option" where
  "ValidateExtension a previous =
     (case Assembly_Validate a of
        Some err \<Rightarrow> Some err
      | None \<Rightarrow>
      case previous of None \<Rightarrow> None
      | Some prev \<Rightarrow>
      case Assembly_Validate prev of
        Some err \<Rightarrow> Some (ErrorWrap ''previous response assembly: %w'' [] err)
      | None \<Rightarrow>
      if raVersion a \<noteq> raVersion prev \<or> raLogicalRequestID a \<noteq> raLogicalRequestID prev \<or>
         length (raSegments a) < length (raSegments prev)
      then Some (ErrorNew ''response assembly does not extend durable identity'')
      else index_error (\<lambda>i (before, after).
             map_option (ErrorWrap ''response segment %d regressed durable progress: %w'' [ArgN i])
               (validate_segment_extension before after))
             (zip (raSegments prev) (raSegments a)))"

section \<open>What the checks mean\<close>

lemma block_extends_refl [simp]: "block_extends b b"
  by (cases b) (simp add: block_extends_def)

lemma fragment_extends_refl [simp]: "fragment_extends f f"
  by (simp add: fragment_extends_def)

lemma validate_block_prefix_None:
  "validate_block_prefix bs cs = None \<longleftrightarrow>
     length bs \<le> length cs \<and> (\<forall>i < length bs. block_extends (bs ! i) (cs ! i))"
  unfolding validate_block_prefix_def
  by (auto simp: index_error_zip_None)

lemma validate_tool_fragment_prefix_None:
  "validate_tool_fragment_prefix bs cs = None \<longleftrightarrow>
     length bs \<le> length cs \<and> (\<forall>i < length bs. fragment_extends (bs ! i) (cs ! i))"
  unfolding validate_tool_fragment_prefix_def
  by (auto simp: index_error_zip_None)

lemma validate_response_state_prefix_None:
  "validate_response_state_prefix r r' = None \<longleftrightarrow>
     (case r of None \<Rightarrow> True | Some old \<Rightarrow>
        (case r' of None \<Rightarrow> False | Some new \<Rightarrow>
           spID old = spID new \<and> prefix (spOutput old) (spOutput new)))"
proof -
  have *: "length xs \<le> length ys \<and> (\<forall>i < length xs. xs ! i = ys ! i) \<longleftrightarrow> prefix xs ys"
    for xs ys :: "string list"
    by (auto simp: prefix_length_le nth_append elim: prefixE
        intro!: take_is_prefix [of "length xs" ys, THEN back_subst [where P = "\<lambda>z. prefix z ys"]]
          nth_equalityI)
  show ?thesis
    by (auto simp: validate_response_state_prefix_def index_error_zip_None * [symmetric]
        split: option.splits if_splits)
qed

end
