(* ===== verification/Commands.thy ===== *)
theory Commands
  imports Assembly
begin

text \<open>
  The interface of the reducer (\<open>command.go\<close>, the error types of \<open>reducer.go\<close>, the ownership
  index of \<open>command_matrix.go\<close>): the commands, the events and effects of a transition, the
  transition itself, and the errors by which a command is refused. A command with at most
  four fields lists them in the order of the struct; a longer one carries a record.
\<close>

section \<open>Commands\<close>

record ModelSampleResult =
  mrEffectID :: string
  mrSampleID :: string
  mrUsage :: UsageState
  mrContext :: ContextState
  mrFailure :: "Failure option"
  mrText :: string
  mrCalls :: "ToolCallState list"
  mrContinued :: bool
  mrError :: string

record ProviderRetry =
  pvEffectID :: string
  pvSampleID :: string
  pvAttempt :: u32
  pvRetry :: u32
  pvFailure :: Failure
  pvEffectiveDelayMS :: u64
  pvRetryAt :: go_time
  pvPolicyRevision :: string

record WorkItemBinding =
  bwGoal :: string
  bwGoalDigest :: string
  bwKnownReads :: "WorkItemRead dict"
  bwKnownEdits :: "WorkItemEdit dict"
  bwOpen :: WorkItemOpen

record ConvergenceRequest =
  crCause :: ConvergenceCause
  crUsed :: u32
  crLimit :: u32
  crRepairKind :: RepairKind

record ApprovalResult =
  axEffectID :: string
  axRequestID :: string
  axAccepted :: bool
  axCanceled :: bool
  axError :: string

record ToolResultCommand =
  txEffectID :: string
  txCallID :: string
  txIsError :: bool
  txChanges :: "ObservedChange list"
  txObservation :: WorkItemObservation

record VerificationResult =
  vrEffectID :: string
  vrStatus :: VerificationStatus
  vrEvidenceCalls :: "string list"
  vrMessage :: string
  vrRepairKey :: string

record CompletionCandidate =
  caDeclarationValid :: bool
  caStatus :: string
  caSummary :: string
  caOutputMode :: string
  caPendingActions :: "string list"
  caCompletionCall :: string
  caBatchMutated :: bool
  caBatchSize :: int
  caToolError :: bool
  caVerificationCalls :: "string list"
  caPlanOpenSteps :: int

record Recovery =
  rcSourceTurnID :: string
  rcRecoveryTurnID :: string
  rcCurrentProfileRevision :: u64
  rcAction :: string
  rcDraftResumed :: bool
  rcChanges :: "ObservedChange list"

record TerminalRequest =
  tqFailureCode :: string
  tqFailureMessage :: string
  tqFault :: "FaultMetadata option"
  tqCancelReason :: string
  tqConvergence :: "ConvergenceState option"

datatype Command =
    StartTurn
  | PreparationFinished
  | ModelSampleRequested string
  | ModelSampleStarted string u32
  | ModelSampleFinished string UsageState ContextState string
  | ModelSampleProgressRecorded string string u32 ResponseAssembly
  | ModelSampleResultReceived ModelSampleResult
  | SupplementalUsageRecorded string string UsageState
  | ProviderRetryRequested ProviderRetry
  | ModelTextReceived string
  | ReleaseProvisionalOutput
  | DiscardProvisionalOutput string
  | RepairRequested RepairKind string u32
  | EvaluateTurnStep string
  | ObserveProgress string string u32
  | BindWorkItem WorkItemBinding
  | ConvergenceRequested ConvergenceRequest
  | ConvergenceFinalizationStarted
  | ToolCallsProposed "ToolCallState list"
  | ApprovalRequired string string
  | ApprovalResolved string
  | ApprovalResultReceived ApprovalResult
  | InputRequired string
  | InputResolved string
  | InputResultReceived string string bool string
  | ToolResultReceived ToolResultCommand
  | AbortOpenCalls string
  | VerificationStarted
  | VerificationFinished VerificationResult
  | CompletionEvaluated CompletionCandidate
  | CompletionInvalidated string
  | CancelRequested string
  | ContinuationRecorded ContinuationCursor
  | RecoveryRequested Recovery
  | EffectStarted string u32
  | EffectRequeued string
  | EffectResultReceived string bool string
  | PersistenceResultReceived string bool string
  | TerminalRequested TerminalRequest
  | JournalFinalized JournalStatus
  | JournalResultReceived string JournalStatus string
  | FinishTerminal

fun commandName :: "Command \<Rightarrow> string" where
  "commandName StartTurn = ''start_turn''"
| "commandName PreparationFinished = ''preparation_finished''"
| "commandName (ModelSampleRequested _) = ''model_sample_requested''"
| "commandName (ModelSampleStarted _ _) = ''model_sample_started''"
| "commandName (ModelSampleFinished _ _ _ _) = ''model_sample_finished''"
| "commandName (ModelSampleProgressRecorded _ _ _ _) = ''model_sample_progress_recorded''"
| "commandName (ModelSampleResultReceived _) = ''model_sample_result_received''"
| "commandName (SupplementalUsageRecorded _ _ _) = ''supplemental_usage_recorded''"
| "commandName (ProviderRetryRequested _) = ''provider_retry_requested''"
| "commandName (ModelTextReceived _) = ''model_text_received''"
| "commandName ReleaseProvisionalOutput = ''release_provisional_output''"
| "commandName (DiscardProvisionalOutput _) = ''discard_provisional_output''"
| "commandName (RepairRequested _ _ _) = ''repair_requested''"
| "commandName (EvaluateTurnStep _) = ''evaluate_turn_step''"
| "commandName (ObserveProgress _ _ _) = ''observe_progress''"
| "commandName (BindWorkItem _) = ''bind_work_item''"
| "commandName (ConvergenceRequested _) = ''convergence_requested''"
| "commandName ConvergenceFinalizationStarted = ''convergence_finalization_started''"
| "commandName (ToolCallsProposed _) = ''tool_calls_proposed''"
| "commandName (ApprovalRequired _ _) = ''approval_required''"
| "commandName (ApprovalResolved _) = ''approval_resolved''"
| "commandName (ApprovalResultReceived _) = ''approval_result_received''"
| "commandName (InputRequired _) = ''input_required''"
| "commandName (InputResolved _) = ''input_resolved''"
| "commandName (InputResultReceived _ _ _ _) = ''input_result_received''"
| "commandName (ToolResultReceived _) = ''tool_result_received''"
| "commandName (AbortOpenCalls _) = ''abort_open_calls''"
| "commandName VerificationStarted = ''verification_started''"
| "commandName (VerificationFinished _) = ''verification_finished''"
| "commandName (CompletionEvaluated _) = ''completion_evaluated''"
| "commandName (CompletionInvalidated _) = ''completion_invalidated''"
| "commandName (CancelRequested _) = ''cancel_requested''"
| "commandName (ContinuationRecorded _) = ''continuation_recorded''"
| "commandName (RecoveryRequested _) = ''recovery_requested''"
| "commandName (EffectStarted _ _) = ''effect_started''"
| "commandName (EffectRequeued _) = ''effect_requeued''"
| "commandName (EffectResultReceived _ _ _) = ''effect_result_received''"
| "commandName (PersistenceResultReceived _ _ _) = ''persistence_result_received''"
| "commandName (TerminalRequested _) = ''terminal_requested''"
| "commandName (JournalFinalized _) = ''journal_finalized''"
| "commandName (JournalResultReceived _ _ _) = ''journal_result_received''"
| "commandName FinishTerminal = ''finish_terminal''"

section \<open>Events, effects and transitions\<close>

record Event =
  evKind :: EventKind
  evFrom :: Phase
  evTo :: Phase
  evCallID :: string
  evEffectID :: string
  evSampleID :: string
  evMutation :: u64
  evTerminal :: "TerminalDecision option"

definition plain_event :: "EventKind \<Rightarrow> Event" where
  "plain_event kind = \<lparr>evKind = kind, evFrom = PhaseOther [], evTo = PhaseOther [],
     evCallID = [], evEffectID = [], evSampleID = [], evMutation = 0, evTerminal = None\<rparr>"

text \<open>What an effect carries to its executor before it is encoded.\<close>

datatype EffectPayload =
    SamplePayload string
  | ToolPayload ToolCallState
  | ApprovalPayload string string
  | InputPayload string
  | VerificationPayload u64
  | TerminalPayload TerminalDecision

record Transition =
  tState :: State
  tEvents :: "Event list"
  tEffects :: "Effect list"

text \<open>
  More of the standard library, as parameters: the JSON encoding of an effect's payload, the
  JSON round trip that copies a response assembly (\<open>None\<close> when it fails), the canonical form
  of a JSON text (\<open>None\<close> when it does not parse) and the two fields \<open>path\<close> and \<open>start_line\<close> of
  a JSON object.
\<close>

record kernel_codec = codec +
  marshal_payload :: "EffectPayload \<Rightarrow> string"
  clone_assembly :: "ResponseAssembly \<Rightarrow> ResponseAssembly option"
  canonical_json :: "string \<Rightarrow> string option"
  json_read_window :: "string \<Rightarrow> (string \<times> int) option"

section \<open>Errors\<close>

datatype reason = Reason string | ReasonPhases "Phase list" | ReasonError go_error

datatype kernel_error =
    TransitionError Phase string reason
  | RepairBudgetExhaustedError RepairKind string u32
  | KernelError go_error
  | InvalidCurrentState go_error
  | InvalidResultState string go_error

definition illegal :: "State \<Rightarrow> Command option \<Rightarrow> reason \<Rightarrow> kernel_error" where
  "illegal state command reason =
     TransitionError (stPhase state)
       (case command of None \<Rightarrow> ''<nil>'' | Some cmd \<Rightarrow> commandName cmd) reason"

definition requirePhase :: "State \<Rightarrow> Command \<Rightarrow> Phase list \<Rightarrow> kernel_error option" where
  "requirePhase state command allowed =
     (if stPhase state \<in> set allowed then None
      else Some (illegal state (Some command) (ReasonPhases allowed)))"

lemma requirePhase_None [simp]:
  "requirePhase state command allowed = None \<longleftrightarrow> stPhase state \<in> set allowed"
  by (simp add: requirePhase_def)

text \<open>Refuse the command unless the condition holds.\<close>

definition ensure ::
  "State \<Rightarrow> Command \<Rightarrow> bool \<Rightarrow> string \<Rightarrow> kernel_error + 'a \<Rightarrow> kernel_error + 'a" where
  "ensure current command ok msg rest =
     (if ok then rest else Inl (illegal current (Some command) (Reason msg)))"

lemma ensure_eq_Inr [simp]: "ensure s cmd ok msg rest = Inr t \<longleftrightarrow> ok \<and> rest = Inr t"
  by (simp add: ensure_def)

lemma ensure_simps [simp]:
  "ensure s cmd True msg rest = rest"
  "ensure s cmd False msg rest = Inl (illegal s (Some cmd) (Reason msg))"
  by (simp_all add: ensure_def)

section \<open>The ownership index of the commands\<close>

datatype CommandFamily =
    CommandFamilyLifecycle | CommandFamilySampling | CommandFamilyTool
  | CommandFamilyInteraction | CommandFamilyVerification | CommandFamilyTerminal
  | CommandFamilyEffect

record CommandContract =
  ctName :: string
  ctFamily :: CommandFamily
  ctAllowedPhases :: "Phase list"

definition contract :: "string \<Rightarrow> CommandFamily \<Rightarrow> Phase list \<Rightarrow> CommandContract" where
  "contract name family phases = \<lparr>ctName = name, ctFamily = family, ctAllowedPhases = phases\<rparr>"

definition CommandContracts :: "CommandContract list" where
  "CommandContracts =
     [contract ''start_turn'' CommandFamilyLifecycle [PhaseCreated],
      contract ''preparation_finished'' CommandFamilyLifecycle [PhasePreparing],
      contract ''model_sample_requested'' CommandFamilySampling [PhaseSampling],
      contract ''model_sample_started'' CommandFamilySampling [PhaseSampling],
      contract ''model_sample_finished'' CommandFamilySampling [PhaseSampling],
      contract ''model_sample_progress_recorded'' CommandFamilySampling [PhaseSampling],
      contract ''model_sample_result_received'' CommandFamilySampling [PhaseSampling],
      contract ''supplemental_usage_recorded'' CommandFamilySampling [],
      contract ''provider_retry_requested'' CommandFamilySampling [PhaseSampling],
      contract ''model_text_received'' CommandFamilySampling [PhaseSampling],
      contract ''release_provisional_output'' CommandFamilySampling [PhaseSampling],
      contract ''discard_provisional_output'' CommandFamilySampling [PhaseSampling],
      contract ''repair_requested'' CommandFamilySampling [PhaseSampling],
      contract ''evaluate_turn_step'' CommandFamilySampling [],
      contract ''observe_progress'' CommandFamilySampling [PhaseSampling],
      contract ''bind_work_item'' CommandFamilyLifecycle
        [PhaseCreated, PhasePreparing, PhaseSampling],
      contract ''continuation_recorded'' CommandFamilyLifecycle [],
      contract ''convergence_requested'' CommandFamilySampling [],
      contract ''convergence_finalization_started'' CommandFamilySampling [PhaseSampling],
      contract ''tool_calls_proposed'' CommandFamilyTool [PhaseSampling],
      contract ''tool_result_received'' CommandFamilyTool [PhaseExecutingTools],
      contract ''abort_open_calls'' CommandFamilyTool [],
      contract ''approval_required'' CommandFamilyInteraction [PhaseExecutingTools],
      contract ''approval_resolved'' CommandFamilyInteraction [PhaseAwaitingApproval],
      contract ''approval_result_received'' CommandFamilyInteraction [PhaseAwaitingApproval],
      contract ''input_required'' CommandFamilyInteraction [PhaseExecutingTools],
      contract ''input_resolved'' CommandFamilyInteraction [PhaseAwaitingInput],
      contract ''input_result_received'' CommandFamilyInteraction [PhaseAwaitingInput],
      contract ''verification_started'' CommandFamilyVerification [PhaseSampling],
      contract ''verification_finished'' CommandFamilyVerification [PhaseVerifying],
      contract ''completion_evaluated'' CommandFamilyVerification [],
      contract ''completion_invalidated'' CommandFamilyVerification [],
      contract ''cancel_requested'' CommandFamilyInteraction [],
      contract ''recovery_requested'' CommandFamilyInteraction [],
      contract ''effect_started'' CommandFamilyEffect [],
      contract ''effect_requeued'' CommandFamilyEffect [],
      contract ''effect_result_received'' CommandFamilyEffect [],
      contract ''persistence_result_received'' CommandFamilyEffect [PhaseCommitting],
      contract ''terminal_requested'' CommandFamilyTerminal [],
      contract ''journal_finalized'' CommandFamilyTerminal [PhaseCommitting],
      contract ''journal_result_received'' CommandFamilyTerminal [PhaseCommitting],
      contract ''finish_terminal'' CommandFamilyTerminal [PhaseCommitting]]"

text \<open>Every command is indexed exactly once.\<close>

lemma commandName_indexed: "commandName cmd \<in> set (map ctName CommandContracts)"
  by (cases cmd) (simp_all add: CommandContracts_def contract_def)

lemma CommandContracts_distinct: "distinct (map ctName CommandContracts)"
  by (simp add: CommandContracts_def contract_def)

end
