(* ===== verification/KernelEffects.thy ===== *)
theory KernelEffects
  imports Commands
begin

text \<open>
  The shared machinery of the reducer (\<open>reducer_common.go\<close>, \<open>reducer_effect.go\<close> and the
  budget and convergence helpers of \<open>reducer_sampling.go\<close>): moving between phases, requesting
  and finishing effects, spending a repair budget, entering convergence.

  A transition is threaded through the helpers as the source threads its pointer. The state
  it starts from is a deep copy of the current one, so that the copies below are values: no
  helper reads a map through an alias after it was changed.
\<close>

section \<open>Threading the transition\<close>

definition modify :: "(State \<Rightarrow> State) \<Rightarrow> Transition \<Rightarrow> Transition" where
  "modify f tr = tr\<lparr>tState := f (tState tr)\<rparr>"

definition emit :: "Event \<Rightarrow> Transition \<Rightarrow> Transition" where
  "emit ev tr = tr\<lparr>tEvents := tEvents tr @ [ev]\<rparr>"

lemma modify_simps [simp]:
  "tState (modify f tr) = f (tState tr)"
  "tEvents (modify f tr) = tEvents tr"
  "tEffects (modify f tr) = tEffects tr"
  by (simp_all add: modify_def)

lemma emit_simps [simp]:
  "tState (emit ev tr) = tState tr"
  "tEvents (emit ev tr) = tEvents tr @ [ev]"
  "tEffects (emit ev tr) = tEffects tr"
  by (simp_all add: emit_def)

definition move :: "Phase \<Rightarrow> Transition \<Rightarrow> Transition" where
  "move phase tr =
     emit ((plain_event EventTransition)\<lparr>evFrom := stPhase (tState tr), evTo := phase\<rparr>)
       (modify (\<lambda>s. s\<lparr>stPhase := phase\<rparr>) tr)"

lemma move_simps [simp]:
  "tState (move phase tr) = (tState tr)\<lparr>stPhase := phase\<rparr>"
  "tEffects (move phase tr) = tEffects tr"
  by (simp_all add: move_def)

section \<open>Requesting and finishing effects\<close>

definition payload_digest :: "'z codec_scheme \<Rightarrow> string \<Rightarrow> string" where
  "payload_digest c encoded = ''sha256:'' @ sha256_hex c encoded"

definition effect_id :: "u64 \<Rightarrow> string" where
  "effect_id n = ''effect-'' @ format_016x n"

definition new_effect ::
  "'z kernel_codec_scheme \<Rightarrow> u64 \<Rightarrow> EffectKind \<Rightarrow> EffectPayload \<Rightarrow> string \<Rightarrow> string \<Rightarrow> Effect" where
  "new_effect c n kind payload idempotencyKey callID =
     \<lparr>efID = effect_id n, efKind = kind, efPayload = marshal_payload c payload,
      efPayloadDigest = payload_digest c (marshal_payload c payload), efAttempt = 0,
      efIdempotencyKey = idempotencyKey, efStatus = EffectRequested, efCallID = callID,
      efError = []\<rparr>"

definition requestEffect ::
  "'z kernel_codec_scheme \<Rightarrow> EffectKind \<Rightarrow> EffectPayload \<Rightarrow> string \<Rightarrow> string \<Rightarrow>
     Transition \<Rightarrow> Transition" where
  "requestEffect c kind payload idempotencyKey callID tr =
     (let n = stNextEffectSequence (tState tr) + 1;
          effect = new_effect c n kind payload idempotencyKey callID
      in emit ((plain_event EventEffectRequested)\<lparr>evEffectID := efID effect, evCallID := callID\<rparr>)
           ((modify (\<lambda>s. s\<lparr>stNextEffectSequence := n,
                stPendingEffects := fmupd (efID effect) effect (stPendingEffects s)\<rparr>) tr)
              \<lparr>tEffects := tEffects tr @ [effect]\<rparr>))"

text \<open>The effect after its result: succeeded, or failed with a message.\<close>

definition settle :: "bool \<Rightarrow> string \<Rightarrow> Effect \<Rightarrow> Effect" where
  "settle success message effect =
     (if success then effect\<lparr>efStatus := EffectSucceeded, efError := []\<rparr>
      else effect\<lparr>efStatus := EffectFailed, efError := message\<rparr>)"

definition finishEffect ::
  "Transition \<Rightarrow> string \<Rightarrow> bool \<Rightarrow> string \<Rightarrow> go_error + Transition" where
  "finishEffect tr effectID success message =
     (case fmlookup (stPendingEffects (tState tr)) effectID of
        None \<Rightarrow>
          if effectID |\<in>| fmdom (stCompletedEffects (tState tr))
          then Inl (ErrorNew ''effect result is duplicated'')
          else Inl (ErrorNew ''effect result does not match a pending effect'')
      | Some effect \<Rightarrow>
          if efStatus effect \<noteq> EffectRequested \<and> efStatus effect \<noteq> EffectRunning
          then Inl (ErrorNew ''effect is not awaiting a result'')
          else if \<not> success \<and> blank message
          then Inl (ErrorNew ''failed effect result has no error'')
          else Inr (emit ((plain_event EventEffectFinished)
                           \<lparr>evEffectID := efID effect, evCallID := efCallID effect\<rparr>)
                 (modify (\<lambda>s. s\<lparr>stPendingEffects := fmdrop effectID (stPendingEffects s),
                     stCompletedEffects :=
                       fmupd effectID (settle success message effect) (stCompletedEffects s)\<rparr>) tr)))"

text \<open>Finish an effect and ignore the error, as the closing helpers do.\<close>

definition finish_quietly :: "Transition \<Rightarrow> string \<Rightarrow> bool \<Rightarrow> string \<Rightarrow> Transition" where
  "finish_quietly tr effectID success message =
     (case finishEffect tr effectID success message of Inl _ \<Rightarrow> tr | Inr tr' \<Rightarrow> tr')"

definition nonEmptyEffectError :: "bool \<Rightarrow> string \<Rightarrow> string" where
  "nonEmptyEffectError success message =
     (if success \<or> \<not> blank message then message else ''effect failed'')"

definition sortedEffectIDs :: "Effect dict \<Rightarrow> string list" where
  "sortedEffectIDs effects = sorted_keys effects"

definition close_first ::
  "(Effect \<Rightarrow> bool) \<Rightarrow> bool \<Rightarrow> string \<Rightarrow> Transition \<Rightarrow> Transition" where
  "close_first match success message tr =
     (case find (\<lambda>eid. match (lookup_zero zero_Effect (stPendingEffects (tState tr)) eid))
             (sortedEffectIDs (stPendingEffects (tState tr))) of
        None \<Rightarrow> tr
      | Some eid \<Rightarrow> finish_quietly tr eid success (nonEmptyEffectError success message))"

definition closeEffectByCall ::
  "EffectKind \<Rightarrow> string \<Rightarrow> bool \<Rightarrow> string \<Rightarrow> Transition \<Rightarrow> Transition" where
  "closeEffectByCall kind callID = close_first (\<lambda>e. efKind e = kind \<and> efCallID e = callID)"

definition closeEffectByIdentity ::
  "EffectKind \<Rightarrow> string \<Rightarrow> bool \<Rightarrow> string \<Rightarrow> Transition \<Rightarrow> Transition" where
  "closeEffectByIdentity kind identity =
     (let wantKey = (case kind of
                       EffectAwaitApproval \<Rightarrow> ''approval:'' @ identity
                     | EffectAwaitInput \<Rightarrow> ''input:'' @ identity
                     | _ \<Rightarrow> [])
      in close_first (\<lambda>e. efKind e = kind \<and> efIdempotencyKey e = wantKey))"

definition closeFirstEffectByKind ::
  "EffectKind \<Rightarrow> bool \<Rightarrow> string \<Rightarrow> Transition \<Rightarrow> Transition" where
  "closeFirstEffectByKind kind = close_first (\<lambda>e. efKind e = kind)"

definition closeEffectsByKind ::
  "EffectKind \<Rightarrow> bool \<Rightarrow> string \<Rightarrow> Transition \<Rightarrow> Transition" where
  "closeEffectsByKind kind success message tr =
     fold (\<lambda>eid t.
        if efKind (lookup_zero zero_Effect (stPendingEffects (tState t)) eid) = kind
        then finish_quietly t eid success (nonEmptyEffectError success message) else t)
       (sortedEffectIDs (stPendingEffects (tState tr))) tr"

section \<open>Repair budgets\<close>

definition validRepairKind :: "RepairKind \<Rightarrow> bool" where
  "validRepairKind kind \<longleftrightarrow>
     kind = RepairCompletion \<or> kind = RepairWorkspace \<or> kind = RepairDeclaration \<or>
     kind = RepairVerification"

fun repair_kind_name :: "RepairKind \<Rightarrow> string" where
  "repair_kind_name RepairUnset = []"
| "repair_kind_name RepairCompletion = ''completion''"
| "repair_kind_name RepairWorkspace = ''workspace''"
| "repair_kind_name RepairDeclaration = ''declaration''"
| "repair_kind_name RepairVerification = ''verification''"
| "repair_kind_name (RepairOther s) = s"

definition spendRepairBudget ::
  "Transition \<Rightarrow> RepairKind \<Rightarrow> string \<Rightarrow> u32 \<Rightarrow> kernel_error + Transition" where
  "spendRepairBudget tr kind progressKey limit =
     (if \<not> validRepairKind kind
      then Inl (KernelError (ErrorF ''invalid repair kind %q'' [ArgS (repair_kind_name kind)]))
      else if blank progressKey \<or> limit = 0
      then Inl (KernelError (ErrorNew ''repair budget request is incomplete''))
      else
      let stored = lookup_zero zero_RepairBudget (stRepairBudgets (tState tr)) kind;
          budget = (if rbProgressKey stored \<noteq> progressKey
                    then stored\<lparr>rbProgressKey := progressKey, rbConsecutive := 0\<rparr> else stored) in
      if rbConsecutive budget \<ge> limit
      then Inl (RepairBudgetExhaustedError kind progressKey limit)
      else Inr (emit (plain_event EventRepairRequested)
             (modify (\<lambda>s. s\<lparr>stRepairBudgets := fmupd kind
                (budget\<lparr>rbConsecutive := rbConsecutive budget + 1,
                        rbSteps := rbSteps budget + 1\<rparr>) (stRepairBudgets s)\<rparr>) tr)))"

definition budget_exhausted :: "kernel_error \<Rightarrow> bool" where
  "budget_exhausted err = (case err of RepairBudgetExhaustedError _ _ _ \<Rightarrow> True | _ \<Rightarrow> False)"

section \<open>Convergence\<close>

definition continue_action :: string where
  "continue_action = ''Continue the unfinished work from the retained turn context.''"

definition beginConvergence :: "ConvergenceRequest \<Rightarrow> Transition \<Rightarrow> Transition" where
  "beginConvergence command tr =
     (case stConvergence (tState tr) of
        Some _ \<Rightarrow> tr
      | None \<Rightarrow>
          let summary = (case stCompletion (tState tr) of None \<Rightarrow> []
                         | Some completion \<Rightarrow> TrimSpace (cdSummary completion));
              pending0 = (case stCompletion (tState tr) of None \<Rightarrow> []
                          | Some completion \<Rightarrow> cdPendingActions completion);
              pending = (if summary \<noteq> [] \<and> pending0 = [] then [continue_action] else pending0)
          in emit (plain_event EventConvergence)
               (modify (\<lambda>s. s\<lparr>stConvergence := Some
                    \<lparr>cvCause = crCause command, cvUsed = crUsed command, cvLimit = crLimit command,
                     cvRepairKind = crRepairKind command, cvFinalizationAttempted = False,
                     cvSummary = summary, cvPendingActions = pending\<rparr>,
                   stNextAction := StepActionFinalize\<rparr>) tr))"

definition validConvergenceRequest :: "ConvergenceRequest \<Rightarrow> bool" where
  "validConvergenceRequest command \<longleftrightarrow>
     (if crUsed command < crLimit command \<or>
         crLimit command = 0 \<and>
           (crUsed command \<noteq> 0 \<or> crCause command \<noteq> ConvergenceRepairBudget)
      then False
      else case crCause command of
             ConvergenceOutputLimit \<Rightarrow> crRepairKind command = RepairUnset
           | ConvergenceNoProgress \<Rightarrow> crRepairKind command = RepairUnset
           | ConvergenceStepLimit \<Rightarrow> crRepairKind command = RepairUnset
           | ConvergenceRepairBudget \<Rightarrow> validRepairKind (crRepairKind command)
           | _ \<Rightarrow> False)"

fun convergence_cause_name :: "ConvergenceCause \<Rightarrow> string" where
  "convergence_cause_name ConvergenceOutputLimit = ''output_limit''"
| "convergence_cause_name ConvergenceNoProgress = ''no_progress''"
| "convergence_cause_name ConvergenceRepairBudget = ''repair_budget''"
| "convergence_cause_name ConvergenceStepLimit = ''step_limit''"
| "convergence_cause_name ConvergenceIncomplete = ''declared_incomplete''"
| "convergence_cause_name (ConvergenceOther s) = s"

definition blockedConvergence :: "ConvergenceState option \<Rightarrow> ConvergenceState option" where
  "blockedConvergence source =
     map_option (\<lambda>outcome.
       if blank (cvSummary outcome)
       then outcome\<lparr>cvSummary := ''Turn could not complete after the '' @
                convergence_cause_name (cvCause outcome) @
                '' convergence budget was exhausted.'',
              cvPendingActions := [continue_action]\<rparr>
       else outcome) source"

section \<open>Usage\<close>

definition mergeUsage :: "UsageState \<Rightarrow> UsageState \<Rightarrow> UsageState" where
  "mergeUsage target value =
     (let calls = (if usCalls value = 0 then 1 else usCalls value)
      in target\<lparr>usCostKnown := (if usCalls target = 0 then usCostKnown value
                               else usCostKnown target \<and> usCostKnown value),
           usCalls := usCalls target + calls,
           usInputTokens := usInputTokens target + usInputTokens value,
           usOutputTokens := usOutputTokens target + usOutputTokens value,
           usReasoningTokens := usReasoningTokens target + usReasoningTokens value,
           usCachedTokens := usCachedTokens target + usCachedTokens value,
           usCostMicrounits := usCostMicrounits target + usCostMicrounits value\<rparr>)"

section \<open>Completion\<close>

definition completionRejectionAction :: "string \<Rightarrow> string" where
  "completionRejectionAction reason =
     (if reason = ''no_observed_changes'' then ''perform_workspace_mutation''
      else if reason = ''verification_evidence_required'' then ''exec_command''
      else if reason = ''pending_actions'' then ''continue_work''
      else if reason = ''convergence_blocked'' then ''finalize_blocked''
      else ''correct_and_retry_turn_complete'')"

definition RequiresCompletion :: "State \<Rightarrow> bool" where
  "RequiresCompletion state \<longleftrightarrow>
     plCompletionRequired (stPolicy state) \<and> plStructuredTerminalRequired (stPolicy state)"

definition IsResearchIntent :: "TurnIntent \<Rightarrow> bool" where
  "IsResearchIntent intent \<longleftrightarrow> intent = TurnIntentAnswer \<or> intent = TurnIntentPlan"

text \<open>Verification of the current mutation with an action that lets the turn complete.\<close>

definition verification_current :: "State \<Rightarrow> bool" where
  "verification_current state \<longleftrightarrow>
     vsMutation (stVerification state) = stMutationRevision state \<and>
     vsAction (stVerification state) \<in>
       {VerificationActionPassed, VerificationActionReported, VerificationActionReverted}"

definition changedPaths :: "ObservedChange list \<Rightarrow> string list" where
  "changedPaths changes = sort (remdups (map ocPath changes))"

definition samePaths :: "string list \<Rightarrow> string list \<Rightarrow> bool" where
  "samePaths left right \<longleftrightarrow> sort left = sort right"

definition validateCompletionContract :: "State \<Rightarrow> go_error option" where
  "validateCompletionContract state =
     (let hasChanges = stMutationRevision state \<noteq> 0 in
      if stIntent state = TurnIntentWorkspaceChange \<and> \<not> hasChanges
      then Some (ErrorNew ''workspace_change has no observed mutation'')
      else if \<not> hasChanges \<and> stJournal state \<noteq> JournalNone
      then Some (ErrorNew ''unchanged turn has an open journal'')
      else if RequiresCompletion state \<and>
              (case stCompletion state of None \<Rightarrow> True | Some d \<Rightarrow> \<not> cdAccepted d)
      then Some (ErrorNew ''turn has no accepted completion decision'')
      else if RequiresCompletion state \<and>
              (case stCompletion state of None \<Rightarrow> False
               | Some d \<Rightarrow> cdMutation d \<noteq> stMutationRevision state)
      then Some (ErrorNew ''completion decision is stale'')
      else if \<not> hasChanges then None
      else if plVerificationRequired (stPolicy state) \<and> \<not> verification_current state
      then Some (ErrorNew ''mutation has no current completion verification'')
      else require (stJournal state = JournalOpen) (ErrorNew ''mutation journal is not open''))"

definition validateCompletionReadiness :: "State \<Rightarrow> go_error option" where
  "validateCompletionReadiness state =
     (if \<not> stOutputEligibility state then Some (ErrorNew ''final output is not eligible'')
      else validateCompletionContract state)"

end
