(* ===== verification/KernelValidate.thy ===== *)
theory KernelValidate
  imports KernelEffects
begin

text \<open>
  The state's own check (\<open>invariants.go\<close>), the journal outcome of a terminal decision
  (\<open>reducer_terminal.go\<close>), the fresh state (\<open>state.go\<close>) and the deep copy a transition
  starts from.

  \<open>Validate\<close> is the sequence of the source's checks, one definition per part of the state it
  looks at; the first error is the result. A loop over a map visits the keys in ascending order
  where the source leaves the order open: whether a map is accepted does not depend on it.
\<close>

section \<open>The fresh state\<close>

definition zero_ProgressState :: ProgressState where
  "zero_ProgressState = \<lparr>pgSignature = [], pgSampleIdentity = [], pgPendingIdentity = [],
     pgObservedSamples = 0, pgNoProgressSamples = 0, pgStage = ProgressStageNone\<rparr>"

definition zero_WorkItem :: WorkItem where
  "zero_WorkItem = \<lparr>wiGoalDigest = [], wiKnownReads = fmempty, wiKnownEdits = fmempty,
     wiOpen = \<lparr>woUnverifiedPaths = [], woSessions = [], woCoveredPaths = []\<rparr>,
     wiRequiredAction = []\<rparr>"

definition NewStateWithPolicy :: "TurnIntent \<Rightarrow> string \<Rightarrow> u64 \<Rightarrow> Policy \<Rightarrow> State" where
  "NewStateWithPolicy intent mode profileRevision policy =
     \<lparr>stLedgersNil = False, stPhase = PhaseCreated, stIntent = NormalizeTurnIntent intent,
      stMode = mode, stProfileRevision = profileRevision, stPolicy = policy,
      stMutationRevision = 0, stOpenCalls = fmempty, stClosedCalls = fmempty,
      stPendingApprovals = fmempty, stPendingInput = None, stChanges = [],
      stCompletion = None, stContinuation = None, stVerification = unevaluated,
      stJournal = JournalNone, stUsage = zero_UsageState, stContext = zero_ContextState,
      stSampleLedger = fmempty, stActiveSampleID = [],
      stCancellation = \<lparr>cnRequested = False, cnAccepted = False, cnReason = []\<rparr>,
      stRecoveryRelation = None, stPendingEffects = fmempty, stCompletedEffects = fmempty,
      stNextEffectSequence = 0, stProvisionalOutput = [], stFinalOutput = [],
      stCommentary = [], stOutputEligibility = False, stRepairBudgets = fmempty,
      stProgress = zero_ProgressState, stWorkItem = zero_WorkItem, stConvergence = None,
      stNextAction = StepActionNone, stLastModelContinued = False,
      stUnresolvedToolFailure = False, stRecoveryToolSucceeded = False,
      stPendingTerminal = None, stTerminal = None\<rparr>"

definition NewState :: "TurnIntent \<Rightarrow> string \<Rightarrow> u64 \<Rightarrow> State" where
  "NewState intent mode profileRevision =
     NewStateWithPolicy intent mode profileRevision DefaultPolicy"

section \<open>Phases and the journal outcome\<close>

definition validPhase :: "Phase \<Rightarrow> bool" where
  "validPhase phase = (case phase of PhaseOther _ \<Rightarrow> False | _ \<Rightarrow> True)"

fun phase_name :: "Phase \<Rightarrow> string" where
  "phase_name PhaseCreated = ''created''"
| "phase_name PhasePreparing = ''preparing''"
| "phase_name PhaseSampling = ''sampling''"
| "phase_name PhaseExecutingTools = ''executing_tools''"
| "phase_name PhaseAwaitingApproval = ''awaiting_approval''"
| "phase_name PhaseAwaitingInput = ''awaiting_input''"
| "phase_name PhaseVerifying = ''verifying''"
| "phase_name PhaseCommitting = ''committing''"
| "phase_name PhaseCompleted = ''completed''"
| "phase_name PhaseFailed = ''failed''"
| "phase_name PhaseCanceled = ''canceled''"
| "phase_name (PhaseOther s) = s"

definition phaseForTerminal :: "TerminalKind \<Rightarrow> Phase" where
  "phaseForTerminal kind =
     (case kind of TerminalCompleted \<Rightarrow> PhaseCompleted | TerminalFailed \<Rightarrow> PhaseFailed
      | TerminalCanceled \<Rightarrow> PhaseCanceled | TerminalOther _ \<Rightarrow> PhaseOther [])"

definition recoverableTerminalFault :: "FaultMetadata option \<Rightarrow> bool" where
  "recoverableTerminalFault fault =
     (case fault of None \<Rightarrow> False
      | Some f \<Rightarrow> fmDisposition f \<in> {FaultRetryStep, FaultRetryTurn, FaultResumeTurn})"

definition CancelReasonUserInterrupted :: string where
  "CancelReasonUserInterrupted = ''user_interrupted''"

definition terminalJournalOutcome :: "State \<Rightarrow> TerminalDecision \<Rightarrow> EffectKind \<times> JournalStatus" where
  "terminalJournalOutcome state decision =
     (if tdKind decision = TerminalCompleted \<and>
         vsAction (stVerification state) \<noteq> VerificationActionReverted
      then (EffectCommitJournal, JournalCommitted)
      else if tdKind decision = TerminalCanceled \<and>
              tdMessage decision = CancelReasonUserInterrupted
      then (EffectSuspendJournal, JournalSuspended)
      else if tdKind decision = TerminalFailed \<and>
              (vsAction (stVerification state) = VerificationActionBlocked \<or>
               tdConvergence decision \<noteq> None \<or> recoverableTerminalFault (tdFault decision) \<or>
               (case stRecoveryRelation state of None \<Rightarrow> False | Some r \<Rightarrow> rrDraftResumed r))
      then (EffectSuspendJournal, JournalSuspended)
      else (EffectRollbackJournal, JournalRolledBack))"

section \<open>The parts of the check\<close>

fun commentary_calls_error :: "string set \<Rightarrow> string list \<Rightarrow> go_error option" where
  "commentary_calls_error calls [] = None"
| "commentary_calls_error calls (cid # rest) =
     (if blank cid \<or> cid \<in> calls then Some (ErrorNew ''invalid commentary call identity'')
      else commentary_calls_error (insert cid calls) rest)"

fun commentary_error ::
  "ModelSampleState dict \<Rightarrow> string set \<Rightarrow> Commentary list \<Rightarrow> go_error option" where
  "commentary_error ledger commentarySamples [] = None"
| "commentary_error ledger commentarySamples (message # rest) =
     (if cmSampleID message \<in> commentarySamples \<or>
         smStatus (lookup_zero zero_ModelSampleState ledger (cmSampleID message)) \<noteq> SampleCompleted \<or>
         blank (cmText message) \<or> cmCallIDs message = []
      then Some (ErrorNew ''invalid commentary sample'')
      else case commentary_calls_error {} (cmCallIDs message) of
             Some err \<Rightarrow> Some err
           | None \<Rightarrow> commentary_error ledger (insert (cmSampleID message) commentarySamples) rest)"

fun sample_status_name :: "SampleStatus \<Rightarrow> string" where
  "sample_status_name SampleStatusUnset = []"
| "sample_status_name SampleRequested = ''requested''"
| "sample_status_name SampleRunning = ''running''"
| "sample_status_name SampleCompleted = ''completed''"
| "sample_status_name SampleFailed = ''failed''"
| "sample_status_name (SampleStatusOther s) = s"

definition sample_status_error :: "string \<Rightarrow> ModelSampleState \<Rightarrow> go_error option" where
  "sample_status_error sampleID sample =
     (case smStatus sample of
        SampleRequested \<Rightarrow> None
      | SampleRunning \<Rightarrow> require (smAttempt sample \<noteq> 0)
          (ErrorF ''model sample %q has no attempt'' [ArgS sampleID])
      | SampleCompleted \<Rightarrow> require (smAttempt sample \<noteq> 0)
          (ErrorF ''model sample %q has no attempt'' [ArgS sampleID])
      | SampleFailed \<Rightarrow> require (smAttempt sample \<noteq> 0)
          (ErrorF ''model sample %q has no attempt'' [ArgS sampleID])
      | s \<Rightarrow> Some (ErrorF ''invalid model sample status %q'' [ArgS (sample_status_name s)]))"

definition sample_retry_ok :: "Effect dict \<Rightarrow> string \<Rightarrow> ModelSampleState \<Rightarrow> bool" where
  "sample_retry_ok pending sampleID sample \<longleftrightarrow>
     (case smRetry sample of None \<Rightarrow> True
      | Some retry \<Rightarrow>
          smStatus sample = SampleRequested \<and> prAttempt retry = smAttempt sample \<and>
          prRetry retry = smProviderRetries sample \<and> prRetryAt retry \<noteq> 0 \<and>
          \<not> blank (prPolicyRevision retry) \<and>
          (case fmlookup pending (prEffectID retry) of None \<Rightarrow> False
           | Some effect \<Rightarrow> efKind effect = EffectSampleProvider \<and>
               efCallID effect = sampleID \<and> efStatus effect = EffectRequested))"

definition sample_error :: "Effect dict \<Rightarrow> string \<Rightarrow> ModelSampleState \<Rightarrow> go_error option" where
  "sample_error pending sampleID sample = first_error
     [require (\<not> blank sampleID \<and> smID sample = sampleID)
        (ErrorF ''invalid model sample %q'' [ArgS sampleID]),
      sample_status_error sampleID sample,
      require (\<not> (smStatus sample = SampleFailed \<and> blank (smError sample)))
        (ErrorF ''failed model sample %q has no error'' [ArgS sampleID]),
      require (\<not> (smStatus sample \<noteq> SampleFailed \<and> smError sample \<noteq> [] \<and>
                  smStatus sample \<noteq> SampleRunning))
        (ErrorF ''successful model sample %q has an error'' [ArgS sampleID]),
      require (\<not> (smProviderRetries sample = 0 \<and> smRetry sample \<noteq> None))
        (ErrorF ''model sample %q has retry facts without a retry'' [ArgS sampleID]),
      require (case smLastFailure sample of None \<Rightarrow> True
               | Some f \<Rightarrow> flCode f \<noteq> [] \<and> \<not> blank (flMessage f))
        (ErrorF ''model sample %q has an invalid failure'' [ArgS sampleID]),
      (case smAssembly sample of None \<Rightarrow> None
       | Some a \<Rightarrow>
           if raLogicalRequestID a \<noteq> sampleID
           then Some (ErrorF ''model sample %q has mismatched response assembly identity''
                       [ArgS sampleID])
           else map_option
                  (ErrorWrap ''model sample %q response assembly: %w'' [ArgS sampleID])
                  (Assembly_Validate a)),
      require (sample_retry_ok pending sampleID sample)
        (ErrorF ''model sample %q has an invalid retry schedule'' [ArgS sampleID])]"

definition active_sample_error :: "State \<Rightarrow> go_error option" where
  "active_sample_error state =
     require (stActiveSampleID state = [] \<or>
              (case fmlookup (stSampleLedger state) (stActiveSampleID state) of None \<Rightarrow> False
               | Some sample \<Rightarrow> smStatus sample = SampleRunning \<and> stPhase state = PhaseSampling))
       (ErrorNew ''active model sample is invalid'')"

definition validateEffect ::
  "'z codec_scheme \<Rightarrow> string \<Rightarrow> Effect \<Rightarrow> bool \<Rightarrow> go_error option" where
  "validateEffect c effectID effect completed = first_error
     ([require (\<not> blank effectID \<and> efID effect = effectID \<and> efKind effect \<noteq> EffectKindUnset \<and>
               efPayload effect \<noteq> [] \<and> prefix ''sha256:'' (efPayloadDigest effect) \<and>
               \<not> blank (efIdempotencyKey effect))
        (ErrorF ''invalid effect %q'' [ArgS effectID]),
       require (efPayloadDigest effect = payload_digest c (efPayload effect))
        (ErrorF ''effect %q payload digest mismatch'' [ArgS effectID])] @
      (if completed then
        [require (efStatus effect = EffectSucceeded \<or> efStatus effect = EffectFailed)
          (ErrorF ''completed effect %q has invalid status'' [ArgS effectID]),
         require (\<not> (efStatus effect = EffectFailed \<and> blank (efError effect)))
          (ErrorF ''failed effect %q has no error'' [ArgS effectID])]
       else
        [require (efStatus effect = EffectRequested \<or> efStatus effect = EffectRunning)
          (ErrorF ''pending effect %q has invalid status'' [ArgS effectID]),
         require (\<not> (efStatus effect = EffectRunning \<and> efAttempt effect = 0))
          (ErrorF ''running effect %q has no attempt'' [ArgS effectID])]))"

definition effects_error :: "'z codec_scheme \<Rightarrow> State \<Rightarrow> go_error option" where
  "effects_error c state = first_error
     [range_error (\<lambda>effectID effect. first_error
        [validateEffect c effectID effect False,
         require (fmlookup (stCompletedEffects state) effectID = None)
           (ErrorF ''effect %q is both pending and completed'' [ArgS effectID])])
        (stPendingEffects state),
      range_error (\<lambda>effectID effect. validateEffect c effectID effect True)
        (stCompletedEffects state)]"

definition recovery_relation_ok :: "State \<Rightarrow> bool" where
  "recovery_relation_ok state \<longleftrightarrow>
     (case stRecoveryRelation state of None \<Rightarrow> True
      | Some r \<Rightarrow>
          \<not> blank (rrSourceTurnID r) \<and> \<not> blank (rrRecoveryTurnID r) \<and>
          (rrAction r = ''retry'' \<or> rrAction r = ''continue'') \<and>
          \<not> (rrDraftResumed r \<and> (rrAction r \<noteq> ''continue'' \<or> stMutationRevision state = 0)) \<and>
          stProfileRevision state \<noteq> 0)"

definition convergence_policy_ok :: "ConvergencePolicy \<Rightarrow> bool" where
  "convergence_policy_ok p \<longleftrightarrow>
     p = zero_ConvergencePolicy \<or>
     cpProgressConverge p \<noteq> 0 \<and> cpProgressConverge p \<le> cpProgressFinishOnly p \<and>
     cpProgressFinishOnly p \<le> cpProgressLimit p \<and>
     cpResearchConverge p \<noteq> 0 \<and> cpResearchConverge p \<le> cpResearchFinishOnly p \<and>
     cpResearchFinishOnly p \<le> cpResearchLimit p"

definition envelope_error :: "State \<Rightarrow> go_error option" where
  "envelope_error state = first_error
     [require (\<not> (cnAccepted (stCancellation state) \<and> \<not> cnRequested (stCancellation state)))
        (ErrorNew ''accepted cancellation was not requested''),
      require (\<not> (cnRequested (stCancellation state) \<and> blank (cnReason (stCancellation state))))
        (ErrorNew ''cancellation reason is empty''),
      require (recovery_relation_ok state) (ErrorNew ''recovery relation is invalid''),
      require (case stContinuation state of None \<Rightarrow> True
               | Some k \<Rightarrow> ccSequence k \<noteq> 0 \<and> \<not> blank (ccHandle k) \<and> \<not> blank (ccDigest k))
        (ErrorNew ''continuation cursor is invalid''),
      require (usFrozen (stUsage state) = cxFrozen (stContext state))
        (ErrorNew ''usage and context freeze state disagree''),
      require (convergence_policy_ok (plConvergence (stPolicy state)))
        (ErrorNew ''convergence policy is invalid'')]"

text \<open>The order in which the repair budgets are visited.\<close>

fun repair_kind_key :: "RepairKind \<Rightarrow> string list" where
  "repair_kind_key RepairUnset = []"
| "repair_kind_key RepairCompletion = [''a'']"
| "repair_kind_key RepairWorkspace = [''b'']"
| "repair_kind_key RepairDeclaration = [''c'']"
| "repair_kind_key RepairVerification = [''d'']"
| "repair_kind_key (RepairOther s) = [''e'', s]"

lemma repair_kind_key_inj: "repair_kind_key a = repair_kind_key b \<Longrightarrow> a = b"
  by (cases a; cases b) auto

instantiation RepairKind :: linorder
begin

definition less_eq_RepairKind :: "RepairKind \<Rightarrow> RepairKind \<Rightarrow> bool" where
  "less_eq_RepairKind a b \<longleftrightarrow> repair_kind_key a \<le> repair_kind_key b"

definition less_RepairKind :: "RepairKind \<Rightarrow> RepairKind \<Rightarrow> bool" where
  "less_RepairKind a b \<longleftrightarrow> repair_kind_key a < repair_kind_key b"

instance
  by standard (auto simp: less_eq_RepairKind_def less_RepairKind_def intro: repair_kind_key_inj)

end

definition repair_budget_error :: "RepairKind \<Rightarrow> RepairBudget \<Rightarrow> go_error option" where
  "repair_budget_error kind budget =
     require (validRepairKind kind \<and> \<not> blank (rbProgressKey budget) \<and>
              rbConsecutive budget \<le> rbSteps budget)
       (ErrorF ''invalid %s repair budget'' [ArgS (repair_kind_name kind)])"

definition progress_error :: "ProgressState \<Rightarrow> go_error option" where
  "progress_error p = first_error
     [(case pgStage p of
         ProgressStageOther s \<Rightarrow> Some (ErrorF ''invalid progress stage %q'' [ArgS s])
       | _ \<Rightarrow> None),
      require (\<not> (pgSignature p = [] \<and>
                  (pgObservedSamples p \<noteq> 0 \<or> pgNoProgressSamples p \<noteq> 0 \<or>
                   pgStage p \<noteq> ProgressStageNone)))
        (ErrorNew ''progress state has no signature''),
      require (pgNoProgressSamples p \<le> pgObservedSamples p)
        (ErrorNew ''no-progress samples exceed observed samples'')]"

definition convergence_cause_error :: "ConvergenceState \<Rightarrow> go_error option" where
  "convergence_cause_error v =
     (if cvCause v \<in> {ConvergenceOutputLimit, ConvergenceNoProgress, ConvergenceStepLimit}
      then require (cvRepairKind v = RepairUnset)
             (ErrorNew ''non-repair convergence has repair kind'')
      else if cvCause v = ConvergenceRepairBudget
      then require (validRepairKind (cvRepairKind v))
             (ErrorNew ''repair convergence kind is invalid'')
      else if cvCause v = ConvergenceIncomplete
      then require (cvUsed v = 0 \<and> cvLimit v = 0 \<and> cvRepairKind v = RepairUnset \<and>
                    cvFinalizationAttempted v)
             (ErrorNew ''declared incomplete convergence is invalid'')
      else Some (ErrorNew ''convergence cause is invalid''))"

definition convergence_error :: "ConvergenceState option \<Rightarrow> go_error option" where
  "convergence_error convergence =
     (case convergence of None \<Rightarrow> None
      | Some v \<Rightarrow> first_error
          [require (\<not> (cvCause v \<noteq> ConvergenceIncomplete \<and>
                      (cvUsed v < cvLimit v \<or>
                       cvLimit v = 0 \<and>
                         (cvUsed v \<noteq> 0 \<or> cvCause v \<noteq> ConvergenceRepairBudget))))
             (ErrorNew ''convergence budget is invalid''),
           convergence_cause_error v,
           require (blank (cvSummary v) \<longleftrightarrow> cvPendingActions v = [])
             (ErrorNew ''convergence blocked outcome is incomplete''),
           require (\<forall>action \<in> set (cvPendingActions v). \<not> blank action)
             (ErrorNew ''convergence pending action is empty'')])"

definition next_action_error :: "StepAction \<Rightarrow> go_error option" where
  "next_action_error action =
     (case action of StepActionOther s \<Rightarrow> Some (ErrorF ''invalid next action %q'' [ArgS s])
      | _ \<Rightarrow> None)"

definition calls_error :: "State \<Rightarrow> go_error option" where
  "calls_error state = first_error
     [range_error (\<lambda>cid call. first_error
        [require (\<not> blank cid \<and> cid = tcID call \<and> \<not> blank (tcName call))
           (ErrorF ''invalid open tool call %q'' [ArgS cid]),
         require (fmlookup (stClosedCalls state) cid = None)
           (ErrorF ''tool call %q is both open and closed'' [ArgS cid])]) (stOpenCalls state),
      range_error (\<lambda>cid result.
         require (\<not> blank cid \<and> cid = trID result \<and> \<not> blank (trName result))
           (ErrorF ''invalid closed tool call %q'' [ArgS cid])) (stClosedCalls state),
      require (stOpenCalls state = fmempty \<or>
               stPhase state \<in> {PhaseExecutingTools, PhaseAwaitingApproval, PhaseAwaitingInput})
        (ErrorNew ''open tool calls exist outside tool execution''),
      require (\<not> (stPhase state = PhaseExecutingTools \<and> stOpenCalls state = fmempty))
        (ErrorNew ''executing_tools has no open tool calls'')]"

definition interaction_error :: "State \<Rightarrow> go_error option" where
  "interaction_error state = first_error
     [range_error (\<lambda>requestID approval. first_error
        [require (stPhase state = PhaseAwaitingApproval \<and> requestID \<noteq> [] \<and>
                  requestID = apRequestID approval)
           (ErrorNew ''pending approval is invalid''),
         require (fmlookup (stOpenCalls state) (apCallID approval) \<noteq> None)
           (ErrorNew ''pending approval does not reference an open call'')])
        (stPendingApprovals state),
      require (\<not> (stPendingApprovals state = fmempty \<and> stPhase state = PhaseAwaitingApproval))
        (ErrorNew ''awaiting_approval has no pending approval''),
      (case stPendingInput state of
         Some input \<Rightarrow> first_error
           [require (stPhase state = PhaseAwaitingInput)
              (ErrorNew ''pending input is outside awaiting_input''),
            require (\<not> blank (inRequestID input))
              (ErrorNew ''pending input request id is empty'')]
       | None \<Rightarrow> require (stPhase state \<noteq> PhaseAwaitingInput)
           (ErrorNew ''awaiting_input has no pending input''))]"

definition finalized_journal :: "JournalStatus \<Rightarrow> bool" where
  "finalized_journal journal \<longleftrightarrow>
     journal = JournalCommitted \<or> journal = JournalSuspended \<or> journal = JournalRolledBack"

definition mutation_error :: "State \<Rightarrow> go_error option" where
  "mutation_error state = first_error
     ((if stMutationRevision state = 0 then
        [require (stChanges state = [])
          (ErrorNew ''changes exist without a mutation revision''),
         require (stJournal state = JournalNone \<or>
            plJournalRequired (stPolicy state) \<and>
            (stPhase state = PhaseCommitting \<or> Phase_Terminal (stPhase state)) \<and>
            finalized_journal (stJournal state))
          (ErrorNew ''unchanged turn has a journal'')]
       else
        [require (stChanges state \<noteq> []) (ErrorNew ''mutation revision has no changes''),
         require (stJournal state \<noteq> JournalNone) (ErrorNew ''changed turn has no journal'')]) @
      [index_error (\<lambda>index change.
         require (\<not> blank (ocPath change) \<and> \<not> blank (ocKind change))
           (ErrorF ''invalid observed change at index %d'' [ArgN index])) (stChanges state)])"

definition completion_error :: "State \<Rightarrow> go_error option" where
  "completion_error state =
     (case stCompletion state of None \<Rightarrow> None
      | Some d \<Rightarrow> first_error
          ([require (cdOutputMode d \<in> {[], ''exact'', ''preserve_provisional''})
              (ErrorNew ''completion output mode is invalid''),
            require (\<forall>action \<in> set (cdPendingActions d). \<not> blank action)
              (ErrorNew ''completion pending action is empty'')] @
           (if cdAccepted d then
             [require (cdMutation d = stMutationRevision state)
                (ErrorNew ''accepted completion is not bound to current mutation''),
              require (\<not> blank (cdCompletionCall d))
                (ErrorNew ''accepted completion has no call id''),
              require (samePaths (cdChangedPaths d) (changedPaths (stChanges state)))
                (ErrorNew ''accepted completion paths do not match changes'')]
            else
             [require (\<not> blank (cdReason d))
                (ErrorNew ''rejected completion has no reason'')])))"

definition verification_error :: "State \<Rightarrow> go_error option" where
  "verification_error state =
     (let v = stVerification state in
      if vsStatus v = VerificationNotEvaluated
      then require (vsMutation v = 0 \<and> vsAction v = VerificationActionUnset)
             (ErrorNew ''unevaluated verification has a mutation revision'')
      else if vsStatus v \<in> {VerificationPassed, VerificationFailed, VerificationUnavailable}
      then first_error
        [require (stMutationRevision state \<noteq> 0 \<and> vsMutation v = stMutationRevision state)
           (ErrorNew ''verification is not bound to current mutation''),
         require (vsAction v \<in> {VerificationActionPassed, VerificationActionRepair,
                    VerificationActionReported, VerificationActionBlocked,
                    VerificationActionFailed, VerificationActionReverted})
           (ErrorNew ''verification action is invalid'')]
      else Some (ErrorNew ''verification status is invalid''))"

definition committing_error :: "State \<Rightarrow> go_error option" where
  "committing_error state = first_error
     ([require (\<not> (stPhase state = PhaseVerifying \<and> stMutationRevision state = 0))
         (ErrorNew ''verifying phase has no mutation'')] @
      (if stPhase state = PhaseCommitting then
        [require (stPendingTerminal state \<noteq> None \<and> stTerminal state = None)
           (ErrorNew ''committing phase has invalid terminal state''),
         require (usFrozen (stUsage state) \<and> cxFrozen (stContext state))
           (ErrorNew ''committing phase has no frozen snapshot'')]
       else
        [require (stPendingTerminal state = None)
           (ErrorNew ''pending terminal exists outside committing'')]) @
      [require (\<not> (finalized_journal (stJournal state) \<and> stPhase state \<noteq> PhaseCommitting \<and>
                   \<not> Phase_Terminal (stPhase state)))
         (ErrorNew ''finalized journal exists outside terminal transaction'')])"

definition completed_state_error :: "State \<Rightarrow> go_error option" where
  "completed_state_error state =
     (let hasChanges = stMutationRevision state \<noteq> 0 in first_error
      ([require (stOutputEligibility state \<and> stFinalOutput state \<noteq> [])
          (ErrorNew ''completed turn has no eligible final output''),
        require (\<not> (stIntent state = TurnIntentWorkspaceChange \<and> \<not> hasChanges))
          (ErrorNew ''completed workspace_change has no mutation'')] @
       (if \<not> hasChanges then
         [require (\<not> (RequiresCompletion state \<and>
                      (case stCompletion state of None \<Rightarrow> True | Some d \<Rightarrow> \<not> cdAccepted d)))
            (ErrorNew ''completed integration turn has no accepted completion''),
          require (stJournal state = (if plJournalRequired (stPolicy state)
                                      then JournalCommitted else JournalNone))
            (ErrorNew ''completed unchanged turn has invalid journal state'')]
        else
         [require (\<not> (RequiresCompletion state \<and>
                      (case stCompletion state of None \<Rightarrow> True
                       | Some d \<Rightarrow> \<not> cdAccepted d \<or> cdMutation d \<noteq> stMutationRevision state)))
            (ErrorNew ''completed mutation has no current completion''),
          require (\<not> (plVerificationRequired (stPolicy state) \<and> \<not> verification_current state))
            (ErrorNew ''completed mutation has no current verification''),
          require (stJournal state =
                     (if vsAction (stVerification state) = VerificationActionReverted
                      then JournalRolledBack else JournalCommitted))
            (ErrorNew ''completed mutation has no committed journal'')])))"

definition unsuccessful_state_error :: "State \<Rightarrow> TerminalDecision \<Rightarrow> go_error option" where
  "unsuccessful_state_error state decision = first_error
     [require (stFinalOutput state = [])
        (ErrorNew ''failed or canceled turn has final output''),
      require (\<not> blank (tdMessage decision))
        (ErrorNew ''non-success terminal message is empty''),
      require (stJournal state =
                 (if stMutationRevision state \<noteq> 0 \<or> plJournalRequired (stPolicy state)
                  then snd (terminalJournalOutcome state decision) else JournalNone))
        (ErrorNew ''failed or canceled turn has invalid journal state'')]"

definition validateTerminalState :: "State \<Rightarrow> TerminalDecision \<Rightarrow> go_error option" where
  "validateTerminalState state decision =
     (case tdKind decision of
        TerminalCompleted \<Rightarrow> completed_state_error state
      | TerminalFailed \<Rightarrow> unsuccessful_state_error state decision
      | TerminalCanceled \<Rightarrow> unsuccessful_state_error state decision
      | TerminalOther _ \<Rightarrow> None)"

definition terminal_error :: "State \<Rightarrow> go_error option" where
  "terminal_error state =
     (if Phase_Terminal (stPhase state) then
        (case stTerminal state of
           None \<Rightarrow> Some (ErrorNew ''terminal phase has no decision'')
         | Some decision \<Rightarrow> first_error
             [require (stOpenCalls state = fmempty \<and> stPendingApprovals state = fmempty \<and>
                       stPendingInput state = None \<and> stActiveSampleID state = [] \<and>
                       stPendingEffects state = fmempty)
                (ErrorNew ''terminal state has unfinished work''),
              require (stProvisionalOutput state = [])
                (ErrorNew ''terminal state retains provisional output''),
              require (usFrozen (stUsage state) \<and> cxFrozen (stContext state))
                (ErrorNew ''terminal state has no frozen snapshot''),
              require (phaseForTerminal (tdKind decision) = stPhase state)
                (ErrorNew ''terminal phase and decision disagree''),
              validateTerminalState state decision])
      else require (stTerminal state = None)
             (ErrorNew ''terminal decision exists in non-terminal phase''))"

definition Validate :: "'z codec_scheme \<Rightarrow> State \<Rightarrow> go_error option" where
  "Validate c state = first_error
     [require (validPhase (stPhase state))
        (ErrorF ''invalid phase %q'' [ArgS (phase_name (stPhase state))]),
      require (stIntent state \<noteq> TurnIntentUnset) (ErrorNew ''turn intent is empty''),
      require (\<not> stLedgersNil state) (ErrorNew ''turn ledgers are nil''),
      commentary_error (stSampleLedger state) {} (stCommentary state),
      range_error (sample_error (stPendingEffects state)) (stSampleLedger state),
      active_sample_error state,
      effects_error c state,
      envelope_error state,
      range_error repair_budget_error (stRepairBudgets state),
      progress_error (stProgress state),
      convergence_error (stConvergence state),
      next_action_error (stNextAction state),
      calls_error state,
      interaction_error state,
      mutation_error state,
      completion_error state,
      verification_error state,
      committing_error state,
      terminal_error state]"

section \<open>The deep copy\<close>

definition clone_sample :: "'z kernel_codec_scheme \<Rightarrow> ModelSampleState \<Rightarrow> ModelSampleState" where
  "clone_sample c sample =
     sample\<lparr>smAssembly := Option.bind (smAssembly sample) (clone_assembly c)\<rparr>"

text \<open>
  The maps, slices and pointers of the copy are fresh and hold the same values, except the
  response assemblies, which go through JSON; a nil ledger becomes an empty one.
\<close>

definition cloneState :: "'z kernel_codec_scheme \<Rightarrow> State \<Rightarrow> State" where
  "cloneState c state =
     state\<lparr>stLedgersNil := False, stSampleLedger := fmmap (clone_sample c) (stSampleLedger state)\<rparr>"

definition Digest :: "'z codec_scheme \<Rightarrow> (State \<Rightarrow> go_error + string) \<Rightarrow> State \<Rightarrow>
     go_error + string" where
  "Digest c marshal_state state =
     guard_error (Validate c state) (bind_result (marshal_state state)
       (\<lambda>data. Inr (''sha256:'' @ sha256_hex c data)))"

end
