(* ===== verification/WorkItems.thy ===== *)
theory WorkItems
  imports KernelEffects
begin

text \<open>
  The work item of a turn (\<open>work_item.go\<close>): the paths it has read and edited, what is still
  open, and the next required action derived from them; the read-window coverage test; and
  the identities and signatures that the progress lease compares.

  Binding a work item ranges over maps whose keys are trimmed, so two keys that differ only in
  surrounding white space fall together and Go's iteration order decides which entry wins; the
  model takes the smaller key.
\<close>

section \<open>Sorted path sets\<close>

definition mergeUniqueSorted :: "string list \<Rightarrow> string list \<Rightarrow> string list" where
  "mergeUniqueSorted existing extras =
     sort (remdups (filter (\<lambda>v. v \<noteq> []) (map TrimSpace (existing @ extras))))"

definition subtractSorted :: "string list \<Rightarrow> string list \<Rightarrow> string list" where
  "subtractSorted values drops =
     (if values = [] \<or> drops = [] then values
      else let remove = set (filter (\<lambda>v. v \<noteq> []) (map TrimSpace drops))
           in filter (\<lambda>v. v \<notin> remove) values)"

definition removeSorted :: "string list \<Rightarrow> string \<Rightarrow> string list" where
  "removeSorted values d = subtractSorted values [d]"

section \<open>Numbers in strings\<close>

definition Itoa :: "int \<Rightarrow> string" where
  "Itoa i = (if i < 0 then CHR ''-'' # decimal (nat (- i)) else decimal (nat i))"

definition is_digit :: "char \<Rightarrow> bool" where
  "is_digit ch \<longleftrightarrow> 48 \<le> (of_char ch :: nat) \<and> (of_char ch :: nat) \<le> 57"

definition digits_value :: "string \<Rightarrow> nat option" where
  "digits_value s =
     (if s \<noteq> [] \<and> list_all is_digit s
      then Some (foldl (\<lambda>n ch. 10 * n + (of_char ch - 48)) 0 s) else None)"

text \<open>\<open>strconv.Atoi\<close>: an optional sign and decimal digits, within 64 bits.\<close>

definition Atoi :: "string \<Rightarrow> int option" where
  "Atoi s =
     (let (neg, body) =
        (case s of [] \<Rightarrow> (False, [])
         | ch # rest \<Rightarrow> if ch = CHR ''-'' then (True, rest)
                       else if ch = CHR ''+'' then (False, rest) else (False, s))
      in case digits_value body of
           None \<Rightarrow> None
         | Some n \<Rightarrow>
             let v = (if neg then - int n else int n) in
             if - (2 ^ 63) \<le> v \<and> v < 2 ^ 63 then Some v else None)"

section \<open>Read windows\<close>

definition ReadWindowIsFull :: "WorkItemRead \<Rightarrow> bool" where
  "ReadWindowIsFull r \<longleftrightarrow>
     (if TrimSpace (wrWindow r) = ''full'' then True
      else wrStartLine r = 0 \<and> blank (wrWindow r))"

definition ReadWindowCovers :: "WorkItemRead \<Rightarrow> int \<Rightarrow> bool" where
  "ReadWindowCovers r startLine \<longleftrightarrow>
     (if ReadWindowIsFull r then True
      else
        let start = (if wrStartLine r = 0
                     then (case Atoi (TrimSpace (wrWindow r)) of
                             None \<Rightarrow> None
                           | Some parsed \<Rightarrow> if parsed \<le> 0 then None else Some parsed)
                     else Some (wrStartLine r))
        in case start of
             None \<Rightarrow> False
           | Some st \<Rightarrow>
               if startLine \<le> 0 \<or> startLine < st then False
               else wrEndLine r = 0 \<or> startLine < wrEndLine r)"

definition ParseFileReadWindow :: "'z kernel_codec_scheme \<Rightarrow> string \<Rightarrow> string \<times> int \<times> bool" where
  "ParseFileReadWindow c raw =
     (case json_read_window c raw of
        None \<Rightarrow> ([], 0, False)
      | Some (path, start) \<Rightarrow> (TrimSpace path, start, TrimSpace path \<noteq> []))"

section \<open>The required action\<close>

definition HasKnown :: "WorkItem \<Rightarrow> bool" where
  "HasKnown w \<longleftrightarrow> wiKnownReads w \<noteq> fmempty \<or> wiKnownEdits w \<noteq> fmempty"

definition HasKnownOrOpen :: "WorkItem \<Rightarrow> bool" where
  "HasKnownOrOpen w \<longleftrightarrow> HasKnown w \<or> woUnverifiedPaths (wiOpen w) \<noteq> [] \<or>
     woSessions (wiOpen w) \<noteq> [] \<or> woCoveredPaths (wiOpen w) \<noteq> []"

definition RequiredActionOr :: "WorkItem \<Rightarrow> string \<Rightarrow> string" where
  "RequiredActionOr w fallback =
     (if TrimSpace (wiRequiredAction w) \<noteq> [] then TrimSpace (wiRequiredAction w) else fallback)"

definition KnownRead :: "WorkItem \<Rightarrow> string \<Rightarrow> WorkItemRead option" where
  "KnownRead w path =
     (if blank path then None else fmlookup (wiKnownReads w) (TrimSpace path))"

definition withWorkItem :: "State \<Rightarrow> WorkItem \<Rightarrow> State" where
  "withWorkItem state item = state\<lparr>stWorkItem := item\<rparr>"

definition DeriveRequiredAction :: "State \<Rightarrow> string" where
  "DeriveRequiredAction state =
     (let item = stWorkItem state in
      if woSessions (wiOpen item) \<noteq> [] then ''write_stdin''
      else if wiKnownEdits item \<noteq> fmempty \<and>
              vsStatus (stVerification state) \<noteq> VerificationPassed \<and>
              vsAction (stVerification state) \<noteq> VerificationActionReported \<and>
              vsAction (stVerification state) \<noteq> VerificationActionReverted
      then ''exec_command''
      else if wiKnownReads item \<noteq> fmempty \<and> wiKnownEdits item = fmempty then ''file_edit''
      else if (case stCompletion state of None \<Rightarrow> False | Some d \<Rightarrow> cdAccepted d)
      then ''turn_complete''
      else if wiKnownReads item \<noteq> fmempty then ''turn_history''
      else [])"

definition GoalDigest :: "'z codec_scheme \<Rightarrow> string \<Rightarrow> string" where
  "GoalDigest c goal =
     (if blank goal then [] else ''sha256:'' @ sha256_hex c (TrimSpace goal))"

section \<open>Binding and observing\<close>

text \<open>Add an entry under its trimmed key unless the key is empty or taken.\<close>

definition bind_entry :: "'v dict \<Rightarrow> string \<Rightarrow> 'v dict \<Rightarrow> 'v dict" where
  "bind_entry source key m =
     (case fmlookup source key of
        None \<Rightarrow> m
      | Some v \<Rightarrow>
          let path = TrimSpace key in
          if path = [] \<or> path |\<in>| fmdom m then m else fmupd path v m)"

definition bind_entries :: "'v dict \<Rightarrow> 'v dict \<Rightarrow> 'v dict" where
  "bind_entries source m = fold (bind_entry source) (sorted_keys source) m"

definition bound_work_item ::
  "'z kernel_codec_scheme \<Rightarrow> State \<Rightarrow> State \<Rightarrow> WorkItemBinding \<Rightarrow> WorkItem" where
  "bound_work_item c next_state current command =
     (let item0 = stWorkItem current;
          item1 = (if \<not> blank (bwGoalDigest command)
                   then item0\<lparr>wiGoalDigest := TrimSpace (bwGoalDigest command)\<rparr>
                   else if \<not> blank (bwGoal command)
                   then item0\<lparr>wiGoalDigest := GoalDigest c (TrimSpace (bwGoal command))\<rparr>
                   else item0);
          item2 = item1\<lparr>wiKnownReads := bind_entries (bwKnownReads command) (wiKnownReads item1),
                        wiKnownEdits := bind_entries (bwKnownEdits command) (wiKnownEdits item1),
                        wiOpen := \<lparr>
                          woUnverifiedPaths = mergeUniqueSorted
                            (woUnverifiedPaths (wiOpen item1))
                            (woUnverifiedPaths (bwOpen command)),
                          woSessions = mergeUniqueSorted
                            (woSessions (wiOpen item1)) (woSessions (bwOpen command)),
                          woCoveredPaths = mergeUniqueSorted
                            (woCoveredPaths (wiOpen item1)) (woCoveredPaths (bwOpen command))\<rparr>\<rparr>
      in item2\<lparr>wiRequiredAction := DeriveRequiredAction (withWorkItem next_state item2)\<rparr>)"

definition applyBindWorkItem ::
  "'z kernel_codec_scheme \<Rightarrow> Transition \<Rightarrow> State \<Rightarrow> WorkItemBinding \<Rightarrow>
     kernel_error + Transition" where
  "applyBindWorkItem c tr current command =
     (let cmd = BindWorkItem command in
      guard_error (requirePhase current cmd [PhaseCreated, PhasePreparing, PhaseSampling])
     (ensure current cmd (stActiveSampleID current = []) ''model sample is active''
     (Inr (modify (\<lambda>s. s\<lparr>stWorkItem := bound_work_item c (tState tr) current command\<rparr>) tr))))"

definition zero_WorkItemRead :: WorkItemRead where
  "zero_WorkItemRead = \<lparr>wrWindow = [], wrContentDigest = [], wrTurn = 0, wrStartLine = 0,
     wrEndLine = 0, wrResultHandle = [], wrCallID = []\<rparr>"

text \<open>Fill in the read window of a \<open>file_read\<close> call from its arguments.\<close>

definition complete_observation ::
  "'z kernel_codec_scheme \<Rightarrow> ToolCallState \<Rightarrow> WorkItemObservation \<Rightarrow> WorkItemObservation" where
  "complete_observation c call observation =
     (if obReadPath observation = [] \<and> tcName call = ''file_read'' then
        (case ParseFileReadWindow c (tcArguments call) of
           (path, start, True) \<Rightarrow>
             observation\<lparr>obReadPath := path,
               obReadWindow := (if obReadWindow observation = [] \<and> start > 0 then Itoa start
                                else obReadWindow observation)\<rparr>
         | (_, _, False) \<Rightarrow> observation)
      else observation)"

definition observe_read :: "WorkItemObservation \<Rightarrow> WorkItem \<Rightarrow> WorkItem" where
  "observe_read observation item =
     (if blank (obReadPath observation) then item
      else
        let path = TrimSpace (obReadPath observation);
            found = fmlookup (wiKnownReads item) path;
            r0 = (case found of None \<Rightarrow> zero_WorkItemRead | Some r \<Rightarrow> r);
            r1 = (if obReadWindow observation \<noteq> []
                  then r0\<lparr>wrWindow := obReadWindow observation\<rparr>
                  else if found = None then r0\<lparr>wrWindow := ''full''\<rparr> else r0);
            r2 = (if obContentDigest observation \<noteq> []
                  then r1\<lparr>wrContentDigest := obContentDigest observation\<rparr> else r1);
            r3 = r2\<lparr>wrStartLine := obReadStart observation, wrEndLine := obReadEnd observation\<rparr>;
            r4 = (if \<not> blank (obResultHandle observation)
                  then r3\<lparr>wrResultHandle := TrimSpace (obResultHandle observation)\<rparr> else r3);
            r5 = (if \<not> blank (obCallID observation)
                  then r4\<lparr>wrCallID := TrimSpace (obCallID observation)\<rparr> else r4)
        in item\<lparr>wiKnownReads := fmupd path r5 (wiKnownReads item)\<rparr>)"

definition observe_change :: "u64 \<Rightarrow> ObservedChange \<Rightarrow> WorkItem \<Rightarrow> WorkItem" where
  "observe_change revision change item =
     (if blank (ocPath change) then item
      else
        let path = TrimSpace (ocPath change) in
        item\<lparr>wiKnownEdits := fmupd path \<lparr>weMutationRevision = revision\<rparr> (wiKnownEdits item),
             wiOpen := (wiOpen item)\<lparr>woUnverifiedPaths :=
               mergeUniqueSorted (woUnverifiedPaths (wiOpen item)) [path]\<rparr>\<rparr>)"

definition observe_session :: "WorkItemObservation \<Rightarrow> WorkItem \<Rightarrow> WorkItem" where
  "observe_session observation item0 =
     (let item1 = (if \<not> blank (obOpenSession observation)
                   then item0\<lparr>wiOpen := (wiOpen item0)\<lparr>woSessions :=
                     mergeUniqueSorted (woSessions (wiOpen item0))
                       [TrimSpace (obOpenSession observation)]\<rparr>\<rparr>
                   else item0)
      in if \<not> blank (obCloseSession observation)
         then item1\<lparr>wiOpen := (wiOpen item1)\<lparr>woSessions :=
                removeSorted (woSessions (wiOpen item1))
                  (TrimSpace (obCloseSession observation))\<rparr>\<rparr>
         else item1)"

definition observe_coverage :: "WorkItemObservation \<Rightarrow> WorkItem \<Rightarrow> WorkItem" where
  "observe_coverage observation item =
     (if obCoveredPaths observation = [] then item
      else item\<lparr>wiOpen := (wiOpen item)\<lparr>
             woCoveredPaths := mergeUniqueSorted (woCoveredPaths (wiOpen item))
               (obCoveredPaths observation),
             woUnverifiedPaths := subtractSorted (woUnverifiedPaths (wiOpen item))
               (obCoveredPaths observation)\<rparr>\<rparr>)"

definition applyWorkItemObservation ::
  "'z kernel_codec_scheme \<Rightarrow> State \<Rightarrow> ToolCallState \<Rightarrow> ObservedChange list \<Rightarrow>
     WorkItemObservation \<Rightarrow> bool \<Rightarrow> State" where
  "applyWorkItemObservation c state call changes observation isError =
     (if isError
      then state\<lparr>stWorkItem := (stWorkItem state)\<lparr>wiRequiredAction := DeriveRequiredAction state\<rparr>\<rparr>
      else
        let obs = complete_observation c call observation;
            item1 = observe_read obs (stWorkItem state);
            item2 = fold (observe_change (stMutationRevision state)) changes item1;
            item3 = observe_session obs item2;
            item4 = observe_coverage obs item3
        in state\<lparr>stWorkItem := item4\<lparr>wiRequiredAction :=
             DeriveRequiredAction (withWorkItem state item4)\<rparr>\<rparr>)"

section \<open>Identities and signatures\<close>

definition EmptySampleIdentity :: string where
  "EmptySampleIdentity = ''none''"

definition canonicalizeToolArguments :: "'z kernel_codec_scheme \<Rightarrow> string \<Rightarrow> string" where
  "canonicalizeToolArguments c raw =
     (let trimmed = TrimSpace raw in
      if trimmed = [] then []
      else case canonical_json c trimmed of None \<Rightarrow> trimmed | Some encoded \<Rightarrow> encoded)"

fun join :: "string \<Rightarrow> string list \<Rightarrow> string" where
  "join sep [] = []"
| "join sep [x] = x"
| "join sep (x # y # rest) = x @ sep @ join sep (y # rest)"

definition identity_parts :: "'z kernel_codec_scheme \<Rightarrow> ToolCallState list \<Rightarrow> string list" where
  "identity_parts c calls =
     map (\<lambda>call. TrimSpace (tcName call) @ [CHR 0x0A] @
            canonicalizeToolArguments c (tcArguments call))
       (filter (\<lambda>call. \<not> blank (tcName call)) calls)"

definition FormatToolCallsIdentity :: "'z kernel_codec_scheme \<Rightarrow> ToolCallState list \<Rightarrow> string" where
  "FormatToolCallsIdentity c calls =
     (if calls = [] then EmptySampleIdentity
      else let parts = identity_parts c calls in
           if parts = [] then EmptySampleIdentity
           else ''sha256:'' @ sha256_hex c (join [CHR 0x1E] (sort parts)))"

definition joinSortedKeys :: "'v dict \<Rightarrow> string" where
  "joinSortedKeys values = join '','' (filter (\<lambda>k. \<not> blank k) (sorted_keys values))"

fun verification_status_name :: "VerificationStatus \<Rightarrow> string" where
  "verification_status_name VerificationNotEvaluated = ''not_evaluated''"
| "verification_status_name VerificationPassed = ''passed''"
| "verification_status_name VerificationFailed = ''failed''"
| "verification_status_name VerificationUnavailable = ''unavailable''"
| "verification_status_name (VerificationStatusOther s) = s"

fun verification_action_name :: "VerificationAction \<Rightarrow> string" where
  "verification_action_name VerificationActionUnset = []"
| "verification_action_name VerificationActionPassed = ''passed''"
| "verification_action_name VerificationActionRepair = ''repair''"
| "verification_action_name VerificationActionReported = ''reported''"
| "verification_action_name VerificationActionBlocked = ''blocked''"
| "verification_action_name VerificationActionFailed = ''failed''"
| "verification_action_name VerificationActionReverted = ''reverted''"
| "verification_action_name (VerificationActionOther s) = s"

definition format_t :: "bool \<Rightarrow> string" where
  "format_t b = (if b then ''true'' else ''false'')"

definition FormatWorkItemSignature :: "State \<Rightarrow> int \<Rightarrow> bool \<Rightarrow> string" where
  "FormatWorkItemSignature state completedPlanSteps openImplement =
     (let item = stWorkItem state;
          completionAccepted = (case stCompletion state of None \<Rightarrow> False | Some d \<Rightarrow> cdAccepted d);
          reads = (if IsResearchIntent (stIntent state) \<and> \<not> openImplement
                   then joinSortedKeys (wiKnownReads item) else [])
      in ''goal='' @ wiGoalDigest item @ '';reads='' @ reads @
         '';edits='' @ joinSortedKeys (wiKnownEdits item) @
         '';verify='' @ verification_status_name (vsStatus (stVerification state)) @ ''/'' @
           verification_action_name (vsAction (stVerification state)) @
         '';coverage='' @ join '','' (woCoveredPaths (wiOpen item)) @
         '';plan_done='' @ Itoa completedPlanSteps @
         '';completion='' @ format_t completionAccepted @
         '';sessions='' @ join '','' (woSessions (wiOpen item)))"

end
