(* ===== verification/ReducerTools.thy ===== *)
theory ReducerTools
  imports KernelValidate WorkItems
begin

text \<open>
  The handlers for effects, tools, approvals, inputs, cancellation and recovery
  (\<open>reducer_effect.go\<close>, \<open>reducer_tool.go\<close>, \<open>reducer_interaction.go\<close>).

  A handler takes the transition it extends, the state it checks against and its command, and
  returns the error or the extended transition. At the top level the state is the current one
  and the transition starts from its copy; a handler called from another one gets the
  transition's own state.
\<close>

section \<open>Errors of a helper inside a handler\<close>

text \<open>\<open>return illegal(current, command, err.Error())\<close>.\<close>

definition report :: "State \<Rightarrow> Command \<Rightarrow> go_error + 'a \<Rightarrow> kernel_error + 'a" where
  "report current command r =
     (case r of Inl err \<Rightarrow> Inl (illegal current (Some command) (ReasonError err))
      | Inr x \<Rightarrow> Inr x)"

definition refuse :: "State \<Rightarrow> Command \<Rightarrow> go_error option \<Rightarrow> kernel_error option" where
  "refuse current command =
     map_option (\<lambda>err. illegal current (Some command) (ReasonError err))"

lemma report_eq_Inr [simp]: "report s cmd r = Inr t \<longleftrightarrow> r = Inr t"
  by (cases r) (simp_all add: report_def)

lemma report_simps [simp]:
  "report s cmd (Inr t) = Inr t"
  "report s cmd (Inl e) = Inl (illegal s (Some cmd) (ReasonError e))"
  by (simp_all add: report_def)

lemma refuse_eq_None [simp]: "refuse s cmd err = None \<longleftrightarrow> err = None"
  by (simp add: refuse_def)

section \<open>Effects\<close>

definition applyEffectStarted ::
  "Transition \<Rightarrow> State \<Rightarrow> string \<Rightarrow> u32 \<Rightarrow> kernel_error + Transition" where
  "applyEffectStarted tr current effectID attempt =
     (let cmd = EffectStarted effectID attempt in
      case fmlookup (stPendingEffects current) effectID of
        None \<Rightarrow> ensure current cmd False ''effect is not pending'' (Inr tr)
      | Some effect \<Rightarrow>
     ensure current cmd (efStatus effect = EffectRequested \<and> attempt \<noteq> 0) ''effect cannot start''
     (let started = effect\<lparr>efStatus := EffectRunning, efAttempt := attempt, efError := []\<rparr>;
          tr1 = modify (\<lambda>s. s\<lparr>stPendingEffects := fmupd effectID started (stPendingEffects s)\<rparr>) tr
      in bind_result
           (if efKind effect \<noteq> EffectSampleProvider then Inr tr1
            else
              let sample = lookup_zero zero_ModelSampleState (stSampleLedger current)
                             (efCallID effect)
              in ensure current cmd
                   (fmlookup (stSampleLedger current) (efCallID effect) \<noteq> None \<and>
                    smStatus sample = SampleRequested)
                   ''sample effect is not requested''
                   (Inr (modify (\<lambda>s. s\<lparr>
                      stSampleLedger := fmupd (efCallID effect)
                        (sample\<lparr>smStatus := SampleRunning, smAttempt := attempt,
                                smRetry := None, smError := []\<rparr>) (stSampleLedger s),
                      stActiveSampleID := efCallID effect\<rparr>) tr1)))
           (\<lambda>t. Inr (emit ((plain_event EventEffectStarted)\<lparr>evEffectID := effectID\<rparr>) t))))"

definition applyEffectRequeued ::
  "Transition \<Rightarrow> State \<Rightarrow> string \<Rightarrow> kernel_error + Transition" where
  "applyEffectRequeued tr current effectID =
     (let cmd = EffectRequeued effectID in
      case fmlookup (stPendingEffects current) effectID of
        None \<Rightarrow> ensure current cmd False ''effect is not pending'' (Inr tr)
      | Some effect \<Rightarrow>
     ensure current cmd (efStatus effect = EffectRunning) ''only a running effect can be requeued''
     (let requeued = effect\<lparr>efStatus := EffectRequested\<rparr>;
          tr1 = modify (\<lambda>s. s\<lparr>stPendingEffects := fmupd effectID requeued (stPendingEffects s)\<rparr>) tr
      in bind_result
           (if efKind effect \<noteq> EffectSampleProvider then Inr tr1
            else
              let sample = lookup_zero zero_ModelSampleState (stSampleLedger current)
                             (efCallID effect)
              in ensure current cmd
                   (fmlookup (stSampleLedger current) (efCallID effect) \<noteq> None \<and>
                    smStatus sample = SampleRunning)
                   ''running sample effect has no sample''
                   (Inr (modify (\<lambda>s. s\<lparr>
                      stSampleLedger := fmupd (efCallID effect)
                        (sample\<lparr>smStatus := SampleRequested\<rparr>) (stSampleLedger s),
                      stActiveSampleID := []\<rparr>) tr1)))
           (\<lambda>t. Inr (emit ((plain_event EventEffectRequeued)\<lparr>evEffectID := effectID\<rparr>) t))))"

definition applyEffectResult ::
  "Transition \<Rightarrow> State \<Rightarrow> string \<Rightarrow> bool \<Rightarrow> string \<Rightarrow> kernel_error + Transition" where
  "applyEffectResult tr current effectID success message =
     report current (EffectResultReceived effectID success message)
       (finishEffect tr effectID success message)"

definition applyPersistenceResult ::
  "Transition \<Rightarrow> State \<Rightarrow> string \<Rightarrow> bool \<Rightarrow> string \<Rightarrow> kernel_error + Transition" where
  "applyPersistenceResult tr current effectID success message =
     report current (PersistenceResultReceived effectID success message)
       (finishEffect tr effectID success message)"

section \<open>Tool calls\<close>

text \<open>The loop over the proposed batch; \<open>seen\<close> holds the identities met so far.\<close>

fun open_calls ::
  "'z kernel_codec_scheme \<Rightarrow> State \<Rightarrow> Command \<Rightarrow> string set \<Rightarrow> ToolCallState list \<Rightarrow>
     Transition \<Rightarrow> kernel_error + Transition" where
  "open_calls c current cmd seen [] tr = Inr tr"
| "open_calls c current cmd seen (call # rest) tr =
     ensure current cmd (\<not> blank (tcID call) \<and> \<not> blank (tcName call))
       ''tool call identity is incomplete''
     (ensure current cmd (tcID call \<notin> seen) ''tool call id is duplicated''
     (ensure current cmd (fmlookup (stOpenCalls current) (tcID call) = None)
       ''tool call id is already open''
     (ensure current cmd (fmlookup (stClosedCalls current) (tcID call) = None)
       ''tool call id was already closed''
     (open_calls c current cmd (insert (tcID call) seen) rest
        (requestEffect c EffectExecuteTool (ToolPayload call) (''tool:'' @ tcID call) (tcID call)
          (emit ((plain_event EventToolStarted)\<lparr>evCallID := tcID call\<rparr>)
            (modify (\<lambda>s. s\<lparr>stOpenCalls := fmupd (tcID call) call (stOpenCalls s)\<rparr>) tr)))))))"

definition applyToolCalls ::
  "'z kernel_codec_scheme \<Rightarrow> Transition \<Rightarrow> State \<Rightarrow> ToolCallState list \<Rightarrow>
     kernel_error + Transition" where
  "applyToolCalls c tr current calls =
     (let cmd = ToolCallsProposed calls in
      guard_error (requirePhase current cmd [PhaseSampling, PhaseExecutingTools])
     (ensure current cmd (calls \<noteq> []) ''tool batch is empty''
     (ensure current cmd (\<not> cnAccepted (stCancellation current)) ''cancellation was accepted''
     (bind_result
        (open_calls c current cmd {} calls
           (modify (\<lambda>s. s\<lparr>stCompletion := None, stOutputEligibility := False\<rparr>) tr))
        (\<lambda>opened. Inr (modify (\<lambda>s. s\<lparr>stProgress := (stProgress s)\<lparr>pgPendingIdentity :=
                           FormatToolCallsIdentity c calls\<rparr>\<rparr>)
                      (if stPhase current = PhaseSampling then move PhaseExecutingTools opened
                       else opened)))))))"

definition zero_ApprovalState :: ApprovalState where
  "zero_ApprovalState = \<lparr>apRequestID = [], apCallID = []\<rparr>"

definition call_awaits_approval :: "State \<Rightarrow> string \<Rightarrow> bool" where
  "call_awaits_approval state callID \<longleftrightarrow>
     \<not> fmpred (\<lambda>_ approval. apCallID approval \<noteq> callID) (stPendingApprovals state)"

text \<open>Withdraw the approvals of a call whose turn was cancelled.\<close>

definition withdraw_approvals :: "State \<Rightarrow> string \<Rightarrow> Transition \<Rightarrow> Transition" where
  "withdraw_approvals current callID tr =
     fold (\<lambda>requestID t.
        if apCallID (lookup_zero zero_ApprovalState (stPendingApprovals current) requestID) \<noteq> callID
        then t
        else closeEffectByIdentity EffectAwaitApproval requestID False
               (cnReason (stCancellation current))
               (modify (\<lambda>s. s\<lparr>stPendingApprovals :=
                  fmdrop requestID (stPendingApprovals s)\<rparr>) t))
       (sorted_keys (stPendingApprovals current)) tr"

definition note_tool_failure :: "State \<Rightarrow> bool \<Rightarrow> State \<Rightarrow> State" where
  "note_tool_failure current isError s =
     (if isError then s\<lparr>stUnresolvedToolFailure := True, stRecoveryToolSucceeded := False\<rparr>
      else if stUnresolvedToolFailure current then s\<lparr>stRecoveryToolSucceeded := True\<rparr>
      else s)"

definition observe_changes :: "ObservedChange list \<Rightarrow> Transition \<Rightarrow> Transition" where
  "observe_changes changes tr =
     (if changes = [] then tr
      else let revision = stMutationRevision (tState tr) + 1 in
        emit ((plain_event EventMutationObserved)\<lparr>evMutation := revision\<rparr>)
          (modify (\<lambda>s. s\<lparr>stMutationRevision := revision, stChanges := stChanges s @ changes,
             stCompletion := None, stVerification := unevaluated, stJournal := JournalOpen\<rparr>) tr))"

definition phase_after_tools :: "State \<Rightarrow> Phase" where
  "phase_after_tools state =
     (if stPendingApprovals state \<noteq> fmempty then PhaseAwaitingApproval
      else if stOpenCalls state \<noteq> fmempty then PhaseExecutingTools
      else PhaseSampling)"

text \<open>Everything that follows once the tool's effect is finished.\<close>

definition close_tool_call ::
  "'z kernel_codec_scheme \<Rightarrow> State \<Rightarrow> ToolResultCommand \<Rightarrow> ToolCallState \<Rightarrow> bool \<Rightarrow>
     Transition \<Rightarrow> Transition" where
  "close_tool_call c current command call cancelingApproval tr1 =
     (let callID = txCallID command;
          tr2 = modify (\<lambda>s. s\<lparr>stOpenCalls := fmdrop callID (stOpenCalls s),
                  stClosedCalls := fmupd callID
                    \<lparr>trID = callID, trName = tcName call, trIsError = txIsError command\<rparr>
                    (stClosedCalls s)\<rparr>) tr1;
          tr3 = (if cancelingApproval then withdraw_approvals current callID tr2 else tr2);
          tr4 = modify (note_tool_failure current (txIsError command)) tr3;
          tr5 = emit ((plain_event EventToolClosed)\<lparr>evCallID := callID\<rparr>) tr4;
          tr6 = observe_changes (txChanges command) tr5;
          tr7 = modify (\<lambda>s. applyWorkItemObservation c s call (txChanges command)
                   (txObservation command) (txIsError command)) tr6
      in move (phase_after_tools (tState tr7)) tr7)"

definition applyToolResult ::
  "'z kernel_codec_scheme \<Rightarrow> Transition \<Rightarrow> State \<Rightarrow> ToolResultCommand \<Rightarrow>
     kernel_error + Transition" where
  "applyToolResult c tr current command =
     (let cmd = ToolResultReceived command;
          callID = txCallID command;
          callAwaitingApproval = call_awaits_approval current callID;
          cancelingApproval = (callAwaitingApproval \<and> cnAccepted (stCancellation current)) in
      guard_error (requirePhase current cmd [PhaseExecutingTools, PhaseAwaitingApproval])
     (ensure current cmd (\<not> (callAwaitingApproval \<and> \<not> cancelingApproval))
       ''tool result cannot bypass a pending approval''
     (ensure current cmd (\<not> blank (txEffectID command)) ''tool effect id is empty''
     (case fmlookup (stOpenCalls current) callID of
        None \<Rightarrow> ensure current cmd False ''tool result does not match an open call'' (Inr tr)
      | Some call \<Rightarrow>
     ensure current cmd
       (case fmlookup (stPendingEffects current) (txEffectID command) of None \<Rightarrow> False
        | Some effect \<Rightarrow> efKind effect = EffectExecuteTool \<and> efCallID effect = callID \<and>
            efStatus effect = EffectRunning)
       ''tool result effect does not match call''
     (bind_result (report current cmd (finishEffect tr (txEffectID command) True []))
       (\<lambda>tr1. Inr (close_tool_call c current command call cancelingApproval tr1)))))))"

definition abort_call :: "State \<Rightarrow> string \<Rightarrow> string \<Rightarrow> Transition \<Rightarrow> Transition" where
  "abort_call current message callID tr =
     emit ((plain_event EventToolClosed)\<lparr>evCallID := callID\<rparr>)
       (closeEffectByCall EffectExecuteTool callID False message
         (modify (\<lambda>s. s\<lparr>stOpenCalls := fmdrop callID (stOpenCalls s),
             stClosedCalls := fmupd callID
               \<lparr>trID = callID,
                trName = (case fmlookup (stOpenCalls current) callID of None \<Rightarrow> []
                          | Some call \<Rightarrow> tcName call),
                trIsError = True\<rparr> (stClosedCalls s)\<rparr>) tr))"

definition applyAbortOpenCalls ::
  "Transition \<Rightarrow> State \<Rightarrow> string \<Rightarrow> kernel_error + Transition" where
  "applyAbortOpenCalls tr current message =
     (let cmd = AbortOpenCalls message in
      guard_error (requirePhase current cmd [PhaseExecutingTools, PhaseAwaitingApproval])
     (ensure current cmd (\<not> blank message) ''abort reason is empty''
     (ensure current cmd (stOpenCalls current \<noteq> fmempty) ''no tool calls are open''
     (let tr1 = fold (abort_call current message) (sorted_keys (stOpenCalls current)) tr;
          tr2 = modify (\<lambda>s. s\<lparr>stPendingApprovals := fmempty\<rparr>) tr1;
          tr3 = closeEffectsByKind EffectAwaitApproval False message tr2
      in Inr (move PhaseSampling tr3)))))"

section \<open>Cancellation, approvals and inputs\<close>

definition applyCancelRequested ::
  "Transition \<Rightarrow> State \<Rightarrow> string \<Rightarrow> kernel_error + Transition" where
  "applyCancelRequested tr current message =
     (let cmd = CancelRequested message in
      ensure current cmd (\<not> blank message) ''cancel reason is empty''
     (ensure current cmd (\<not> cnAccepted (stCancellation current)) ''cancellation was already accepted''
     (Inr (emit (plain_event EventCancelAccepted)
        (modify (\<lambda>s. s\<lparr>stCancellation :=
           \<lparr>cnRequested = True, cnAccepted = True, cnReason = message\<rparr>\<rparr>) tr)))))"

definition applyApprovalRequired ::
  "'z kernel_codec_scheme \<Rightarrow> Transition \<Rightarrow> State \<Rightarrow> string \<Rightarrow> string \<Rightarrow>
     kernel_error + Transition" where
  "applyApprovalRequired c tr current requestID callID =
     (let cmd = ApprovalRequired requestID callID in
      guard_error (requirePhase current cmd [PhaseExecutingTools, PhaseAwaitingApproval])
     (ensure current cmd (\<not> blank requestID) ''approval request id is empty''
     (ensure current cmd (fmlookup (stOpenCalls current) callID \<noteq> None)
       ''approval does not reference an open call''
     (ensure current cmd (fmlookup (stPendingApprovals current) requestID = None)
       ''approval request id is duplicated''
     (let tr1 = modify (\<lambda>s. s\<lparr>stPendingApprovals := fmupd requestID
                  \<lparr>apRequestID = requestID, apCallID = callID\<rparr> (stPendingApprovals s)\<rparr>) tr;
          tr2 = requestEffect c EffectAwaitApproval (ApprovalPayload requestID callID)
                  (''approval:'' @ requestID) callID tr1
      in Inr (if stPhase current = PhaseExecutingTools then move PhaseAwaitingApproval tr2
              else tr2))))))"

definition applyApprovalResolved ::
  "Transition \<Rightarrow> State \<Rightarrow> string \<Rightarrow> kernel_error + Transition" where
  "applyApprovalResolved tr current requestID =
     (let cmd = ApprovalResolved requestID in
      guard_error (requirePhase current cmd [PhaseAwaitingApproval])
     (ensure current cmd (fmlookup (stPendingApprovals current) requestID \<noteq> None)
       ''approval request does not match''
     (let tr1 = closeEffectByIdentity EffectAwaitApproval requestID True []
                  (modify (\<lambda>s. s\<lparr>stPendingApprovals :=
                     fmdrop requestID (stPendingApprovals s)\<rparr>) tr)
      in Inr (if stPendingApprovals (tState tr1) = fmempty then move PhaseExecutingTools tr1
              else tr1))))"

definition CancelReasonApprovalCanceled :: string where
  "CancelReasonApprovalCanceled = ''approval_canceled''"

text \<open>The effect with this identity is running and of this kind.\<close>

definition effect_running :: "State \<Rightarrow> string \<Rightarrow> EffectKind \<Rightarrow> bool" where
  "effect_running state effectID kind \<longleftrightarrow>
     (case fmlookup (stPendingEffects state) effectID of None \<Rightarrow> False
      | Some effect \<Rightarrow> efKind effect = kind \<and> efStatus effect = EffectRunning)"

definition applyApprovalResult ::
  "Transition \<Rightarrow> State \<Rightarrow> ApprovalResult \<Rightarrow> kernel_error + Transition" where
  "applyApprovalResult tr current command =
     (let cmd = ApprovalResultReceived command in
      ensure current cmd (\<not> blank (axEffectID command)) ''approval effect id is empty''
     (ensure current cmd (effect_running current (axEffectID command) EffectAwaitApproval)
       ''approval effect is not running''
     (bind_result
        (report current cmd
           (finishEffect tr (axEffectID command) (axAccepted command) (axError command)))
        (\<lambda>tr1. bind_result (applyApprovalResolved tr1 (tState tr1) (axRequestID command))
        (\<lambda>tr2. if axCanceled command
               then applyCancelRequested tr2 (tState tr2) CancelReasonApprovalCanceled
               else Inr tr2)))))"

definition applyInputRequired ::
  "'z kernel_codec_scheme \<Rightarrow> Transition \<Rightarrow> State \<Rightarrow> string \<Rightarrow> kernel_error + Transition" where
  "applyInputRequired c tr current requestID =
     (let cmd = InputRequired requestID in
      guard_error (requirePhase current cmd [PhaseSampling, PhaseExecutingTools])
     (ensure current cmd (\<not> blank requestID) ''input request id is empty''
     (Inr (move PhaseAwaitingInput
        (requestEffect c EffectAwaitInput (InputPayload requestID) (''input:'' @ requestID) []
          (modify (\<lambda>s. s\<lparr>stPendingInput := Some \<lparr>inRequestID = requestID\<rparr>\<rparr>) tr))))))"

definition reset_finalization :: "ConvergenceState \<Rightarrow> ConvergenceState" where
  "reset_finalization v =
     v\<lparr>cvFinalizationAttempted := False, cvSummary := [], cvPendingActions := []\<rparr>"

definition applyInputResolved ::
  "Transition \<Rightarrow> State \<Rightarrow> string \<Rightarrow> kernel_error + Transition" where
  "applyInputResolved tr current requestID =
     (let cmd = InputResolved requestID in
      guard_error (requirePhase current cmd [PhaseAwaitingInput])
     (ensure current cmd
       (case stPendingInput current of None \<Rightarrow> False | Some i \<Rightarrow> inRequestID i = requestID)
       ''input request does not match''
     (Inr (move (if stOpenCalls current \<noteq> fmempty then PhaseExecutingTools else PhaseSampling)
        (closeEffectByIdentity EffectAwaitInput requestID True []
          (modify (\<lambda>s. s\<lparr>stPendingInput := None,
             stConvergence := map_option reset_finalization (stConvergence s)\<rparr>) tr))))))"

definition applyInputResult ::
  "Transition \<Rightarrow> State \<Rightarrow> string \<Rightarrow> string \<Rightarrow> bool \<Rightarrow> string \<Rightarrow> kernel_error + Transition" where
  "applyInputResult tr current effectID requestID accepted message =
     (let cmd = InputResultReceived effectID requestID accepted message in
      ensure current cmd (\<not> blank effectID) ''input effect id is empty''
     (ensure current cmd (effect_running current effectID EffectAwaitInput)
       ''input effect is not running''
     (bind_result (report current cmd (finishEffect tr effectID accepted message))
        (\<lambda>tr1. applyInputResolved tr1 (tState tr1) requestID))))"

section \<open>Recovery\<close>

definition applyRecoveryRequested ::
  "Transition \<Rightarrow> State \<Rightarrow> Recovery \<Rightarrow> kernel_error + Transition" where
  "applyRecoveryRequested tr current command =
     (let cmd = RecoveryRequested command in
      guard_error (requirePhase current cmd [PhaseCreated])
     (ensure current cmd
       (\<not> (blank (rcSourceTurnID command) \<or> blank (rcRecoveryTurnID command) \<or>
           rcCurrentProfileRevision command = 0 \<or>
           (rcAction command \<noteq> ''retry'' \<and> rcAction command \<noteq> ''continue'') \<or>
           (rcDraftResumed command \<and> rcChanges command = [])))
       ''recovery relation is incomplete''
     (let tr1 = modify (\<lambda>s. s\<lparr>stProfileRevision := rcCurrentProfileRevision command,
                  stRecoveryRelation := Some
                    \<lparr>rrSourceTurnID = rcSourceTurnID command,
                     rrRecoveryTurnID = rcRecoveryTurnID command,
                     rrAction = rcAction command, rrDraftResumed = rcDraftResumed command\<rparr>\<rparr>) tr;
          tr2 = (if rcChanges command = [] then tr1
                 else emit ((plain_event EventMutationObserved)\<lparr>evMutation := 1\<rparr>)
                   (modify (\<lambda>s. s\<lparr>stMutationRevision := 1, stChanges := rcChanges command,
                      stJournal := JournalOpen\<rparr>) tr1))
      in Inr (emit (plain_event EventRecoveryBound) tr2))))"

end
