(* ===== verification/ReducerSampling.thy ===== *)
theory ReducerSampling
  imports ReducerTools
begin

text \<open>
  The handlers for model samples, usage, retries, provisional output, repair, progress and
  convergence (\<open>reducer_sampling.go\<close>) and for the continuation cursor
  (\<open>reducer_continuation.go\<close>).
\<close>

section \<open>Model samples\<close>

definition sample_of :: "State \<Rightarrow> string \<Rightarrow> ModelSampleState" where
  "sample_of state sampleID = lookup_zero zero_ModelSampleState (stSampleLedger state) sampleID"

definition put_sample :: "string \<Rightarrow> ModelSampleState \<Rightarrow> State \<Rightarrow> State" where
  "put_sample sampleID sample s =
     s\<lparr>stSampleLedger := fmupd sampleID sample (stSampleLedger s)\<rparr>"

definition applyModelSampleRequested ::
  "'z kernel_codec_scheme \<Rightarrow> Transition \<Rightarrow> State \<Rightarrow> string \<Rightarrow> kernel_error + Transition" where
  "applyModelSampleRequested c tr current sampleID =
     (let cmd = ModelSampleRequested sampleID in
      guard_error (requirePhase current cmd [PhaseSampling])
     (ensure current cmd (\<not> cnAccepted (stCancellation current)) ''cancellation was accepted''
     (ensure current cmd (\<not> blank sampleID) ''sample identity is empty''
     (ensure current cmd (stActiveSampleID current = []) ''another model sample is active''
     (ensure current cmd (fmlookup (stSampleLedger current) sampleID = None)
       ''sample identity is duplicated''
     (Inr (requestEffect c EffectSampleProvider (SamplePayload sampleID)
             (''sample:'' @ sampleID) sampleID
             (modify (\<lambda>s. (put_sample sampleID
                (zero_ModelSampleState\<lparr>smID := sampleID, smStatus := SampleRequested\<rparr>) s)
                \<lparr>stNextAction := StepActionNone\<rparr>) tr))))))))"

definition applyModelSampleStarted ::
  "Transition \<Rightarrow> State \<Rightarrow> string \<Rightarrow> u32 \<Rightarrow> kernel_error + Transition" where
  "applyModelSampleStarted tr current sampleID attempt =
     (let cmd = ModelSampleStarted sampleID attempt in
      guard_error (requirePhase current cmd [PhaseSampling])
     (ensure current cmd (\<not> cnAccepted (stCancellation current)) ''cancellation was accepted''
     (ensure current cmd (\<not> (blank sampleID \<or> attempt = 0)) ''sample identity is incomplete''
     (ensure current cmd (stActiveSampleID current = []) ''another model sample is active''
     (ensure current cmd
       (case fmlookup (stSampleLedger current) sampleID of None \<Rightarrow> True
        | Some existing \<Rightarrow> \<not> attempt \<le> smAttempt existing)
       ''sample attempt is not monotonic''
     (Inr (emit ((plain_event EventSampleStarted)\<lparr>evSampleID := sampleID\<rparr>)
        (modify (\<lambda>s. (put_sample sampleID
            (zero_ModelSampleState\<lparr>smID := sampleID, smAttempt := attempt,
               smStatus := SampleRunning\<rparr>) s)
            \<lparr>stActiveSampleID := sampleID\<rparr>) tr))))))))"

text \<open>Close a sample: completed, or failed with the message.\<close>

definition close_sample :: "string \<Rightarrow> ModelSampleState \<Rightarrow> ModelSampleState" where
  "close_sample message sample =
     (if message = [] then sample\<lparr>smStatus := SampleCompleted, smError := []\<rparr>
      else sample\<lparr>smStatus := SampleFailed, smError := message\<rparr>)"

definition record_usage :: "UsageState \<Rightarrow> ContextState \<Rightarrow> State \<Rightarrow> State" where
  "record_usage usage context s =
     s\<lparr>stUsage := mergeUsage (stUsage s) usage, stContext := context\<lparr>cxFrozen := False\<rparr>\<rparr>"

definition applyModelSampleFinished ::
  "Transition \<Rightarrow> State \<Rightarrow> string \<Rightarrow> UsageState \<Rightarrow> ContextState \<Rightarrow> string \<Rightarrow>
     kernel_error + Transition" where
  "applyModelSampleFinished tr current sampleID usage context message =
     (let cmd = ModelSampleFinished sampleID usage context message in
      guard_error (requirePhase current cmd [PhaseSampling])
     (ensure current cmd (\<not> (stActiveSampleID current = [] \<or> stActiveSampleID current \<noteq> sampleID))
       ''sample result does not match active sample''
     (Inr (emit ((plain_event EventSampleFinished)\<lparr>evSampleID := sampleID\<rparr>)
        (modify (\<lambda>s. record_usage usage context
            ((put_sample sampleID (close_sample message (sample_of current sampleID)) s)
               \<lparr>stActiveSampleID := []\<rparr>)) tr)))))"

definition applyModelSampleProgress ::
  "'z kernel_codec_scheme \<Rightarrow> Transition \<Rightarrow> State \<Rightarrow> string \<Rightarrow> string \<Rightarrow> u32 \<Rightarrow>
     ResponseAssembly \<Rightarrow> kernel_error + Transition" where
  "applyModelSampleProgress c tr current effectID sampleID attempt assembly =
     (let cmd = ModelSampleProgressRecorded effectID sampleID attempt assembly;
          sample = sample_of current sampleID in
      guard_error (requirePhase current cmd [PhaseSampling])
     (ensure current cmd
       (\<not> blank effectID \<and> \<not> blank sampleID \<and> attempt \<noteq> 0 \<and>
        (case fmlookup (stPendingEffects current) effectID of None \<Rightarrow> False
         | Some effect \<Rightarrow> efKind effect = EffectSampleProvider \<and> efCallID effect = sampleID \<and>
             efStatus effect = EffectRunning \<and> efAttempt effect = attempt) \<and>
        fmlookup (stSampleLedger current) sampleID \<noteq> None \<and>
        smStatus sample = SampleRunning \<and> smAttempt sample = attempt \<and>
        stActiveSampleID current = sampleID)
       ''sample progress does not match the running provider effect''
     (ensure current cmd (raLogicalRequestID assembly = sampleID)
       ''sample progress changed logical request identity''
     (guard_error (refuse current cmd (ValidateExtension assembly (smAssembly sample)))
     (Inr (modify (put_sample sampleID (sample\<lparr>smAssembly := clone_assembly c assembly\<rparr>)) tr))))))"

text \<open>The three situations in which a sample's result is taken.\<close>

definition sample_result_ready :: "State \<Rightarrow> Effect \<Rightarrow> ModelSampleResult \<Rightarrow> bool" where
  "sample_result_ready current effect command \<longleftrightarrow>
     (let sample = sample_of current (mrSampleID command);
          running = (efStatus effect = EffectRunning \<and>
                     stActiveSampleID current = mrSampleID command);
          scheduledAbort = (efStatus effect = EffectRequested \<and> mrError command \<noteq> [] \<and>
                     stActiveSampleID current = [] \<and> smStatus sample = SampleRequested);
          recoveredComplete = (efStatus effect = EffectRequested \<and> mrError command = [] \<and>
                     stActiveSampleID current = [] \<and> smStatus sample = SampleRequested \<and>
                     (case smAssembly sample of None \<Rightarrow> False
                      | Some a \<Rightarrow> raState a = ResponseComplete))
      in efKind effect = EffectSampleProvider \<and> efCallID effect = mrSampleID command \<and>
         (running \<or> scheduledAbort \<or> recoveredComplete))"

definition is_commentary :: "State \<Rightarrow> ModelSampleResult \<Rightarrow> bool" where
  "is_commentary current command \<longleftrightarrow>
     \<not> blank (mrText command) \<and> mrCalls command \<noteq> [] \<and> stConvergence current = None \<and>
     \<not> (length (mrCalls command) = 1 \<and> tcName (hd (mrCalls command)) = ''turn_complete'')"

definition record_text :: "State \<Rightarrow> ModelSampleResult \<Rightarrow> State \<Rightarrow> State" where
  "record_text current command s =
     (if is_commentary current command
      then s\<lparr>stCommentary := stCommentary s @ [\<lparr>cmSampleID = mrSampleID command,
               cmText = mrText command, cmCallIDs = map tcID (mrCalls command)\<rparr>]\<rparr>
      else if \<not> blank (mrText command)
      then s\<lparr>stProvisionalOutput := stProvisionalOutput s @ [mrText command],
             stOutputEligibility := False\<rparr>
      else s)"

definition booked_sample :: "State \<Rightarrow> ModelSampleResult \<Rightarrow> ModelSampleState" where
  "booked_sample current command =
     (let sample = (close_sample (mrError command) (sample_of current (mrSampleID command)))
                     \<lparr>smRetry := None\<rparr>
      in if mrError command = [] then sample else sample\<lparr>smLastFailure := mrFailure command\<rparr>)"

definition book_sample :: "State \<Rightarrow> ModelSampleResult \<Rightarrow> Transition \<Rightarrow> Transition" where
  "book_sample current command tr =
     emit ((plain_event EventSampleFinished)\<lparr>evSampleID := mrSampleID command\<rparr>)
       (modify (\<lambda>s. (record_usage (mrUsage command) (mrContext command)
          ((put_sample (mrSampleID command) (booked_sample current command) s)
             \<lparr>stActiveSampleID := []\<rparr>))
          \<lparr>stLastModelContinued := mrContinued command, stNextAction := StepActionNone\<rparr>) tr)"

text \<open>What follows a booked sample: its text, and its calls if it has any.\<close>

definition follow_sample ::
  "'z kernel_codec_scheme \<Rightarrow> State \<Rightarrow> ModelSampleResult \<Rightarrow> Transition \<Rightarrow>
     kernel_error + Transition" where
  "follow_sample c current command tr =
     (if mrError command \<noteq> [] then Inr tr
      else
        let tr1 = modify (record_text current command) tr in
        if mrCalls command \<noteq> [] then applyToolCalls c tr1 (tState tr1) (mrCalls command)
        else Inr (modify (\<lambda>s. s\<lparr>stProgress := (stProgress s)\<lparr>pgPendingIdentity := []\<rparr>\<rparr>) tr1))"

definition applyModelSampleResult ::
  "'z kernel_codec_scheme \<Rightarrow> Transition \<Rightarrow> State \<Rightarrow> ModelSampleResult \<Rightarrow>
     kernel_error + Transition" where
  "applyModelSampleResult c tr current command =
     (let cmd = ModelSampleResultReceived command;
          success = (mrError command = []) in
      guard_error (requirePhase current cmd [PhaseSampling])
     (ensure current cmd (\<not> (blank (mrEffectID command) \<or> blank (mrSampleID command)))
       ''sample result identity is incomplete''
     (ensure current cmd ((mrError command = []) = (mrFailure command = None))
       ''sample failure fact does not match result''
     (ensure current cmd
       (case fmlookup (stPendingEffects current) (mrEffectID command) of None \<Rightarrow> False
        | Some effect \<Rightarrow> sample_result_ready current effect command)
       ''sample result effect is not running''
     (bind_result
       (report current cmd (finishEffect tr (mrEffectID command) success (mrError command)))
       (\<lambda>tr1. follow_sample c current command (book_sample current command tr1)))))))"

definition applySupplementalUsage ::
  "Transition \<Rightarrow> State \<Rightarrow> string \<Rightarrow> string \<Rightarrow> UsageState \<Rightarrow> kernel_error + Transition" where
  "applySupplementalUsage tr current source sampleID usage =
     (let cmd = SupplementalUsageRecorded source sampleID usage in
      guard_error (requirePhase current cmd [PhaseSampling])
     (ensure current cmd (\<not> (blank source \<or> blank sampleID))
       ''supplemental usage identity is incomplete''
     (ensure current cmd (\<not> usFrozen usage) ''supplemental usage is frozen''
     (Inr (emit ((plain_event EventUsageRecorded)\<lparr>evSampleID := sampleID\<rparr>)
        (modify (\<lambda>s. s\<lparr>stUsage := mergeUsage (stUsage s) usage\<rparr>) tr))))))"

definition applyProviderRetry ::
  "Transition \<Rightarrow> State \<Rightarrow> ProviderRetry \<Rightarrow> kernel_error + Transition" where
  "applyProviderRetry tr current command =
     (let cmd = ProviderRetryRequested command;
          sampleID = pvSampleID command;
          effect = lookup_zero zero_Effect (stPendingEffects current) (pvEffectID command);
          sample = sample_of current sampleID in
      guard_error (requirePhase current cmd [PhaseSampling])
     (ensure current cmd
       (stActiveSampleID current = sampleID \<and>
        fmlookup (stPendingEffects current) (pvEffectID command) \<noteq> None \<and>
        efKind effect = EffectSampleProvider \<and> efCallID effect = sampleID \<and>
        efStatus effect = EffectRunning \<and> pvAttempt command \<noteq> 0 \<and>
        pvAttempt command = efAttempt effect \<and> flCode (pvFailure command) \<noteq> [] \<and>
        \<not> blank (flMessage (pvFailure command)) \<and> pvRetry command \<noteq> 0 \<and>
        \<not> blank (pvPolicyRevision command) \<and> pvRetryAt command \<noteq> 0)
       ''provider retry does not match active sample''
     (ensure current cmd (pvRetry command = smProviderRetries sample + 1)
       ''provider retry number is not monotonic''
     (Inr (emit ((plain_event EventProviderRetry)
              \<lparr>evEffectID := pvEffectID command, evSampleID := sampleID\<rparr>)
        (modify (\<lambda>s. (put_sample sampleID
            (sample\<lparr>smProviderRetries := pvRetry command,
               smLastFailure := Some (pvFailure command),
               smRetry := Some \<lparr>prEffectID = pvEffectID command, prAttempt = pvAttempt command,
                  prRetry = pvRetry command, prEffectiveDelayMS = pvEffectiveDelayMS command,
                  prRetryAt = pvRetryAt command, prPolicyRevision = pvPolicyRevision command\<rparr>,
               smStatus := SampleRequested, smError := []\<rparr>) s)
            \<lparr>stActiveSampleID := [],
             stPendingEffects := fmupd (pvEffectID command)
               (effect\<lparr>efStatus := EffectRequested\<rparr>) (stPendingEffects s)\<rparr>) tr))))))"

section \<open>Provisional output\<close>

definition applyModelText ::
  "Transition \<Rightarrow> State \<Rightarrow> string \<Rightarrow> kernel_error + Transition" where
  "applyModelText tr current txt =
     (let cmd = ModelTextReceived txt in
      guard_error (requirePhase current cmd [PhaseSampling])
     (ensure current cmd (txt \<noteq> []) ''model text is empty''
     (Inr (modify (\<lambda>s. s\<lparr>stProvisionalOutput := stProvisionalOutput s @ [txt],
                         stOutputEligibility := False\<rparr>) tr))))"

definition applyReleaseOutput :: "Transition \<Rightarrow> State \<Rightarrow> kernel_error + Transition" where
  "applyReleaseOutput tr current =
     (let cmd = ReleaseProvisionalOutput in
      guard_error (requirePhase current cmd [PhaseSampling])
     (ensure current cmd (stProvisionalOutput current \<noteq> []) ''provisional output is empty''
     (guard_error (refuse current cmd (validateCompletionContract current))
     (Inr (emit (plain_event EventOutputReleased)
        (modify (\<lambda>s. s\<lparr>stOutputEligibility := True\<rparr>) tr))))))"

definition applyDiscardOutput ::
  "Transition \<Rightarrow> State \<Rightarrow> string \<Rightarrow> kernel_error + Transition" where
  "applyDiscardOutput tr current message =
     (let cmd = DiscardProvisionalOutput message in
      guard_error (requirePhase current cmd
        [PhaseSampling, PhaseExecutingTools, PhaseAwaitingApproval, PhaseAwaitingInput,
         PhaseVerifying])
     (ensure current cmd (\<not> blank message) ''discard reason is empty''
     (Inr (emit (plain_event EventOutputDiscarded)
        (modify (\<lambda>s. s\<lparr>stProvisionalOutput := [], stOutputEligibility := False\<rparr>) tr)))))"

section \<open>Repair, progress and convergence\<close>

definition applyRepairRequested ::
  "Transition \<Rightarrow> State \<Rightarrow> RepairKind \<Rightarrow> string \<Rightarrow> u32 \<Rightarrow> kernel_error + Transition" where
  "applyRepairRequested tr current kind progressKey limit =
     (let cmd = RepairRequested kind progressKey limit in
      guard_error (requirePhase current cmd [PhaseSampling])
     (ensure current cmd (validRepairKind kind) ''repair kind is invalid''
     (ensure current cmd (\<not> blank progressKey) ''repair progress key is empty''
     (ensure current cmd (limit \<noteq> 0) ''repair limit is zero''
     (spendRepairBudget tr kind progressKey limit)))))"

text \<open>The three thresholds a sample without progress is held against.\<close>

definition progress_thresholds :: "State \<Rightarrow> bool \<Rightarrow> u32 \<times> u32 \<times> u32" where
  "progress_thresholds current repeatedCall =
     (let policy = plConvergence (stPolicy current);
          lease = plImplementNoProgressSamples (stPolicy current);
          repairReserve = plCompletionRepairLimit (stPolicy current) +
            plWorkspaceRepairLimit (stPolicy current) +
            plDeclarationRepairLimit (stPolicy current) +
            plVerificationRepairLimit (stPolicy current)
      in if repeatedCall \<and> lease > 0
         then (max 1 (lease div 2), lease, max (lease + 1) (lease + repairReserve))
         else if IsResearchIntent (stIntent current) \<and> stMutationRevision current = 0
         then (cpResearchConverge policy, cpResearchFinishOnly policy, cpResearchLimit policy)
         else (cpProgressConverge policy, cpProgressFinishOnly policy, cpProgressLimit policy))"

definition progress_stage :: "u32 \<times> u32 \<times> u32 \<Rightarrow> u32 \<Rightarrow> ProgressStage" where
  "progress_stage thresholds n =
     (case thresholds of (convergeAt, finishOnlyAt, limit) \<Rightarrow>
        if limit = 0 then ProgressStageNone
        else if n \<ge> limit then ProgressStageExhausted
        else if n \<ge> finishOnlyAt then ProgressStageFinishOnly
        else if n \<ge> convergeAt then ProgressStageConverge
        else ProgressStageNone)"

definition observed_identity :: "ProgressState \<Rightarrow> string \<Rightarrow> string" where
  "observed_identity progress sampleIdentity =
     (if blank sampleIdentity then pgPendingIdentity progress else TrimSpace sampleIdentity)"

definition count_progress :: "ProgressState \<Rightarrow> string \<Rightarrow> string \<Rightarrow> u32 \<Rightarrow> ProgressState" where
  "count_progress progress signature identity completedSamples =
     (let identityChanged = (pgSampleIdentity progress \<noteq> [] \<and>
                             identity \<noteq> pgSampleIdentity progress);
          counted = (if pgSignature progress = [] \<or> pgSignature progress \<noteq> signature \<or>
                        identityChanged
                     then progress\<lparr>pgSignature := signature, pgNoProgressSamples := 0,
                                   pgStage := ProgressStageNone\<rparr>
                     else progress\<lparr>pgNoProgressSamples := pgNoProgressSamples progress +
                            (completedSamples - pgObservedSamples progress)\<rparr>)
      in counted\<lparr>pgSampleIdentity := identity, pgObservedSamples := completedSamples\<rparr>)"

definition applyObserveProgress ::
  "Transition \<Rightarrow> State \<Rightarrow> string \<Rightarrow> string \<Rightarrow> u32 \<Rightarrow> kernel_error + Transition" where
  "applyObserveProgress tr current signature0 sampleIdentity completedSamples =
     (let cmd = ObserveProgress signature0 sampleIdentity completedSamples;
          signature = TrimSpace signature0;
          progress = stProgress current;
          identity = observed_identity progress sampleIdentity in
      guard_error (requirePhase current cmd [PhaseSampling])
     (ensure current cmd (stActiveSampleID current = []) ''model sample is active''
     (ensure current cmd (signature \<noteq> []) ''progress signature is empty''
     (ensure current cmd (\<not> completedSamples < pgObservedSamples progress)
       ''completed samples regressed''
     (let repeatedCall = (pgSignature progress = signature \<and> identity \<noteq> [] \<and>
                          identity = pgSampleIdentity progress);
          counted = count_progress progress signature identity completedSamples;
          thresholds = progress_thresholds current repeatedCall;
          observed = counted\<lparr>pgStage := progress_stage thresholds (pgNoProgressSamples counted)\<rparr>;
          tr1 = modify (\<lambda>s. s\<lparr>stProgress := observed\<rparr>) tr
      in Inr (if pgStage observed = ProgressStageExhausted
              then beginConvergence \<lparr>crCause = ConvergenceNoProgress,
                     crUsed = pgNoProgressSamples observed, crLimit = snd (snd thresholds),
                     crRepairKind = RepairUnset\<rparr> tr1
              else tr1))))))"

definition applyConvergenceRequested ::
  "Transition \<Rightarrow> State \<Rightarrow> ConvergenceRequest \<Rightarrow> kernel_error + Transition" where
  "applyConvergenceRequested tr current command =
     (let cmd = ConvergenceRequested command in
      guard_error (requirePhase current cmd [PhaseSampling])
     (ensure current cmd (stActiveSampleID current = []) ''model sample is active''
     (ensure current cmd (validConvergenceRequest command) ''convergence request is invalid''
     (Inr (beginConvergence command tr)))))"

definition applyConvergenceFinalizationStarted ::
  "Transition \<Rightarrow> State \<Rightarrow> kernel_error + Transition" where
  "applyConvergenceFinalizationStarted tr current =
     (let cmd = ConvergenceFinalizationStarted in
      guard_error (requirePhase current cmd [PhaseSampling])
     (ensure current cmd (stActiveSampleID current = []) ''model sample is active''
     (ensure current cmd (stConvergence current \<noteq> None) ''convergence is not active''
     (ensure current cmd
       (case stConvergence current of None \<Rightarrow> True | Some v \<Rightarrow> \<not> cvFinalizationAttempted v)
       ''convergence finalization already started''
     (Inr (modify (\<lambda>s. s\<lparr>stConvergence :=
              map_option (\<lambda>v. v\<lparr>cvFinalizationAttempted := True\<rparr>) (stConvergence s),
              stNextAction := StepActionNone\<rparr>) tr))))))"

section \<open>The continuation cursor\<close>

definition applyContinuationRecorded ::
  "Transition \<Rightarrow> State \<Rightarrow> ContinuationCursor \<Rightarrow> kernel_error + Transition" where
  "applyContinuationRecorded tr current cursor =
     (let cmd = ContinuationRecorded cursor;
          expected = (case stContinuation current of None \<Rightarrow> 1
                      | Some k \<Rightarrow> ccSequence k + 1) in
      ensure current cmd
       (\<not> (ccSequence cursor = 0 \<or> blank (ccHandle cursor) \<or> blank (ccDigest cursor)))
       ''continuation cursor is incomplete''
     (guard_error (refuse current cmd
        (require (ccSequence cursor = expected)
          (ErrorF ''continuation sequence %d does not extend cursor %d''
             [ArgN (unat (ccSequence cursor)), ArgN (unat (expected - 1))])))
     (Inr (modify (\<lambda>s. s\<lparr>stContinuation := Some cursor\<rparr>) tr))))"

end
