(* ===== verification/ReducerVerification.thy ===== *)
theory ReducerVerification
  imports ReducerSampling
begin

text \<open>
  The handlers for verification and completion (\<open>reducer_verification.go\<close>), the evaluation of
  a turn's next step (\<open>reducer_common.go\<close>) and the terminal transaction
  (\<open>reducer_terminal.go\<close>).
\<close>

section \<open>Verification\<close>

definition applyVerificationStarted ::
  "'z kernel_codec_scheme \<Rightarrow> Transition \<Rightarrow> State \<Rightarrow> kernel_error + Transition" where
  "applyVerificationStarted c tr current =
     (let cmd = VerificationStarted in
      guard_error (requirePhase current cmd [PhaseSampling])
     (ensure current cmd (\<not> cnAccepted (stCancellation current)) ''cancellation was accepted''
     (ensure current cmd (stOpenCalls current = fmempty) ''tool calls remain open''
     (ensure current cmd (stMutationRevision current \<noteq> 0) ''verification requires a mutation''
     (Inr (requestEffect c EffectRunVerification (VerificationPayload (stMutationRevision current))
            (''verification:'' @ format_d (stMutationRevision current)) []
            (move PhaseVerifying tr)))))))"

definition verification_effect :: "State \<Rightarrow> string \<Rightarrow> string" where
  "verification_effect current effectID =
     (if effectID \<noteq> [] then effectID
      else case find (\<lambda>eid. efKind (lookup_zero zero_Effect (stPendingEffects current) eid) =
                        EffectRunVerification)
                 (sortedEffectIDs (stPendingEffects current)) of
             None \<Rightarrow> [] | Some eid \<Rightarrow> eid)"

definition unrepaired_action :: "State \<Rightarrow> VerificationStatus \<Rightarrow> VerificationAction" where
  "unrepaired_action current status =
     (if status = VerificationPassed then VerificationActionPassed
      else if plVerificationMustPass (stPolicy current) then VerificationActionBlocked
      else if plVerificationMode (stPolicy current) = ''soft'' then VerificationActionReported
      else if plVerificationOnFailure (stPolicy current) = ''revert''
      then VerificationActionReverted
      else VerificationActionFailed)"

text \<open>Spend the repair budget where the policy grants one, and choose the action.\<close>

definition verification_action ::
  "State \<Rightarrow> VerificationResult \<Rightarrow> Transition \<Rightarrow> kernel_error + VerificationAction \<times> Transition" where
  "verification_action current command tr =
     (let needsRepair = (vrStatus command \<noteq> VerificationPassed \<and>
                         plVerificationMode (stPolicy current) \<noteq> ''soft'');
          limit = plVerificationRepairLimit (stPolicy current) in
      if needsRepair \<and> limit \<noteq> 0
      then (case spendRepairBudget tr RepairVerification (vrRepairKey command) limit of
              Inr tr' \<Rightarrow> Inr (VerificationActionRepair, tr')
            | Inl err \<Rightarrow> if budget_exhausted err
                         then Inr (unrepaired_action current (vrStatus command), tr)
                         else Inl err)
      else Inr (unrepaired_action current (vrStatus command), tr))"

definition record_verification ::
  "State \<Rightarrow> VerificationResult \<Rightarrow> VerificationAction \<Rightarrow> State \<Rightarrow> State" where
  "record_verification current command action s0 =
     (let s1 = s0\<lparr>stVerification := \<lparr>vsStatus = vrStatus command, vsAction = action,
                    vsMutation = stMutationRevision current,
                    vsEvidenceCalls = vrEvidenceCalls command,
                    vsFailureMessage = vrMessage command\<rparr>\<rparr>;
          s2 = (if vrStatus command \<noteq> VerificationPassed \<and> action \<noteq> VerificationActionReported
                then s1\<lparr>stCompletion := None\<rparr>
                else if vrStatus command = VerificationPassed
                then s1\<lparr>stWorkItem := (stWorkItem s1)\<lparr>wiOpen :=
                         (wiOpen (stWorkItem s1))\<lparr>woUnverifiedPaths := []\<rparr>\<rparr>\<rparr>
                else s1)
      in s2\<lparr>stWorkItem := (stWorkItem s2)\<lparr>wiRequiredAction := DeriveRequiredAction s2\<rparr>,
            stNextAction := StepActionNone\<rparr>)"

definition applyVerificationFinished ::
  "Transition \<Rightarrow> State \<Rightarrow> VerificationResult \<Rightarrow> kernel_error + Transition" where
  "applyVerificationFinished tr current command =
     (let cmd = VerificationFinished command;
          effectID = verification_effect current (vrEffectID command);
          effect = lookup_zero zero_Effect (stPendingEffects current) effectID in
      guard_error (requirePhase current cmd [PhaseVerifying])
     (ensure current cmd
       (vrStatus command \<in> {VerificationPassed, VerificationFailed, VerificationUnavailable})
       ''verification status is not terminal''
     (ensure current cmd (effectID \<noteq> []) ''verification effect is missing''
     (ensure current cmd
       (efKind effect = EffectRunVerification \<and> efStatus effect = EffectRunning)
       ''verification effect is not running''
     (bind_result (report current cmd (finishEffect tr effectID True []))
     (\<lambda>tr1. bind_result (verification_action current command tr1)
     (\<lambda>(action, tr2). Inr (move PhaseSampling
        (emit ((plain_event EventVerification)\<lparr>evMutation := stMutationRevision current\<rparr>)
          (modify (record_verification current command action) tr2))))))))))"

section \<open>Completion\<close>

text \<open>The reason to reject a declaration; the empty string accepts it.\<close>

definition completion_verdict :: "State \<Rightarrow> CompletionCandidate \<Rightarrow> string" where
  "completion_verdict current candidate =
     (if caBatchMutated candidate then ''same_batch_mutation''
      else if caBatchSize candidate \<noteq> 1 then ''declaration_must_be_only_call''
      else if \<not> caDeclarationValid candidate then ''invalid_declaration''
      else if caOutputMode candidate \<notin> {[], ''exact'', ''preserve_provisional''}
      then ''invalid_output_mode''
      else if caStatus candidate = ''incomplete'' \<and> \<not> blank (caSummary candidate) \<and>
              caPendingActions candidate \<noteq> []
      then ''convergence_blocked''
      else if caToolError candidate \<or> caStatus candidate \<noteq> ''complete'' \<or>
              blank (caSummary candidate) \<or> caPendingActions candidate \<noteq> []
      then ''incomplete_declaration''
      else if stIntent current = TurnIntentWorkspaceChange \<and> stMutationRevision current = 0
      then ''no_observed_changes''
      else if caOutputMode candidate = ''preserve_provisional'' \<and>
              stProvisionalOutput current = []
      then ''provisional_output_unavailable''
      else [])"

text \<open>The convergence a declared incomplete turn records.\<close>

definition declare_blocked :: "State \<Rightarrow> CompletionCandidate \<Rightarrow> State \<Rightarrow> State" where
  "declare_blocked current candidate s =
     (if (case stConvergence current of None \<Rightarrow> False | Some v \<Rightarrow> cvFinalizationAttempted v)
      then s\<lparr>stConvergence := map_option (\<lambda>v. v\<lparr>cvSummary := TrimSpace (caSummary candidate),
               cvPendingActions := caPendingActions candidate\<rparr>) (stConvergence s)\<rparr>
      else s\<lparr>stConvergence := Some \<lparr>cvCause = ConvergenceIncomplete, cvUsed = 0, cvLimit = 0,
               cvRepairKind = RepairUnset, cvFinalizationAttempted = True,
               cvSummary = TrimSpace (caSummary candidate),
               cvPendingActions = caPendingActions candidate\<rparr>\<rparr>)"

definition completion_decision :: "State \<Rightarrow> CompletionCandidate \<Rightarrow> CompletionDecision" where
  "completion_decision current candidate =
     (let verdict = completion_verdict current candidate; accepted = (verdict = []) in
      \<lparr>cdAccepted = accepted, cdSummary = caSummary candidate, cdReason = verdict,
       cdRequiredAction =
         (if \<not> accepted then completionRejectionAction verdict
          else if stMutationRevision current \<noteq> 0 \<and> plVerificationRequired (stPolicy current)
          then ''await_runtime_verification'' else ''final_answer''),
       cdOutputMode = caOutputMode candidate, cdPendingActions = caPendingActions candidate,
       cdMutation = stMutationRevision current,
       cdChangedPaths = changedPaths (stChanges current),
       cdVerificationCalls = caVerificationCalls candidate,
       cdCompletionCall = caCompletionCall candidate\<rparr>)"

definition declared_output :: "CompletionCandidate \<Rightarrow> State \<Rightarrow> State" where
  "declared_output candidate s =
     (let summary = TrimSpace (caSummary candidate) in
      s\<lparr>stProvisionalOutput :=
          (if caOutputMode candidate = ''preserve_provisional''
           then stProvisionalOutput s @ [[CHR 0x0A, CHR 0x0A] @ summary] else [summary]),
        stOutputEligibility := False\<rparr>)"

definition applyCompletion ::
  "Transition \<Rightarrow> State \<Rightarrow> CompletionCandidate \<Rightarrow> kernel_error + Transition" where
  "applyCompletion tr current candidate =
     (let cmd = CompletionEvaluated candidate;
          decision = completion_decision current candidate in
      guard_error (requirePhase current cmd [PhaseSampling])
     (ensure current cmd (\<not> blank (caCompletionCall candidate)) ''completion call id is empty''
     (let tr1 = (if cdReason decision = ''convergence_blocked''
                 then modify (declare_blocked current candidate) tr else tr);
          tr2 = (if cdAccepted decision then modify (declared_output candidate) tr1 else tr1)
      in Inr (emit ((plain_event EventCompletionDecided)
                \<lparr>evMutation := stMutationRevision current\<rparr>)
           (modify (\<lambda>s. s\<lparr>stCompletion := Some decision\<rparr>) tr2)))))"

definition applyCompletionInvalidated ::
  "Transition \<Rightarrow> State \<Rightarrow> string \<Rightarrow> kernel_error + Transition" where
  "applyCompletionInvalidated tr current message =
     (let cmd = CompletionInvalidated message in
      guard_error (requirePhase current cmd [PhaseSampling])
     (ensure current cmd (\<not> blank message) ''completion invalidation reason is empty''
     (ensure current cmd
       (case stCompletion current of None \<Rightarrow> False | Some d \<Rightarrow> cdAccepted d)
       ''accepted completion is unavailable''
     (Inr (emit ((plain_event EventCompletionDecided)
              \<lparr>evMutation := stMutationRevision current\<rparr>)
        (modify (\<lambda>s. s\<lparr>stCompletion := None\<rparr>) tr))))))"

section \<open>The next step of a turn\<close>

definition spend ::
  "string \<Rightarrow> RepairKind \<Rightarrow> u32 \<Rightarrow> StepAction \<Rightarrow> Transition \<Rightarrow> kernel_error + Transition" where
  "spend progressKey kind limit action tr =
     (if limit = 0
      then Inr (beginConvergence \<lparr>crCause = ConvergenceRepairBudget, crUsed = 0, crLimit = 0,
                  crRepairKind = kind\<rparr> tr)
      else case spendRepairBudget tr kind progressKey limit of
             Inl err \<Rightarrow>
               if budget_exhausted err
               then Inr (beginConvergence \<lparr>crCause = ConvergenceRepairBudget, crUsed = limit,
                           crLimit = limit, crRepairKind = kind\<rparr> tr)
               else Inl err
           | Inr tr' \<Rightarrow> Inr (modify (\<lambda>s. s\<lparr>stNextAction := action\<rparr>) tr'))"

definition next_action :: "StepAction \<Rightarrow> Transition \<Rightarrow> Transition" where
  "next_action action = modify (\<lambda>s. s\<lparr>stNextAction := action\<rparr>)"

definition verification_due :: "State \<Rightarrow> bool" where
  "verification_due state \<longleftrightarrow>
     plVerificationRequired (stPolicy state) \<and> stMutationRevision state \<noteq> 0 \<and>
     \<not> verification_current state"

definition completion_accepted :: "State \<Rightarrow> bool" where
  "completion_accepted state \<longleftrightarrow>
     (case stCompletion state of None \<Rightarrow> False | Some d \<Rightarrow> cdAccepted d)"

definition finalize_step :: "State \<Rightarrow> ConvergenceState \<Rightarrow> Transition \<Rightarrow> kernel_error + Transition" where
  "finalize_step current v tr =
     (if \<not> cvFinalizationAttempted v then Inr (next_action StepActionFinalize tr)
      else
        let tr1 = next_action StepActionBlock tr;
            limit = plDeclarationRepairLimit (stPolicy current) in
        if (case stCompletion current of None \<Rightarrow> False
            | Some d \<Rightarrow> cdReason d = ''invalid_declaration'' \<or>
                        cdReason d = ''incomplete_declaration'') \<and>
           rbSteps (lookup_zero zero_RepairBudget (stRepairBudgets current) RepairDeclaration) < limit
        then bind_result (spendRepairBudget tr1 RepairDeclaration ''convergence_declaration'' limit)
               (\<lambda>tr2. Inr (next_action StepActionFinalize
                  (modify (\<lambda>s. s\<lparr>stConvergence := map_option
                     (\<lambda>v. v\<lparr>cvFinalizationAttempted := False\<rparr>) (stConvergence s)\<rparr>) tr2)))
        else Inr tr1)"

definition clear_tool_failure :: "State \<Rightarrow> State" where
  "clear_tool_failure s = s\<lparr>stUnresolvedToolFailure := False, stRecoveryToolSucceeded := False\<rparr>"

definition applyEvaluateTurnStep ::
  "Transition \<Rightarrow> State \<Rightarrow> string \<Rightarrow> kernel_error + Transition" where
  "applyEvaluateTurnStep tr0 current0 progressKey =
     (let cmd = EvaluateTurnStep progressKey in
      guard_error (requirePhase current0 cmd [PhaseSampling])
     (ensure current0 cmd (\<not> blank progressKey) ''turn step progress key is empty''
     (let recovered = (stUnresolvedToolFailure current0 \<and> stRecoveryToolSucceeded current0);
          tr1 = next_action StepActionNone tr0;
          tr = (if recovered then modify clear_tool_failure tr1 else tr1);
          current = (if recovered then clear_tool_failure current0 else current0);
          policy = stPolicy current
      in
      if completion_accepted current
      then Inr (next_action (if verification_due current then StepActionVerify
                             else StepActionComplete) tr)
      else case stConvergence current of Some v \<Rightarrow> finalize_step current v tr | None \<Rightarrow>
      if stUnresolvedToolFailure current
      then bind_result
             (spend progressKey RepairCompletion (plCompletionRepairLimit policy)
                StepActionRepairToolFailure tr)
             (\<lambda>t. Inr (if stRecoveryToolSucceeded current \<or> stIntent current = TurnIntentAnswer \<or>
                          stIntent current = TurnIntentPlan
                       then modify clear_tool_failure t else t))
      else if stLastModelContinued current \<and> stClosedCalls current \<noteq> fmempty \<and>
              \<not> completion_accepted current
      then spend progressKey RepairCompletion (plCompletionRepairLimit policy)
             StepActionRepairCompletion tr
      else if stProvisionalOutput current = []
      then spend progressKey RepairCompletion (plCompletionRepairLimit policy)
             StepActionRepairCompletion tr
      else if stIntent current = TurnIntentWorkspaceChange \<and> stMutationRevision current = 0
      then spend progressKey RepairWorkspace (plWorkspaceRepairLimit policy)
             StepActionRepairWorkspace tr
      else if RequiresCompletion current \<and> \<not> completion_accepted current
      then spend progressKey RepairDeclaration (plDeclarationRepairLimit policy)
             StepActionRepairDeclaration tr
      else Inr (next_action (if verification_due current then StepActionVerify
                             else StepActionComplete) tr))))"

section \<open>The terminal transaction\<close>

text \<open>The decision a request stands for (\<open>Reducer.Apply\<close>).\<close>

definition terminal_decision :: "TerminalRequest \<Rightarrow> TerminalDecision" where
  "terminal_decision request =
     (let completed = \<lparr>tdKind = TerminalCompleted, tdCode = [], tdMessage = [], tdFault = None,
                       tdConvergence = None\<rparr>;
          failed = completed\<lparr>tdKind := TerminalFailed, tdCode := tqFailureCode request,
                     tdMessage := tqFailureMessage request, tdFault := tqFault request\<rparr>
      in if \<not> blank (tqCancelReason request)
         then completed\<lparr>tdKind := TerminalCanceled, tdMessage := tqCancelReason request\<rparr>
         else if tqConvergence request \<noteq> None
         then failed\<lparr>tdConvergence := tqConvergence request\<rparr>
         else if \<not> blank (tqFailureMessage request) then failed
         else completed)"

text \<open>What the decision becomes and what it does to the convergence, or the refusal.\<close>

definition settle_terminal ::
  "State \<Rightarrow> Command \<Rightarrow> TerminalDecision \<Rightarrow> Transition \<Rightarrow>
     kernel_error + TerminalDecision \<times> Transition" where
  "settle_terminal current cmd decision tr =
     (case tdKind decision of
        TerminalCompleted \<Rightarrow>
          ensure current cmd (stPhase current = PhaseSampling) ''completion must begin from sampling''
         (guard_error (refuse current cmd (validateCompletionReadiness current))
         (Inr (decision, tr)))
      | TerminalOther _ \<Rightarrow>
          ensure current cmd False ''terminal kind is invalid'' (Inr (decision, tr))
      | _ \<Rightarrow>
          ensure current cmd (\<not> blank (tdMessage decision)) ''non-success terminal message is empty''
         (if tdConvergence decision = None then Inr (decision, tr)
          else
            ensure current cmd
              (tdKind decision = TerminalFailed \<and>
               (case stConvergence current of None \<Rightarrow> False
                | Some v \<Rightarrow> cvFinalizationAttempted v))
              ''convergence terminal is not ready''
            (let outcome = blockedConvergence (stConvergence current)
             in Inr (decision\<lparr>tdConvergence := outcome\<rparr>,
                     modify (\<lambda>s. s\<lparr>stConvergence := outcome\<rparr>) tr))))"

fun terminal_kind_name :: "TerminalKind \<Rightarrow> string" where
  "terminal_kind_name TerminalCompleted = ''completed''"
| "terminal_kind_name TerminalFailed = ''failed''"
| "terminal_kind_name TerminalCanceled = ''canceled''"
| "terminal_kind_name (TerminalOther s) = s"

definition freeze :: "State \<Rightarrow> State" where
  "freeze s = s\<lparr>stUsage := (stUsage s)\<lparr>usFrozen := True\<rparr>,
                stContext := (stContext s)\<lparr>cxFrozen := True\<rparr>\<rparr>"

definition applyTerminalRequested ::
  "'z kernel_codec_scheme \<Rightarrow> Transition \<Rightarrow> State \<Rightarrow> TerminalRequest \<Rightarrow> TerminalDecision \<Rightarrow>
     kernel_error + Transition" where
  "applyTerminalRequested c tr current request decision0 =
     (let cmd = TerminalRequested request in
      ensure current cmd (stPhase current \<noteq> PhaseCommitting) ''terminal transaction is already active''
     (ensure current cmd (stOpenCalls current = fmempty) ''tool calls remain open''
     (ensure current cmd (stPendingApprovals current = fmempty) ''approval remains pending''
     (ensure current cmd (stPendingInput current = None) ''user input remains pending''
     (ensure current cmd (stActiveSampleID current = []) ''model sample remains active''
     (ensure current cmd (stPendingEffects current = fmempty) ''effects remain pending''
     (bind_result (settle_terminal current cmd decision0 tr)
     (\<lambda>(decision, tr1).
        let tr2 = modify (\<lambda>s. freeze (s\<lparr>stPendingTerminal := Some decision\<rparr>)) tr1;
            tr3 = emit ((plain_event EventTerminalPrepared)\<lparr>evTerminal := Some decision\<rparr>)
                    (move PhaseCommitting tr2)
        in Inr (if stJournal current = JournalOpen \<or> plJournalRequired (stPolicy current)
                then requestEffect c (fst (terminalJournalOutcome current decision))
                       (TerminalPayload decision)
                       (''journal:'' @ terminal_kind_name (tdKind decision)) [] tr3
                else tr3)))))))))"

definition applyJournalFinalized ::
  "Transition \<Rightarrow> State \<Rightarrow> JournalStatus \<Rightarrow> kernel_error + Transition" where
  "applyJournalFinalized tr current status =
     (let cmd = JournalFinalized status in
      guard_error (requirePhase current cmd [PhaseCommitting])
     (case stPendingTerminal current of
        None \<Rightarrow> ensure current cmd False ''terminal transaction is missing'' (Inr tr)
      | Some decision \<Rightarrow>
     ensure current cmd
       (stJournal current = JournalOpen \<and> status = snd (terminalJournalOutcome current decision))
       ''journal result does not match terminal outcome''
     (Inr (closeFirstEffectByKind (fst (terminalJournalOutcome current decision)) True []
        (modify (\<lambda>s. s\<lparr>stJournal := status\<rparr>) tr)))))"

definition applyJournalResult ::
  "Transition \<Rightarrow> State \<Rightarrow> string \<Rightarrow> JournalStatus \<Rightarrow> string \<Rightarrow> kernel_error + Transition" where
  "applyJournalResult tr current effectID status message =
     (let cmd = JournalResultReceived effectID status message;
          effect = lookup_zero zero_Effect (stPendingEffects current) effectID in
      guard_error (requirePhase current cmd [PhaseCommitting])
     (ensure current cmd
       (fmlookup (stPendingEffects current) effectID \<noteq> None \<and> efStatus effect = EffectRunning)
       ''journal effect is not running''
     (case stPendingTerminal current of
        None \<Rightarrow> ensure current cmd False ''terminal transaction is missing'' (Inr tr)
      | Some decision \<Rightarrow>
     ensure current cmd ((efKind effect, status) = terminalJournalOutcome current decision)
       ''journal result does not match terminal outcome''
     (ensure current cmd
       (stMutationRevision current = 0 \<longrightarrow>
          plJournalRequired (stPolicy current) \<and> stJournal current = JournalNone)
       ''unchanged turn has no open journal''
     (ensure current cmd (stMutationRevision current \<noteq> 0 \<longrightarrow> stJournal current = JournalOpen)
       ''changed turn has no open journal''
     (if message \<noteq> []
      then Inr (emit ((plain_event EventEffectRequeued)\<lparr>evEffectID := effectID\<rparr>)
             (modify (\<lambda>s. s\<lparr>stPendingEffects := fmupd effectID
                (effect\<lparr>efStatus := EffectRequested, efError := message\<rparr>)
                (stPendingEffects s)\<rparr>) tr))
      else bind_result (report current cmd (finishEffect tr effectID True []))
             (\<lambda>tr1. Inr (modify (\<lambda>s. s\<lparr>stJournal := status\<rparr>) tr1))))))))"

definition applyFinishTerminal :: "Transition \<Rightarrow> State \<Rightarrow> kernel_error + Transition" where
  "applyFinishTerminal tr current =
     (let cmd = FinishTerminal in
      guard_error (requirePhase current cmd [PhaseCommitting])
     (case stPendingTerminal current of
        None \<Rightarrow> ensure current cmd False ''terminal transaction is missing'' (Inr tr)
      | Some decision \<Rightarrow>
     (let outcome = snd (terminalJournalOutcome current decision) in
      ensure current cmd (stChanges current \<noteq> [] \<longrightarrow> stJournal current = outcome)
       ''journal is not finalized''
     (ensure current cmd
       (stChanges current = [] \<longrightarrow>
          stJournal current = (if plJournalRequired (stPolicy current) then outcome else JournalNone))
       ''unchanged turn journal is not finalized''
     (let tr1 = modify (\<lambda>s. s\<lparr>stPendingTerminal := None, stTerminal := Some decision,
                  stFinalOutput := stProvisionalOutput current, stProvisionalOutput := []\<rparr>) tr;
          tr2 = (case tdKind decision of
                   TerminalCompleted \<Rightarrow> move PhaseCompleted tr1
                 | TerminalFailed \<Rightarrow> move PhaseFailed tr1
                 | TerminalCanceled \<Rightarrow> move PhaseCanceled tr1
                 | TerminalOther _ \<Rightarrow> tr1)
      in Inr (emit ((plain_event EventTerminalCommitted)\<lparr>evTerminal := Some decision\<rparr>) tr2))))))"

end
