(* ===== verification/Reducer.thy ===== *)
theory Reducer
  imports ReducerVerification
begin

text \<open>
  The reducer (\<open>reducer.go\<close>): it refuses a nil command, an invalid or terminal state, copies
  the state, dispatches the command to its handler and checks the state it produced.
\<close>

section \<open>Dispatch\<close>

fun dispatch ::
  "'z kernel_codec_scheme \<Rightarrow> Transition \<Rightarrow> State \<Rightarrow> Command \<Rightarrow> kernel_error + Transition" where
  "dispatch c tr current StartTurn =
     guard_error (requirePhase current StartTurn [PhaseCreated]) (Inr (move PhasePreparing tr))"
| "dispatch c tr current PreparationFinished =
     guard_error (requirePhase current PreparationFinished [PhasePreparing])
       (Inr (move PhaseSampling tr))"
| "dispatch c tr current (ModelSampleRequested sid) = applyModelSampleRequested c tr current sid"
| "dispatch c tr current (ModelSampleStarted sid n) = applyModelSampleStarted tr current sid n"
| "dispatch c tr current (ModelSampleFinished sid u x e) =
     applyModelSampleFinished tr current sid u x e"
| "dispatch c tr current (ModelSampleProgressRecorded eid sid n a) =
     applyModelSampleProgress c tr current eid sid n a"
| "dispatch c tr current (ModelSampleResultReceived r) = applyModelSampleResult c tr current r"
| "dispatch c tr current (SupplementalUsageRecorded src sid u) =
     applySupplementalUsage tr current src sid u"
| "dispatch c tr current (ProviderRetryRequested r) = applyProviderRetry tr current r"
| "dispatch c tr current (ModelTextReceived txt) = applyModelText tr current txt"
| "dispatch c tr current ReleaseProvisionalOutput = applyReleaseOutput tr current"
| "dispatch c tr current (DiscardProvisionalOutput m) = applyDiscardOutput tr current m"
| "dispatch c tr current (RepairRequested k p l) = applyRepairRequested tr current k p l"
| "dispatch c tr current (EvaluateTurnStep p) = applyEvaluateTurnStep tr current p"
| "dispatch c tr current (ObserveProgress s i n) = applyObserveProgress tr current s i n"
| "dispatch c tr current (BindWorkItem b) = applyBindWorkItem c tr current b"
| "dispatch c tr current (ConvergenceRequested r) = applyConvergenceRequested tr current r"
| "dispatch c tr current ConvergenceFinalizationStarted =
     applyConvergenceFinalizationStarted tr current"
| "dispatch c tr current (ToolCallsProposed calls) = applyToolCalls c tr current calls"
| "dispatch c tr current (ApprovalRequired rid cid) = applyApprovalRequired c tr current rid cid"
| "dispatch c tr current (ApprovalResolved rid) = applyApprovalResolved tr current rid"
| "dispatch c tr current (ApprovalResultReceived r) = applyApprovalResult tr current r"
| "dispatch c tr current (InputRequired rid) = applyInputRequired c tr current rid"
| "dispatch c tr current (InputResolved rid) = applyInputResolved tr current rid"
| "dispatch c tr current (InputResultReceived eid rid ok m) =
     applyInputResult tr current eid rid ok m"
| "dispatch c tr current (ToolResultReceived r) = applyToolResult c tr current r"
| "dispatch c tr current (AbortOpenCalls m) = applyAbortOpenCalls tr current m"
| "dispatch c tr current VerificationStarted = applyVerificationStarted c tr current"
| "dispatch c tr current (VerificationFinished r) = applyVerificationFinished tr current r"
| "dispatch c tr current (CompletionEvaluated d) = applyCompletion tr current d"
| "dispatch c tr current (CompletionInvalidated m) = applyCompletionInvalidated tr current m"
| "dispatch c tr current (CancelRequested m) = applyCancelRequested tr current m"
| "dispatch c tr current (ContinuationRecorded k) = applyContinuationRecorded tr current k"
| "dispatch c tr current (RecoveryRequested r) = applyRecoveryRequested tr current r"
| "dispatch c tr current (EffectStarted eid n) = applyEffectStarted tr current eid n"
| "dispatch c tr current (EffectRequeued eid) = applyEffectRequeued tr current eid"
| "dispatch c tr current (EffectResultReceived eid ok m) = applyEffectResult tr current eid ok m"
| "dispatch c tr current (PersistenceResultReceived eid ok m) =
     applyPersistenceResult tr current eid ok m"
| "dispatch c tr current (TerminalRequested q) =
     applyTerminalRequested c tr current q (terminal_decision q)"
| "dispatch c tr current (JournalFinalized j) = applyJournalFinalized tr current j"
| "dispatch c tr current (JournalResultReceived eid j m) = applyJournalResult tr current eid j m"
| "dispatch c tr current FinishTerminal = applyFinishTerminal tr current"

definition start :: "'z kernel_codec_scheme \<Rightarrow> State \<Rightarrow> Transition" where
  "start c current = \<lparr>tState = cloneState c current, tEvents = [], tEffects = []\<rparr>"

definition Apply ::
  "'z kernel_codec_scheme \<Rightarrow> State \<Rightarrow> Command option \<Rightarrow> kernel_error + Transition" where
  "Apply c current command =
     (case command of
        None \<Rightarrow> Inl (illegal current None (Reason ''command is nil''))
      | Some cmd \<Rightarrow>
     guard_error (map_option InvalidCurrentState (Validate c current))
     (ensure current cmd (\<not> Phase_Terminal (stPhase current))
        ''terminal states have no outgoing transitions''
     (bind_result (dispatch c (start c current) current cmd)
     (\<lambda>tr. guard_error (map_option (InvalidResultState (commandName cmd)) (Validate c (tState tr)))
        (Inr tr)))))"

section \<open>Steps and runs\<close>

text \<open>One accepted command, and the states an accepted sequence of commands reaches.\<close>

inductive step :: "'z kernel_codec_scheme \<Rightarrow> State \<Rightarrow> Command \<Rightarrow> State \<Rightarrow> bool" for c where
  accept: "Apply c s (Some cmd) = Inr tr \<Longrightarrow> step c s cmd (tState tr)"

inductive runs :: "'z kernel_codec_scheme \<Rightarrow> State \<Rightarrow> Command list \<Rightarrow> State \<Rightarrow> bool" for c s where
  here: "runs c s [] s"
| further: "runs c s cmds t \<Longrightarrow> step c t cmd u \<Longrightarrow> runs c s (cmds @ [cmd]) u"

inductive_simps step_iff: "step c s cmd t"

lemma Apply_eq_Inr:
  "Apply c s (Some cmd) = Inr tr \<longleftrightarrow>
     Validate c s = None \<and> \<not> Phase_Terminal (stPhase s) \<and>
     dispatch c (start c s) s cmd = Inr tr \<and> Validate c (tState tr) = None"
  by (auto simp: Apply_def bind_result_eq_Inr simp del: Phase_Terminal.simps)

lemma start_simps [simp]:
  "tState (start c s) = cloneState c s" "tEvents (start c s) = []" "tEffects (start c s) = []"
  by (simp_all add: start_def)

end
