(* ===== verification/Frames.thy ===== *)
theory Frames
  imports Reducer
begin

text \<open>
  What each helper of the reducer changes of the state, as equations between states: a helper
  that closes effects changes nothing but the two effect ledgers, and so on. The equations are
  simplification rules, so that a handler's result is computed field by field; what the ledgers
  become is described by the relation \<open>retires\<close>.
\<close>

section \<open>Submaps\<close>

declare fmfilter_cong [cong del]

lemma fmsubset_refl [simp]: "m \<subseteq>\<^sub>f m"
  by (simp add: fmsubset_alt_def fmpred_iff)

lemma fmsubset_trans: "m \<subseteq>\<^sub>f n \<Longrightarrow> n \<subseteq>\<^sub>f k \<Longrightarrow> m \<subseteq>\<^sub>f k"
  by (simp add: fmsubset.rep_eq map_le_trans)

lemma fmsubset_lookup: "m \<subseteq>\<^sub>f n \<Longrightarrow> fmlookup m k = Some v \<Longrightarrow> fmlookup n k = Some v"
  by (simp add: fmsubset_alt_def fmpred_iff)

lemma fmsubset_upd: "fmlookup m k = None \<Longrightarrow> m \<subseteq>\<^sub>f fmupd k v m"
  by (auto simp: fmsubset_alt_def fmpred_iff)

lemma fmsubset_upd_right: "m \<subseteq>\<^sub>f n \<Longrightarrow> fmlookup m k = None \<Longrightarrow> m \<subseteq>\<^sub>f fmupd k v n"
  by (auto simp: fmsubset_alt_def fmpred_iff)

lemma fmsubset_dom: "m \<subseteq>\<^sub>f n \<Longrightarrow> fmdom m |\<subseteq>| fmdom n"
  by (auto simp: fmsubset_alt_def fmpred_iff fmlookup_dom_iff)

lemma fmdrop_fmsubset [simp]: "fmdrop k m \<subseteq>\<^sub>f m"
  by (simp add: fmsubset_alt_def fmpred_iff)

section \<open>Retiring effects\<close>

definition retires :: "Effect dict \<Rightarrow> Effect dict \<Rightarrow> Effect dict \<Rightarrow> Effect dict \<Rightarrow> bool" where
  "retires P C P' C' \<longleftrightarrow>
     P' \<subseteq>\<^sub>f P \<and> fmdom P |\<union>| fmdom C = fmdom P' |\<union>| fmdom C' \<and>
     (fmdom P |\<inter>| fmdom C = {||} \<longrightarrow> C \<subseteq>\<^sub>f C' \<and> fmdom P' |\<inter>| fmdom C' = {||})"

lemma retires_refl [simp]: "retires P C P C"
  by (simp add: retires_def)

lemma retires_trans: "retires P C P1 C1 \<Longrightarrow> retires P1 C1 P2 C2 \<Longrightarrow> retires P C P2 C2"
  by (auto simp: retires_def intro: fmsubset_trans)

lemma retires_finish:
  assumes "fmlookup P eid = Some e"
  shows "retires P C (fmdrop eid P) (fmupd eid e' C)"
proof -
  have "eid |\<in>| fmdom P" using assms by (rule fmdomI)
  moreover have "C \<subseteq>\<^sub>f fmupd eid e' C" if "eid |\<notin>| fmdom C"
    using that by (simp add: fmsubset_upd fmdom_notD)
  ultimately show ?thesis by (auto simp: retires_def fset_eq_iff)
qed

section \<open>Closing effects\<close>

lemma finishEffect_eq_Inr:
  "finishEffect tr eid ok msg = Inr tr' \<longleftrightarrow>
     (\<exists>e. fmlookup (stPendingEffects (tState tr)) eid = Some e \<and>
          efStatus e \<in> {EffectRequested, EffectRunning} \<and> (ok \<or> \<not> blank msg) \<and>
          tr' = emit ((plain_event EventEffectFinished)\<lparr>evEffectID := efID e, evCallID := efCallID e\<rparr>)
                 (modify (\<lambda>s. s\<lparr>stPendingEffects := fmdrop eid (stPendingEffects s),
                     stCompletedEffects := fmupd eid (settle ok msg e) (stCompletedEffects s)\<rparr>) tr))"
  by (auto simp: finishEffect_def split: option.splits)

text \<open>The state after a helper depends only on the state before it and differs from it in the
  effect ledgers only.\<close>

definition after :: "(Transition \<Rightarrow> Transition) \<Rightarrow> State \<Rightarrow> State" where
  "after f s = tState (f \<lparr>tState = s, tEvents = [], tEffects = []\<rparr>)"

definition pending_after :: "(Transition \<Rightarrow> Transition) \<Rightarrow> State \<Rightarrow> Effect dict" where
  "pending_after f s = stPendingEffects (after f s)"

definition completed_after :: "(Transition \<Rightarrow> Transition) \<Rightarrow> State \<Rightarrow> Effect dict" where
  "completed_after f s = stCompletedEffects (after f s)"

definition closes_effects :: "(Transition \<Rightarrow> Transition) \<Rightarrow> bool" where
  "closes_effects f \<longleftrightarrow>
     (\<forall>s. \<exists>P C. retires (stPendingEffects s) (stCompletedEffects s) P C \<and>
        (\<forall>evs effs. tState (f \<lparr>tState = s, tEvents = evs, tEffects = effs\<rparr>) =
           s\<lparr>stPendingEffects := P, stCompletedEffects := C\<rparr>))"

lemma own_ledgers: "s\<lparr>stPendingEffects := stPendingEffects s, stCompletedEffects := stCompletedEffects s\<rparr> = s"
  by simp

lemma closes_effects_id: "closes_effects (\<lambda>tr. tr)"
  unfolding closes_effects_def
proof
  fix s
  show "\<exists>P C. retires (stPendingEffects s) (stCompletedEffects s) P C \<and>
        (\<forall>evs effs. tState \<lparr>tState = s, tEvents = evs, tEffects = effs\<rparr> =
           s\<lparr>stPendingEffects := P, stCompletedEffects := C\<rparr>)"
    by (rule exI [of _ "stPendingEffects s"], rule exI [of _ "stCompletedEffects s"]) simp
qed

lemma closes_effects_comp:
  assumes f: "closes_effects f" and g: "closes_effects g"
  shows "closes_effects (\<lambda>tr. g (f tr))"
  unfolding closes_effects_def
proof
  fix s
  obtain P C where 1: "retires (stPendingEffects s) (stCompletedEffects s) P C"
    and 2: "\<And>evs effs. tState (f \<lparr>tState = s, tEvents = evs, tEffects = effs\<rparr>) =
           s\<lparr>stPendingEffects := P, stCompletedEffects := C\<rparr>"
    using f unfolding closes_effects_def by blast
  let ?t = "s\<lparr>stPendingEffects := P, stCompletedEffects := C\<rparr>"
  obtain P' C' where 3: "retires P C P' C'"
    and 4: "\<And>evs effs. tState (g \<lparr>tState = ?t, tEvents = evs, tEffects = effs\<rparr>) =
           ?t\<lparr>stPendingEffects := P', stCompletedEffects := C'\<rparr>"
    using g [unfolded closes_effects_def, rule_format, of ?t] by auto
  have "tState (g (f \<lparr>tState = s, tEvents = evs, tEffects = effs\<rparr>)) =
           s\<lparr>stPendingEffects := P', stCompletedEffects := C'\<rparr>" for evs effs
    using 2 [of evs effs] 4 by (cases "f \<lparr>tState = s, tEvents = evs, tEffects = effs\<rparr>") simp
  then show "\<exists>P C. retires (stPendingEffects s) (stCompletedEffects s) P C \<and>
        (\<forall>evs effs. tState (g (f \<lparr>tState = s, tEvents = evs, tEffects = effs\<rparr>)) =
           s\<lparr>stPendingEffects := P, stCompletedEffects := C\<rparr>)"
    using retires_trans [OF 1 3] by blast
qed

text \<open>The two facts a caller uses.\<close>

lemma closes_effects_state:
  assumes "closes_effects f"
  shows "tState (f tr) = (tState tr)\<lparr>stPendingEffects := pending_after f (tState tr),
           stCompletedEffects := completed_after f (tState tr)\<rparr>"
proof -
  obtain P C where 1: "\<And>evs effs. tState (f \<lparr>tState = tState tr, tEvents = evs, tEffects = effs\<rparr>) =
           (tState tr)\<lparr>stPendingEffects := P, stCompletedEffects := C\<rparr>"
    using assms unfolding closes_effects_def by blast
  then have "after f (tState tr) = (tState tr)\<lparr>stPendingEffects := P, stCompletedEffects := C\<rparr>"
    by (simp add: after_def)
  moreover have "tState (f tr) = (tState tr)\<lparr>stPendingEffects := P, stCompletedEffects := C\<rparr>"
    using 1 [of "tEvents tr" "tEffects tr"] by (cases tr) simp
  ultimately show ?thesis by (simp add: pending_after_def completed_after_def)
qed

lemma closes_effects_retires:
  assumes "closes_effects f"
  shows "retires (stPendingEffects s) (stCompletedEffects s) (pending_after f s) (completed_after f s)"
proof -
  obtain P C where "retires (stPendingEffects s) (stCompletedEffects s) P C"
    and "after f s = s\<lparr>stPendingEffects := P, stCompletedEffects := C\<rparr>"
    using assms unfolding closes_effects_def after_def by blast
  then show ?thesis by (simp add: pending_after_def completed_after_def)
qed

lemma finish_quietly_cases:
  obtains (unchanged) "\<And>tr :: Transition. tState tr = s \<Longrightarrow> tState (finish_quietly tr eid ok msg) = s"
  | (finished) e where "fmlookup (stPendingEffects s) eid = Some e"
      "\<And>tr :: Transition. tState tr = s \<Longrightarrow> tState (finish_quietly tr eid ok msg) =
        s\<lparr>stPendingEffects := fmdrop eid (stPendingEffects s),
          stCompletedEffects := fmupd eid (settle ok msg e) (stCompletedEffects s)\<rparr>"
proof (cases "\<exists>e. fmlookup (stPendingEffects s) eid = Some e \<and>
            efStatus e \<in> {EffectRequested, EffectRunning} \<and> (ok \<or> \<not> blank msg)")
  case True
  then obtain e where e: "fmlookup (stPendingEffects s) eid = Some e"
    "efStatus e \<in> {EffectRequested, EffectRunning}" "ok \<or> \<not> blank msg" by blast
  show ?thesis
  proof (rule finished [OF e(1)])
    fix tr :: Transition assume "tState tr = s"
    with e have "finishEffect tr eid ok msg = Inr (emit ((plain_event EventEffectFinished)
          \<lparr>evEffectID := efID e, evCallID := efCallID e\<rparr>)
          (modify (\<lambda>s. s\<lparr>stPendingEffects := fmdrop eid (stPendingEffects s),
             stCompletedEffects := fmupd eid (settle ok msg e) (stCompletedEffects s)\<rparr>) tr))"
      unfolding finishEffect_eq_Inr by blast
    with \<open>tState tr = s\<close> show "tState (finish_quietly tr eid ok msg) =
        s\<lparr>stPendingEffects := fmdrop eid (stPendingEffects s),
          stCompletedEffects := fmupd eid (settle ok msg e) (stCompletedEffects s)\<rparr>"
      by (simp add: finish_quietly_def)
  qed
next
  case False
  show ?thesis
  proof (rule unchanged)
    fix tr :: Transition assume "tState tr = s"
    with False have "finishEffect tr eid ok msg \<noteq> Inr tr'" for tr'
      unfolding finishEffect_eq_Inr by blast
    then show "tState (finish_quietly tr eid ok msg) = s"
      using \<open>tState tr = s\<close> by (cases "finishEffect tr eid ok msg") (auto simp: finish_quietly_def)
  qed
qed

lemma closes_effects_finish: "closes_effects (\<lambda>tr. finish_quietly tr eid ok msg)"
  unfolding closes_effects_def
proof
  fix s
  show "\<exists>P C. retires (stPendingEffects s) (stCompletedEffects s) P C \<and>
        (\<forall>evs effs. tState (finish_quietly \<lparr>tState = s, tEvents = evs, tEffects = effs\<rparr> eid ok msg) =
           s\<lparr>stPendingEffects := P, stCompletedEffects := C\<rparr>)"
  proof (cases rule: finish_quietly_cases [of s eid ok msg])
    case unchanged
    then show ?thesis by (intro exI conjI) (rule retires_refl, simp)
  next
    case (finished e)
    from finished(2) show ?thesis
      by (intro exI conjI) (rule retires_finish [OF finished(1)], simp)
  qed
qed

text \<open>A helper that picks, by the state, one of several helpers.\<close>

lemma closes_effects_choose:
  assumes "\<And>s. closes_effects (f s)"
  shows "closes_effects (\<lambda>tr. f (tState tr) tr)"
  unfolding closes_effects_def
proof
  fix s
  show "\<exists>P C. retires (stPendingEffects s) (stCompletedEffects s) P C \<and>
        (\<forall>evs effs. tState (f (tState \<lparr>tState = s, tEvents = evs, tEffects = effs\<rparr>)
             \<lparr>tState = s, tEvents = evs, tEffects = effs\<rparr>) =
           s\<lparr>stPendingEffects := P, stCompletedEffects := C\<rparr>)"
    using assms [of s] unfolding closes_effects_def by simp
qed

lemma closes_effects_fold:
  assumes "\<And>x. closes_effects (f x)"
  shows "closes_effects (fold f xs)"
proof (induction xs)
  case Nil
  show ?case using closes_effects_id by (simp add: id_def)
next
  case (Cons x xs)
  show ?case using closes_effects_comp [OF assms [of x] Cons.IH] by (simp add: comp_def)
qed

lemma closes_effects_close_first: "closes_effects (close_first m ok msg)"
proof -
  let ?pick = "\<lambda>s. find (\<lambda>eid. m (lookup_zero zero_Effect (stPendingEffects s) eid))
             (sortedEffectIDs (stPendingEffects s))"
  let ?f = "\<lambda>s tr. case ?pick s of None \<Rightarrow> tr
       | Some eid \<Rightarrow> finish_quietly tr eid ok (nonEmptyEffectError ok msg)"
  have "closes_effects (?f s)" for s
    by (cases "?pick s") (simp_all add: closes_effects_id closes_effects_finish)
  then have "closes_effects (\<lambda>tr. ?f (tState tr) tr)" by (rule closes_effects_choose)
  then show ?thesis by (simp add: close_first_def [abs_def])
qed

lemma closes_effects_by_kind: "closes_effects (closeEffectsByKind kind ok msg)"
proof -
  let ?one = "\<lambda>eid t.
        if efKind (lookup_zero zero_Effect (stPendingEffects (tState t)) eid) = kind
        then finish_quietly t eid ok (nonEmptyEffectError ok msg) else t"
  have "closes_effects (\<lambda>t. if b then finish_quietly t eid ok (nonEmptyEffectError ok msg) else t)"
    for eid b by (cases b) (simp_all add: closes_effects_id closes_effects_finish)
  then have "closes_effects (?one eid)" for eid by (rule closes_effects_choose)
  then have "closes_effects (fold ?one ks)" for ks by (rule closes_effects_fold)
  then have "closes_effects (\<lambda>tr. fold ?one (sortedEffectIDs (stPendingEffects (tState tr))) tr)"
    by (rule closes_effects_choose)
  then show ?thesis by (simp add: closeEffectsByKind_def [abs_def])
qed

lemmas closing_effects =
  closes_effects_close_first closes_effects_by_kind closes_effects_finish

lemmas close_first_state [simp] = closes_effects_state [OF closes_effects_close_first]
  and closeEffectsByKind_state [simp] = closes_effects_state [OF closes_effects_by_kind]

lemmas close_first_retires [simp] = closes_effects_retires [OF closes_effects_close_first]
  and closeEffectsByKind_retires [simp] = closes_effects_retires [OF closes_effects_by_kind]

section \<open>Requests, convergence, budgets and the work item\<close>

lemma requestEffect_state [simp]:
  "tState (requestEffect c kind payload key callID tr) =
     (tState tr)\<lparr>stPendingEffects :=
        fmupd (effect_id (stNextEffectSequence (tState tr) + 1))
          (new_effect c (stNextEffectSequence (tState tr) + 1) kind payload key callID)
          (stPendingEffects (tState tr)),
      stNextEffectSequence := stNextEffectSequence (tState tr) + 1\<rparr>"
  by (simp add: requestEffect_def Let_def new_effect_def)

lemma requestEffect_effects [simp]:
  "tEffects (requestEffect c kind payload key callID tr) =
     tEffects tr @ [new_effect c (stNextEffectSequence (tState tr) + 1) kind payload key callID]"
  by (simp add: requestEffect_def Let_def)

definition begun :: "ConvergenceRequest \<Rightarrow> State \<Rightarrow> ConvergenceState option" where
  "begun r s = stConvergence (tState (beginConvergence r \<lparr>tState = s, tEvents = [], tEffects = []\<rparr>))"

lemma beginConvergence_state [simp]:
  "tState (beginConvergence r tr) =
     (tState tr)\<lparr>stConvergence := begun r (tState tr),
        stNextAction := (if stConvergence (tState tr) = None then StepActionFinalize
                         else stNextAction (tState tr))\<rparr>"
  by (simp add: beginConvergence_def begun_def Let_def split: option.splits)

lemma begun_not_None [simp]: "begun r s \<noteq> None"
  by (simp add: begun_def beginConvergence_def Let_def split: option.splits)

lemma begun_kept [simp]: "stConvergence s = Some v \<Longrightarrow> begun r s = Some v"
  by (simp add: begun_def beginConvergence_def)

lemma beginConvergence_effects [simp]: "tEffects (beginConvergence r tr) = tEffects tr"
  by (simp add: beginConvergence_def Let_def split: option.splits)

lemma spendRepairBudget_eq_Inr:
  "spendRepairBudget tr kind key limit = Inr tr' \<Longrightarrow>
     \<exists>budget. tr' = emit (plain_event EventRepairRequested)
        (modify (\<lambda>s. s\<lparr>stRepairBudgets := fmupd kind budget (stRepairBudgets s)\<rparr>) tr)"
  by (auto simp: spendRepairBudget_def Let_def split: if_splits)

definition observed_item ::
  "'z kernel_codec_scheme \<Rightarrow> State \<Rightarrow> ToolCallState \<Rightarrow> ObservedChange list \<Rightarrow>
     WorkItemObservation \<Rightarrow> bool \<Rightarrow> WorkItem" where
  "observed_item c s call changes obs isError =
     stWorkItem (applyWorkItemObservation c s call changes obs isError)"

lemma applyWorkItemObservation_state [simp]:
  "applyWorkItemObservation c s call changes obs isError =
     s\<lparr>stWorkItem := observed_item c s call changes obs isError\<rparr>"
  by (simp add: observed_item_def applyWorkItemObservation_def Let_def)

lemma cloneState_simps [simp]:
  "stSampleLedger (cloneState c s) = fmmap (clone_sample c) (stSampleLedger s)"
  by (simp add: cloneState_def)

section \<open>Opening a batch of calls\<close>

fun tool_effects :: "'z kernel_codec_scheme \<Rightarrow> u64 \<Rightarrow> ToolCallState list \<Rightarrow> Effect list" where
  "tool_effects c n [] = []"
| "tool_effects c n (call # rest) =
     new_effect c (n + 1) EffectExecuteTool (ToolPayload call) (''tool:'' @ tcID call) (tcID call) #
     tool_effects c (n + 1) rest"

definition add_effects :: "Effect list \<Rightarrow> Effect dict \<Rightarrow> Effect dict" where
  "add_effects effs P = fold (\<lambda>e. fmupd (efID e) e) effs P"

definition add_calls :: "ToolCallState list \<Rightarrow> ToolCallState dict \<Rightarrow> ToolCallState dict" where
  "add_calls calls m = fold (\<lambda>call. fmupd (tcID call) call) calls m"

lemma new_effect_ID [simp]: "efID (new_effect c n kind payload key cid) = effect_id n"
  by (simp add: new_effect_def)

lemma open_calls_eq_Inr:
  assumes "open_calls c current cmd seen calls tr = Inr tr'"
  shows "tState tr' = (tState tr)\<lparr>
           stOpenCalls := add_calls calls (stOpenCalls (tState tr)),
           stPendingEffects := add_effects (tool_effects c (stNextEffectSequence (tState tr)) calls)
             (stPendingEffects (tState tr)),
           stNextEffectSequence := stNextEffectSequence (tState tr) + of_nat (length calls)\<rparr>"
    and "tEffects tr' = tEffects tr @ tool_effects c (stNextEffectSequence (tState tr)) calls"
    and "distinct (map tcID calls)"
    and "\<forall>call \<in> set calls. tcID call \<notin> seen \<and> \<not> blank (tcID call) \<and> \<not> blank (tcName call) \<and>
           fmlookup (stOpenCalls current) (tcID call) = None \<and>
           fmlookup (stClosedCalls current) (tcID call) = None"
proof -
  have *: "tState tr' = (tState tr)\<lparr>
           stOpenCalls := add_calls calls (stOpenCalls (tState tr)),
           stPendingEffects := add_effects (tool_effects c (stNextEffectSequence (tState tr)) calls)
             (stPendingEffects (tState tr)),
           stNextEffectSequence := stNextEffectSequence (tState tr) + of_nat (length calls)\<rparr> \<and>
     tEffects tr' = tEffects tr @ tool_effects c (stNextEffectSequence (tState tr)) calls \<and>
     distinct (map tcID calls) \<and>
     (\<forall>call \<in> set calls. tcID call \<notin> seen \<and> \<not> blank (tcID call) \<and> \<not> blank (tcName call) \<and>
           fmlookup (stOpenCalls current) (tcID call) = None \<and>
           fmlookup (stClosedCalls current) (tcID call) = None)"
    using assms
  proof (induction calls arbitrary: seen tr)
    case Nil
    then show ?case by (simp add: add_calls_def add_effects_def)
  next
    case (Cons call rest)
    then show ?case
      by (auto dest!: Cons.IH simp: add_calls_def add_effects_def ac_simps)
  qed
  then show "tState tr' = (tState tr)\<lparr>
           stOpenCalls := add_calls calls (stOpenCalls (tState tr)),
           stPendingEffects := add_effects (tool_effects c (stNextEffectSequence (tState tr)) calls)
             (stPendingEffects (tState tr)),
           stNextEffectSequence := stNextEffectSequence (tState tr) + of_nat (length calls)\<rparr>"
    "tEffects tr' = tEffects tr @ tool_effects c (stNextEffectSequence (tState tr)) calls"
    "distinct (map tcID calls)"
    "\<forall>call \<in> set calls. tcID call \<notin> seen \<and> \<not> blank (tcID call) \<and> \<not> blank (tcName call) \<and>
           fmlookup (stOpenCalls current) (tcID call) = None \<and>
           fmlookup (stClosedCalls current) (tcID call) = None"
    by blast+
qed

lemma fmlookup_add_calls:
  "fmlookup (add_calls calls m) k =
     (case find (\<lambda>call. tcID call = k) (rev calls) of None \<Rightarrow> fmlookup m k | Some call \<Rightarrow> Some call)"
  by (induction calls rule: rev_induct) (simp_all add: add_calls_def)

lemma fmdom_add_calls: "fmdom (add_calls calls m) = fset_of_list (map tcID calls) |\<union>| fmdom m"
  by (induction calls rule: rev_induct) (auto simp: add_calls_def)

lemma add_calls_fmsubset:
  "\<forall>call \<in> set calls. fmlookup m (tcID call) = None \<Longrightarrow> m \<subseteq>\<^sub>f add_calls calls m"
  by (induction calls rule: rev_induct) (auto simp: add_calls_def intro: fmsubset_upd_right)

lemma fmdom_add_effects: "fmdom (add_effects effs P) = fset_of_list (map efID effs) |\<union>| fmdom P"
  by (induction effs rule: rev_induct) (auto simp: add_effects_def)

section \<open>Withdrawing approvals and aborting calls\<close>

lemma withdraw_fold:
  "\<exists>P C. tState (fold (\<lambda>rid t. if match rid then t
          else close_first (m rid) ok msg
             (modify (\<lambda>s. s\<lparr>stPendingApprovals := fmdrop rid (stPendingApprovals s)\<rparr>) t)) ks tr) =
     (tState tr)\<lparr>stPendingApprovals :=
        fmfilter (\<lambda>rid. match rid \<or> rid \<notin> set ks) (stPendingApprovals (tState tr)),
       stPendingEffects := P, stCompletedEffects := C\<rparr> \<and>
     retires (stPendingEffects (tState tr)) (stCompletedEffects (tState tr)) P C"
proof (induction ks arbitrary: tr)
  case Nil
  show ?case
    by (rule exI [of _ "stPendingEffects (tState tr)"], rule exI [of _ "stCompletedEffects (tState tr)"])
      simp
next
  case (Cons k ks)
  show ?case
  proof (cases "match k")
    case True
    then have eq: "fmfilter (\<lambda>rid. match rid \<or> rid \<notin> set (k # ks)) A =
        fmfilter (\<lambda>rid. match rid \<or> rid \<notin> set ks) A" for A :: "ApprovalState dict"
      by (auto intro!: fmap_ext)
    show ?thesis using Cons.IH [of tr] by (simp only: fold_simps if_P [OF True] eq)
  next
    case False
    then have eq: "fmfilter (\<lambda>rid. match rid \<or> rid \<notin> set ks) (fmdrop k A) =
        fmfilter (\<lambda>rid. match rid \<or> rid \<notin> set (k # ks)) A" for A :: "ApprovalState dict"
      by (auto intro!: fmap_ext)
    let ?t = "close_first (m k) ok msg
        (modify (\<lambda>s. s\<lparr>stPendingApprovals := fmdrop k (stPendingApprovals s)\<rparr>) tr)"
    obtain P C where 1: "tState (fold (\<lambda>rid t. if match rid then t
          else close_first (m rid) ok msg
             (modify (\<lambda>s. s\<lparr>stPendingApprovals := fmdrop rid (stPendingApprovals s)\<rparr>) t)) ks ?t) =
       (tState ?t)\<lparr>stPendingApprovals :=
          fmfilter (\<lambda>rid. match rid \<or> rid \<notin> set ks) (stPendingApprovals (tState ?t)),
         stPendingEffects := P, stCompletedEffects := C\<rparr>"
      and 2: "retires (stPendingEffects (tState ?t)) (stCompletedEffects (tState ?t)) P C"
      using Cons.IH [of ?t] by blast
    have "retires (stPendingEffects (tState tr)) (stCompletedEffects (tState tr)) P C"
      using 2 closes_effects_retires [OF closes_effects_close_first,
          of "(tState tr)\<lparr>stPendingApprovals := fmdrop k (stPendingApprovals (tState tr))\<rparr>" "m k" ok msg]
      by (auto intro: retires_trans)
    then show ?thesis using 1 False eq
      by - (rule exI [of _ P], rule exI [of _ C], simp)
  qed
qed

definition pending_withdrawn :: "State \<Rightarrow> string \<Rightarrow> Transition \<Rightarrow> Effect dict" where
  "pending_withdrawn s cid tr = stPendingEffects (tState (withdraw_approvals s cid tr))"

definition completed_withdrawn :: "State \<Rightarrow> string \<Rightarrow> Transition \<Rightarrow> Effect dict" where
  "completed_withdrawn s cid tr = stCompletedEffects (tState (withdraw_approvals s cid tr))"

lemma withdraw_approvals_state [simp]:
  "tState (withdraw_approvals s cid tr) = (tState tr)\<lparr>stPendingApprovals :=
     fmfilter (\<lambda>rid. apCallID (lookup_zero zero_ApprovalState (stPendingApprovals s) rid) \<noteq> cid \<or>
                 rid |\<notin>| fmdom (stPendingApprovals s)) (stPendingApprovals (tState tr)),
     stPendingEffects := pending_withdrawn s cid tr,
     stCompletedEffects := completed_withdrawn s cid tr\<rparr>" (is ?eq)
  and withdraw_approvals_retires [simp]:
  "retires (stPendingEffects (tState tr)) (stCompletedEffects (tState tr))
     (pending_withdrawn s cid tr) (completed_withdrawn s cid tr)" (is ?ret)
proof -
  let ?match = "\<lambda>rid. apCallID (lookup_zero zero_ApprovalState (stPendingApprovals s) rid) \<noteq> cid"
  obtain P C where 1: "tState (withdraw_approvals s cid tr) =
      (tState tr)\<lparr>stPendingApprovals :=
        fmfilter (\<lambda>rid. ?match rid \<or> rid \<notin> set (sorted_keys (stPendingApprovals s)))
          (stPendingApprovals (tState tr)),
       stPendingEffects := P, stCompletedEffects := C\<rparr>"
    and 2: "retires (stPendingEffects (tState tr)) (stCompletedEffects (tState tr)) P C"
    using withdraw_fold [of ?match "\<lambda>rid e. efKind e = EffectAwaitApproval \<and>
        efIdempotencyKey e = ''approval:'' @ rid" False "cnReason (stCancellation s)"
        "sorted_keys (stPendingApprovals s)" tr]
    unfolding withdraw_approvals_def closeEffectByIdentity_def Let_def EffectKind.case by blast
  then have "P = pending_withdrawn s cid tr" "C = completed_withdrawn s cid tr"
    by (simp_all add: pending_withdrawn_def completed_withdrawn_def)
  with 1 2 show ?eq ?ret by simp_all
qed

definition aborted :: "State \<Rightarrow> string \<Rightarrow> ToolResultState" where
  "aborted s callID =
     \<lparr>trID = callID,
      trName = (case fmlookup (stOpenCalls s) callID of None \<Rightarrow> [] | Some call \<Rightarrow> tcName call),
      trIsError = True\<rparr>"

definition abort_all :: "State \<Rightarrow> string list \<Rightarrow> ToolResultState dict \<Rightarrow> ToolResultState dict" where
  "abort_all s ks m = fold (\<lambda>k. fmupd k (aborted s k)) ks m"

lemma fmlookup_abort_all:
  "fmlookup (abort_all s ks m) k = (if k \<in> set ks then Some (aborted s k) else fmlookup m k)"
  by (induction ks rule: rev_induct) (auto simp: abort_all_def)

lemma abort_fold:
  "\<exists>P C. tState (fold (abort_call s msg) ks tr) =
     (tState tr)\<lparr>stOpenCalls := fmfilter (\<lambda>k. k \<notin> set ks) (stOpenCalls (tState tr)),
       stClosedCalls := abort_all s ks (stClosedCalls (tState tr)),
       stPendingEffects := P, stCompletedEffects := C\<rparr> \<and>
     retires (stPendingEffects (tState tr)) (stCompletedEffects (tState tr)) P C"
proof (induction ks arbitrary: tr)
  case Nil
  show ?case
    by (rule exI [of _ "stPendingEffects (tState tr)"], rule exI [of _ "stCompletedEffects (tState tr)"])
      (simp add: abort_all_def)
next
  case (Cons k ks)
  have eq: "fmfilter (\<lambda>k. k \<notin> set ks) (fmdrop k A) = fmfilter (\<lambda>k'. k' \<noteq> k \<and> k' \<notin> set ks) A"
    for A :: "ToolCallState dict" by (auto intro!: fmap_ext)
  let ?t = "abort_call s msg k tr"
  let ?m = "\<lambda>e. efKind e = EffectExecuteTool \<and> efCallID e = k"
  let ?s1 = "(tState tr)\<lparr>stOpenCalls := fmdrop k (stOpenCalls (tState tr)),
      stClosedCalls := fmupd k (aborted s k) (stClosedCalls (tState tr))\<rparr>"
  have t: "tState ?t = ?s1\<lparr>stPendingEffects := pending_after (close_first ?m False msg) ?s1,
      stCompletedEffects := completed_after (close_first ?m False msg) ?s1\<rparr>"
    by (simp add: abort_call_def closeEffectByCall_def aborted_def)
  obtain P C where 1: "tState (fold (abort_call s msg) ks ?t) =
     (tState ?t)\<lparr>stOpenCalls := fmfilter (\<lambda>k. k \<notin> set ks) (stOpenCalls (tState ?t)),
       stClosedCalls := abort_all s ks (stClosedCalls (tState ?t)),
       stPendingEffects := P, stCompletedEffects := C\<rparr>"
    and 2: "retires (stPendingEffects (tState ?t)) (stCompletedEffects (tState ?t)) P C"
    using Cons.IH [of ?t] by blast
  have "retires (stPendingEffects (tState tr)) (stCompletedEffects (tState tr)) P C"
    using 2 closes_effects_retires [OF closes_effects_close_first, of ?s1 ?m False msg]
    unfolding t by (auto intro: retires_trans)
  then show ?case using 1 unfolding t
    by - (rule exI [of _ P], rule exI [of _ C], simp add: eq abort_all_def)
qed

definition pending_aborted :: "State \<Rightarrow> string \<Rightarrow> Transition \<Rightarrow> Effect dict" where
  "pending_aborted s msg tr =
     stPendingEffects (tState (fold (abort_call s msg) (sorted_keys (stOpenCalls s)) tr))"

definition completed_aborted :: "State \<Rightarrow> string \<Rightarrow> Transition \<Rightarrow> Effect dict" where
  "completed_aborted s msg tr =
     stCompletedEffects (tState (fold (abort_call s msg) (sorted_keys (stOpenCalls s)) tr))"

lemma abort_calls_state [simp]:
  "tState (fold (abort_call s msg) (sorted_keys (stOpenCalls s)) tr) =
     (tState tr)\<lparr>stOpenCalls := fmfilter (\<lambda>k. k |\<notin>| fmdom (stOpenCalls s)) (stOpenCalls (tState tr)),
       stClosedCalls := abort_all s (sorted_keys (stOpenCalls s)) (stClosedCalls (tState tr)),
       stPendingEffects := pending_aborted s msg tr,
       stCompletedEffects := completed_aborted s msg tr\<rparr>" (is ?eq)
  and abort_calls_retires [simp]:
  "retires (stPendingEffects (tState tr)) (stCompletedEffects (tState tr))
     (pending_aborted s msg tr) (completed_aborted s msg tr)" (is ?ret)
proof -
  obtain P C where 1: "tState (fold (abort_call s msg) (sorted_keys (stOpenCalls s)) tr) =
     (tState tr)\<lparr>stOpenCalls := fmfilter (\<lambda>k. k \<notin> set (sorted_keys (stOpenCalls s)))
           (stOpenCalls (tState tr)),
       stClosedCalls := abort_all s (sorted_keys (stOpenCalls s)) (stClosedCalls (tState tr)),
       stPendingEffects := P, stCompletedEffects := C\<rparr>"
    and 2: "retires (stPendingEffects (tState tr)) (stCompletedEffects (tState tr)) P C"
    using abort_fold [of s msg "sorted_keys (stOpenCalls s)" tr] by blast
  then have "P = pending_aborted s msg tr" "C = completed_aborted s msg tr"
    by (simp_all add: pending_aborted_def completed_aborted_def)
  with 1 2 show ?eq ?ret by simp_all
qed

section \<open>The evaluation of a step\<close>

text \<open>It changes the budgets, the convergence, the next action and the failure flags only.\<close>

definition off_step :: "State \<Rightarrow> State" where
  "off_step s = s\<lparr>stRepairBudgets := fmempty, stConvergence := None,
     stNextAction := StepActionNone, stUnresolvedToolFailure := False,
     stRecoveryToolSucceeded := False\<rparr>"

definition step_fields :: "State \<Rightarrow> State \<Rightarrow> bool" where
  "step_fields s t \<longleftrightarrow>
     off_step t = off_step s \<and> (stConvergence s \<noteq> None \<longrightarrow> stConvergence t \<noteq> None)"

lemma step_fields_refl [simp]: "step_fields s s"
  by (simp add: step_fields_def)

lemma step_fields_trans: "step_fields s t \<Longrightarrow> step_fields t u \<Longrightarrow> step_fields s u"
  by (simp add: step_fields_def)

lemma step_fieldsE:
  assumes "step_fields s t"
  obtains b v a u r where "t = s\<lparr>stRepairBudgets := b, stConvergence := v, stNextAction := a,
              stUnresolvedToolFailure := u, stRecoveryToolSucceeded := r\<rparr>"
    "stConvergence s \<noteq> None \<Longrightarrow> v \<noteq> None"
proof -
  have "t = s\<lparr>stRepairBudgets := stRepairBudgets t, stConvergence := stConvergence t,
      stNextAction := stNextAction t, stUnresolvedToolFailure := stUnresolvedToolFailure t,
      stRecoveryToolSucceeded := stRecoveryToolSucceeded t\<rparr>"
    using assms by (cases s, cases t) (simp add: step_fields_def off_step_def)
  with assms show ?thesis using that unfolding step_fields_def by blast
qed

lemma step_fields_action [simp]: "step_fields (tState tr) (tState (next_action a tr))"
  by (simp add: step_fields_def off_step_def next_action_def)

lemma step_fields_clear [simp]: "step_fields s (clear_tool_failure s)"
  by (simp add: step_fields_def off_step_def clear_tool_failure_def)

lemma step_fields_begin [simp]: "step_fields (tState tr) (tState (beginConvergence r tr))"
  by (simp add: step_fields_def off_step_def)

lemma step_fields_budget:
  "spendRepairBudget tr kind key limit = Inr tr' \<Longrightarrow> step_fields (tState tr) (tState tr')"
  by (auto dest!: spendRepairBudget_eq_Inr simp: step_fields_def off_step_def)

lemma step_fields_convergence [simp]:
  "step_fields s (s\<lparr>stConvergence := map_option f (stConvergence s)\<rparr>)"
  by (simp add: step_fields_def off_step_def)

lemma step_fields_spend:
  "spend key kind limit action tr = Inr tr' \<Longrightarrow> step_fields (tState tr) (tState tr')"
  by (auto simp: spend_def next_action_def [symmetric] split: if_splits sum.splits
      intro: step_fields_trans step_fields_budget step_fields_action step_fields_begin)

lemma step_fields_modify:
  "(\<And>s. step_fields s (f s)) \<Longrightarrow> step_fields (tState tr) (tState (modify f tr))"
  by simp

lemma step_fields_finalize:
  assumes "finalize_step s v tr = Inr tr'"
  shows "step_fields (tState tr) (tState tr')"
proof -
  let ?t = "next_action StepActionBlock tr"
  consider "tr' = next_action StepActionFinalize tr" | "tr' = ?t"
    | t where "spendRepairBudget ?t RepairDeclaration ''convergence_declaration''
          (plDeclarationRepairLimit (stPolicy s)) = Inr t"
        "tr' = next_action StepActionFinalize (modify (\<lambda>s. s\<lparr>stConvergence := map_option
                     (\<lambda>v. v\<lparr>cvFinalizationAttempted := False\<rparr>) (stConvergence s)\<rparr>) t)"
    using assms unfolding finalize_step_def Let_def
    by (simp only: bind_result_eq_Inr sum.inject split: if_splits) blast+
  then show ?thesis
  proof cases
    case (3 t)
    have "step_fields (tState ?t) (tState t)" by (rule step_fields_budget [OF 3(1)])
    then have "step_fields (tState tr) (tState t)"
      by (rule step_fields_trans [OF step_fields_action])
    moreover have "step_fields (tState t) (tState tr')"
      unfolding 3(2) by (rule step_fields_trans [OF _ step_fields_action]) simp
    ultimately show ?thesis by (rule step_fields_trans)
  qed simp_all
qed

lemma applyEvaluateTurnStep_fields:
  assumes "applyEvaluateTurnStep tr s key = Inr tr'"
  shows "step_fields (tState tr) (tState tr')" "stPhase s = PhaseSampling"
proof -
  let ?rec = "stUnresolvedToolFailure s \<and> stRecoveryToolSucceeded s"
  let ?tr1 = "next_action StepActionNone tr"
  let ?tr = "if ?rec then modify clear_tool_failure ?tr1 else ?tr1"
  have 1: "step_fields (tState tr) (tState ?tr)"
    by (auto intro: step_fields_trans [OF step_fields_action step_fields_clear])
  have "step_fields (tState ?tr) (tState tr')"
    using assms unfolding applyEvaluateTurnStep_def Let_def guard_error_eq_Inr ensure_eq_Inr
    by (elim conjE) (force simp: bind_result_eq_Inr simp del: modify_simps 
      dest: step_fields_spend step_fields_finalize intro: step_fields_trans step_fields_modify
      split: if_splits option.splits)
  with 1 show "step_fields (tState tr) (tState tr')" by (rule step_fields_trans)
  show "stPhase s = PhaseSampling"
    using assms by (simp add: applyEvaluateTurnStep_def Let_def)
qed
end
