(* ===== verification/HandlerStates.thy ===== *)
theory HandlerStates
  imports Frames
begin

text \<open>
  The state each of the longer handlers leads to, as one record update of the state it starts
  from. A handler that finishes an effect and closes others after it is described through
  \<open>retires\<close>; everything else is exact.
\<close>

section \<open>Finishing an effect\<close>

lemma retires_close:
  "closes_effects f \<Longrightarrow> P = stPendingEffects t \<Longrightarrow> C = stCompletedEffects t \<Longrightarrow>
   retires P C (pending_after f t) (completed_after f t)"
  using closes_effects_retires by blast

lemma finishEffectD:
  "finishEffect tr eid ok msg = Inr tr' \<Longrightarrow>
     \<exists>e. fmlookup (stPendingEffects (tState tr)) eid = Some e \<and>
       tState tr' = (tState tr)\<lparr>stPendingEffects := fmdrop eid (stPendingEffects (tState tr)),
         stCompletedEffects := fmupd eid (settle ok msg e) (stCompletedEffects (tState tr))\<rparr>"
  unfolding finishEffect_eq_Inr by auto

lemma fmdrop_upd_same [simp]: "fmdrop k (fmupd k v m) = fmdrop k m"
  by (rule fmap_ext) simp

lemma retires_finish_close:
  assumes "fmlookup P eid \<noteq> None" "closes_effects f" "stPendingEffects t = fmdrop eid P"
    "fmdrop eid (stCompletedEffects t) = fmdrop eid C" "fmlookup (stCompletedEffects t) eid \<noteq> None"
  shows "retires P C (pending_after f t) (completed_after f t)"
proof -
  obtain e e' where e: "fmlookup P eid = Some e" and e': "fmlookup (stCompletedEffects t) eid = Some e'"
    using assms(1,5) by blast
  have "fmlookup (stCompletedEffects t) k = fmlookup (fmupd eid e' C) k" for k
    using arg_cong [OF assms(4), of "\<lambda>m. fmlookup m k"] e' by (auto split: if_splits)
  then have C: "stCompletedEffects t = fmupd eid e' C" by (rule fmap_ext)
  have "retires P C (fmdrop eid P) (fmupd eid e' C)" by (rule retires_finish [OF e])
  then show ?thesis
    by (rule retires_trans) (rule retires_close [OF assms(2) assms(3) [symmetric] C [symmetric]])
qed

lemma disjoint_lookup:
  "fmdom P |\<inter>| fmdom C = {||} \<Longrightarrow> fmlookup P k = Some y \<Longrightarrow> fmlookup C k = None"
  by (metis finterI fmdomI fempty_iff fmdom_notD)

lemmas handler_simps = Let_def bind_result_eq_Inr put_sample_def cloneState_def
  closeFirstEffectByKind_def closeEffectByIdentity_def

section \<open>Approvals and cancellation\<close>

lemma applyApprovalResolved_state:
  assumes "applyApprovalResolved tr s rid = Inr tr'"
  obtains p f t where "p \<in> {stPhase (tState tr), PhaseExecutingTools}" "closes_effects f"
    "stPendingEffects t = stPendingEffects (tState tr)" "stCompletedEffects t = stCompletedEffects (tState tr)"
    "tState tr' = (tState tr)\<lparr>stPhase := p, stPendingApprovals := fmdrop rid (stPendingApprovals (tState tr)),
       stPendingEffects := pending_after f t, stCompletedEffects := completed_after f t\<rparr>"
    "stPhase s = PhaseAwaitingApproval"
proof -
  let ?f = "close_first (\<lambda>e. efKind e = EffectAwaitApproval \<and> efIdempotencyKey e = ''approval:'' @ rid) True []"
  let ?t = "(tState tr)\<lparr>stPendingApprovals := fmdrop rid (stPendingApprovals (tState tr))\<rparr>"
  let ?p = "if fmdrop rid (stPendingApprovals (tState tr)) = fmempty then PhaseExecutingTools else stPhase (tState tr)"
  show thesis
  proof (rule that [of ?p ?f ?t])
    show "tState tr' = (tState tr)\<lparr>stPhase := ?p, stPendingApprovals := fmdrop rid (stPendingApprovals (tState tr)),
       stPendingEffects := pending_after ?f ?t, stCompletedEffects := completed_after ?f ?t\<rparr>"
      using assms by (auto simp: applyApprovalResolved_def handler_simps)
  qed (use assms in \<open>auto simp: applyApprovalResolved_def Let_def closes_effects_close_first\<close>)
qed

lemma applyCancelRequested_state:
  "applyCancelRequested tr s m = Inr tr' \<Longrightarrow>
     tState tr' = (tState tr)\<lparr>stCancellation := \<lparr>cnRequested = True, cnAccepted = True, cnReason = m\<rparr>\<rparr> \<and>
     \<not> cnAccepted (stCancellation s)"
  by (auto simp: applyCancelRequested_def Let_def)

section \<open>Tool calls\<close>

lemma applyToolCalls_state:
  assumes "applyToolCalls c tr s calls = Inr tr'"
  shows "tState tr' = (tState tr)\<lparr>stPhase := (if stPhase s = PhaseSampling then PhaseExecutingTools else stPhase (tState tr)),
     stCompletion := None, stOutputEligibility := False,
     stOpenCalls := add_calls calls (stOpenCalls (tState tr)),
     stPendingEffects := add_effects (tool_effects c (stNextEffectSequence (tState tr)) calls)
             (stPendingEffects (tState tr)),
     stNextEffectSequence := stNextEffectSequence (tState tr) + of_nat (length calls),
     stProgress := (stProgress (tState tr))\<lparr>pgPendingIdentity := FormatToolCallsIdentity c calls\<rparr>\<rparr>"
    and "stPhase s \<in> {PhaseSampling, PhaseExecutingTools}" "calls \<noteq> []" "\<not> cnAccepted (stCancellation s)"
    and "distinct (map tcID calls)"
    and "\<forall>call \<in> set calls. \<not> blank (tcID call) \<and> \<not> blank (tcName call) \<and>
           fmlookup (stOpenCalls s) (tcID call) = None \<and>
           fmlookup (stClosedCalls s) (tcID call) = None"
    and "tEffects tr' = tEffects tr @ tool_effects c (stNextEffectSequence (tState tr)) calls"
proof -
  obtain t where t: "open_calls c s (ToolCallsProposed calls) {} calls
       (modify (\<lambda>s. s\<lparr>stCompletion := None, stOutputEligibility := False\<rparr>) tr) = Inr t"
    and tr': "tr' = modify (\<lambda>s. s\<lparr>stProgress := (stProgress s)\<lparr>pgPendingIdentity :=
                           FormatToolCallsIdentity c calls\<rparr>\<rparr>)
                      (if stPhase s = PhaseSampling then move PhaseExecutingTools t else t)"
    using assms unfolding applyToolCalls_def Let_def by (auto simp: bind_result_eq_Inr)
  note o = open_calls_eq_Inr [OF t]
  show "tState tr' = (tState tr)\<lparr>stPhase := (if stPhase s = PhaseSampling then PhaseExecutingTools else stPhase (tState tr)),
     stCompletion := None, stOutputEligibility := False,
     stOpenCalls := add_calls calls (stOpenCalls (tState tr)),
     stPendingEffects := add_effects (tool_effects c (stNextEffectSequence (tState tr)) calls)
             (stPendingEffects (tState tr)),
     stNextEffectSequence := stNextEffectSequence (tState tr) + of_nat (length calls),
     stProgress := (stProgress (tState tr))\<lparr>pgPendingIdentity := FormatToolCallsIdentity c calls\<rparr>\<rparr>"
    by (simp add: tr' o(1))
  show "tEffects tr' = tEffects tr @ tool_effects c (stNextEffectSequence (tState tr)) calls"
    by (simp add: tr' o(2))
  show "distinct (map tcID calls)" by (rule o(3))
  show "\<forall>call \<in> set calls. \<not> blank (tcID call) \<and> \<not> blank (tcName call) \<and>
           fmlookup (stOpenCalls s) (tcID call) = None \<and>
           fmlookup (stClosedCalls s) (tcID call) = None" using o(4) by blast
  show "stPhase s \<in> {PhaseSampling, PhaseExecutingTools}" "calls \<noteq> []" "\<not> cnAccepted (stCancellation s)"
    using assms by (auto simp: applyToolCalls_def Let_def)
qed

lemma observe_changes_state [simp]:
  "tState (observe_changes changes tr) = (tState tr)\<lparr>
     stMutationRevision := (if changes = [] then stMutationRevision (tState tr)
        else stMutationRevision (tState tr) + 1),
     stChanges := stChanges (tState tr) @ changes,
     stCompletion := (if changes = [] then stCompletion (tState tr) else None),
     stVerification := (if changes = [] then stVerification (tState tr) else unevaluated),
     stJournal := (if changes = [] then stJournal (tState tr) else JournalOpen)\<rparr>"
  "tEffects (observe_changes changes tr) = tEffects tr"
  by (simp_all add: observe_changes_def Let_def)

lemma note_tool_failure_state [simp]:
  "note_tool_failure s b t = t\<lparr>
     stUnresolvedToolFailure := (b \<or> stUnresolvedToolFailure t),
     stRecoveryToolSucceeded := (\<not> b \<and> (stUnresolvedToolFailure s \<or> stRecoveryToolSucceeded t))\<rparr>"
  by (auto simp: note_tool_failure_def)

lemma applyToolResult_eq_Inr:
  assumes "applyToolResult c tr s r = Inr tr'"
  obtains call t1 where "fmlookup (stOpenCalls s) (txCallID r) = Some call"
    "finishEffect tr (txEffectID r) True [] = Inr t1"
    "tr' = close_tool_call c s r call
       (call_awaits_approval s (txCallID r) \<and> cnAccepted (stCancellation s)) t1"
    "stPhase s \<in> {PhaseExecutingTools, PhaseAwaitingApproval}"
    "call_awaits_approval s (txCallID r) \<longrightarrow> cnAccepted (stCancellation s)"
    "efKind (lookup_zero zero_Effect (stPendingEffects s) (txEffectID r)) = EffectExecuteTool"
    "efCallID (lookup_zero zero_Effect (stPendingEffects s) (txEffectID r)) = txCallID r"
  using assms
  by (auto simp: applyToolResult_def Let_def bind_result_eq_Inr split: option.splits)

lemma applyToolResult_state:
  assumes "applyToolResult c tr s r = Inr tr'"
  obtains call e A P C u v w where
    "stPhase s \<in> {PhaseExecutingTools, PhaseAwaitingApproval}"
    "call_awaits_approval s (txCallID r) \<longrightarrow> cnAccepted (stCancellation s)"
    "fmlookup (stOpenCalls s) (txCallID r) = Some call"
    "fmlookup (stPendingEffects (tState tr)) (txEffectID r) = Some e"
    "retires (fmdrop (txEffectID r) (stPendingEffects (tState tr)))
       (fmupd (txEffectID r) (settle True [] e) (stCompletedEffects (tState tr))) P C"
    "tState tr' = (tState tr)\<lparr>
       stPhase := phase_after_tools ((tState tr)\<lparr>stPendingApprovals := A,
          stOpenCalls := fmdrop (txCallID r) (stOpenCalls (tState tr))\<rparr>),
       stOpenCalls := fmdrop (txCallID r) (stOpenCalls (tState tr)),
       stClosedCalls := fmupd (txCallID r) \<lparr>trID = txCallID r, trName = tcName call,
          trIsError = txIsError r\<rparr> (stClosedCalls (tState tr)),
       stPendingApprovals := A, stPendingEffects := P, stCompletedEffects := C,
       stUnresolvedToolFailure := u, stRecoveryToolSucceeded := v,
       stMutationRevision := (if txChanges r = [] then stMutationRevision (tState tr)
          else stMutationRevision (tState tr) + 1),
       stChanges := stChanges (tState tr) @ txChanges r,
       stCompletion := (if txChanges r = [] then stCompletion (tState tr) else None),
       stVerification := (if txChanges r = [] then stVerification (tState tr) else unevaluated),
       stJournal := (if txChanges r = [] then stJournal (tState tr) else JournalOpen),
       stWorkItem := w\<rparr>"
proof (rule applyToolResult_eq_Inr [OF assms])
  fix call t1
  let ?cid = "txCallID r"
  let ?cancel = "call_awaits_approval s ?cid \<and> cnAccepted (stCancellation s)"
  assume call: "fmlookup (stOpenCalls s) ?cid = Some call"
    and fin: "finishEffect tr (txEffectID r) True [] = Inr t1"
    and tr': "tr' = close_tool_call c s r call ?cancel t1"
    and pre: "stPhase s \<in> {PhaseExecutingTools, PhaseAwaitingApproval}"
    "call_awaits_approval s ?cid \<longrightarrow> cnAccepted (stCancellation s)"
  from finishEffectD [OF fin] obtain e where e: "fmlookup (stPendingEffects (tState tr)) (txEffectID r) = Some e"
    and t1: "tState t1 = (tState tr)\<lparr>stPendingEffects := fmdrop (txEffectID r) (stPendingEffects (tState tr)),
         stCompletedEffects := fmupd (txEffectID r) (settle True [] e) (stCompletedEffects (tState tr))\<rparr>"
    by blast
  define t2 where "t2 = modify (\<lambda>s. s\<lparr>stOpenCalls := fmdrop ?cid (stOpenCalls s),
                  stClosedCalls := fmupd ?cid
                    \<lparr>trID = ?cid, trName = tcName call, trIsError = txIsError r\<rparr>
                    (stClosedCalls s)\<rparr>) t1"
  define t3 where "t3 = (if ?cancel then withdraw_approvals s ?cid t2 else t2)"
  obtain A P C where t3: "tState t3 = (tState t2)\<lparr>stPendingApprovals := A, stPendingEffects := P,
       stCompletedEffects := C\<rparr>"
    and ret: "retires (stPendingEffects (tState t2)) (stCompletedEffects (tState t2)) P C"
  proof (cases ?cancel)
    case True
    then have eq: "t3 = withdraw_approvals s ?cid t2" by (simp add: t3_def)
    show thesis by (rule that [OF _ withdraw_approvals_retires [of t2 s ?cid]]) (subst eq, rule withdraw_approvals_state)
  next
    case False
    then have eq: "t3 = t2" by (simp only: t3_def if_False)
    show thesis by (rule that [OF _ retires_refl, of "stPendingApprovals (tState t2)"]) (simp add: eq)
  qed
  define t6 where "t6 = observe_changes (txChanges r)
     (emit ((plain_event EventToolClosed)\<lparr>evCallID := ?cid\<rparr>)
       (modify (note_tool_failure s (txIsError r)) t3))"
  let ?w = "observed_item c (tState t6) call (txChanges r) (txObservation r) (txIsError r)"
  have eq: "tState tr' = (tState t6)\<lparr>stWorkItem := ?w, stPhase := phase_after_tools (tState t6)\<rparr>"
    unfolding tr' close_tool_call_def Let_def t2_def [symmetric] t3_def [symmetric] t6_def [symmetric]
    by (simp add: phase_after_tools_def)
  have ret': "retires (fmdrop (txEffectID r) (stPendingEffects (tState tr)))
       (fmupd (txEffectID r) (settle True [] e) (stCompletedEffects (tState tr))) P C"
    using ret by (simp add: t2_def t1)
  have ph: "phase_after_tools (tState t6) = phase_after_tools ((tState tr)\<lparr>stPendingApprovals := A,
          stOpenCalls := fmdrop (txCallID r) (stOpenCalls (tState tr))\<rparr>)"
    by (simp add: phase_after_tools_def t6_def t3 t2_def t1)
  show thesis
    by (rule that [OF pre call e ret', where w = ?w and A = A and
          u = "txIsError r \<or> stUnresolvedToolFailure (tState tr)" and
          v = "\<not> txIsError r \<and> (stUnresolvedToolFailure s \<or> stRecoveryToolSucceeded (tState tr))"])
      (simp add: eq ph, simp add: t6_def t3, simp add: t2_def t1)
qed

section \<open>Sample results\<close>

lemma record_text_state [simp]:
  "record_text s r t = t\<lparr>
     stCommentary := (if is_commentary s r
        then stCommentary t @ [\<lparr>cmSampleID = mrSampleID r, cmText = mrText r,
               cmCallIDs = map tcID (mrCalls r)\<rparr>] else stCommentary t),
     stProvisionalOutput := (if \<not> is_commentary s r \<and> \<not> blank (mrText r)
        then stProvisionalOutput t @ [mrText r] else stProvisionalOutput t),
     stOutputEligibility := (if \<not> is_commentary s r \<and> \<not> blank (mrText r)
        then False else stOutputEligibility t)\<rparr>"
  by (simp add: record_text_def)

lemma book_sample_state [simp]:
  "tState (book_sample s r tr) = (tState tr)\<lparr>
     stSampleLedger := fmupd (mrSampleID r) (booked_sample s r) (stSampleLedger (tState tr)),
     stActiveSampleID := [],
     stUsage := mergeUsage (stUsage (tState tr)) (mrUsage r),
     stContext := (mrContext r)\<lparr>cxFrozen := False\<rparr>,
     stLastModelContinued := mrContinued r, stNextAction := StepActionNone\<rparr>"
  "tEffects (book_sample s r tr) = tEffects tr"
  by (simp_all add: book_sample_def record_usage_def put_sample_def)

lemma applyModelSampleResult_eq_Inr:
  assumes "applyModelSampleResult c tr s r = Inr tr'"
  obtains t1 where "stPhase s = PhaseSampling"
    "finishEffect tr (mrEffectID r) (mrError r = []) (mrError r) = Inr t1"
    "follow_sample c s r (book_sample s r t1) = Inr tr'"
    "\<not> blank (mrSampleID r)" "(mrError r = []) = (mrFailure r = None)"
    "sample_result_ready s (lookup_zero zero_Effect (stPendingEffects s) (mrEffectID r)) r"
proof -
  from assms have *: "stPhase s \<in> set [PhaseSampling] \<and>
      \<not> (blank (mrEffectID r) \<or> blank (mrSampleID r)) \<and>
      (mrError r = []) = (mrFailure r = None) \<and>
      (case fmlookup (stPendingEffects s) (mrEffectID r) of None \<Rightarrow> False
        | Some effect \<Rightarrow> sample_result_ready s effect r) \<and>
      (\<exists>t1. finishEffect tr (mrEffectID r) (mrError r = []) (mrError r) = Inr t1 \<and>
         follow_sample c s r (book_sample s r t1) = Inr tr')"
    unfolding applyModelSampleResult_def Let_def guard_error_eq_Inr ensure_eq_Inr
      bind_result_eq_Inr report_eq_Inr requirePhase_None .
  then obtain t1 where t1: "finishEffect tr (mrEffectID r) (mrError r = []) (mrError r) = Inr t1"
    "follow_sample c s r (book_sample s r t1) = Inr tr'" by blast
  have "sample_result_ready s (lookup_zero zero_Effect (stPendingEffects s) (mrEffectID r)) r"
    using conjunct1 [OF conjunct2 [OF conjunct2 [OF conjunct2 [OF *]]]]
    by (cases "fmlookup (stPendingEffects s) (mrEffectID r)") simp_all
  moreover have "stPhase s = PhaseSampling" using conjunct1 [OF *] by simp
  ultimately show thesis using that [OF _ t1] * by blast
qed

lemma follow_sample_cases:
  assumes "follow_sample c s r tr = Inr tr'"
  obtains (failed) "mrError r \<noteq> []" "tr' = tr"
  | (answered) "mrError r = []" "mrCalls r = []"
      "tr' = modify (\<lambda>s. s\<lparr>stProgress := (stProgress s)\<lparr>pgPendingIdentity := []\<rparr>\<rparr>)
         (modify (record_text s r) tr)"
  | (called) t where "mrError r = []" "mrCalls r \<noteq> []" "t = modify (record_text s r) tr"
      "applyToolCalls c t (tState t) (mrCalls r) = Inr tr'"
  using assms unfolding follow_sample_def Let_def
  by (cases "mrError r = []"; cases "mrCalls r = []") (simp_all del: modify_simps record_text_state)

section \<open>Verification\<close>

definition verified_item :: "State \<Rightarrow> VerificationResult \<Rightarrow> VerificationAction \<Rightarrow> State \<Rightarrow> WorkItem" where
  "verified_item s r a t = stWorkItem (record_verification s r a t)"

lemma record_verification_state [simp]:
  "record_verification s r a t = t\<lparr>
     stVerification := \<lparr>vsStatus = vrStatus r, vsAction = a, vsMutation = stMutationRevision s,
        vsEvidenceCalls = vrEvidenceCalls r, vsFailureMessage = vrMessage r\<rparr>,
     stCompletion := (if vrStatus r \<noteq> VerificationPassed \<and> a \<noteq> VerificationActionReported
        then None else stCompletion t),
     stWorkItem := verified_item s r a t, stNextAction := StepActionNone\<rparr>"
  by (simp add: record_verification_def verified_item_def Let_def)

lemma verification_action_cases:
  assumes "verification_action s r tr = Inr (a, tr')"
  obtains (settled) "a = unrepaired_action s (vrStatus r)" "tr' = tr"
  | (repair) l where "spendRepairBudget tr RepairVerification (vrRepairKey r) l = Inr tr'"
      "a = VerificationActionRepair" "vrStatus r \<noteq> VerificationPassed"
proof (cases "(vrStatus r \<noteq> VerificationPassed \<and> plVerificationMode (stPolicy s) \<noteq> ''soft'') \<and>
        plVerificationRepairLimit (stPolicy s) \<noteq> 0")
  case False
  then show thesis using assms settled unfolding verification_action_def Let_def
    by (simp only: if_False sum.inject prod.inject)
next
  case True
  let ?spent = "spendRepairBudget tr RepairVerification (vrRepairKey r)
          (plVerificationRepairLimit (stPolicy s))"
  have eq: "(case ?spent of Inr tr' \<Rightarrow> Inr (VerificationActionRepair, tr')
            | Inl err \<Rightarrow> if budget_exhausted err
                         then Inr (unrepaired_action s (vrStatus r), tr)
                         else Inl err) = Inr (a, tr')"
    using assms unfolding verification_action_def Let_def if_P [OF True] .
  show thesis
  proof (cases ?spent)
    case (Inl err)
    then show thesis using eq settled by (cases "budget_exhausted err") simp_all
  next
    case (Inr t)
    then show thesis using eq repair [of "plVerificationRepairLimit (stPolicy s)"] True by simp
  qed
qed

lemma applyVerificationFinished_eq_Inr:
  assumes "applyVerificationFinished tr s r = Inr tr'"
  obtains t1 a t2 where "stPhase s = PhaseVerifying"
    "vrStatus r \<in> {VerificationPassed, VerificationFailed, VerificationUnavailable}"
    "finishEffect tr (verification_effect s (vrEffectID r)) True [] = Inr t1"
    "verification_action s r t1 = Inr (a, t2)"
    "tr' = move PhaseSampling
        (emit ((plain_event EventVerification)\<lparr>evMutation := stMutationRevision s\<rparr>)
          (modify (record_verification s r a) t2))"
  using assms unfolding applyVerificationFinished_def Let_def guard_error_eq_Inr ensure_eq_Inr
    bind_result_eq_Inr report_eq_Inr by (auto simp del: record_verification_state)

section \<open>The terminal transaction\<close>

lemma settle_terminal_cases:
  assumes "settle_terminal s cmd d tr = Inr (d', tr')"
  obtains (completed) "tdKind d = TerminalCompleted" "d' = d" "tr' = tr"
      "stPhase s = PhaseSampling" "validateCompletionReadiness s = None"
  | (unsuccessful) "tdKind d \<in> {TerminalFailed, TerminalCanceled}" "d' = d" "tr' = tr"
      "\<not> blank (tdMessage d)" "tdConvergence d = None"
  | (blocked) v where "tdKind d = TerminalFailed" "\<not> blank (tdMessage d)"
      "stConvergence s = Some v" "cvFinalizationAttempted v"
      "d' = d\<lparr>tdConvergence := blockedConvergence (Some v)\<rparr>"
      "tr' = modify (\<lambda>s. s\<lparr>stConvergence := blockedConvergence (Some v)\<rparr>) tr"
proof (cases "tdKind d")
  case TerminalCompleted
  have "stPhase s = PhaseSampling \<and> validateCompletionReadiness s = None \<and> d' = d \<and> tr' = tr"
    using assms unfolding settle_terminal_def TerminalCompleted by simp
  then show thesis using completed [OF TerminalCompleted] by blast
next
  case (TerminalOther k)
  then show thesis using assms by (simp add: settle_terminal_def)
next
  case TerminalFailed
  show thesis
  proof (cases "tdConvergence d")
    case None
    have "\<not> blank (tdMessage d) \<and> d' = d \<and> tr' = tr"
      using assms unfolding settle_terminal_def TerminalFailed by (auto simp: None)
    then show thesis using unsuccessful None TerminalFailed by blast
  next
    case (Some w)
    have *: "\<not> blank (tdMessage d)" "(case stConvergence s of None \<Rightarrow> False
                | Some v \<Rightarrow> cvFinalizationAttempted v)"
      "d' = d\<lparr>tdConvergence := blockedConvergence (stConvergence s)\<rparr>"
      "tr' = modify (\<lambda>t. t\<lparr>stConvergence := blockedConvergence (stConvergence s)\<rparr>) tr"
      using assms unfolding settle_terminal_def TerminalFailed by (simp_all add: Some Let_def)
    show thesis
    proof (cases "stConvergence s")
      case None
      then show thesis using *(2) by simp
    next
      case (Some v)
      show thesis
        by (rule blocked [OF TerminalFailed *(1) Some]) (use * Some in simp_all)
    qed
  qed
next
  case TerminalCanceled
  have "\<not> blank (tdMessage d) \<and> tdConvergence d = None \<and> d' = d \<and> tr' = tr"
    using assms unfolding settle_terminal_def TerminalCanceled
    by (cases "tdConvergence d = None") (auto simp: TerminalCanceled)
  then show thesis using unsuccessful TerminalCanceled by blast
qed

lemma blockedConvergence_Some [simp]: "blockedConvergence (Some v) \<noteq> None"
  by (simp add: blockedConvergence_def)

lemma applyTerminalRequested_eq_Inr:
  assumes "applyTerminalRequested c tr s q d0 = Inr tr'"
  obtains d t where "stPhase s \<noteq> PhaseCommitting" "stOpenCalls s = fmempty"
    "stPendingApprovals s = fmempty" "stPendingInput s = None" "stActiveSampleID s = []"
    "stPendingEffects s = fmempty"
    "settle_terminal s (TerminalRequested q) d0 tr = Inr (d, t)"
    "tr' = (let tr2 = modify (\<lambda>s. freeze (s\<lparr>stPendingTerminal := Some d\<rparr>)) t;
            tr3 = emit ((plain_event EventTerminalPrepared)\<lparr>evTerminal := Some d\<rparr>)
                    (move PhaseCommitting tr2)
        in if stJournal s = JournalOpen \<or> plJournalRequired (stPolicy s)
                then requestEffect c (fst (terminalJournalOutcome s d))
                       (TerminalPayload d)
                       (''journal:'' @ terminal_kind_name (tdKind d)) [] tr3
                else tr3)"
proof -
  obtain d t where 1: "settle_terminal s (TerminalRequested q) d0 tr = Inr (d, t)"
    and 2: "tr' = (let tr2 = modify (\<lambda>s. freeze (s\<lparr>stPendingTerminal := Some d\<rparr>)) t;
            tr3 = emit ((plain_event EventTerminalPrepared)\<lparr>evTerminal := Some d\<rparr>)
                    (move PhaseCommitting tr2)
        in if stJournal s = JournalOpen \<or> plJournalRequired (stPolicy s)
                then requestEffect c (fst (terminalJournalOutcome s d))
                       (TerminalPayload d)
                       (''journal:'' @ terminal_kind_name (tdKind d)) [] tr3
                else tr3)"
    using assms unfolding applyTerminalRequested_def Let_def ensure_eq_Inr bind_result_eq_Inr
    by (auto simp only: prod.case sum.inject)
  show thesis
    by (rule that [OF _ _ _ _ _ _ 1 2])
      (use assms in \<open>simp_all only: applyTerminalRequested_def Let_def ensure_eq_Inr simp_thms\<close>)
qed

lemma applyFinishTerminal_eq_Inr:
  assumes "applyFinishTerminal tr s = Inr tr'"
  obtains d where "stPhase s = PhaseCommitting" "stPendingTerminal s = Some d"
    "stChanges s \<noteq> [] \<longrightarrow> stJournal s = snd (terminalJournalOutcome s d)"
    "tState tr' = (tState tr)\<lparr>stPendingTerminal := None, stTerminal := Some d,
       stFinalOutput := stProvisionalOutput s, stProvisionalOutput := [],
       stPhase := (case tdKind d of TerminalOther _ \<Rightarrow> stPhase (tState tr)
                   | k \<Rightarrow> phaseForTerminal k)\<rparr>"
    "tEffects tr' = tEffects tr"
proof (cases "stPendingTerminal s")
  case None
  with assms show thesis by (simp add: applyFinishTerminal_def)
next
  case (Some d)
  let ?k = "case tdKind d of TerminalCompleted \<Rightarrow> PhaseCompleted | TerminalFailed \<Rightarrow> PhaseFailed
      | TerminalCanceled \<Rightarrow> PhaseCanceled | TerminalOther _ \<Rightarrow> stPhase (tState tr)"
  have eq: "(case tdKind d of TerminalOther _ \<Rightarrow> stPhase (tState tr) | k \<Rightarrow> phaseForTerminal k) = ?k"
    by (cases "tdKind d") (simp_all add: phaseForTerminal_def)
  have pre: "stPhase s = PhaseCommitting"
    "stChanges s \<noteq> [] \<longrightarrow> stJournal s = snd (terminalJournalOutcome s d)"
    using assms by (simp_all add: applyFinishTerminal_def Let_def Some)
  define t where "t = modify (\<lambda>t. t\<lparr>stPendingTerminal := None, stTerminal := Some d,
                  stFinalOutput := stProvisionalOutput s, stProvisionalOutput := []\<rparr>) tr"
  have tr': "tr' = emit ((plain_event EventTerminalCommitted)\<lparr>evTerminal := Some d\<rparr>)
      (case tdKind d of TerminalCompleted \<Rightarrow> move PhaseCompleted t
       | TerminalFailed \<Rightarrow> move PhaseFailed t | TerminalCanceled \<Rightarrow> move PhaseCanceled t
       | TerminalOther _ \<Rightarrow> t)"
    using assms unfolding applyFinishTerminal_def Let_def Some option.case guard_error_eq_Inr
      ensure_eq_Inr sum.inject t_def by (elim conjE) (rule sym)
  have st: "tState tr' = (tState tr)\<lparr>stPendingTerminal := None, stTerminal := Some d,
       stFinalOutput := stProvisionalOutput s, stProvisionalOutput := [], stPhase := ?k\<rparr>"
    "tEffects tr' = tEffects tr"
    unfolding tr' by (cases "tdKind d"; simp add: t_def)+
  show thesis by (rule that [OF pre(1) Some pre(2)]) (simp_all only: st eq)
qed

end
