(* ===== verification/ValidState.thy ===== *)
theory ValidState
  imports KernelValidate
begin

text \<open>
  What a valid state guarantees, part by part: the facts the proofs take from \<open>Validate\<close>.
\<close>

lemma Validate_None:
  "Validate c s = None \<longleftrightarrow>
     validPhase (stPhase s) \<and> stIntent s \<noteq> TurnIntentUnset \<and> \<not> stLedgersNil s \<and>
     commentary_error (stSampleLedger s) {} (stCommentary s) = None \<and>
     range_error (sample_error (stPendingEffects s)) (stSampleLedger s) = None \<and>
     active_sample_error s = None \<and> effects_error c s = None \<and> envelope_error s = None \<and>
     range_error repair_budget_error (stRepairBudgets s) = None \<and>
     progress_error (stProgress s) = None \<and> convergence_error (stConvergence s) = None \<and>
     next_action_error (stNextAction s) = None \<and> calls_error s = None \<and>
     interaction_error s = None \<and> mutation_error s = None \<and> completion_error s = None \<and>
     verification_error s = None \<and> committing_error s = None \<and> terminal_error s = None"
  by (simp add: Validate_def)

lemma effects_error_None:
  "effects_error c s = None \<longleftrightarrow>
     fmpred (\<lambda>eid e. validateEffect c eid e False = None) (stPendingEffects s) \<and>
     fmpred (\<lambda>eid e. fmlookup (stCompletedEffects s) eid = None) (stPendingEffects s) \<and>
     fmpred (\<lambda>eid e. validateEffect c eid e True = None) (stCompletedEffects s)"
  by (auto simp: effects_error_def range_error_None fmpred_iff)

lemma calls_error_None:
  "calls_error s = None \<longleftrightarrow>
     fmpred (\<lambda>cid call. \<not> blank cid \<and> cid = tcID call \<and> \<not> blank (tcName call) \<and>
        fmlookup (stClosedCalls s) cid = None) (stOpenCalls s) \<and>
     fmpred (\<lambda>cid r. \<not> blank cid \<and> cid = trID r \<and> \<not> blank (trName r)) (stClosedCalls s) \<and>
     (stOpenCalls s = fmempty \<or>
        stPhase s \<in> {PhaseExecutingTools, PhaseAwaitingApproval, PhaseAwaitingInput}) \<and>
     \<not> (stPhase s = PhaseExecutingTools \<and> stOpenCalls s = fmempty)"
  by (auto simp: calls_error_def range_error_None fmpred_iff)

lemma interaction_error_None:
  "interaction_error s = None \<longleftrightarrow>
     fmpred (\<lambda>rid a. stPhase s = PhaseAwaitingApproval \<and> rid \<noteq> [] \<and> rid = apRequestID a \<and>
        fmlookup (stOpenCalls s) (apCallID a) \<noteq> None) (stPendingApprovals s) \<and>
     (stPhase s = PhaseAwaitingApproval \<longrightarrow> stPendingApprovals s \<noteq> fmempty) \<and>
     (case stPendingInput s of None \<Rightarrow> stPhase s \<noteq> PhaseAwaitingInput
      | Some i \<Rightarrow> stPhase s = PhaseAwaitingInput \<and> \<not> blank (inRequestID i))"
  by (auto simp: interaction_error_def range_error_None fmpred_iff split: option.splits)

lemma no_common_key:
  "fmpred (\<lambda>k v. fmlookup n k = None) m \<Longrightarrow> fmdom m |\<inter>| fmdom n = {||}"
  by (auto simp: fmpred_iff fmlookup_dom_iff)

lemma valid_effects_disjoint:
  "Validate c s = None \<Longrightarrow> fmdom (stPendingEffects s) |\<inter>| fmdom (stCompletedEffects s) = {||}"
  by (rule no_common_key) (simp add: Validate_None effects_error_None)

lemma valid_calls_disjoint:
  assumes "Validate c s = None"
  shows "fmdom (stOpenCalls s) |\<inter>| fmdom (stClosedCalls s) = {||}"
  by (rule no_common_key) (use assms in \<open>auto simp: Validate_None calls_error_None fmpred_iff\<close>)

lemma valid_committing:
  assumes "Validate c s = None" "stPhase s = PhaseCommitting"
  shows "stPendingTerminal s \<noteq> None" "stTerminal s = None" "usFrozen (stUsage s)"
    "cxFrozen (stContext s)"
  using assms by (simp_all add: Validate_None committing_error_def)

lemma valid_not_committing:
  "Validate c s = None \<Longrightarrow> stPhase s \<noteq> PhaseCommitting \<Longrightarrow> stPendingTerminal s = None"
  by (simp add: Validate_None committing_error_def)

lemma valid_not_terminal:
  "Validate c s = None \<Longrightarrow> \<not> Phase_Terminal (stPhase s) \<Longrightarrow> stTerminal s = None"
  by (simp add: Validate_None terminal_error_def)

lemma valid_terminal:
  assumes "Validate c s = None" "Phase_Terminal (stPhase s)"
  obtains d where "stTerminal s = Some d" "stOpenCalls s = fmempty"
    "stPendingApprovals s = fmempty" "stPendingInput s = None" "stActiveSampleID s = []"
    "stPendingEffects s = fmempty" "stProvisionalOutput s = []" "usFrozen (stUsage s)"
    "cxFrozen (stContext s)" "phaseForTerminal (tdKind d) = stPhase s"
    "validateTerminalState s d = None"
  using assms by (auto simp: Validate_None terminal_error_def split: option.splits)

end
