(* ===== verification/Evolution.thy ===== *)
theory Evolution
  imports HandlerStates ValidState
begin

text \<open>
  What one accepted command may do to the state: calls once closed stay closed, effects once
  completed keep their outcome, identities are never forgotten, cancellation and convergence
  are permanent, the continuation cursor advances by one, and the phase follows the graph
  \<open>targets\<close>. The claims are proved handler by handler and collected in \<open>dispatch_sound\<close>.
\<close>

section \<open>The claims\<close>

definition ledgers_ok :: "State \<Rightarrow> bool" where
  "ledgers_ok s \<longleftrightarrow> fmdom (stPendingEffects s) |\<inter>| fmdom (stCompletedEffects s) = {||} \<and>
     fmdom (stOpenCalls s) |\<inter>| fmdom (stClosedCalls s) = {||}"

definition extends_calls :: "State \<Rightarrow> State \<Rightarrow> bool" where
  "extends_calls s t \<longleftrightarrow>
     stClosedCalls s \<subseteq>\<^sub>f stClosedCalls t \<and>
     (\<forall>k call. fmlookup (stOpenCalls s) k = Some call \<longrightarrow>
        fmlookup (stOpenCalls t) k = Some call \<or>
        (\<exists>r. fmlookup (stClosedCalls t) k = Some r \<and> trName r = tcName call))"

definition extends_effects :: "State \<Rightarrow> State \<Rightarrow> bool" where
  "extends_effects s t \<longleftrightarrow>
     stCompletedEffects s \<subseteq>\<^sub>f stCompletedEffects t \<and>
     fmdom (stPendingEffects s) |\<union>| fmdom (stCompletedEffects s) |\<subseteq>|
       fmdom (stPendingEffects t) |\<union>| fmdom (stCompletedEffects t)"

definition keeps_envelope :: "State \<Rightarrow> State \<Rightarrow> bool" where
  "keeps_envelope s t \<longleftrightarrow>
     stIntent t = stIntent s \<and> stMode t = stMode s \<and> stPolicy t = stPolicy s \<and>
     (cnAccepted (stCancellation s) \<longrightarrow> stCancellation t = stCancellation s) \<and>
     (stConvergence s \<noteq> None \<longrightarrow> stConvergence t \<noteq> None) \<and>
     fmdom (stSampleLedger s) |\<subseteq>| fmdom (stSampleLedger t) \<and>
     (stContinuation t = stContinuation s \<or>
        (\<exists>k. stContinuation t = Some k \<and>
           ccSequence k = (case stContinuation s of None \<Rightarrow> 1 | Some k0 \<Rightarrow> ccSequence k0 + 1))) \<and>
     (stPhase s \<noteq> PhaseCreated \<longrightarrow> prefix (stChanges s) (stChanges t))"

definition evolves :: "State \<Rightarrow> State \<Rightarrow> bool" where
  "evolves s t \<longleftrightarrow> extends_calls s t \<and> extends_effects s t \<and> keeps_envelope s t"

lemmas evolves_defs = evolves_def extends_calls_def extends_effects_def keeps_envelope_def

text \<open>The phase graph: the phases a command may lead to.\<close>

fun targets :: "Command \<Rightarrow> Phase \<Rightarrow> Phase list" where
  "targets StartTurn p = (if p = PhaseCreated then [PhasePreparing] else [])"
| "targets PreparationFinished p = (if p = PhasePreparing then [PhaseSampling] else [])"
| "targets (ModelSampleResultReceived _) p =
     (if p = PhaseSampling then [PhaseSampling, PhaseExecutingTools] else [])"
| "targets (DiscardProvisionalOutput _) p =
     (if p \<in> {PhaseSampling, PhaseExecutingTools, PhaseAwaitingApproval, PhaseAwaitingInput,
             PhaseVerifying} then [p] else [])"
| "targets (BindWorkItem _) p =
     (if p \<in> {PhaseCreated, PhasePreparing, PhaseSampling} then [p] else [])"
| "targets (ToolCallsProposed _) p =
     (if p \<in> {PhaseSampling, PhaseExecutingTools} then [PhaseExecutingTools] else [])"
| "targets (ToolResultReceived _) p =
     (if p \<in> {PhaseExecutingTools, PhaseAwaitingApproval}
      then [PhaseExecutingTools, PhaseAwaitingApproval, PhaseSampling] else [])"
| "targets (AbortOpenCalls _) p =
     (if p \<in> {PhaseExecutingTools, PhaseAwaitingApproval} then [PhaseSampling] else [])"
| "targets (ApprovalRequired _ _) p =
     (if p \<in> {PhaseExecutingTools, PhaseAwaitingApproval} then [PhaseAwaitingApproval] else [])"
| "targets (ApprovalResolved _) p =
     (if p = PhaseAwaitingApproval then [PhaseAwaitingApproval, PhaseExecutingTools] else [])"
| "targets (ApprovalResultReceived _) p =
     (if p = PhaseAwaitingApproval then [PhaseAwaitingApproval, PhaseExecutingTools] else [])"
| "targets (InputRequired _) p =
     (if p \<in> {PhaseSampling, PhaseExecutingTools} then [PhaseAwaitingInput] else [])"
| "targets (InputResolved _) p =
     (if p = PhaseAwaitingInput then [PhaseExecutingTools, PhaseSampling] else [])"
| "targets (InputResultReceived _ _ _ _) p =
     (if p = PhaseAwaitingInput then [PhaseExecutingTools, PhaseSampling] else [])"
| "targets VerificationStarted p = (if p = PhaseSampling then [PhaseVerifying] else [])"
| "targets (VerificationFinished _) p = (if p = PhaseVerifying then [PhaseSampling] else [])"
| "targets (RecoveryRequested _) p = (if p = PhaseCreated then [p] else [])"
| "targets (CancelRequested _) p = [p]"
| "targets (ContinuationRecorded _) p = [p]"
| "targets (EffectStarted _ _) p = [p]"
| "targets (EffectRequeued _) p = [p]"
| "targets (EffectResultReceived _ _ _) p = [p]"
| "targets (PersistenceResultReceived _ _ _) p = [p]"
| "targets (TerminalRequested _) p = (if p = PhaseCommitting then [] else [PhaseCommitting])"
| "targets (JournalFinalized _) p = (if p = PhaseCommitting then [p] else [])"
| "targets (JournalResultReceived _ _ _) p = (if p = PhaseCommitting then [p] else [])"
| "targets FinishTerminal p =
     (if p = PhaseCommitting then [PhaseCompleted, PhaseFailed, PhaseCanceled] else [])"
| "targets _ p = (if p = PhaseSampling then [p] else [])"

text \<open>The claim that is proved of each handler.\<close>

definition sound_step :: "Command \<Rightarrow> State \<Rightarrow> State \<Rightarrow> bool" where
  "sound_step cmd s t \<longleftrightarrow> evolves s t \<and> stPhase t \<in> set (targets cmd (stPhase s))"

lemmas sound_defs = sound_step_def evolves_defs cloneState_def Let_def bind_result_eq_Inr
  put_sample_def

lemma extends_effects_retires:
  "ledgers_ok s \<Longrightarrow>
   retires (stPendingEffects s) (stCompletedEffects s) (stPendingEffects t) (stCompletedEffects t) \<Longrightarrow>
   extends_effects s t"
  by (auto simp: extends_effects_def ledgers_ok_def retires_def)

lemma sound_stepI:
  assumes "extends_effects s t" "extends_calls s t" "keeps_envelope s t"
    "stPhase t \<in> set (targets cmd (stPhase s))"
  shows "sound_step cmd s t"
  using assms by (simp add: sound_step_def evolves_def)

lemma extends_effects_finish_request:
  assumes "ledgers_ok s" "fmlookup (stPendingEffects s) eid \<noteq> None"
    "stCompletedEffects t = fmupd eid e (stCompletedEffects s)"
    "fmdom (fmdrop eid (stPendingEffects s)) |\<subseteq>| fmdom (stPendingEffects t)"
  shows "extends_effects s t"
proof -
  have "fmlookup (stCompletedEffects s) eid = None"
    using assms(1,2) by (auto simp: ledgers_ok_def intro: disjoint_lookup)
  then show ?thesis using assms(3,4) by (auto simp: extends_effects_def fmsubset_upd)
qed

lemma extends_calls_add:
  assumes "\<forall>call \<in> set calls. fmlookup (stOpenCalls s) (tcID call) = None"
    "stOpenCalls t = add_calls calls (stOpenCalls s)" "stClosedCalls t = stClosedCalls s"
  shows "extends_calls s t"
  using add_calls_fmsubset [OF assms(1)] assms(2,3)
  by (auto simp: extends_calls_def dest: fmsubset_lookup)

section \<open>Samples, output and bookkeeping\<close>

lemma sound_StartTurn:
  "dispatch c (start c s) s StartTurn = Inr tr \<Longrightarrow> sound_step StartTurn s (tState tr)"
  by (auto simp:  sound_defs split: option.splits if_splits)

lemma sound_PreparationFinished:
  "dispatch c (start c s) s PreparationFinished = Inr tr \<Longrightarrow> sound_step PreparationFinished s (tState tr)"
  by (auto simp:  sound_defs split: option.splits if_splits)

lemma sound_ModelSampleRequested:
  "applyModelSampleRequested c (start c s) s sid = Inr tr \<Longrightarrow> sound_step (ModelSampleRequested sid) s (tState tr)"
  by (auto simp: applyModelSampleRequested_def sound_defs split: option.splits if_splits)

lemma sound_ModelSampleStarted:
  "applyModelSampleStarted (start c s) s sid n = Inr tr \<Longrightarrow> sound_step (ModelSampleStarted sid n) s (tState tr)"
  by (auto simp: applyModelSampleStarted_def sound_defs split: option.splits if_splits)

lemma sound_ModelSampleFinished:
  "applyModelSampleFinished (start c s) s sid u x e = Inr tr \<Longrightarrow> sound_step (ModelSampleFinished sid u x e) s (tState tr)"
  by (auto simp: applyModelSampleFinished_def record_usage_def sound_defs split: option.splits if_splits)

lemma sound_ModelSampleProgress:
  "applyModelSampleProgress c (start c s) s eid sid n a = Inr tr \<Longrightarrow> sound_step (ModelSampleProgressRecorded eid sid n a) s (tState tr)"
  by (auto simp: applyModelSampleProgress_def sound_defs split: option.splits if_splits)

lemma sound_SupplementalUsage:
  "applySupplementalUsage (start c s) s src sid u = Inr tr \<Longrightarrow> sound_step (SupplementalUsageRecorded src sid u) s (tState tr)"
  by (auto simp: applySupplementalUsage_def sound_defs split: option.splits if_splits)

lemma sound_ProviderRetry:
  "applyProviderRetry (start c s) s r = Inr tr \<Longrightarrow> sound_step (ProviderRetryRequested r) s (tState tr)"
  by (auto simp: applyProviderRetry_def sound_defs split: option.splits if_splits)

lemma sound_ModelText:
  "applyModelText (start c s) s txt = Inr tr \<Longrightarrow> sound_step (ModelTextReceived txt) s (tState tr)"
  by (auto simp: applyModelText_def sound_defs split: option.splits if_splits)

lemma sound_ReleaseOutput:
  "applyReleaseOutput (start c s) s = Inr tr \<Longrightarrow> sound_step ReleaseProvisionalOutput s (tState tr)"
  by (auto simp: applyReleaseOutput_def sound_defs split: option.splits if_splits)

lemma sound_DiscardOutput:
  "applyDiscardOutput (start c s) s m = Inr tr \<Longrightarrow> sound_step (DiscardProvisionalOutput m) s (tState tr)"
  by (auto simp: applyDiscardOutput_def sound_defs split: option.splits if_splits)

lemma sound_BindWorkItem:
  "applyBindWorkItem c (start c s) s b = Inr tr \<Longrightarrow> sound_step (BindWorkItem b) s (tState tr)"
  by (auto simp: applyBindWorkItem_def sound_defs split: option.splits if_splits)

lemma sound_ConvergenceRequested:
  "applyConvergenceRequested (start c s) s r = Inr tr \<Longrightarrow> sound_step (ConvergenceRequested r) s (tState tr)"
  by (auto simp: applyConvergenceRequested_def sound_defs split: option.splits if_splits)

lemma sound_ConvergenceFinalization:
  "applyConvergenceFinalizationStarted (start c s) s = Inr tr \<Longrightarrow> sound_step ConvergenceFinalizationStarted s (tState tr)"
  by (auto simp: applyConvergenceFinalizationStarted_def sound_defs split: option.splits if_splits)

lemma sound_CancelRequested:
  "applyCancelRequested (start c s) s m = Inr tr \<Longrightarrow> sound_step (CancelRequested m) s (tState tr)"
  by (auto simp: applyCancelRequested_def sound_defs split: option.splits if_splits)

lemma sound_Continuation:
  "applyContinuationRecorded (start c s) s k = Inr tr \<Longrightarrow> sound_step (ContinuationRecorded k) s (tState tr)"
  by (auto simp: applyContinuationRecorded_def sound_defs split: option.splits if_splits)

lemma sound_Recovery:
  "applyRecoveryRequested (start c s) s r = Inr tr \<Longrightarrow> sound_step (RecoveryRequested r) s (tState tr)"
  by (auto simp: applyRecoveryRequested_def sound_defs split: option.splits if_splits)

lemma sound_EffectStarted:
  "applyEffectStarted (start c s) s eid n = Inr tr \<Longrightarrow> sound_step (EffectStarted eid n) s (tState tr)"
  by (auto simp: applyEffectStarted_def sound_defs split: option.splits if_splits)

lemma sound_EffectRequeued:
  "applyEffectRequeued (start c s) s eid = Inr tr \<Longrightarrow> sound_step (EffectRequeued eid) s (tState tr)"
  by (auto simp: applyEffectRequeued_def sound_defs split: option.splits if_splits)

lemma sound_VerificationStarted:
  "applyVerificationStarted c (start c s) s = Inr tr \<Longrightarrow> sound_step VerificationStarted s (tState tr)"
  by (auto simp: applyVerificationStarted_def sound_defs split: option.splits if_splits)

lemma sound_Completion:
  "applyCompletion (start c s) s d = Inr tr \<Longrightarrow> sound_step (CompletionEvaluated d) s (tState tr)"
  by (auto simp: applyCompletion_def declare_blocked_def declared_output_def sound_defs split: option.splits if_splits)

lemma sound_CompletionInvalidated:
  "applyCompletionInvalidated (start c s) s m = Inr tr \<Longrightarrow> sound_step (CompletionInvalidated m) s (tState tr)"
  by (auto simp: applyCompletionInvalidated_def sound_defs split: option.splits if_splits)

lemma sound_InputRequired:
  "applyInputRequired c (start c s) s rid = Inr tr \<Longrightarrow> sound_step (InputRequired rid) s (tState tr)"
  by (auto simp: applyInputRequired_def sound_defs split: option.splits if_splits)

lemma sound_ApprovalRequired:
  "applyApprovalRequired c (start c s) s rid cid = Inr tr \<Longrightarrow> sound_step (ApprovalRequired rid cid) s (tState tr)"
  by (auto simp: applyApprovalRequired_def sound_defs split: option.splits if_splits)

section \<open>Effects, approvals and inputs\<close>

lemma sound_JournalResult:
  assumes "ledgers_ok s" "applyJournalResult (start c s) s eid j m = Inr tr"
  shows "sound_step (JournalResultReceived eid j m) s (tState tr)"
proof -
  let ?e = "lookup_zero zero_Effect (stPendingEffects s) eid"
  have run: "stPhase s = PhaseCommitting" "fmlookup (stPendingEffects s) eid \<noteq> None"
    using assms(2) by (auto simp: applyJournalResult_def Let_def)
  have "(m \<noteq> [] \<and> tState tr = (cloneState c s)\<lparr>stPendingEffects := fmupd eid
          (?e\<lparr>efStatus := EffectRequested, efError := m\<rparr>) (stPendingEffects s)\<rparr>) \<or>
        (\<exists>t. finishEffect (start c s) eid True [] = Inr t \<and> tState tr = (tState t)\<lparr>stJournal := j\<rparr>)"
    using assms(2) by (auto simp: applyJournalResult_def handler_simps split: option.splits if_splits)
  then show ?thesis
  proof (elim disjE conjE exE)
    assume "tState tr = (cloneState c s)\<lparr>stPendingEffects := fmupd eid
          (?e\<lparr>efStatus := EffectRequested, efError := m\<rparr>) (stPendingEffects s)\<rparr>"
    with run show ?thesis by (auto simp: sound_defs)
  next
    fix t assume "finishEffect (start c s) eid True [] = Inr t" "tState tr = (tState t)\<lparr>stJournal := j\<rparr>"
    with run assms(1) show ?thesis
      by (auto dest!: finishEffectD intro!: sound_stepI extends_effects_retires retires_finish
         simp: extends_calls_def keeps_envelope_def cloneState_def)
  qed
qed

lemma sound_InputResult:
  assumes "ledgers_ok s" "applyInputResult (start c s) s eid rid ok m = Inr tr"
  shows "sound_step (InputResultReceived eid rid ok m) s (tState tr)"
proof (rule sound_stepI)
  show "extends_effects s (tState tr)"
    using assms(2) by (intro extends_effects_retires [OF assms(1)])
      (auto simp: applyInputResult_def applyInputResolved_def handler_simps dest!: finishEffectD split: option.splits
        intro!: retires_finish_close [where eid = eid] closes_effects_close_first)
qed (use assms(2) in \<open>auto simp: applyInputResult_def applyInputResolved_def handler_simps
      extends_calls_def keeps_envelope_def dest!: finishEffectD split: option.splits\<close>)

lemma sound_ApprovalResult:
  assumes "ledgers_ok s" "applyApprovalResult (start c s) s r = Inr tr"
  shows "sound_step (ApprovalResultReceived r) s (tState tr)"
proof -
  let ?eid = "axEffectID r"
  obtain t1 t2 where 1: "finishEffect (start c s) ?eid (axAccepted r) (axError r) = Inr t1"
    and 2: "applyApprovalResolved t1 (tState t1) (axRequestID r) = Inr t2"
    and 3: "tr = t2 \<or> applyCancelRequested t2 (tState t2) CancelReasonApprovalCanceled = Inr tr"
    using assms(2) by (auto simp: applyApprovalResult_def Let_def bind_result_eq_Inr split: if_splits)
  from finishEffectD [OF 1] obtain e where e: "fmlookup (stPendingEffects s) ?eid = Some e"
    and t1: "tState t1 = (cloneState c s)\<lparr>stPendingEffects := fmdrop ?eid (stPendingEffects s),
         stCompletedEffects := fmupd ?eid (settle (axAccepted r) (axError r) e) (stCompletedEffects s)\<rparr>"
    by (auto simp: cloneState_def)
  show ?thesis
  proof (rule applyApprovalResolved_state [OF 2])
    fix p f t assume p: "p \<in> {stPhase (tState t1), PhaseExecutingTools}" "closes_effects f"
      "stPendingEffects t = stPendingEffects (tState t1)" "stCompletedEffects t = stCompletedEffects (tState t1)"
      "tState t2 = (tState t1)\<lparr>stPhase := p, stPendingApprovals := fmdrop (axRequestID r) (stPendingApprovals (tState t1)),
       stPendingEffects := pending_after f t, stCompletedEffects := completed_after f t\<rparr>"
      "stPhase (tState t1) = PhaseAwaitingApproval"
    have ret: "retires (stPendingEffects s) (stCompletedEffects s) (pending_after f t) (completed_after f t)"
      by (rule retires_finish_close [where eid = ?eid, OF _ p(2)]) (use e t1 p(3,4) in auto)
    have kc: "stCancellation (tState t2) = stCancellation s"
      by (simp add: p(5) t1 cloneState_def)
    obtain k where k: "tState tr = (tState t2)\<lparr>stCancellation := k\<rparr>"
      "cnAccepted (stCancellation s) \<longrightarrow> k = stCancellation s"
      using 3
    proof
      assume "tr = t2"
      then have "tState tr = (tState t2)\<lparr>stCancellation := stCancellation s\<rparr>" by (simp flip: kc)
      then show thesis by (rule that) simp
    next
      assume "applyCancelRequested t2 (tState t2) CancelReasonApprovalCanceled = Inr tr"
      note c = applyCancelRequested_state [OF this]
      show thesis by (rule that [OF conjunct1 [OF c]]) (use c kc in simp)
    qed
    have tr: "tState tr = (cloneState c s)\<lparr>stPhase := p,
        stPendingApprovals := fmdrop (axRequestID r) (stPendingApprovals s),
        stPendingEffects := pending_after f t, stCompletedEffects := completed_after f t,
        stCancellation := k\<rparr>"
      unfolding k(1) p(5) t1 by (simp add: cloneState_def)
    have ph: "stPhase s = PhaseAwaitingApproval" "p \<in> {PhaseAwaitingApproval, PhaseExecutingTools}"
      using p(1,6) unfolding t1 by (simp_all add: cloneState_def)
    show ?thesis
    proof (rule sound_stepI)
      show "extends_effects s (tState tr)"
        using ret by (intro extends_effects_retires [OF assms(1)]) (simp add: tr)
      show "extends_calls s (tState tr)" by (simp add: tr extends_calls_def cloneState_def)
      show "keeps_envelope s (tState tr)" using k(2) by (simp add: tr keeps_envelope_def cloneState_def)
      show "stPhase (tState tr) \<in> set (targets (ApprovalResultReceived r) (stPhase s))"
        using ph by (simp add: tr)
    qed
  qed
qed

lemma sound_AbortOpenCalls:
  assumes "ledgers_ok s" "applyAbortOpenCalls (start c s) s m = Inr tr"
  shows "sound_step (AbortOpenCalls m) s (tState tr)"
proof (rule sound_stepI)
  let ?tr = "start c s"
  show "extends_effects s (tState tr)"
    using assms(2) abort_calls_retires [of "start c s" s m] by (intro extends_effects_retires [OF assms(1)])
      (auto simp: applyAbortOpenCalls_def handler_simps
        intro!: retires_trans [OF _ retires_close] closes_effects_by_kind)
  have disj: "k |\<notin>| fmdom (stOpenCalls s)" if "fmlookup (stClosedCalls s) k = Some r" for k r
    using assms(1) that unfolding ledgers_ok_def by (auto dest: fmdomI)
  show "extends_calls s (tState tr)"
    using assms(2) unfolding extends_calls_def
    by (auto simp: applyAbortOpenCalls_def handler_simps fmlookup_abort_all aborted_def 
        fmsubset_alt_def fmpred_iff dest: disj fmdomI)
qed (use assms(2) in \<open>auto simp: applyAbortOpenCalls_def handler_simps keeps_envelope_def\<close>)

lemma sound_ToolCalls:
  assumes "applyToolCalls c (start c s) s calls = Inr tr"
  shows "sound_step (ToolCallsProposed calls) s (tState tr)"
proof (rule sound_stepI)
  note o = applyToolCalls_state [OF assms]
  show "extends_effects s (tState tr)"
    by (simp add: o(1) extends_effects_def cloneState_def fmdom_add_effects) blast
  show "extends_calls s (tState tr)"
    by (rule extends_calls_add [of calls]) (use o(6) in \<open>simp_all add: o(1) cloneState_def\<close>)
  show "keeps_envelope s (tState tr)" by (simp add: o(1) keeps_envelope_def cloneState_def)
  show "stPhase (tState tr) \<in> set (targets (ToolCallsProposed calls) (stPhase s))"
    using o(2) by (auto simp: o(1) cloneState_def)
qed

lemma sound_JournalFinalized:
  assumes "ledgers_ok s" "applyJournalFinalized (start c s) s j = Inr tr"
  shows "sound_step (JournalFinalized j) s (tState tr)"
proof (rule sound_stepI)
  show "extends_effects s (tState tr)"
    using assms(2) by (intro extends_effects_retires [OF assms(1)])
      (auto simp: applyJournalFinalized_def handler_simps split: option.splits if_splits
        intro!: retires_close closes_effects_close_first)
qed (use assms(2) in \<open>auto simp: applyJournalFinalized_def handler_simps extends_calls_def
      keeps_envelope_def split: option.splits if_splits\<close>)

lemma sound_finish:
  assumes "ledgers_ok s" "finishEffect (start c s) eid ok m = Inr tr"
    "stPhase s \<in> set (targets cmd (stPhase s))"
  shows "sound_step cmd s (tState tr)"
proof (rule sound_stepI)
  show "extends_effects s (tState tr)"
    using assms(2) by (intro extends_effects_retires [OF assms(1)])
      (auto simp: cloneState_def dest!: finishEffectD intro!: retires_finish)
qed (use assms(2,3) in \<open>auto simp: cloneState_def extends_calls_def keeps_envelope_def
      dest!: finishEffectD\<close>)

lemma sound_ApprovalResolved:
  assumes "ledgers_ok s" "applyApprovalResolved (start c s) s rid = Inr tr"
  shows "sound_step (ApprovalResolved rid) s (tState tr)"
proof (rule applyApprovalResolved_state [OF assms(2)])
  fix p f t assume p: "p \<in> {stPhase (tState (start c s)), PhaseExecutingTools}" "closes_effects f"
    "stPendingEffects t = stPendingEffects (tState (start c s))"
    "stCompletedEffects t = stCompletedEffects (tState (start c s))"
    "tState tr = (tState (start c s))\<lparr>stPhase := p,
       stPendingApprovals := fmdrop rid (stPendingApprovals (tState (start c s))),
       stPendingEffects := pending_after f t, stCompletedEffects := completed_after f t\<rparr>"
    "stPhase s = PhaseAwaitingApproval"
  have ret: "retires (stPendingEffects s) (stCompletedEffects s) (pending_after f t) (completed_after f t)"
    using p(3,4) by (intro retires_close [OF p(2)]) (simp_all add: cloneState_def)
  show ?thesis
  proof (rule sound_stepI)
    show "extends_effects s (tState tr)"
      using ret by (intro extends_effects_retires [OF assms(1)]) (simp add: p(5))
  qed (use p(1,6) in \<open>auto simp: p(5) cloneState_def extends_calls_def keeps_envelope_def\<close>)
qed

lemma sound_InputResolved:
  assumes "ledgers_ok s" "applyInputResolved (start c s) s rid = Inr tr"
  shows "sound_step (InputResolved rid) s (tState tr)"
proof (rule sound_stepI)
  show "extends_effects s (tState tr)"
    using assms(2) by (intro extends_effects_retires [OF assms(1)])
      (auto simp: applyInputResolved_def handler_simps split: option.splits
        intro!: retires_close closes_effects_close_first)
qed (use assms(2) in \<open>auto simp: applyInputResolved_def handler_simps extends_calls_def
      keeps_envelope_def split: option.splits\<close>)

section \<open>Tool results, sample results, verification\<close>

lemma sound_ToolResult:
  assumes ok: "ledgers_ok s" and "applyToolResult c (start c s) s r = Inr tr"
  shows "sound_step (ToolResultReceived r) s (tState tr)"
  using assms(2)
proof (cases rule: applyToolResult_state)
  case (1 call e A P C u v w)
  let ?cid = "txCallID r" and ?eid = "txEffectID r"
  have e: "fmlookup (stPendingEffects s) ?eid = Some e"
    using 1(4) by (simp add: cloneState_def)
  have "retires (stPendingEffects s) (stCompletedEffects s) P C"
    using retires_trans [OF retires_finish [OF e]] 1(5) by (simp add: cloneState_def)
  moreover have "fmlookup (stClosedCalls s) ?cid = None"
    using ok 1(3) by (auto simp: ledgers_ok_def intro: disjoint_lookup)
  moreover have "phase_after_tools x \<in> {PhaseAwaitingApproval, PhaseExecutingTools, PhaseSampling}" for x
    by (simp add: phase_after_tools_def)
  ultimately show ?thesis
    using 1(1,3) ok
    by (intro sound_stepI extends_effects_retires)
      (auto simp: 1(6) cloneState_def extends_calls_def keeps_envelope_def fmsubset_upd)
qed

lemma sound_ModelSampleResult:
  assumes ok: "ledgers_ok s" and "applyModelSampleResult c (start c s) s r = Inr tr"
  shows "sound_step (ModelSampleResultReceived r) s (tState tr)"
proof (rule applyModelSampleResult_eq_Inr [OF assms(2)])
  fix t1 assume ph: "stPhase s = PhaseSampling"
    and fin: "finishEffect (start c s) (mrEffectID r) (mrError r = []) (mrError r) = Inr t1"
    and fol: "follow_sample c s r (book_sample s r t1) = Inr tr"
  from finishEffectD [OF fin] obtain e where "fmlookup (stPendingEffects s) (mrEffectID r) = Some e"
    and t1: "tState t1 = (cloneState c s)\<lparr>stPendingEffects := fmdrop (mrEffectID r) (stPendingEffects s),
      stCompletedEffects := fmupd (mrEffectID r) (settle (mrError r = []) (mrError r) e) (stCompletedEffects s)\<rparr>"
    by (auto simp: cloneState_def)
  then have e: "fmlookup (stPendingEffects s) (mrEffectID r) \<noteq> None" by simp
  have sets: "fmdom (stSampleLedger s) |\<subseteq>| finsert k (fmdom (stSampleLedger s))" for k by blast
  show ?thesis
    using fol
  proof (cases rule: follow_sample_cases)
    case failed
    have st: "tState tr = tState (book_sample s r t1)" by (simp only: failed)
    show ?thesis
    proof (rule sound_stepI)
      show "extends_effects s (tState tr)"
        by (rule extends_effects_finish_request [OF ok e]) (simp_all add: st t1)
    qed (simp_all add: ph st t1 cloneState_def extends_calls_def keeps_envelope_def sets)
  next
    case answered
    show ?thesis
    proof (rule sound_stepI)
      show "extends_effects s (tState tr)"
        by (rule extends_effects_finish_request [OF ok e]) (simp_all add: answered(3) t1)
    qed (simp_all add: ph answered(3) t1 cloneState_def extends_calls_def keeps_envelope_def sets)
  next
    case (called t)
    note o = applyToolCalls_state [OF called(4)]
    note st = o(1) called(3) t1 cloneState_def
    show ?thesis
    proof (rule sound_stepI)
      show "extends_effects s (tState tr)"
        by (rule extends_effects_finish_request [OF ok e]) (simp_all add: st fmdom_add_effects)
      show "extends_calls s (tState tr)"
        by (rule extends_calls_add [of "mrCalls r"]) (use o(6) in \<open>simp_all add: st\<close>)
    qed (simp_all add: ph st keeps_envelope_def sets)
  qed
qed

lemma sound_VerificationFinished:
  assumes ok: "ledgers_ok s" and "applyVerificationFinished (start c s) s r = Inr tr"
  shows "sound_step (VerificationFinished r) s (tState tr)"
proof (rule applyVerificationFinished_eq_Inr [OF assms(2)])
  fix t1 a t2
  let ?eid = "verification_effect s (vrEffectID r)"
  assume ph: "stPhase s = PhaseVerifying" and fin: "finishEffect (start c s) ?eid True [] = Inr t1"
    and act: "verification_action s r t1 = Inr (a, t2)"
    and tr: "tr = move PhaseSampling
        (emit ((plain_event EventVerification)\<lparr>evMutation := stMutationRevision s\<rparr>)
          (modify (record_verification s r a) t2))"
  from finishEffectD [OF fin] obtain e where "fmlookup (stPendingEffects s) ?eid = Some e"
    and t1: "tState t1 = (cloneState c s)\<lparr>stPendingEffects := fmdrop ?eid (stPendingEffects s),
      stCompletedEffects := fmupd ?eid (settle True [] e) (stCompletedEffects s)\<rparr>"
    by (auto simp: cloneState_def)
  then have e: "fmlookup (stPendingEffects s) ?eid \<noteq> None" by simp
  obtain b where t2: "tState t2 = (tState t1)\<lparr>stRepairBudgets := b\<rparr>"
    using act
  proof (cases rule: verification_action_cases)
    case settled
    then show thesis using that [of "stRepairBudgets (tState t1)"] by simp
  next
    case (repair l)
    then show thesis using spendRepairBudget_eq_Inr that by fastforce
  qed
  show ?thesis
  proof (rule sound_stepI)
    show "extends_effects s (tState tr)"
      by (rule extends_effects_finish_request [OF ok e]) (simp_all add: tr t2 t1)
  qed (simp_all add: ph tr t2 t1 cloneState_def extends_calls_def keeps_envelope_def)
qed

section \<open>Repair, progress and the terminal transaction\<close>

lemma sound_step_fields:
  assumes "step_fields (cloneState c s) t" "stPhase s \<in> set (targets cmd (stPhase s))"
  shows "sound_step cmd s t"
  using assms by (auto elim!: step_fieldsE simp: sound_defs)

lemma sound_Repair:
  "applyRepairRequested (start c s) s k p l = Inr tr \<Longrightarrow> sound_step (RepairRequested k p l) s (tState tr)"
  by (rule sound_step_fields [where c = c])
    (auto simp: applyRepairRequested_def Let_def dest: step_fields_budget)

lemma sound_Evaluate:
  assumes "applyEvaluateTurnStep (start c s) s p = Inr tr"
  shows "sound_step (EvaluateTurnStep p) s (tState tr)"
  using applyEvaluateTurnStep_fields [OF assms] by (intro sound_step_fields [where c = c]) simp_all

lemma sound_ObserveProgress:
  "applyObserveProgress (start c s) s sg i n = Inr tr \<Longrightarrow> sound_step (ObserveProgress sg i n) s (tState tr)"
  by (auto simp: applyObserveProgress_def sound_defs split: if_splits)

lemma sound_TerminalRequested:
  assumes "applyTerminalRequested c (start c s) s q d0 = Inr tr"
  shows "sound_step (TerminalRequested q) s (tState tr)"
proof (rule applyTerminalRequested_eq_Inr [OF assms])
  fix d t assume ph: "stPhase s \<noteq> PhaseCommitting"
    and set: "settle_terminal s (TerminalRequested q) d0 (start c s) = Inr (d, t)"
    and tr: "tr = (let tr2 = modify (\<lambda>s. freeze (s\<lparr>stPendingTerminal := Some d\<rparr>)) t;
            tr3 = emit ((plain_event EventTerminalPrepared)\<lparr>evTerminal := Some d\<rparr>)
                    (move PhaseCommitting tr2)
        in if stJournal s = JournalOpen \<or> plJournalRequired (stPolicy s)
                then requestEffect c (fst (terminalJournalOutcome s d))
                       (TerminalPayload d)
                       (''journal:'' @ terminal_kind_name (tdKind d)) [] tr3
                else tr3)"
  obtain v where t: "tState t = (cloneState c s)\<lparr>stConvergence := v\<rparr>"
    "stConvergence s \<noteq> None \<longrightarrow> v \<noteq> None"
    using set
  proof (cases rule: settle_terminal_cases)
    case (blocked v)
    then show thesis using that [of "blockedConvergence (Some v)"] by simp
  qed (use that [of "stConvergence s"] in \<open>simp_all add: cloneState_def\<close>)
  show ?thesis
    using ph t(2) unfolding tr Let_def
    by (auto simp: t(1) sound_defs freeze_def)
qed

lemma sound_FinishTerminal:
  assumes "applyFinishTerminal (start c s) s = Inr tr" "Validate c (tState tr) = None"
  shows "sound_step FinishTerminal s (tState tr)"
  using assms(1)
proof (cases rule: applyFinishTerminal_eq_Inr)
  case (1 d)
  have decided: "stTerminal (tState tr) \<noteq> None" by (simp add: 1(4))
  have "(case tdKind d of TerminalOther _ \<Rightarrow> stPhase (tState (start c s)) | k \<Rightarrow> phaseForTerminal k)
      \<in> {PhaseCompleted, PhaseFailed, PhaseCanceled}"
  proof (cases "tdKind d")
    case (TerminalOther k)
    then have "stPhase (tState tr) = PhaseCommitting" using 1(1) by (simp add: 1(4) cloneState_def)
    then show ?thesis using valid_committing(2) [OF assms(2)] decided by simp
  qed (simp_all add: phaseForTerminal_def)
  then obtain p where p: "p \<in> {PhaseCompleted, PhaseFailed, PhaseCanceled}"
    "(case tdKind d of TerminalOther _ \<Rightarrow> stPhase (tState (start c s)) | k \<Rightarrow> phaseForTerminal k) = p"
    by blast
  show ?thesis using p(1) 1(1) unfolding 1(4) p(2) by (auto simp: sound_defs)
qed

section \<open>Every accepted command\<close>

lemma valid_ledgers_ok: "Validate c s = None \<Longrightarrow> ledgers_ok s"
  by (simp add: ledgers_ok_def valid_effects_disjoint valid_calls_disjoint)

lemma dispatch_sound:
  assumes "Validate c s = None" "dispatch c (start c s) s cmd = Inr tr" "Validate c (tState tr) = None"
  shows "sound_step cmd s (tState tr)"
proof -
  note ok = valid_ledgers_ok [OF assms(1)]
  show ?thesis
  proof (cases cmd)
    case StartTurn
    then show ?thesis using assms(2) sound_StartTurn by blast
  next
    case PreparationFinished
    then show ?thesis using assms(2) sound_PreparationFinished by blast
  next
    case (EffectResultReceived eid b m)
    then show ?thesis using assms(2) by (auto simp: applyEffectResult_def intro: sound_finish [OF ok])
  next
    case (PersistenceResultReceived eid b m)
    then show ?thesis using assms(2) by (auto simp: applyPersistenceResult_def intro: sound_finish [OF ok])
  next
    case FinishTerminal
    then show ?thesis using assms(2,3) by (simp add: sound_FinishTerminal)
  qed (use assms(2) in \<open>simp_all add: sound_ModelSampleRequested
     sound_ModelSampleStarted sound_ModelSampleFinished sound_ModelSampleProgress
     sound_SupplementalUsage sound_ProviderRetry sound_ModelText sound_ReleaseOutput
     sound_DiscardOutput sound_BindWorkItem sound_ConvergenceRequested
     sound_ConvergenceFinalization sound_CancelRequested sound_Continuation sound_Recovery
     sound_EffectStarted sound_EffectRequeued sound_VerificationStarted sound_Completion
     sound_CompletionInvalidated sound_InputRequired sound_ApprovalRequired sound_Repair
     sound_Evaluate sound_ObserveProgress sound_TerminalRequested sound_ToolCalls
     sound_JournalFinalized [OF ok] sound_JournalResult [OF ok] sound_InputResult [OF ok]
     sound_ApprovalResult [OF ok] sound_AbortOpenCalls [OF ok] sound_ApprovalResolved [OF ok]
     sound_InputResolved [OF ok] sound_ToolResult [OF ok] sound_ModelSampleResult [OF ok]
     sound_VerificationFinished [OF ok]\<close>)
qed

lemma step_sound: "step c s cmd t \<Longrightarrow> sound_step cmd s t"
  by (auto simp: step_iff Apply_eq_Inr simp del: Phase_Terminal.simps intro: dispatch_sound)

end
