(* ===== verification/Trace.thy ===== *)
theory Trace
  imports HandlerStates ValidState
begin

text \<open>
  What a transition reports beside its state: the events and the requested effects. The
  phase events of a transition form a path from the old phase to the new one, the requested
  effects carry consecutive identities and kinds that the dispatcher knows and are exactly the
  new entries of the effect ledgers,
  and a cancelled turn requests no work. Each helper of the reducer keeps these claims, so
  that a handler keeps them by composition.
\<close>

section \<open>The claims\<close>

text \<open>Follow the phase events of a transition from a phase.\<close>

fun walk :: "Phase \<Rightarrow> Event list \<Rightarrow> Phase option" where
  "walk p [] = Some p"
| "walk p (ev # evs) =
     (if evKind ev = EventTransition
      then (if evFrom ev = p then walk (evTo ev) evs else None) else walk p evs)"

fun ids_after :: "u64 \<Rightarrow> nat \<Rightarrow> string list" where
  "ids_after n 0 = []"
| "ids_after n (Suc k) = ids_after n k @ [effect_id (n + of_nat (Suc k))]"

definition known_effects :: "State \<Rightarrow> string fset" where
  "known_effects s = fmdom (stPendingEffects s) |\<union>| fmdom (stCompletedEffects s)"

definition work_kinds :: "EffectKind set" where
  "work_kinds = {EffectSampleProvider, EffectExecuteTool, EffectRunVerification}"

fun known_kind :: "EffectKind \<Rightarrow> bool" where
  "known_kind EffectKindUnset = False"
| "known_kind (EffectKindOther name) = False"
| "known_kind kind = True"

definition trace_ok :: "State \<Rightarrow> Transition \<Rightarrow> bool" where
  "trace_ok s tr \<longleftrightarrow>
     walk (stPhase s) (tEvents tr) = Some (stPhase (tState tr)) \<and>
     stNextEffectSequence (tState tr) = stNextEffectSequence s + of_nat (length (tEffects tr)) \<and>
     map efID (tEffects tr) = ids_after (stNextEffectSequence s) (length (tEffects tr)) \<and>
     known_effects (tState tr) = known_effects s |\<union>|
       fset_of_list (ids_after (stNextEffectSequence s) (length (tEffects tr))) \<and>
     (\<forall>e \<in> set (tEffects tr). known_kind (efKind e)) \<and>
     (cnAccepted (stCancellation s) \<longrightarrow> (\<forall>e \<in> set (tEffects tr). efKind e \<notin> work_kinds))"

text \<open>An update the claims do not see.\<close>

definition unseen :: "State \<Rightarrow> State \<Rightarrow> bool" where
  "unseen s t \<longleftrightarrow>
     stPhase t = stPhase s \<and> stNextEffectSequence t = stNextEffectSequence s \<and>
     known_effects t = known_effects s"

section \<open>The helpers keep the claims\<close>

lemma walk_append: "walk p (xs @ ys) = Option.bind (walk p xs) (\<lambda>q. walk q ys)"
  by (induction xs arbitrary: p) simp_all

lemma plain_event_kind [simp]: "evKind (plain_event k) = k"
  by (simp add: plain_event_def)

lemma trace_ok_start: "trace_ok s (start c s)"
  by (simp add: trace_ok_def cloneState_def known_effects_def)

lemma trace_ok_modify: "trace_ok s tr \<Longrightarrow> unseen (tState tr) (f (tState tr)) \<Longrightarrow> trace_ok s (modify f tr)"
  by (simp add: trace_ok_def unseen_def)

lemma trace_ok_emit: "trace_ok s tr \<Longrightarrow> evKind ev \<noteq> EventTransition \<Longrightarrow> trace_ok s (emit ev tr)"
  by (simp add: trace_ok_def walk_append)

lemma trace_ok_move: "trace_ok s tr \<Longrightarrow> trace_ok s (move p tr)"
  by (simp add: trace_ok_def move_def walk_append known_effects_def)

lemma new_effect_kind [simp]: "efKind (new_effect c n kind payload key cid) = kind"
  by (simp add: new_effect_def)

lemma trace_ok_request:
  assumes "trace_ok s tr" "cnAccepted (stCancellation s) \<Longrightarrow> kind \<notin> work_kinds" "known_kind kind"
  shows "trace_ok s (requestEffect c kind payload key cid tr)"
proof -
  have "tEvents (requestEffect c kind payload key cid tr) = tEvents tr @
      [(plain_event EventEffectRequested)\<lparr>evEffectID := effect_id (stNextEffectSequence (tState tr) + 1),
         evCallID := cid\<rparr>]"
    by (simp add: requestEffect_def Let_def)
  with assms show ?thesis by (auto simp: trace_ok_def walk_append known_effects_def ac_simps)
qed

lemma trace_ok_finish:
  assumes "trace_ok s tr" "finishEffect tr eid ok msg = Inr tr'"
  shows "trace_ok s tr'"
proof -
  obtain e where e: "fmlookup (stPendingEffects (tState tr)) eid = Some e"
    and tr': "tr' = emit ((plain_event EventEffectFinished)\<lparr>evEffectID := efID e, evCallID := efCallID e\<rparr>)
                 (modify (\<lambda>s. s\<lparr>stPendingEffects := fmdrop eid (stPendingEffects s),
                     stCompletedEffects := fmupd eid (settle ok msg e) (stCompletedEffects s)\<rparr>) tr)"
    using assms(2) unfolding finishEffect_eq_Inr by blast
  have "eid |\<in>| fmdom (stPendingEffects (tState tr))" using e by (rule fmdomI)
  then have "unseen (tState tr) ((tState tr)\<lparr>stPendingEffects := fmdrop eid (stPendingEffects (tState tr)),
       stCompletedEffects := fmupd eid (settle ok msg e) (stCompletedEffects (tState tr))\<rparr>)"
    by (auto simp: unseen_def known_effects_def fset_eq_iff)
  then show ?thesis unfolding tr' using assms(1) by (intro trace_ok_emit trace_ok_modify) simp_all
qed

lemma trace_ok_finish_quietly: "trace_ok s tr \<Longrightarrow> trace_ok s (finish_quietly tr eid ok msg)"
  by (auto simp: finish_quietly_def split: sum.splits intro: trace_ok_finish)

lemma trace_ok_close_first: "trace_ok s tr \<Longrightarrow> trace_ok s (close_first m ok msg tr)"
  by (simp add: close_first_def trace_ok_finish_quietly split: option.splits)

lemma trace_ok_fold: "(\<And>x t. trace_ok s t \<Longrightarrow> trace_ok s (f x t)) \<Longrightarrow> trace_ok s tr \<Longrightarrow> trace_ok s (fold f xs tr)"
  by (induction xs arbitrary: tr) simp_all

lemma trace_ok_by_kind: "trace_ok s tr \<Longrightarrow> trace_ok s (closeEffectsByKind kind ok msg tr)"
  unfolding closeEffectsByKind_def by (rule trace_ok_fold) (simp_all add: trace_ok_finish_quietly)

lemma trace_ok_begin: "trace_ok s tr \<Longrightarrow> trace_ok s (beginConvergence r tr)"
  by (auto simp: beginConvergence_def Let_def unseen_def known_effects_def split: option.splits
      intro!: trace_ok_emit trace_ok_modify)

lemma trace_ok_spend_budget:
  "trace_ok s tr \<Longrightarrow> spendRepairBudget tr kind key limit = Inr tr' \<Longrightarrow> trace_ok s tr'"
  by (auto dest!: spendRepairBudget_eq_Inr intro!: trace_ok_emit trace_ok_modify
      simp: unseen_def known_effects_def)

lemma trace_ok_action: "trace_ok s tr \<Longrightarrow> trace_ok s (next_action a tr)"
  by (simp add: next_action_def trace_ok_modify unseen_def known_effects_def)

lemma trace_ok_spend:
  "trace_ok s tr \<Longrightarrow> spend key kind limit action tr = Inr tr' \<Longrightarrow> trace_ok s tr'"
  by (auto simp: spend_def next_action_def [symmetric] split: if_splits sum.splits
      intro: trace_ok_action trace_ok_begin trace_ok_spend_budget)

lemma trace_ok_open_calls:
  "trace_ok s tr \<Longrightarrow> \<not> cnAccepted (stCancellation s) \<Longrightarrow>
   open_calls c current cmd seen calls tr = Inr tr' \<Longrightarrow> trace_ok s tr'"
proof (induction calls arbitrary: seen tr)
  case (Cons call rest)
  let ?tr = "requestEffect c EffectExecuteTool (ToolPayload call) (''tool:'' @ tcID call) (tcID call)
          (emit ((plain_event EventToolStarted)\<lparr>evCallID := tcID call\<rparr>)
            (modify (\<lambda>s. s\<lparr>stOpenCalls := fmupd (tcID call) call (stOpenCalls s)\<rparr>) tr))"
  have "trace_ok s ?tr"
    using Cons.prems(1,2)
    by (intro trace_ok_request trace_ok_emit trace_ok_modify) (simp_all add: unseen_def known_effects_def)
  moreover have "open_calls c current cmd (insert (tcID call) seen) rest ?tr = Inr tr'"
    using Cons.prems(3) by simp
  ultimately show ?case using Cons.IH Cons.prems(2) by blast
qed simp

lemma trace_ok_observe: "trace_ok s tr \<Longrightarrow> trace_ok s (observe_changes changes tr)"
  by (auto simp: observe_changes_def Let_def unseen_def known_effects_def
      intro!: trace_ok_emit trace_ok_modify)

lemmas trace_intros = trace_ok_emit trace_ok_modify trace_ok_move trace_ok_request
  trace_ok_close_first trace_ok_by_kind trace_ok_begin trace_ok_action trace_ok_observe

section \<open>The handlers keep the claims\<close>

lemma known_present:
  "fmlookup P k = Some v \<Longrightarrow> finsert k (fmdom P |\<union>| C) = fmdom P |\<union>| C"
  by (auto intro: fmdomI)

lemmas trace_simps = Let_def bind_result_eq_Inr unseen_def known_effects_def cloneState_def
  put_sample_def known_present

lemma trace_ModelSampleRequested: "applyModelSampleRequested c (start c s) s sid = Inr tr \<Longrightarrow> trace_ok s tr"
  by (auto simp: applyModelSampleRequested_def trace_simps split: option.splits if_splits
      intro!: trace_intros trace_ok_start trace_ok_fold intro: trace_ok_finish trace_ok_spend_budget)

lemma trace_ModelSampleStarted: "applyModelSampleStarted (start c s) s sid n = Inr tr \<Longrightarrow> trace_ok s tr"
  by (auto simp: applyModelSampleStarted_def trace_simps split: option.splits if_splits
      intro!: trace_intros trace_ok_start trace_ok_fold intro: trace_ok_finish trace_ok_spend_budget)

lemma trace_ModelSampleFinished: "applyModelSampleFinished (start c s) s sid u x e = Inr tr \<Longrightarrow> trace_ok s tr"
  by (auto simp: applyModelSampleFinished_def record_usage_def trace_simps split: option.splits if_splits
      intro!: trace_intros trace_ok_start trace_ok_fold intro: trace_ok_finish trace_ok_spend_budget)

lemma trace_ModelSampleProgress: "applyModelSampleProgress c (start c s) s eid sid n a = Inr tr \<Longrightarrow> trace_ok s tr"
  by (auto simp: applyModelSampleProgress_def trace_simps split: option.splits if_splits
      intro!: trace_intros trace_ok_start trace_ok_fold intro: trace_ok_finish trace_ok_spend_budget)

lemma trace_SupplementalUsage: "applySupplementalUsage (start c s) s src sid u = Inr tr \<Longrightarrow> trace_ok s tr"
  by (auto simp: applySupplementalUsage_def trace_simps split: option.splits if_splits
      intro!: trace_intros trace_ok_start trace_ok_fold intro: trace_ok_finish trace_ok_spend_budget)

lemma trace_ProviderRetry: "applyProviderRetry (start c s) s r = Inr tr \<Longrightarrow> trace_ok s tr"
  by (auto simp: applyProviderRetry_def trace_simps split: option.splits if_splits
      intro!: trace_intros trace_ok_start trace_ok_fold intro: trace_ok_finish trace_ok_spend_budget)

lemma trace_ModelText: "applyModelText (start c s) s txt = Inr tr \<Longrightarrow> trace_ok s tr"
  by (auto simp: applyModelText_def trace_simps split: option.splits if_splits
      intro!: trace_intros trace_ok_start trace_ok_fold intro: trace_ok_finish trace_ok_spend_budget)

lemma trace_ReleaseOutput: "applyReleaseOutput (start c s) s = Inr tr \<Longrightarrow> trace_ok s tr"
  by (auto simp: applyReleaseOutput_def trace_simps split: option.splits if_splits
      intro!: trace_intros trace_ok_start trace_ok_fold intro: trace_ok_finish trace_ok_spend_budget)

lemma trace_DiscardOutput: "applyDiscardOutput (start c s) s m = Inr tr \<Longrightarrow> trace_ok s tr"
  by (auto simp: applyDiscardOutput_def trace_simps split: option.splits if_splits
      intro!: trace_intros trace_ok_start trace_ok_fold intro: trace_ok_finish trace_ok_spend_budget)

lemma trace_BindWorkItem: "applyBindWorkItem c (start c s) s b = Inr tr \<Longrightarrow> trace_ok s tr"
  by (auto simp: applyBindWorkItem_def trace_simps split: option.splits if_splits
      intro!: trace_intros trace_ok_start trace_ok_fold intro: trace_ok_finish trace_ok_spend_budget)

lemma trace_ConvergenceRequested: "applyConvergenceRequested (start c s) s r = Inr tr \<Longrightarrow> trace_ok s tr"
  by (auto simp: applyConvergenceRequested_def trace_simps split: option.splits if_splits
      intro!: trace_intros trace_ok_start trace_ok_fold intro: trace_ok_finish trace_ok_spend_budget)

lemma trace_ConvergenceFinalization: "applyConvergenceFinalizationStarted (start c s) s = Inr tr \<Longrightarrow> trace_ok s tr"
  by (auto simp: applyConvergenceFinalizationStarted_def trace_simps split: option.splits if_splits
      intro!: trace_intros trace_ok_start trace_ok_fold intro: trace_ok_finish trace_ok_spend_budget)

lemma trace_CancelRequested: "trace_ok s tr0 \<Longrightarrow> applyCancelRequested tr0 s' m = Inr tr \<Longrightarrow> trace_ok s tr"
  by (auto simp: applyCancelRequested_def trace_simps split: option.splits if_splits
      intro!: trace_intros trace_ok_start trace_ok_fold intro: trace_ok_finish trace_ok_spend_budget)

lemma trace_Continuation: "applyContinuationRecorded (start c s) s k = Inr tr \<Longrightarrow> trace_ok s tr"
  by (auto simp: applyContinuationRecorded_def trace_simps split: option.splits if_splits
      intro!: trace_intros trace_ok_start trace_ok_fold intro: trace_ok_finish trace_ok_spend_budget)

lemma trace_Recovery: "applyRecoveryRequested (start c s) s r = Inr tr \<Longrightarrow> trace_ok s tr"
  by (auto simp: applyRecoveryRequested_def trace_simps split: option.splits if_splits
      intro!: trace_intros trace_ok_start trace_ok_fold intro: trace_ok_finish trace_ok_spend_budget)

lemma trace_EffectStarted: "applyEffectStarted (start c s) s eid n = Inr tr \<Longrightarrow> trace_ok s tr"
  by (auto simp: applyEffectStarted_def trace_simps split: option.splits if_splits
      intro!: trace_intros trace_ok_start trace_ok_fold intro: trace_ok_finish trace_ok_spend_budget)

lemma trace_EffectRequeued: "applyEffectRequeued (start c s) s eid = Inr tr \<Longrightarrow> trace_ok s tr"
  by (auto simp: applyEffectRequeued_def trace_simps split: option.splits if_splits
      intro!: trace_intros trace_ok_start trace_ok_fold intro: trace_ok_finish trace_ok_spend_budget)

lemma trace_VerificationStarted: "applyVerificationStarted c (start c s) s = Inr tr \<Longrightarrow> trace_ok s tr"
  by (auto simp: applyVerificationStarted_def trace_simps split: option.splits if_splits
      intro!: trace_intros trace_ok_start trace_ok_fold intro: trace_ok_finish trace_ok_spend_budget)

lemma trace_Completion: "applyCompletion (start c s) s d = Inr tr \<Longrightarrow> trace_ok s tr"
  by (auto simp: applyCompletion_def declare_blocked_def declared_output_def trace_simps split: option.splits if_splits
      intro!: trace_intros trace_ok_start trace_ok_fold intro: trace_ok_finish trace_ok_spend_budget)

lemma trace_CompletionInvalidated: "applyCompletionInvalidated (start c s) s m = Inr tr \<Longrightarrow> trace_ok s tr"
  by (auto simp: applyCompletionInvalidated_def trace_simps split: option.splits if_splits
      intro!: trace_intros trace_ok_start trace_ok_fold intro: trace_ok_finish trace_ok_spend_budget)

lemma trace_InputRequired: "applyInputRequired c (start c s) s rid = Inr tr \<Longrightarrow> trace_ok s tr"
  by (auto simp: applyInputRequired_def work_kinds_def trace_simps split: option.splits if_splits
      intro!: trace_intros trace_ok_start trace_ok_fold intro: trace_ok_finish trace_ok_spend_budget)

lemma trace_ApprovalRequired: "applyApprovalRequired c (start c s) s rid cid = Inr tr \<Longrightarrow> trace_ok s tr"
  by (auto simp: applyApprovalRequired_def work_kinds_def trace_simps split: option.splits if_splits
      intro!: trace_intros trace_ok_start trace_ok_fold intro: trace_ok_finish trace_ok_spend_budget)

lemma trace_JournalFinalized: "applyJournalFinalized (start c s) s j = Inr tr \<Longrightarrow> trace_ok s tr"
  by (auto simp: applyJournalFinalized_def closeFirstEffectByKind_def trace_simps split: option.splits if_splits
      intro!: trace_intros trace_ok_start trace_ok_fold intro: trace_ok_finish trace_ok_spend_budget)

lemma trace_JournalResult: "applyJournalResult (start c s) s eid j m = Inr tr \<Longrightarrow> trace_ok s tr"
  by (auto simp: applyJournalResult_def trace_simps split: option.splits if_splits
      intro!: trace_intros trace_ok_start trace_ok_fold intro: trace_ok_finish trace_ok_spend_budget)

lemma trace_ApprovalResolved: "trace_ok s tr0 \<Longrightarrow> applyApprovalResolved tr0 s' rid = Inr tr \<Longrightarrow> trace_ok s tr"
  by (auto simp: applyApprovalResolved_def closeEffectByIdentity_def trace_simps split: option.splits if_splits
      intro!: trace_intros trace_ok_start trace_ok_fold intro: trace_ok_finish trace_ok_spend_budget)

lemma trace_InputResolved: "trace_ok s tr0 \<Longrightarrow> applyInputResolved tr0 s' rid = Inr tr \<Longrightarrow> trace_ok s tr"
  by (auto simp: applyInputResolved_def closeEffectByIdentity_def trace_simps split: option.splits if_splits
      intro!: trace_intros trace_ok_start trace_ok_fold intro: trace_ok_finish trace_ok_spend_budget)

lemma trace_AbortOpenCalls: "applyAbortOpenCalls (start c s) s m = Inr tr \<Longrightarrow> trace_ok s tr"
  by (auto simp: applyAbortOpenCalls_def abort_call_def closeEffectByCall_def trace_simps split: option.splits if_splits
      intro!: trace_intros trace_ok_start trace_ok_fold intro: trace_ok_finish trace_ok_spend_budget)

lemma trace_ObserveProgress: "applyObserveProgress (start c s) s sg i n = Inr tr \<Longrightarrow> trace_ok s tr"
  by (auto simp: applyObserveProgress_def trace_simps split: option.splits if_splits
      intro!: trace_intros trace_ok_start trace_ok_fold intro: trace_ok_finish trace_ok_spend_budget)

lemma trace_Repair: "applyRepairRequested (start c s) s k p l = Inr tr \<Longrightarrow> trace_ok s tr"
  by (auto simp: applyRepairRequested_def trace_simps split: option.splits if_splits
      intro!: trace_intros trace_ok_start trace_ok_fold intro: trace_ok_finish trace_ok_spend_budget)

lemma trace_ToolCalls:
  assumes "trace_ok s tr" "applyToolCalls c tr s' calls = Inr tr'"
    "stCancellation s' = stCancellation s"
  shows "trace_ok s tr'"
proof -
  have nc: "\<not> cnAccepted (stCancellation s)"
    using applyToolCalls_state(4) [OF assms(2)] assms(3) by simp
  have t: "trace_ok s (modify (\<lambda>s. s\<lparr>stCompletion := None, stOutputEligibility := False\<rparr>) tr)"
    using assms(1) by (rule trace_ok_modify) (simp add: trace_simps)
  show ?thesis
    using assms(2) by (auto simp: applyToolCalls_def trace_simps intro!: trace_ok_move trace_ok_modify
        dest!: trace_ok_open_calls [OF t nc])
qed

lemma trace_withdraw: "trace_ok s tr \<Longrightarrow> trace_ok s (withdraw_approvals s' cid tr)"
  unfolding withdraw_approvals_def closeEffectByIdentity_def
  by (rule trace_ok_fold) (auto simp: trace_simps intro!: trace_intros)

lemma trace_close_tool_call: "trace_ok s tr \<Longrightarrow> trace_ok s (close_tool_call c s' r call b tr)"
  unfolding close_tool_call_def Let_def
  by (rule trace_ok_move, rule trace_ok_modify, rule trace_ok_observe, rule trace_ok_emit,
      rule trace_ok_modify) (auto simp: unseen_def known_effects_def intro!: trace_withdraw trace_ok_modify)

lemma trace_ToolResult: "applyToolResult c (start c s) s r = Inr tr \<Longrightarrow> trace_ok s tr"
  by (erule applyToolResult_eq_Inr)
    (simp only:, rule trace_close_tool_call, erule trace_ok_finish [OF trace_ok_start])

lemma trace_book: "trace_ok s tr \<Longrightarrow> trace_ok s (book_sample s' r tr)"
  unfolding book_sample_def
  by (auto simp: record_usage_def trace_simps intro!: trace_intros)

lemma trace_ModelSampleResult:
  assumes "applyModelSampleResult c (start c s) s r = Inr tr"
  shows "trace_ok s tr"
proof (rule applyModelSampleResult_eq_Inr [OF assms])
  fix t1 assume fin: "finishEffect (start c s) (mrEffectID r) (mrError r = []) (mrError r) = Inr t1"
    and fol: "follow_sample c s r (book_sample s r t1) = Inr tr"
  have t: "trace_ok s (book_sample s r t1)"
    by (rule trace_book [OF trace_ok_finish [OF trace_ok_start fin]])
  have can: "stCancellation (tState (book_sample s r t1)) = stCancellation s"
    using finishEffectD [OF fin] by (auto simp: cloneState_def)
  show ?thesis
    using fol
  proof (cases rule: follow_sample_cases)
    case failed
    then show ?thesis using t by simp
  next
    case answered
    show ?thesis unfolding answered(3)
      by (rule trace_ok_modify, rule trace_ok_modify [OF t]) (simp_all add: trace_simps)
  next
    case (called t')
    have "trace_ok s t'" unfolding called(3)
      by (rule trace_ok_modify [OF t]) (simp add: trace_simps)
    then show ?thesis
      by (rule trace_ToolCalls [OF _ called(4)]) (use can in \<open>simp add: called(3)\<close>)
  qed
qed

lemma trace_ApprovalResult: "applyApprovalResult (start c s) s r = Inr tr \<Longrightarrow> trace_ok s tr"
  by (auto simp: applyApprovalResult_def Let_def bind_result_eq_Inr split: if_splits
      dest!: trace_ok_finish [OF trace_ok_start] dest: trace_CancelRequested trace_ApprovalResolved)

lemma trace_InputResult: "applyInputResult (start c s) s eid rid b m = Inr tr \<Longrightarrow> trace_ok s tr"
  by (auto simp: applyInputResult_def Let_def bind_result_eq_Inr
      dest!: trace_ok_finish [OF trace_ok_start] dest: trace_InputResolved)

lemma trace_VerificationFinished:
  assumes "applyVerificationFinished (start c s) s r = Inr tr"
  shows "trace_ok s tr"
proof (rule applyVerificationFinished_eq_Inr [OF assms])
  fix t1 a t2
  assume fin: "finishEffect (start c s) (verification_effect s (vrEffectID r)) True [] = Inr t1"
    and act: "verification_action s r t1 = Inr (a, t2)"
    and tr: "tr = move PhaseSampling
        (emit ((plain_event EventVerification)\<lparr>evMutation := stMutationRevision s\<rparr>)
          (modify (record_verification s r a) t2))"
  have "trace_ok s t1" by (rule trace_ok_finish [OF trace_ok_start fin])
  with act have "trace_ok s t2"
    by (cases rule: verification_action_cases) (auto intro: trace_ok_spend_budget)
  then show ?thesis unfolding tr
    by (intro trace_ok_move trace_ok_emit trace_ok_modify) (simp_all add: trace_simps)
qed

lemma trace_finalize_step:
  assumes "finalize_step s' v tr = Inr tr'" "trace_ok s tr"
  shows "trace_ok s tr'"
  using assms unfolding finalize_step_def Let_def
  by (auto simp: trace_simps split: if_splits
      intro!: trace_ok_action trace_ok_modify intro: trace_ok_spend_budget)

lemma trace_Evaluate:
  assumes "applyEvaluateTurnStep (start c s) s p = Inr tr"
  shows "trace_ok s tr"
proof -
  have clear: "trace_ok s t \<Longrightarrow> trace_ok s (modify clear_tool_failure t)" for t
    by (rule trace_ok_modify) (simp_all add: clear_tool_failure_def trace_simps)
  have "trace_ok s (next_action StepActionNone (start c s))"
    by (intro trace_ok_action trace_ok_start)
  then have "trace_ok s (if stUnresolvedToolFailure s \<and> stRecoveryToolSucceeded s
      then modify clear_tool_failure (next_action StepActionNone (start c s))
      else next_action StepActionNone (start c s))"
    by (simp add: clear)
  with assms show ?thesis
    unfolding applyEvaluateTurnStep_def Let_def guard_error_eq_Inr ensure_eq_Inr
    by (elim conjE) (force simp: bind_result_eq_Inr simp del: modify_simps
      dest: trace_ok_spend trace_finalize_step intro: trace_ok_action clear
      split: if_splits option.splits)
qed

lemma trace_TerminalRequested:
  assumes "applyTerminalRequested c (start c s) s q d0 = Inr tr"
  shows "trace_ok s tr"
proof (rule applyTerminalRequested_eq_Inr [OF assms])
  fix d t assume set: "settle_terminal s (TerminalRequested q) d0 (start c s) = Inr (d, t)"
    and tr: "tr = (let tr2 = modify (\<lambda>s. freeze (s\<lparr>stPendingTerminal := Some d\<rparr>)) t;
            tr3 = emit ((plain_event EventTerminalPrepared)\<lparr>evTerminal := Some d\<rparr>)
                    (move PhaseCommitting tr2)
        in if stJournal s = JournalOpen \<or> plJournalRequired (stPolicy s)
                then requestEffect c (fst (terminalJournalOutcome s d))
                       (TerminalPayload d)
                       (''journal:'' @ terminal_kind_name (tdKind d)) [] tr3
                else tr3)"
  have t: "trace_ok s t"
    using set
  proof (cases rule: settle_terminal_cases)
    case (blocked v)
    show ?thesis unfolding blocked(6) by (rule trace_ok_modify [OF trace_ok_start]) (simp add: trace_simps)
  qed (simp_all add: trace_ok_start)
  have "fst (terminalJournalOutcome s d) \<notin> work_kinds" "known_kind (fst (terminalJournalOutcome s d))"
    by (simp_all add: terminalJournalOutcome_def work_kinds_def)
  then show ?thesis unfolding tr Let_def using t
    by (auto intro!: trace_ok_request trace_ok_emit trace_ok_move trace_ok_modify
        simp: freeze_def trace_simps)
qed

lemma trace_FinishTerminal: "applyFinishTerminal (start c s) s = Inr tr \<Longrightarrow> trace_ok s tr"
  by (auto simp: applyFinishTerminal_def trace_simps split: option.splits TerminalKind.splits
      intro!: trace_intros trace_ok_start)

lemma dispatch_trace:
  assumes "dispatch c (start c s) s cmd = Inr tr"
  shows "trace_ok s tr"
  using assms
  by (cases cmd)
    (simp_all add: applyEffectResult_def applyPersistenceResult_def trace_ModelSampleRequested
     trace_ModelSampleStarted trace_ModelSampleFinished trace_ModelSampleProgress
     trace_SupplementalUsage trace_ProviderRetry trace_ModelText trace_ReleaseOutput
     trace_DiscardOutput trace_BindWorkItem trace_ConvergenceRequested
     trace_ConvergenceFinalization trace_CancelRequested [OF trace_ok_start] trace_Continuation
     trace_Recovery trace_EffectStarted trace_EffectRequeued trace_VerificationStarted
     trace_Completion trace_CompletionInvalidated trace_InputRequired trace_ApprovalRequired
     trace_Repair trace_Evaluate trace_ObserveProgress trace_TerminalRequested
     trace_ToolCalls [OF trace_ok_start] trace_JournalFinalized trace_JournalResult
     trace_InputResult trace_ApprovalResult trace_AbortOpenCalls
     trace_ApprovalResolved [OF trace_ok_start] trace_InputResolved [OF trace_ok_start]
     trace_ToolResult trace_ModelSampleResult trace_VerificationFinished trace_FinishTerminal
     trace_ok_finish [OF trace_ok_start] trace_ok_move trace_ok_start,
     (metis trace_ok_move trace_ok_start)+)

end
