(* ===== verification/Ownership.thy ===== *)
theory Ownership
  imports HandlerStates ValidState
begin

text \<open>
  Which command may change which part of the state: the mutation revision and the observed
  changes, the verification record, the journal, the output, the terminal decision, the usage
  and context, the continuation cursor and the recovery relation each have their commands, and
  every other command leaves them as they are.
\<close>

section \<open>The owners\<close>

fun mutates :: "Command \<Rightarrow> bool" where
  "mutates (ToolResultReceived _) = True"
| "mutates (RecoveryRequested _) = True"
| "mutates _ = False"

fun verifies :: "Command \<Rightarrow> bool" where
  "verifies (ToolResultReceived _) = True"
| "verifies (VerificationFinished _) = True"
| "verifies _ = False"

fun journals :: "Command \<Rightarrow> bool" where
  "journals (ToolResultReceived _) = True"
| "journals (RecoveryRequested _) = True"
| "journals (JournalFinalized _) = True"
| "journals (JournalResultReceived _ _ _) = True"
| "journals _ = False"

fun writes_output :: "Command \<Rightarrow> bool" where
  "writes_output (ModelTextReceived _) = True"
| "writes_output (ModelSampleResultReceived _) = True"
| "writes_output (DiscardProvisionalOutput _) = True"
| "writes_output (CompletionEvaluated _) = True"
| "writes_output FinishTerminal = True"
| "writes_output _ = False"

fun decides :: "Command \<Rightarrow> bool" where
  "decides (TerminalRequested _) = True"
| "decides FinishTerminal = True"
| "decides _ = False"

fun meters :: "Command \<Rightarrow> bool" where
  "meters (ModelSampleFinished _ _ _ _) = True"
| "meters (ModelSampleResultReceived _) = True"
| "meters (SupplementalUsageRecorded _ _ _) = True"
| "meters (TerminalRequested _) = True"
| "meters _ = False"

fun continues :: "Command \<Rightarrow> bool" where
  "continues (ContinuationRecorded _) = True"
| "continues _ = False"

fun recovers :: "Command \<Rightarrow> bool" where
  "recovers (RecoveryRequested _) = True"
| "recovers _ = False"

definition owned :: "Command \<Rightarrow> State \<Rightarrow> State \<Rightarrow> bool" where
  "owned cmd s t \<longleftrightarrow>
     (\<not> mutates cmd \<longrightarrow> stMutationRevision t = stMutationRevision s \<and> stChanges t = stChanges s) \<and>
     (\<not> verifies cmd \<longrightarrow> stVerification t = stVerification s) \<and>
     (\<not> journals cmd \<longrightarrow> stJournal t = stJournal s) \<and>
     (\<not> writes_output cmd \<longrightarrow> stProvisionalOutput t = stProvisionalOutput s) \<and>
     (\<not> decides cmd \<longrightarrow> stPendingTerminal t = stPendingTerminal s \<and> stTerminal t = stTerminal s \<and>
        stFinalOutput t = stFinalOutput s) \<and>
     (\<not> meters cmd \<longrightarrow> stUsage t = stUsage s \<and> stContext t = stContext s) \<and>
     (\<not> continues cmd \<longrightarrow> stContinuation t = stContinuation s) \<and>
     (\<not> recovers cmd \<longrightarrow> stRecoveryRelation t = stRecoveryRelation s)"

section \<open>The handlers respect the owners\<close>

lemmas owned_simps = owned_def Let_def bind_result_eq_Inr cloneState_def put_sample_def
  closeFirstEffectByKind_def closeEffectByIdentity_def

lemma owned_StartTurn: "dispatch c (start c s) s StartTurn = Inr tr \<Longrightarrow> owned StartTurn s (tState tr)"
  by (auto simp:  owned_simps split: option.splits if_splits dest!: finishEffectD)

lemma owned_PreparationFinished: "dispatch c (start c s) s PreparationFinished = Inr tr \<Longrightarrow> owned PreparationFinished s (tState tr)"
  by (auto simp:  owned_simps split: option.splits if_splits dest!: finishEffectD)

lemma owned_ModelSampleRequested: "applyModelSampleRequested c (start c s) s sid = Inr tr \<Longrightarrow> owned (ModelSampleRequested sid) s (tState tr)"
  by (auto simp: applyModelSampleRequested_def owned_simps split: option.splits if_splits dest!: finishEffectD)

lemma owned_ModelSampleStarted: "applyModelSampleStarted (start c s) s sid n = Inr tr \<Longrightarrow> owned (ModelSampleStarted sid n) s (tState tr)"
  by (auto simp: applyModelSampleStarted_def owned_simps split: option.splits if_splits dest!: finishEffectD)

lemma owned_ModelSampleFinished: "applyModelSampleFinished (start c s) s sid u x e = Inr tr \<Longrightarrow> owned (ModelSampleFinished sid u x e) s (tState tr)"
  by (auto simp: applyModelSampleFinished_def record_usage_def owned_simps split: option.splits if_splits dest!: finishEffectD)

lemma owned_ModelSampleProgress: "applyModelSampleProgress c (start c s) s eid sid n a = Inr tr \<Longrightarrow> owned (ModelSampleProgressRecorded eid sid n a) s (tState tr)"
  by (auto simp: applyModelSampleProgress_def owned_simps split: option.splits if_splits dest!: finishEffectD)

lemma owned_SupplementalUsage: "applySupplementalUsage (start c s) s src sid u = Inr tr \<Longrightarrow> owned (SupplementalUsageRecorded src sid u) s (tState tr)"
  by (auto simp: applySupplementalUsage_def owned_simps split: option.splits if_splits dest!: finishEffectD)

lemma owned_ProviderRetry: "applyProviderRetry (start c s) s r = Inr tr \<Longrightarrow> owned (ProviderRetryRequested r) s (tState tr)"
  by (auto simp: applyProviderRetry_def owned_simps split: option.splits if_splits dest!: finishEffectD)

lemma owned_ModelText: "applyModelText (start c s) s txt = Inr tr \<Longrightarrow> owned (ModelTextReceived txt) s (tState tr)"
  by (auto simp: applyModelText_def owned_simps split: option.splits if_splits dest!: finishEffectD)

lemma owned_ReleaseOutput: "applyReleaseOutput (start c s) s = Inr tr \<Longrightarrow> owned ReleaseProvisionalOutput s (tState tr)"
  by (auto simp: applyReleaseOutput_def owned_simps split: option.splits if_splits dest!: finishEffectD)

lemma owned_DiscardOutput: "applyDiscardOutput (start c s) s m = Inr tr \<Longrightarrow> owned (DiscardProvisionalOutput m) s (tState tr)"
  by (auto simp: applyDiscardOutput_def owned_simps split: option.splits if_splits dest!: finishEffectD)

lemma owned_BindWorkItem: "applyBindWorkItem c (start c s) s b = Inr tr \<Longrightarrow> owned (BindWorkItem b) s (tState tr)"
  by (auto simp: applyBindWorkItem_def owned_simps split: option.splits if_splits dest!: finishEffectD)

lemma owned_ConvergenceRequested: "applyConvergenceRequested (start c s) s r = Inr tr \<Longrightarrow> owned (ConvergenceRequested r) s (tState tr)"
  by (auto simp: applyConvergenceRequested_def owned_simps split: option.splits if_splits dest!: finishEffectD)

lemma owned_ConvergenceFinalization: "applyConvergenceFinalizationStarted (start c s) s = Inr tr \<Longrightarrow> owned ConvergenceFinalizationStarted s (tState tr)"
  by (auto simp: applyConvergenceFinalizationStarted_def owned_simps split: option.splits if_splits dest!: finishEffectD)

lemma owned_CancelRequested: "applyCancelRequested (start c s) s m = Inr tr \<Longrightarrow> owned (CancelRequested m) s (tState tr)"
  by (auto simp: applyCancelRequested_def owned_simps split: option.splits if_splits dest!: finishEffectD)

lemma owned_Continuation: "applyContinuationRecorded (start c s) s k = Inr tr \<Longrightarrow> owned (ContinuationRecorded k) s (tState tr)"
  by (auto simp: applyContinuationRecorded_def owned_simps split: option.splits if_splits dest!: finishEffectD)

lemma owned_Recovery: "applyRecoveryRequested (start c s) s r = Inr tr \<Longrightarrow> owned (RecoveryRequested r) s (tState tr)"
  by (auto simp: applyRecoveryRequested_def owned_simps split: option.splits if_splits dest!: finishEffectD)

lemma owned_EffectStarted: "applyEffectStarted (start c s) s eid n = Inr tr \<Longrightarrow> owned (EffectStarted eid n) s (tState tr)"
  by (auto simp: applyEffectStarted_def owned_simps split: option.splits if_splits dest!: finishEffectD)

lemma owned_EffectRequeued: "applyEffectRequeued (start c s) s eid = Inr tr \<Longrightarrow> owned (EffectRequeued eid) s (tState tr)"
  by (auto simp: applyEffectRequeued_def owned_simps split: option.splits if_splits dest!: finishEffectD)

lemma owned_VerificationStarted: "applyVerificationStarted c (start c s) s = Inr tr \<Longrightarrow> owned VerificationStarted s (tState tr)"
  by (auto simp: applyVerificationStarted_def owned_simps split: option.splits if_splits dest!: finishEffectD)

lemma owned_Completion: "applyCompletion (start c s) s d = Inr tr \<Longrightarrow> owned (CompletionEvaluated d) s (tState tr)"
  by (auto simp: applyCompletion_def declare_blocked_def declared_output_def owned_simps split: option.splits if_splits dest!: finishEffectD)

lemma owned_CompletionInvalidated: "applyCompletionInvalidated (start c s) s m = Inr tr \<Longrightarrow> owned (CompletionInvalidated m) s (tState tr)"
  by (auto simp: applyCompletionInvalidated_def owned_simps split: option.splits if_splits dest!: finishEffectD)

lemma owned_InputRequired: "applyInputRequired c (start c s) s rid = Inr tr \<Longrightarrow> owned (InputRequired rid) s (tState tr)"
  by (auto simp: applyInputRequired_def owned_simps split: option.splits if_splits dest!: finishEffectD)

lemma owned_ApprovalRequired: "applyApprovalRequired c (start c s) s rid cid = Inr tr \<Longrightarrow> owned (ApprovalRequired rid cid) s (tState tr)"
  by (auto simp: applyApprovalRequired_def owned_simps split: option.splits if_splits dest!: finishEffectD)

lemma owned_JournalFinalized: "applyJournalFinalized (start c s) s j = Inr tr \<Longrightarrow> owned (JournalFinalized j) s (tState tr)"
  by (auto simp: applyJournalFinalized_def owned_simps split: option.splits if_splits dest!: finishEffectD)

lemma owned_InputResolved: "applyInputResolved (start c s) s rid = Inr tr \<Longrightarrow> owned (InputResolved rid) s (tState tr)"
  by (auto simp: applyInputResolved_def owned_simps split: option.splits if_splits dest!: finishEffectD)

lemma owned_InputResult: "applyInputResult (start c s) s eid rid ok m = Inr tr \<Longrightarrow> owned (InputResultReceived eid rid ok m) s (tState tr)"
  by (auto simp: applyInputResult_def applyInputResolved_def owned_simps split: option.splits if_splits dest!: finishEffectD)

lemma owned_AbortOpenCalls: "applyAbortOpenCalls (start c s) s m = Inr tr \<Longrightarrow> owned (AbortOpenCalls m) s (tState tr)"
  by (auto simp: applyAbortOpenCalls_def owned_simps split: option.splits if_splits dest!: finishEffectD)

lemma owned_ObserveProgress: "applyObserveProgress (start c s) s sg i n = Inr tr \<Longrightarrow> owned (ObserveProgress sg i n) s (tState tr)"
  by (auto simp: applyObserveProgress_def owned_simps split: option.splits if_splits dest!: finishEffectD)

lemma owned_JournalResult: "applyJournalResult (start c s) s eid j m = Inr tr \<Longrightarrow> owned (JournalResultReceived eid j m) s (tState tr)"
  by (auto simp: applyJournalResult_def owned_simps split: option.splits if_splits dest!: finishEffectD)

lemma owned_finish: "finishEffect (start c s) eid ok m = Inr tr \<Longrightarrow> owned cmd s (tState tr)"
  by (auto simp: owned_simps dest!: finishEffectD)

lemma owned_ApprovalResolved:
  assumes "applyApprovalResolved (start c s) s rid = Inr tr"
  shows "owned (ApprovalResolved rid) s (tState tr)"
  using assms by (cases rule: applyApprovalResolved_state) (simp add: owned_def cloneState_def)

lemma owned_ApprovalResult:
  assumes "applyApprovalResult (start c s) s r = Inr tr"
  shows "owned (ApprovalResultReceived r) s (tState tr)"
proof -
  obtain t1 t2 where 1: "finishEffect (start c s) (axEffectID r) (axAccepted r) (axError r) = Inr t1"
    and 2: "applyApprovalResolved t1 (tState t1) (axRequestID r) = Inr t2"
    and 3: "tr = t2 \<or> applyCancelRequested t2 (tState t2) CancelReasonApprovalCanceled = Inr tr"
    using assms by (auto simp: applyApprovalResult_def Let_def bind_result_eq_Inr split: if_splits)
  have t1: "owned (ApprovalResultReceived r) s (tState t1)" by (rule owned_finish [OF 1])
  have "owned (ApprovalResultReceived r) s (tState t2)"
    using 2 by (cases rule: applyApprovalResolved_state) (use t1 in \<open>simp add: owned_def\<close>)
  then show ?thesis using 3 by (auto dest!: applyCancelRequested_state simp: owned_def)
qed

lemma owned_ToolCalls:
  "applyToolCalls c (start c s) s calls = Inr tr \<Longrightarrow> owned (ToolCallsProposed calls) s (tState tr)"
  by (simp add: applyToolCalls_state(1) owned_def cloneState_def)

lemma owned_ToolResult:
  assumes "applyToolResult c (start c s) s r = Inr tr"
  shows "owned (ToolResultReceived r) s (tState tr)"
  using assms by (cases rule: applyToolResult_state) (simp add: owned_def cloneState_def)

lemma owned_ModelSampleResult:
  assumes "applyModelSampleResult c (start c s) s r = Inr tr"
  shows "owned (ModelSampleResultReceived r) s (tState tr)"
proof (rule applyModelSampleResult_eq_Inr [OF assms])
  fix t1 assume "finishEffect (start c s) (mrEffectID r) (mrError r = []) (mrError r) = Inr t1"
    and fol: "follow_sample c s r (book_sample s r t1) = Inr tr"
  then have t1: "owned (ModelSampleResultReceived r) s (tState t1)" by (intro owned_finish)
  show ?thesis
    using fol
  proof (cases rule: follow_sample_cases)
    case (called t)
    then show ?thesis using t1 by (simp add: applyToolCalls_state(1) [OF called(4)] owned_def)
  qed (use t1 in \<open>simp_all add: owned_def\<close>)
qed

lemma owned_VerificationFinished:
  assumes "applyVerificationFinished (start c s) s r = Inr tr"
  shows "owned (VerificationFinished r) s (tState tr)"
proof (rule applyVerificationFinished_eq_Inr [OF assms])
  fix t1 a t2
  assume "finishEffect (start c s) (verification_effect s (vrEffectID r)) True [] = Inr t1"
    and act: "verification_action s r t1 = Inr (a, t2)"
    and tr: "tr = move PhaseSampling
        (emit ((plain_event EventVerification)\<lparr>evMutation := stMutationRevision s\<rparr>)
          (modify (record_verification s r a) t2))"
  then have t1: "owned (VerificationFinished r) s (tState t1)" by (intro owned_finish)
  from act have "owned (VerificationFinished r) s (tState t2)"
    by (cases rule: verification_action_cases)
      (use t1 in \<open>auto dest!: spendRepairBudget_eq_Inr simp: owned_def\<close>)
  then show ?thesis unfolding tr by (simp add: owned_def)
qed

lemma owned_step_fields:
  assumes "step_fields (cloneState c s) t"
  shows "owned cmd s t"
  using assms by (auto elim!: step_fieldsE simp: owned_def cloneState_def)

lemma owned_Repair:
  "applyRepairRequested (start c s) s k p l = Inr tr \<Longrightarrow> owned (RepairRequested k p l) s (tState tr)"
  by (rule owned_step_fields [where c = c])
    (auto simp: applyRepairRequested_def Let_def dest: step_fields_budget)

lemma owned_Evaluate:
  assumes "applyEvaluateTurnStep (start c s) s p = Inr tr"
  shows "owned (EvaluateTurnStep p) s (tState tr)"
  using applyEvaluateTurnStep_fields [OF assms] by (intro owned_step_fields [where c = c]) simp_all

lemma owned_TerminalRequested:
  assumes "applyTerminalRequested c (start c s) s q d0 = Inr tr"
  shows "owned (TerminalRequested q) s (tState tr)"
proof (rule applyTerminalRequested_eq_Inr [OF assms])
  fix d t assume set: "settle_terminal s (TerminalRequested q) d0 (start c s) = Inr (d, t)"
    and tr: "tr = (let tr2 = modify (\<lambda>s. freeze (s\<lparr>stPendingTerminal := Some d\<rparr>)) t;
            tr3 = emit ((plain_event EventTerminalPrepared)\<lparr>evTerminal := Some d\<rparr>)
                    (move PhaseCommitting tr2)
        in if stJournal s = JournalOpen \<or> plJournalRequired (stPolicy s)
                then requestEffect c (fst (terminalJournalOutcome s d))
                       (TerminalPayload d)
                       (''journal:'' @ terminal_kind_name (tdKind d)) [] tr3
                else tr3)"
  have "owned (TerminalRequested q) s (tState t)"
    using set by (cases rule: settle_terminal_cases) (simp_all add: owned_def cloneState_def)
  then show ?thesis unfolding tr Let_def by (simp add: owned_def freeze_def)
qed

lemma owned_FinishTerminal:
  assumes "applyFinishTerminal (start c s) s = Inr tr"
  shows "owned FinishTerminal s (tState tr)"
  using assms by (cases rule: applyFinishTerminal_eq_Inr) (simp add: owned_def cloneState_def)

lemma dispatch_owned:
  assumes "dispatch c (start c s) s cmd = Inr tr"
  shows "owned cmd s (tState tr)"
proof (cases cmd)
  case StartTurn
  then show ?thesis using assms owned_StartTurn by blast
next
  case PreparationFinished
  then show ?thesis using assms owned_PreparationFinished by blast
qed (use assms in \<open>simp_all add: applyEffectResult_def applyPersistenceResult_def
     owned_ModelSampleRequested owned_ModelSampleStarted owned_ModelSampleFinished
     owned_ModelSampleProgress owned_SupplementalUsage owned_ProviderRetry owned_ModelText
     owned_ReleaseOutput owned_DiscardOutput owned_BindWorkItem owned_ConvergenceRequested
     owned_ConvergenceFinalization owned_CancelRequested owned_Continuation owned_Recovery
     owned_EffectStarted owned_EffectRequeued owned_VerificationStarted owned_Completion
     owned_CompletionInvalidated owned_InputRequired owned_ApprovalRequired owned_Repair
     owned_Evaluate owned_ObserveProgress owned_TerminalRequested owned_ToolCalls
     owned_JournalFinalized owned_JournalResult owned_InputResult owned_ApprovalResult
     owned_AbortOpenCalls owned_ApprovalResolved owned_InputResolved owned_ToolResult
     owned_ModelSampleResult owned_VerificationFinished owned_FinishTerminal owned_finish\<close>)

end
