(* ===== verification/RunSystem.thy ===== *)
theory RunSystem
  imports Main
begin

text \<open>
  The interface between a state machine and the proofs about its runs: a step relation, and the
  runs as sequences of steps. What holds along a run is proved once here and used for the
  reducer, the effect dispatcher and the coordinator.
\<close>

locale run_system =
  fixes step :: "'s \<Rightarrow> 'c \<Rightarrow> 's \<Rightarrow> bool"
    and runs :: "'s \<Rightarrow> 'c list \<Rightarrow> 's \<Rightarrow> bool"
  assumes runs_nil: "runs s [] t \<longleftrightarrow> t = s"
    and runs_snoc: "runs s (cmds @ [cmd]) u \<longleftrightarrow> (\<exists>t. runs s cmds t \<and> step t cmd u)"
begin

lemma runs_induct [consumes 1, case_names start further]:
  assumes "runs s cmds t" "P [] s"
    "\<And>cmds t cmd u. runs s cmds t \<Longrightarrow> P cmds t \<Longrightarrow> step t cmd u \<Longrightarrow> P (cmds @ [cmd]) u"
  shows "P cmds t"
  using assms(1)
proof (induction cmds arbitrary: t rule: rev_induct)
  case Nil
  then show ?case using assms(2) by (simp add: runs_nil)
next
  case (snoc cmd cmds)
  then show ?case using assms(3) by (auto simp: runs_snoc)
qed

lemma invariant_along:
  assumes "runs s cmds t" "I s" "\<And>s cmd t. I s \<Longrightarrow> step s cmd t \<Longrightarrow> I t"
  shows "I t"
  using assms(1)
proof (induction rule: runs_induct)
  case start
  show ?case by (rule assms(2))
next
  case (further cmds t cmd u)
  then show ?case by (blast intro: assms(3))
qed

lemma relation_along:
  assumes "runs s cmds t" "\<And>s. R s s" "\<And>s t u. R s t \<Longrightarrow> R t u \<Longrightarrow> R s u"
    "\<And>s cmd t. step s cmd t \<Longrightarrow> R s t"
  shows "R s t"
  using assms(1)
proof (induction rule: runs_induct)
  case start
  show ?case by (rule assms(2))
next
  case (further cmds t cmd u)
  then show ?case using assms(3) [OF further.IH assms(4)] by blast
qed

lemma runs_append: "runs s (xs @ ys) u \<longleftrightarrow> (\<exists>t. runs s xs t \<and> runs t ys u)"
proof (induction ys arbitrary: u rule: rev_induct)
  case Nil
  show ?case by (auto simp: runs_nil)
next
  case (snoc y ys)
  have "runs s (xs @ ys @ [y]) u \<longleftrightarrow> (\<exists>t. runs s (xs @ ys) t \<and> step t y u)"
    using runs_snoc [of s "xs @ ys" y u] by simp
  then show ?case using snoc.IH by (auto simp: runs_snoc)
qed

lemma runs_cons: "runs s (x # xs) u \<longleftrightarrow> (\<exists>t. step s x t \<and> runs t xs u)"
  using runs_append [of s "[x]" xs u] runs_snoc [of s "[]" x] by (auto simp: runs_nil)

text \<open>A quantity that every step changes by what the command adds.\<close>

lemma count_along:
  assumes "runs s cmds t" "I s" "\<And>s cmd t. I s \<Longrightarrow> step s cmd t \<Longrightarrow> I t"
    and "\<And>s cmd t. I s \<Longrightarrow> step s cmd t \<Longrightarrow> f t = (f s + (if P cmd then 1 else 0) :: nat)"
  shows "f t = f s + length (filter P cmds)"
proof -
  have "I t \<and> f t = f s + length (filter P cmds)"
    using assms(1)
  proof (induction rule: runs_induct)
    case start
    show ?case using assms(2) by simp
  next
    case (further cmds t cmd u)
    then show ?case using assms(3,4) [of t cmd u] by simp
  qed
  then show ?thesis ..
qed

end

end
