(* ===== verification/TurnRuns.thy ===== *)
theory TurnRuns
  imports Evolution Trace Ownership RunSystem
begin

text \<open>
  The properties of whole turns: what one accepted command does, and what holds along every
  accepted sequence of commands.
\<close>

section \<open>The reducer as a state machine\<close>

interpretation turn: run_system "step c" "runs c" for c
proof
  fix s t u cmds cmd
  show "runs c s [] t \<longleftrightarrow> t = s"
    by (auto elim: runs.cases intro: runs.intros)
  show "runs c s (cmds @ [cmd]) u \<longleftrightarrow> (\<exists>t. runs c s cmds t \<and> step c t cmd u)"
    by (auto elim: runs.cases intro: runs.intros)
qed

lemma stepE:
  assumes "step c s cmd t"
  obtains tr where "t = tState tr" "dispatch c (start c s) s cmd = Inr tr"
    "Validate c s = None" "Validate c t = None" "\<not> Phase_Terminal (stPhase s)"
    "sound_step cmd s t" "trace_ok s tr" "owned cmd s t"
proof -
  obtain tr where tr: "t = tState tr" "Apply c s (Some cmd) = Inr tr"
    using assms by (auto simp: step_iff)
  from tr(2) have ap: "Validate c s = None" "\<not> Phase_Terminal (stPhase s)"
    "dispatch c (start c s) s cmd = Inr tr" "Validate c t = None"
    unfolding Apply_eq_Inr tr(1) by blast+
  from dispatch_owned [OF ap(3)] have "owned cmd s t" unfolding tr(1) .
  then show thesis
    by (rule that [OF tr(1) ap(3) ap(1) ap(4) ap(2) step_sound [OF assms] dispatch_trace [OF ap(3)]])
qed

lemma step_valid: "step c s cmd t \<Longrightarrow> Validate c t = None"
  by (erule stepE) 

lemma runs_valid: "runs c s cmds t \<Longrightarrow> Validate c s = None \<Longrightarrow> Validate c t = None"
  by (erule turn.invariant_along) (auto dest: step_valid)

text \<open>What endures along a run.\<close>

definition endures :: "State \<Rightarrow> State \<Rightarrow> bool" where
  "endures s t \<longleftrightarrow> extends_calls s t \<and> extends_effects s t \<and>
     stIntent t = stIntent s \<and> stMode t = stMode s \<and> stPolicy t = stPolicy s \<and>
     (cnAccepted (stCancellation s) \<longrightarrow> stCancellation t = stCancellation s) \<and>
     (stConvergence s \<noteq> None \<longrightarrow> stConvergence t \<noteq> None) \<and>
     fmdom (stSampleLedger s) |\<subseteq>| fmdom (stSampleLedger t)"

lemma extends_calls_trans:
  assumes "extends_calls s t" "extends_calls t u"
  shows "extends_calls s u"
  unfolding extends_calls_def
proof (intro conjI allI impI)
  show "stClosedCalls s \<subseteq>\<^sub>f stClosedCalls u"
    using assms by (auto simp: extends_calls_def intro: fmsubset_trans)
  fix k call assume k: "fmlookup (stOpenCalls s) k = Some call"
  then consider "fmlookup (stOpenCalls t) k = Some call"
    | r where "fmlookup (stClosedCalls t) k = Some r" "trName r = tcName call"
    using assms(1) by (auto simp: extends_calls_def)
  then show "fmlookup (stOpenCalls u) k = Some call \<or>
      (\<exists>r. fmlookup (stClosedCalls u) k = Some r \<and> trName r = tcName call)"
  proof cases
    case 1
    then show ?thesis using assms(2) by (simp add: extends_calls_def)
  next
    case (2 r)
    then show ?thesis using assms(2) by (auto simp: extends_calls_def dest: fmsubset_lookup)
  qed
qed

lemma endures_refl: "endures s s"
  by (simp add: endures_def extends_calls_def extends_effects_def)

lemma endures_trans: "endures s t \<Longrightarrow> endures t u \<Longrightarrow> endures s u"
  unfolding endures_def
  by (auto simp: extends_effects_def intro: extends_calls_trans fmsubset_trans)

lemma step_endures: "step c s cmd t \<Longrightarrow> endures s t"
  by (drule step_sound) (simp add: sound_step_def evolves_def keeps_envelope_def endures_def)

lemma runs_endures: "runs c s cmds t \<Longrightarrow> endures s t"
  by (erule turn.relation_along) (blast intro: endures_refl endures_trans step_endures)+

end
