(* ===== verification/DemoTurn.thy ===== *)
theory DemoTurn
  imports TurnRuns
begin

text \<open>
  A whole turn, from the fresh state to the committed terminal: one sample that calls one tool,
  a change in the workspace, a passed verification, an answer and the journal commit. It shows
  that the hypotheses of the properties of runs can hold, and serves as the input of their
  witnesses. The standard library's encoders are instantiated by plain text functions.
\<close>

section \<open>Text encoders\<close>

definition text_codec :: kernel_codec where
  "text_codec = \<lparr>json_valid = (\<lambda>s. s \<noteq> []), sha256_hex = (\<lambda>s. s),
     marshal_event = (\<lambda>_. Some ''{}''), clone_block = (\<lambda>b. b), marshal_payload = (\<lambda>_. ''{}''),
     clone_assembly = Some, canonical_json = Some, json_read_window = (\<lambda>_. None)\<rparr>"

lemma clone_text [simp]:
  assumes "\<not> stLedgersNil s"
  shows "cloneState text_codec s = s"
proof -
  have "clone_sample text_codec = (\<lambda>x. x)"
    by (rule ext) (simp add: clone_sample_def text_codec_def)
  with assms show ?thesis by (simp add: cloneState_def fmap.map_ident)
qed

section \<open>Evaluation\<close>

lemma not_blank_Cons: "solid ch \<Longrightarrow> TrimSpace (ch # s) \<noteq> []"
  by (rule TrimSpace_not_blank [of ch]) simp_all

lemma effect_id_inj [simp]: "effect_id a = effect_id b \<longleftrightarrow> a = b"
  by (simp add: effect_id_def)

lemma effect_id_not_blank [simp]: "TrimSpace (effect_id a) \<noteq> []" "effect_id a \<noteq> []"
  by (simp_all add: effect_id_def not_blank_Cons solid_def space_encodings_def)

text \<open>The state the handler of a command leaves, when it accepts.\<close>

definition leaves :: "kernel_error + Transition \<Rightarrow> (State \<Rightarrow> bool) \<Rightarrow> bool" where
  "leaves r P \<longleftrightarrow> (case r of Inl _ \<Rightarrow> False | Inr tr \<Rightarrow> P (tState tr))"

lemma leaves_Inr [simp]: "leaves (Inr tr) P \<longleftrightarrow> P (tState tr)" "\<not> leaves (Inl e) P"
  by (simp_all add: leaves_def)

lemma leaves_guards [simp]:
  "leaves (guard_error err r) P \<longleftrightarrow> err = None \<and> leaves r P"
  "leaves (ensure s cmd ok msg r) P \<longleftrightarrow> ok \<and> leaves r P"
  by (simp_all add: leaves_def guard_error_def ensure_def split: option.split)

lemma bind_guards:
  "bind_result (guard_error err r) k = guard_error err (bind_result r k)"
  "bind_result (ensure s cmd ok msg r) k = ensure s cmd ok msg (bind_result r k)"
  by (simp_all add: guard_error_def ensure_def split: option.split)

lemma stepI:
  assumes "Validate c s = None" "Validate c t = None" "\<not> Phase_Terminal (stPhase s)"
    "leaves (dispatch c (start c s) s cmd) (\<lambda>u. u = t)"
  shows "step c s cmd t"
  using assms
  by (auto simp: leaves_def step_iff Apply_eq_Inr split: sum.splits simp del: Phase_Terminal.simps)

lemma step_itemI:
  assumes "Validate c s = None" "\<And>w. Validate c (f w) = None" "\<not> Phase_Terminal (stPhase s)"
    "leaves (dispatch c (start c s) s cmd) (\<lambda>u. u = f (stWorkItem u))"
  shows "\<exists>w. step c s cmd (f w)"
proof -
  obtain tr where tr: "dispatch c (start c s) s cmd = Inr tr" "tState tr = f (stWorkItem (tState tr))"
    using assms(4) by (auto simp: leaves_def split: sum.splits)
  have "step c s cmd (f (stWorkItem (tState tr)))"
    using tr(2) by (intro stepI assms) (simp add: tr(1))
  then show ?thesis ..
qed

lemmas evaluate_validity =
  Validate_None validPhase_def range_error_None sample_error_def sample_status_error_def
  sample_retry_ok_def active_sample_error_def effects_error_None validateEffect_def
  payload_digest_def envelope_error_def recovery_relation_ok_def convergence_policy_ok_def
  repair_budget_error_def progress_error_def convergence_error_def next_action_error_def
  calls_error_None interaction_error_None mutation_error_def index_error_None
  completion_error_def verification_error_def committing_error_def terminal_error_def
  finalized_journal_def zero_UsageState_def zero_ContextState_def zero_ProgressState_def
  unevaluated_def not_blank_Cons solid_def space_encodings_def text_codec_def
  zero_ModelSampleState_def new_effect_def settle_def

section \<open>The commands\<close>

definition demo_observation :: WorkItemObservation where
  "demo_observation = \<lparr>obReadPath = [], obReadWindow = [], obReadStart = 0, obReadEnd = 0,
     obResultHandle = [], obCallID = [], obContentDigest = [], obOpenSession = [],
     obCloseSession = [], obCoveredPaths = []\<rparr>"

definition demo_call :: ToolCallState where
  "demo_call = \<lparr>tcID = ''k1'', tcName = ''file_write'', tcArguments = ''{}'', tcCatalogID = [],
     tcCatalogGeneration = 0, tcCatalogRevision = 0, tcCatalogAuthority = 0\<rparr>"

definition demo_change :: ObservedChange where
  "demo_change = \<lparr>ocPath = ''main.go'', ocKind = ''modified''\<rparr>"

definition demo_sample :: ModelSampleResult where
  "demo_sample = \<lparr>mrEffectID = effect_id 1, mrSampleID = ''m1'', mrUsage = zero_UsageState,
     mrContext = zero_ContextState, mrFailure = None, mrText = [], mrCalls = [demo_call],
     mrContinued = False, mrError = []\<rparr>"

definition demo_result :: ToolResultCommand where
  "demo_result = \<lparr>txEffectID = effect_id 2, txCallID = ''k1'', txIsError = False,
     txChanges = [demo_change], txObservation = demo_observation\<rparr>"

definition demo_verification :: VerificationResult where
  "demo_verification = \<lparr>vrEffectID = effect_id 3, vrStatus = VerificationPassed,
     vrEvidenceCalls = [], vrMessage = [], vrRepairKey = ''r''\<rparr>"

definition demo_terminal :: TerminalRequest where
  "demo_terminal = \<lparr>tqFailureCode = [], tqFailureMessage = [], tqFault = None,
     tqCancelReason = [], tqConvergence = None\<rparr>"

section \<open>The states\<close>

definition running :: "Effect \<Rightarrow> Effect" where
  "running e = e\<lparr>efStatus := EffectRunning, efAttempt := 1, efError := []\<rparr>"

definition demo_e1 :: Effect where
  "demo_e1 = new_effect text_codec 1 EffectSampleProvider (SamplePayload ''m1'') ''sample:m1'' ''m1''"

definition demo_e2 :: Effect where
  "demo_e2 = new_effect text_codec 2 EffectExecuteTool (ToolPayload demo_call) ''tool:k1'' ''k1''"

definition demo_e3 :: Effect where
  "demo_e3 = new_effect text_codec 3 EffectRunVerification (VerificationPayload 1)
     (''verification:'' @ format_d 1) []"

definition demo_decision :: TerminalDecision where
  "demo_decision = \<lparr>tdKind = TerminalCompleted, tdCode = [], tdMessage = [], tdFault = None,
     tdConvergence = None\<rparr>"

definition demo_e4 :: Effect where
  "demo_e4 = new_effect text_codec 4 EffectCommitJournal (TerminalPayload demo_decision)
     ''journal:completed'' []"

definition demo0 :: State where
  "demo0 = NewState TurnIntentAnswer ''agent'' 1"

definition demo2 :: State where
  "demo2 = demo0\<lparr>stPhase := PhaseSampling\<rparr>"

definition demo3 :: State where
  "demo3 = demo2\<lparr>stSampleLedger := fmupd ''m1''
       (zero_ModelSampleState\<lparr>smID := ''m1'', smStatus := SampleRequested\<rparr>) fmempty,
     stNextEffectSequence := 1, stPendingEffects := fmupd (effect_id 1) demo_e1 fmempty\<rparr>"

definition demo4 :: State where
  "demo4 = demo3\<lparr>stSampleLedger := fmupd ''m1''
       (zero_ModelSampleState\<lparr>smID := ''m1'', smStatus := SampleRunning, smAttempt := 1\<rparr>) fmempty,
     stActiveSampleID := ''m1'',
     stPendingEffects := fmupd (effect_id 1) (running demo_e1) fmempty\<rparr>"

definition demo5 :: State where
  "demo5 = demo4\<lparr>stPhase := PhaseExecutingTools,
     stSampleLedger := fmupd ''m1''
       (zero_ModelSampleState\<lparr>smID := ''m1'', smStatus := SampleCompleted, smAttempt := 1\<rparr>) fmempty,
     stActiveSampleID := [], stUsage := mergeUsage zero_UsageState zero_UsageState,
     stOpenCalls := fmupd ''k1'' demo_call fmempty, stNextEffectSequence := 2,
     stPendingEffects := fmupd (effect_id 2) demo_e2 fmempty,
     stCompletedEffects := fmupd (effect_id 1) (settle True [] (running demo_e1)) fmempty,
     stProgress := zero_ProgressState\<lparr>pgPendingIdentity :=
       FormatToolCallsIdentity text_codec [demo_call]\<rparr>\<rparr>"

definition demo6 :: State where
  "demo6 = demo5\<lparr>stPendingEffects := fmupd (effect_id 2) (running demo_e2) fmempty\<rparr>"

text \<open>The work item is recorded by the reducer and not looked at again in this turn.\<close>

definition demo7 :: "WorkItem \<Rightarrow> State" where
  "demo7 w = demo6\<lparr>stPhase := PhaseSampling, stOpenCalls := fmempty,
     stClosedCalls := fmupd ''k1'' \<lparr>trID = ''k1'', trName = ''file_write'', trIsError = False\<rparr> fmempty,
     stPendingEffects := fmempty,
     stCompletedEffects := fmupd (effect_id 2) (settle True [] (running demo_e2))
       (stCompletedEffects demo5),
     stMutationRevision := 1, stChanges := [demo_change], stJournal := JournalOpen,
     stWorkItem := w\<rparr>"

definition demo8 :: "WorkItem \<Rightarrow> State" where
  "demo8 w = (demo7 w)\<lparr>stPhase := PhaseVerifying, stNextEffectSequence := 3,
     stPendingEffects := fmupd (effect_id 3) demo_e3 fmempty\<rparr>"

definition demo9 :: "WorkItem \<Rightarrow> State" where
  "demo9 w = (demo8 w)\<lparr>stPendingEffects := fmupd (effect_id 3) (running demo_e3) fmempty\<rparr>"

definition demo10 :: "WorkItem \<Rightarrow> State" where
  "demo10 w = (demo9 w)\<lparr>stPhase := PhaseSampling, stPendingEffects := fmempty,
     stCompletedEffects := fmupd (effect_id 3) (settle True [] (running demo_e3))
       (stCompletedEffects (demo7 w)),
     stVerification := \<lparr>vsStatus = VerificationPassed, vsAction = VerificationActionPassed,
       vsMutation = 1, vsEvidenceCalls = [], vsFailureMessage = []\<rparr>\<rparr>"

definition demo12 :: "WorkItem \<Rightarrow> State" where
  "demo12 w = (demo10 w)\<lparr>stProvisionalOutput := [''done''], stOutputEligibility := True\<rparr>"

definition demo13 :: "WorkItem \<Rightarrow> State" where
  "demo13 w = (freeze (demo12 w))\<lparr>stPhase := PhaseCommitting,
     stPendingTerminal := Some demo_decision, stNextEffectSequence := 4,
     stPendingEffects := fmupd (effect_id 4) demo_e4 fmempty\<rparr>"

definition demo14 :: "WorkItem \<Rightarrow> State" where
  "demo14 w = (demo13 w)\<lparr>stPendingEffects := fmupd (effect_id 4) (running demo_e4) fmempty\<rparr>"

definition demo15 :: "WorkItem \<Rightarrow> State" where
  "demo15 w = (demo14 w)\<lparr>stPendingEffects := fmempty, stJournal := JournalCommitted,
     stCompletedEffects := fmupd (effect_id 4) (settle True [] (running demo_e4))
       (stCompletedEffects (demo10 w))\<rparr>"

definition demo16 :: "WorkItem \<Rightarrow> State" where
  "demo16 w = (demo15 w)\<lparr>stPhase := PhaseCompleted, stPendingTerminal := None,
     stTerminal := Some demo_decision, stFinalOutput := [''done''], stProvisionalOutput := []\<rparr>"

lemmas demo_effects = demo_e1_def demo_e2_def demo_e3_def demo_e4_def running_def

lemmas demo_states = demo0_def NewState_def NewStateWithPolicy_def NormalizeTurnIntent_def
  DefaultPolicy_def demo2_def demo3_def demo4_def demo5_def demo6_def demo7_def demo8_def
  demo9_def demo10_def demo12_def demo13_def demo14_def demo15_def demo16_def freeze_def
  demo_call_def demo_change_def demo_decision_def mergeUsage_def

lemmas demo_evaluate = demo_states demo_effects evaluate_validity

section \<open>The steps\<close>

lemma demo_valid0: "Validate text_codec demo0 = None"
  by (simp add: demo_evaluate)

lemma demo_valid2: "Validate text_codec demo2 = None"
  by (simp add: demo_evaluate)

lemma demo_valid3: "Validate text_codec demo3 = None"
  by (simp add: demo_evaluate)

lemma demo_valid4: "Validate text_codec demo4 = None"
  by (simp add: demo_evaluate)

lemma demo_valid5: "Validate text_codec demo5 = None"
  by (simp add: demo_evaluate)

lemma demo_valid6: "Validate text_codec demo6 = None"
  by (simp add: demo_evaluate)

lemma demo_valid7: "Validate text_codec (demo7 w) = None"
  by (simp add: demo_evaluate)

lemma demo_valid8: "Validate text_codec (demo8 w) = None"
  by (simp add: demo_evaluate)

lemma demo_valid9: "Validate text_codec (demo9 w) = None"
  by (simp add: demo_evaluate)

lemma demo_valid10: "Validate text_codec (demo10 w) = None"
  by (simp add: demo_evaluate)

lemma demo_valid12: "Validate text_codec (demo12 w) = None"
  by (simp add: demo_evaluate)

lemma demo_valid13: "Validate text_codec (demo13 w) = None"
  by (simp add: demo_evaluate)

lemma demo_valid14: "Validate text_codec (demo14 w) = None"
  by (simp add: demo_evaluate)

lemma demo_valid15: "Validate text_codec (demo15 w) = None"
  by (simp add: demo_evaluate)

lemma demo_valid16: "Validate text_codec (demo16 w) = None"
  by (simp add: demo_evaluate validateTerminalState_def completed_state_error_def
      RequiresCompletion_def verification_current_def phaseForTerminal_def)

lemmas demo_compute = demo_states demo_effects start_def Let_def put_sample_def lookup_zero_def
  finishEffect_def settle_def new_effect_def zero_ModelSampleState_def not_blank_Cons solid_def
  space_encodings_def bind_guards

lemma demo_step1: "runs text_codec demo0 [StartTurn, PreparationFinished] demo2"
proof -
  let ?s = "demo0\<lparr>stPhase := PhasePreparing\<rparr>"
  have v: "Validate text_codec ?s = None" by (simp add: demo_evaluate)
  have "step text_codec demo0 StartTurn ?s"
    by (rule stepI [OF demo_valid0 v]) (simp_all add: demo_compute)
  moreover have "step text_codec ?s PreparationFinished demo2"
    by (rule stepI [OF v demo_valid2]) (simp_all add: demo_compute)
  ultimately show ?thesis by (auto simp: turn.runs_cons turn.runs_nil)
qed

lemma demo_step3: "step text_codec demo2 (ModelSampleRequested ''m1'') demo3"
  by (rule stepI [OF demo_valid2 demo_valid3])
    (simp_all add: demo_compute applyModelSampleRequested_def)

lemma demo_step4: "step text_codec demo3 (EffectStarted (effect_id 1) 1) demo4"
  by (rule stepI [OF demo_valid3 demo_valid4])
    (simp_all add: demo_compute applyEffectStarted_def)

lemma demo_step5: "step text_codec demo4 (ModelSampleResultReceived demo_sample) demo5"
  by (rule stepI [OF demo_valid4 demo_valid5])
    (simp_all add: demo_compute demo_sample_def applyModelSampleResult_def sample_result_ready_def
      sample_of_def booked_sample_def close_sample_def follow_sample_def applyToolCalls_def
      is_commentary_def zero_UsageState_def zero_ContextState_def zero_ProgressState_def)

lemma demo_step6: "step text_codec demo5 (EffectStarted (effect_id 2) 1) demo6"
  by (rule stepI [OF demo_valid5 demo_valid6])
    (simp_all add: demo_compute applyEffectStarted_def)

lemma demo_step7: "\<exists>w. step text_codec demo6 (ToolResultReceived demo_result) (demo7 w)"
  by (rule step_itemI [OF demo_valid6 demo_valid7])
    (simp_all add: demo_compute demo_result_def applyToolResult_def close_tool_call_def
      call_awaits_approval_def phase_after_tools_def)

lemma demo_step8: "step text_codec (demo7 w) VerificationStarted (demo8 w)"
  by (rule stepI [OF demo_valid7 demo_valid8])
    (simp_all add: demo_compute applyVerificationStarted_def)

lemma demo_step9: "step text_codec (demo8 w) (EffectStarted (effect_id 3) 1) (demo9 w)"
  by (rule stepI [OF demo_valid8 demo_valid9])
    (simp_all add: demo_compute applyEffectStarted_def)

lemma demo_step10:
  "\<exists>w'. step text_codec (demo9 w) (VerificationFinished demo_verification) (demo10 w')"
  by (rule step_itemI [OF demo_valid9 demo_valid10])
    (simp_all add: demo_compute demo_verification_def applyVerificationFinished_def
      verification_effect_def verification_action_def unrepaired_action_def)

lemma demo_step12:
  "runs text_codec (demo10 w) [ModelTextReceived ''done'', ReleaseProvisionalOutput] (demo12 w)"
proof -
  let ?s = "(demo10 w)\<lparr>stProvisionalOutput := [''done'']\<rparr>"
  have v: "Validate text_codec ?s = None" by (simp add: demo_evaluate)
  have "step text_codec (demo10 w) (ModelTextReceived ''done'') ?s"
    by (rule stepI [OF demo_valid10 v]) (simp_all add: demo_compute applyModelText_def)
  moreover have "step text_codec ?s ReleaseProvisionalOutput (demo12 w)"
    by (rule stepI [OF v demo_valid12])
      (simp_all add: demo_compute applyReleaseOutput_def validateCompletionContract_def
        refuse_def RequiresCompletion_def verification_current_def)
  ultimately show ?thesis by (auto simp: turn.runs_cons turn.runs_nil)
qed

lemma demo_step13: "step text_codec (demo12 w) (TerminalRequested demo_terminal) (demo13 w)"
  by (rule stepI [OF demo_valid12 demo_valid13])
    (simp_all add: demo_compute applyTerminalRequested_def demo_terminal_def terminal_decision_def
      settle_terminal_def validateCompletionReadiness_def validateCompletionContract_def
      refuse_def RequiresCompletion_def verification_current_def terminalJournalOutcome_def)

lemma demo_step14: "step text_codec (demo13 w) (EffectStarted (effect_id 4) 1) (demo14 w)"
  by (rule stepI [OF demo_valid13 demo_valid14])
    (simp_all add: demo_compute applyEffectStarted_def)

lemma demo_step15:
  "step text_codec (demo14 w) (JournalResultReceived (effect_id 4) JournalCommitted []) (demo15 w)"
  by (rule stepI [OF demo_valid14 demo_valid15])
    (simp_all add: demo_compute applyJournalResult_def terminalJournalOutcome_def)

lemma demo_step16: "step text_codec (demo15 w) FinishTerminal (demo16 w)"
  by (rule stepI [OF demo_valid15 demo_valid16])
    (simp_all add: demo_compute applyFinishTerminal_def terminalJournalOutcome_def)

section \<open>The whole turn\<close>

definition demo_opening :: "Command list" where
  "demo_opening = [StartTurn, PreparationFinished, ModelSampleRequested ''m1'',
     EffectStarted (effect_id 1) 1, ModelSampleResultReceived demo_sample,
     EffectStarted (effect_id 2) 1]"

definition demo_change_commands :: "Command list" where
  "demo_change_commands = [ToolResultReceived demo_result, VerificationStarted,
     EffectStarted (effect_id 3) 1, VerificationFinished demo_verification,
     ModelTextReceived ''done'', ReleaseProvisionalOutput]"

definition demo_closing :: "Command list" where
  "demo_closing = [TerminalRequested demo_terminal, EffectStarted (effect_id 4) 1,
     JournalResultReceived (effect_id 4) JournalCommitted [], FinishTerminal]"

definition demo_commands :: "Command list" where
  "demo_commands = demo_opening @ demo_change_commands @ demo_closing"

lemma run_then: "step c s x t \<Longrightarrow> runs c t xs u \<Longrightarrow> runs c s (x # xs) u"
  unfolding turn.runs_cons by (rule exI, rule conjI)

lemma run_after: "runs c s xs t \<Longrightarrow> runs c t ys u \<Longrightarrow> runs c s (xs @ ys) u"
  unfolding turn.runs_append by (rule exI, rule conjI)

lemma demo_run_opening: "runs text_codec demo0 demo_opening demo6"
proof -
  have "runs text_codec demo2 [ModelSampleRequested ''m1'', EffectStarted (effect_id 1) 1,
     ModelSampleResultReceived demo_sample, EffectStarted (effect_id 2) 1] demo6"
    by (rule run_then [OF demo_step3 run_then [OF demo_step4 run_then [OF demo_step5
          run_then [OF demo_step6 runs.here]]]])
  from run_after [OF demo_step1 this] show ?thesis by (simp add: demo_opening_def)
qed

lemma demo_run_change: "\<exists>w. runs text_codec demo6 demo_change_commands (demo12 w)"
proof -
  obtain w0 where w0: "step text_codec demo6 (ToolResultReceived demo_result) (demo7 w0)"
    using demo_step7 ..
  obtain w where w: "step text_codec (demo9 w0) (VerificationFinished demo_verification) (demo10 w)"
    using demo_step10 ..
  have "runs text_codec demo6 demo_change_commands (demo12 w)"
    unfolding demo_change_commands_def
    by (rule run_then [OF w0 run_then [OF demo_step8 run_then [OF demo_step9
          run_then [OF w demo_step12]]]])
  then show ?thesis ..
qed

lemma demo_run_closing: "runs text_codec (demo12 w) demo_closing (demo16 w)"
  unfolding demo_closing_def
  by (rule run_then [OF demo_step13 run_then [OF demo_step14 run_then [OF demo_step15
        run_then [OF demo_step16 runs.here]]]])

lemma demo_run: "\<exists>w. runs text_codec demo0 demo_commands (demo16 w)"
proof -
  obtain w where "runs text_codec demo6 demo_change_commands (demo12 w)"
    using demo_run_change ..
  from run_after [OF demo_run_opening run_after [OF this demo_run_closing]]
  show ?thesis unfolding demo_commands_def ..
qed

end
