(* ===== verification/TurnSafety.thy ===== *)
theory TurnSafety
  imports DemoTurn
begin

text \<open>
  What a turn guarantees when it ends: a completed turn was verified, no call and no effect is
  lost, the journal agrees with the terminal decision, and the transaction that ends the turn
  works on a frozen snapshot.
\<close>

section \<open>Completed turns are verified\<close>

text \<open>The action a recorded verification may carry under the policy of the turn.\<close>

definition action_sound :: "State \<Rightarrow> bool" where
  "action_sound s \<longleftrightarrow>
     (let v = stVerification s; p = stPolicy s in
      (vsAction v = VerificationActionPassed \<longrightarrow> vsStatus v = VerificationPassed) \<and>
      (vsAction v \<in> {VerificationActionReported, VerificationActionReverted} \<longrightarrow>
         \<not> plVerificationMustPass p))"

lemma unrepaired_action_sound:
  "unrepaired_action s st = VerificationActionPassed \<Longrightarrow> st = VerificationPassed"
  "unrepaired_action s st \<in> {VerificationActionReported, VerificationActionReverted} \<Longrightarrow>
     \<not> plVerificationMustPass (stPolicy s)"
  by (auto simp: unrepaired_action_def split: if_splits)

lemma verification_action_sound:
  assumes "verification_action s r tr = Inr (a, tr')"
  shows "(a = VerificationActionPassed \<longrightarrow> vrStatus r = VerificationPassed) \<and>
    (a \<in> {VerificationActionReported, VerificationActionReverted} \<longrightarrow>
       \<not> plVerificationMustPass (stPolicy s))"
proof (rule verification_action_cases [OF assms])
  assume "a = unrepaired_action s (vrStatus r)"
  then show ?thesis using unrepaired_action_sound [of s "vrStatus r"] by simp
qed simp

lemma step_action_sound:
  assumes "action_sound s" "step c s cmd t"
  shows "action_sound t"
proof (rule stepE [OF assms(2)])
  fix tr assume t: "t = tState tr" and d: "dispatch c (start c s) s cmd = Inr tr"
    and own: "owned cmd s t"
  have pol: "stPolicy t = stPolicy s"
    using step_endures [OF assms(2)] by (simp add: endures_def)
  consider (tool) r where "cmd = ToolResultReceived r" | (verified) r where "cmd = VerificationFinished r"
    | (other) "\<not> verifies cmd" by (cases cmd) auto
  then show "action_sound t"
  proof cases
    case tool
    with d have "applyToolResult c (start c s) s r = Inr tr" by simp
    then have "stVerification t = stVerification s \<or> stVerification t = unevaluated"
      by (rule applyToolResult_state) (simp add: t cloneState_def)
    then show ?thesis
      using assms(1) pol by (auto simp: action_sound_def unevaluated_def Let_def)
  next
    case verified
    with d have "applyVerificationFinished (start c s) s r = Inr tr" by simp
    then obtain t1 a t2 where a: "verification_action s r t1 = Inr (a, t2)"
      and tr: "tr = move PhaseSampling
        (emit ((plain_event EventVerification)\<lparr>evMutation := stMutationRevision s\<rparr>)
          (modify (record_verification s r a) t2))"
      by (rule applyVerificationFinished_eq_Inr)
    then show ?thesis
      using verification_action_sound [OF a] pol by (simp add: action_sound_def t tr Let_def)
  next
    case other
    then show ?thesis using assms(1) own pol by (simp add: action_sound_def owned_def)
  qed
qed

lemma runs_action_sound:
  "runs c (NewStateWithPolicy intent mode profile policy) cmds t \<Longrightarrow> action_sound t"
  by (erule turn.invariant_along)
    (simp add: action_sound_def NewStateWithPolicy_def unevaluated_def, rule step_action_sound)

text \<open>The last state of a run that left its first phase has passed the check.\<close>

lemma runs_end_valid: "runs c s cmds t \<Longrightarrow> stPhase t \<noteq> stPhase s \<Longrightarrow> Validate c t = None"
  by (cases rule: runs.cases) (auto dest: step_valid)

lemma created_phase [simp]: "stPhase (NewStateWithPolicy intent mode profile policy) = PhaseCreated"
  "stPolicy (NewStateWithPolicy intent mode profile policy) = policy"
  by (simp_all add: NewStateWithPolicy_def)

lemma completed_decision:
  "Validate c t = None \<Longrightarrow> stPhase t = PhaseCompleted \<Longrightarrow> completed_state_error t = None"
  by (erule valid_terminal)
    (auto simp: validateTerminalState_def phaseForTerminal_def split: TerminalKind.splits)

text \<open>C1: a turn that starts fresh under a policy that requires verification and demands that it
  pass, changes the workspace and reaches the completed phase, has a verification record that
  passed, on the last revision of the workspace, and a committed journal: no order of commands
  completes a changed turn without it.\<close>

theorem completed_turn_verified:
  assumes "runs c (NewStateWithPolicy intent mode profile policy) cmds t"
    "plVerificationRequired policy" "plVerificationMustPass policy"
    "stPhase t = PhaseCompleted" "stMutationRevision t \<noteq> 0"
  shows "vsStatus (stVerification t) = VerificationPassed \<and>
    vsMutation (stVerification t) = stMutationRevision t \<and> stJournal t = JournalCommitted"
proof -
  have pol: "stPolicy t = policy"
    using runs_endures [OF assms(1)] by (simp add: endures_def)
  have "completed_state_error t = None"
    using assms(4) by (intro completed_decision [OF runs_end_valid [OF assms(1)]]) simp_all
  then have cur: "verification_current t"
    and j: "stJournal t = (if vsAction (stVerification t) = VerificationActionReverted
              then JournalRolledBack else JournalCommitted)"
    using assms pol by (simp_all add: completed_state_error_def Let_def)
  then show ?thesis
    using runs_action_sound [OF assms(1)] assms(3) pol
    by (auto simp: verification_current_def action_sound_def Let_def)
qed

theorem completed_turn_verified_witness:
  "\<exists>w. vsStatus (stVerification (demo16 w)) = VerificationPassed \<and>
     vsMutation (stVerification (demo16 w)) = stMutationRevision (demo16 w) \<and>
     stJournal (demo16 w) = JournalCommitted"
proof -
  obtain w where "runs text_codec demo0 demo_commands (demo16 w)" using demo_run ..
  then have run: "runs text_codec (NewStateWithPolicy TurnIntentAnswer ''agent'' 1 DefaultPolicy)
      demo_commands (demo16 w)"
    by (simp add: demo0_def NewState_def)
  have "plVerificationRequired DefaultPolicy" "plVerificationMustPass DefaultPolicy"
    "stPhase (demo16 w) = PhaseCompleted" "stMutationRevision (demo16 w) \<noteq> 0"
    by (simp_all add: demo_states)
  from completed_turn_verified [OF run this] show ?thesis by (rule exI)
qed

section \<open>No call is lost\<close>

text \<open>C2: a tool call that is open in some state of a turn is answered exactly once before the turn
  ends: in every terminal state reached from it the call is closed under its own name, nothing is
  open any more, and a call that was already closed has kept its result.\<close>

theorem calls_answered:
  assumes "runs c s cmds t" "\<not> Phase_Terminal (stPhase s)" "Phase_Terminal (stPhase t)"
  shows "stOpenCalls t = fmempty \<and>
    (\<forall>k call. fmlookup (stOpenCalls s) k = Some call \<longrightarrow>
       (\<exists>r. fmlookup (stClosedCalls t) k = Some r \<and> trName r = tcName call)) \<and>
    (\<forall>k r. fmlookup (stClosedCalls s) k = Some r \<longrightarrow> fmlookup (stClosedCalls t) k = Some r)"
proof -
  have "Validate c t = None" by (rule runs_end_valid [OF assms(1)]) (use assms in auto)
  then have none: "stOpenCalls t = fmempty" using assms(3) by (rule valid_terminal)
  have "extends_calls s t" using runs_endures [OF assms(1)] by (simp add: endures_def)
  then show ?thesis
    using none by (auto simp: extends_calls_def dest: fmsubset_lookup)
qed

theorem calls_answered_witness:
  "\<exists>w r. fmlookup (stClosedCalls (demo16 w)) ''k1'' = Some r \<and> trName r = ''file_write''"
proof -
  obtain w where "runs text_codec demo6 demo_change_commands (demo12 w)"
    using demo_run_change ..
  from run_after [OF this demo_run_closing]
  have "runs text_codec demo6 (demo_change_commands @ demo_closing) (demo16 w)" .
  moreover have "\<not> Phase_Terminal (stPhase demo6)" "Phase_Terminal (stPhase (demo16 w))"
    "fmlookup (stOpenCalls demo6) ''k1'' = Some demo_call" "tcName demo_call = ''file_write''"
    by (simp_all add: demo_states)
  ultimately show ?thesis using calls_answered [of text_codec demo6] by metis
qed

section \<open>Every effect has its own identity and is settled once\<close>

text \<open>The effects and the events a run reports.\<close>

fun requested :: "'z kernel_codec_scheme \<Rightarrow> State \<Rightarrow> Command list \<Rightarrow> Effect list" where
  "requested c s [] = []"
| "requested c s (cmd # cmds) =
     (case Apply c s (Some cmd) of Inl _ \<Rightarrow> []
      | Inr tr \<Rightarrow> tEffects tr @ requested c (tState tr) cmds)"

fun emitted :: "'z kernel_codec_scheme \<Rightarrow> State \<Rightarrow> Command list \<Rightarrow> Event list" where
  "emitted c s [] = []"
| "emitted c s (cmd # cmds) =
     (case Apply c s (Some cmd) of Inl _ \<Rightarrow> []
      | Inr tr \<Rightarrow> tEvents tr @ emitted c (tState tr) cmds)"

lemma ids_after_add: "ids_after n (j + k) = ids_after n j @ ids_after (n + of_nat j) k"
  by (induction k) (simp_all add: ac_simps)

lemma ids_after_nth: "ids_after n k = map (\<lambda>i. effect_id (n + of_nat (Suc i))) [0..<k]"
  by (induction k) simp_all

lemma distinct_ids_after: "k \<le> 2 ^ 64 \<Longrightarrow> distinct (ids_after n k)"
  by (auto simp: ids_after_nth distinct_map inj_on_def word_of_nat_eq_iff take_bit_nat_eq_self)

text \<open>What a run reports, from its first state to its last.\<close>

definition reports :: "State \<Rightarrow> Effect list \<Rightarrow> Event list \<Rightarrow> State \<Rightarrow> bool" where
  "reports s es evs t \<longleftrightarrow>
     map efID es = ids_after (stNextEffectSequence s) (length es) \<and>
     stNextEffectSequence t = stNextEffectSequence s + of_nat (length es) \<and>
     known_effects t = known_effects s |\<union>| efID |`| fset_of_list es \<and>
     walk (stPhase s) evs = Some (stPhase t)"

lemma reports_trans:
  "reports s es evs t \<Longrightarrow> reports t es' evs' u \<Longrightarrow> reports s (es @ es') (evs @ evs') u"
  by (simp add: reports_def ids_after_add walk_append funion_assoc fimage_funion)

lemma reports_step:
  assumes "Apply c s (Some cmd) = Inr tr"
  shows "reports s (tEffects tr) (tEvents tr) (tState tr)"
proof -
  have "dispatch c (start c s) s cmd = Inr tr" using assms by (simp add: Apply_eq_Inr)
  from dispatch_trace [OF this] show ?thesis
    by (simp add: trace_ok_def reports_def fset_of_list_map [symmetric] del: fset_of_list_map)
qed

lemma reports_run: "runs c s cmds t \<Longrightarrow> reports s (requested c s cmds) (emitted c s cmds) t"
proof (induction cmds arbitrary: s)
  case Nil
  then show ?case by (simp add: turn.runs_nil reports_def)
next
  case (Cons cmd cmds)
  then obtain tr where tr: "Apply c s (Some cmd) = Inr tr" "runs c (tState tr) cmds t"
    by (auto simp: turn.runs_cons step_iff)
  then show ?case using reports_trans [OF reports_step Cons.IH] by simp
qed

text \<open>The effects of the first sample of the example turn.\<close>

definition asks :: "kernel_error + Transition \<Rightarrow> Effect list \<Rightarrow> State \<Rightarrow> bool" where
  "asks r es t \<longleftrightarrow> (case r of Inl _ \<Rightarrow> False | Inr tr \<Rightarrow> tEffects tr = es \<and> tState tr = t)"

lemma asks_simps [simp]:
  "asks (Inr tr) es t \<longleftrightarrow> tEffects tr = es \<and> tState tr = t" "\<not> asks (Inl e) es t"
  "asks (guard_error err r) es t \<longleftrightarrow> err = None \<and> asks r es t"
  "asks (ensure s cmd ok msg r) es t \<longleftrightarrow> ok \<and> asks r es t"
  by (simp_all add: asks_def guard_error_def ensure_def split: option.split)

lemma requested_cons:
  assumes "Validate c s = None" "Validate c t = None" "\<not> Phase_Terminal (stPhase s)"
    "asks (dispatch c (start c s) s cmd) es t"
  shows "requested c s (cmd # cmds) = es @ requested c t cmds"
proof -
  obtain tr where "dispatch c (start c s) s cmd = Inr tr" "tEffects tr = es" "tState tr = t"
    using assms(4) by (auto simp: asks_def split: sum.splits)
  then have "Apply c s (Some cmd) = Inr tr" using assms(1-3) by (simp add: Apply_eq_Inr)
  then show ?thesis by (simp add: \<open>tEffects tr = es\<close> \<open>tState tr = t\<close>)
qed

definition demo_sampling :: "Command list" where
  "demo_sampling = [StartTurn, PreparationFinished, ModelSampleRequested ''m1'',
     EffectStarted (effect_id 1) 1, ModelSampleResultReceived demo_sample]"

lemma demo_requested: "requested text_codec demo0 demo_sampling = [demo_e1, demo_e2]"
proof -
  let ?s = "demo0\<lparr>stPhase := PhasePreparing\<rparr>"
  have v: "Validate text_codec ?s = None" by (simp add: demo_evaluate)
  have 1: "requested text_codec demo0 (StartTurn # cmds) = [] @ requested text_codec ?s cmds" for cmds
    by (rule requested_cons [OF demo_valid0 v]) (simp_all add: demo_compute)
  have 2: "requested text_codec ?s (PreparationFinished # cmds) = [] @ requested text_codec demo2 cmds" for cmds
    by (rule requested_cons [OF v demo_valid2]) (simp_all add: demo_compute)
  have 3: "requested text_codec demo2 (ModelSampleRequested ''m1'' # cmds) =
      [demo_e1] @ requested text_codec demo3 cmds" for cmds
    by (rule requested_cons [OF demo_valid2 demo_valid3])
      (simp_all add: demo_compute applyModelSampleRequested_def)
  have 4: "requested text_codec demo3 (EffectStarted (effect_id 1) 1 # cmds) =
      [] @ requested text_codec demo4 cmds" for cmds
    by (rule requested_cons [OF demo_valid3 demo_valid4])
      (simp_all add: demo_compute applyEffectStarted_def)
  have 5: "requested text_codec demo4 (ModelSampleResultReceived demo_sample # cmds) =
      [demo_e2] @ requested text_codec demo5 cmds" for cmds
    by (rule requested_cons [OF demo_valid4 demo_valid5])
      (simp_all add: demo_compute demo_sample_def applyModelSampleResult_def sample_result_ready_def
        sample_of_def booked_sample_def close_sample_def follow_sample_def applyToolCalls_def
        is_commentary_def zero_UsageState_def zero_ContextState_def zero_ProgressState_def)
  show ?thesis unfolding demo_sampling_def 1 2 3 4 5 by simp
qed

lemma demo_run_sampling: "runs text_codec demo0 demo_sampling demo5"
proof -
  have "runs text_codec demo2 [ModelSampleRequested ''m1'', EffectStarted (effect_id 1) 1,
     ModelSampleResultReceived demo_sample] demo5"
    by (rule run_then [OF demo_step3 run_then [OF demo_step4 run_then [OF demo_step5 runs.here]]])
  from run_after [OF demo_step1 this] show ?thesis by (simp add: demo_sampling_def)
qed

text \<open>C3: the effects a fresh turn requests have pairwise different identities (as long as the
  64-bit counter does not wrap around, which takes more than 2 to the 64 requests), and at every
  moment the pending and the settled effects together are exactly the requested ones: no effect
  is forgotten and none appears that was not requested.\<close>

theorem effects_accounted:
  assumes "runs c (NewStateWithPolicy intent mode profile policy) cmds t"
    "length (requested c (NewStateWithPolicy intent mode profile policy) cmds) \<le> 2 ^ 64"
  shows "distinct (map efID (requested c (NewStateWithPolicy intent mode profile policy) cmds)) \<and>
    fset (fmdom (stPendingEffects t) |\<union>| fmdom (stCompletedEffects t)) =
      efID ` set (requested c (NewStateWithPolicy intent mode profile policy) cmds)"
proof -
  let ?s = "NewStateWithPolicy intent mode profile policy"
  have "known_effects ?s = {||}" by (simp add: known_effects_def NewStateWithPolicy_def)
  then show ?thesis
    using reports_run [OF assms(1)] distinct_ids_after [OF assms(2)]
    by (simp add: reports_def known_effects_def fset_of_list.rep_eq)
qed

theorem effects_accounted_witness:
  "effect_id 1 \<noteq> effect_id 2 \<and>
   fset (fmdom (stPendingEffects demo5) |\<union>| fmdom (stCompletedEffects demo5)) =
     {effect_id 1, effect_id 2}"
proof -
  have demo0: "demo0 = NewStateWithPolicy TurnIntentAnswer ''agent'' 1 DefaultPolicy"
    by (simp add: demo0_def NewState_def)
  have ids: "efID demo_e1 = effect_id 1" "efID demo_e2 = effect_id 2"
    by (simp_all add: demo_effects new_effect_def)
  from effects_accounted [OF demo_run_sampling [unfolded demo0]]
  show ?thesis unfolding demo_requested [unfolded demo0] by (simp add: ids)
qed

text \<open>C4: the phase events a turn reports form one path: each starts in the phase the previous one
  ended in, the first in the phase the run starts in, and the last ends in the phase the run ends
  in. An observer of the events always knows the phase of the turn.\<close>

theorem phase_events_path:
  assumes "runs c s cmds t"
  shows "walk (stPhase s) (emitted c s cmds) = Some (stPhase t)"
  using reports_run [OF assms] by (simp add: reports_def)

theorem phase_events_path_witness:
  "walk PhaseCreated (emitted text_codec demo0 demo_sampling) = Some PhaseExecutingTools"
  using phase_events_path [OF demo_run_sampling] by (simp add: demo_states)

section \<open>Phases\<close>



section \<open>The terminal transaction\<close>

text \<open>What a turn that is committing keeps, and how it ends.\<close>

definition settled :: "State \<Rightarrow> State \<Rightarrow> bool" where
  "settled s t \<longleftrightarrow>
     stUsage t = stUsage s \<and> stContext t = stContext s \<and>
     stMutationRevision t = stMutationRevision s \<and> stChanges t = stChanges s \<and>
     stVerification t = stVerification s \<and>
     (if Phase_Terminal (stPhase t)
      then stTerminal t = stPendingTerminal s \<and> stFinalOutput t = stProvisionalOutput s
      else stPhase t = PhaseCommitting \<and> stPendingTerminal t = stPendingTerminal s \<and>
           stProvisionalOutput t = stProvisionalOutput s)"

lemma committing_targets:
  "targets cmd PhaseCommitting \<noteq> [] \<Longrightarrow>
     cmd = FinishTerminal \<and> \<not> mutates cmd \<and> \<not> verifies cmd \<and> \<not> meters cmd \<or>
     targets cmd PhaseCommitting = [PhaseCommitting] \<and> \<not> mutates cmd \<and> \<not> verifies cmd \<and>
       \<not> writes_output cmd \<and> \<not> decides cmd \<and> \<not> meters cmd"
  by (cases cmd) (simp_all split: if_splits)

lemma step_settled:
  assumes "step c s cmd t" "stPhase s = PhaseCommitting"
  shows "settled s t"
proof (rule stepE [OF assms(1)])
  fix tr assume t: "t = tState tr" and d: "dispatch c (start c s) s cmd = Inr tr"
    and sound: "sound_step cmd s t" and own: "owned cmd s t"
  from sound have ph: "stPhase t \<in> set (targets cmd PhaseCommitting)"
    by (simp add: sound_step_def assms(2))
  then have "targets cmd PhaseCommitting \<noteq> []" by auto
  from committing_targets [OF this] show "settled s t"
  proof (elim disjE conjE)
    assume fin: "cmd = FinishTerminal" and "\<not> mutates cmd" "\<not> verifies cmd" "\<not> meters cmd"
    then have keep: "stUsage t = stUsage s" "stContext t = stContext s"
      "stMutationRevision t = stMutationRevision s" "stChanges t = stChanges s"
      "stVerification t = stVerification s"
      using own by (simp_all add: owned_def)
    from d fin have "applyFinishTerminal (start c s) s = Inr tr" by simp
    then have "stTerminal t = stPendingTerminal s \<and> stFinalOutput t = stProvisionalOutput s"
      by (rule applyFinishTerminal_eq_Inr) (simp add: t)
    moreover have "Phase_Terminal (stPhase t)" using ph fin by auto
    ultimately show ?thesis using keep by (simp add: settled_def)
  next
    assume "targets cmd PhaseCommitting = [PhaseCommitting]" "\<not> mutates cmd" "\<not> verifies cmd"
      "\<not> writes_output cmd" "\<not> decides cmd" "\<not> meters cmd"
    then show ?thesis using own ph by (simp add: settled_def owned_def)
  qed
qed

lemma terminal_stops:
  assumes "runs c s cmds t" "Phase_Terminal (stPhase s)"
  shows "t = s"
proof (cases cmds)
  case Nil
  then show ?thesis using assms(1) by (simp add: turn.runs_nil)
next
  case (Cons cmd rest)
  then obtain u where "step c s cmd u" using assms(1) by (auto simp: turn.runs_cons)
  then show ?thesis using assms(2) by (auto elim: stepE)
qed

lemma runs_settled:
  assumes "runs c s cmds t" "stPhase s = PhaseCommitting"
  shows "settled s t"
  using assms
proof (induction rule: turn.runs_induct)
  case start
  then show ?case by (simp add: settled_def)
next
  case (further cmds t cmd u)
  then have t: "settled s t" by blast
  have live: "\<not> Phase_Terminal (stPhase t)" using further.hyps(2) by (auto elim: stepE)
  then have "stPhase t = PhaseCommitting" using t by (simp add: settled_def)
  from step_settled [OF further.hyps(2) this] t live show ?case
    by (simp add: settled_def del: Phase_Terminal.simps)
qed

text \<open>C6: once a turn is committing, nothing that the terminal decision rests on changes any more:
  usage, context, workspace changes and verification stay as they were frozen, the decision and
  the provisional output are kept until the end, and the terminal state carries exactly that
  decision and exactly that output.\<close>

theorem committing_frozen:
  assumes "runs c s cmds t" "stPhase s = PhaseCommitting"
  shows "stUsage t = stUsage s \<and> stContext t = stContext s \<and>
     stMutationRevision t = stMutationRevision s \<and> stChanges t = stChanges s \<and>
     stVerification t = stVerification s \<and>
     (if Phase_Terminal (stPhase t)
      then stTerminal t = stPendingTerminal s \<and> stFinalOutput t = stProvisionalOutput s
      else stPhase t = PhaseCommitting \<and> stPendingTerminal t = stPendingTerminal s \<and>
           stProvisionalOutput t = stProvisionalOutput s)"
  using runs_settled [OF assms] unfolding settled_def .

lemma demo_run_commit: "runs text_codec (demo13 w) (tl demo_closing) (demo16 w)"
  unfolding demo_closing_def list.sel
  by (rule run_then [OF demo_step14 run_then [OF demo_step15 run_then [OF demo_step16 runs.here]]])

theorem committing_frozen_witness:
  "stTerminal (demo16 zero_WorkItem) = stPendingTerminal (demo13 zero_WorkItem) \<and>
   stFinalOutput (demo16 zero_WorkItem) = [''done'']"
proof -
  have p: "stPhase (demo13 zero_WorkItem) = PhaseCommitting"
    "Phase_Terminal (stPhase (demo16 zero_WorkItem))"
    "stProvisionalOutput (demo13 zero_WorkItem) = [''done'']"
    by (simp_all add: demo_states)
  show ?thesis using committing_frozen [OF demo_run_commit p(1)] unfolding p(3) if_P [OF p(2)] by blast
qed





section \<open>Changes of the workspace\<close>

lemma retires_settled:
  assumes "fmdom P |\<inter>| fmdom C = {||}" "retires (fmdrop k P) (fmupd k v C) P' C'"
  shows "fmlookup P' k = None \<and> fmlookup C' k = Some v"
proof
  have sub: "P' \<subseteq>\<^sub>f fmdrop k P" using assms(2) by (simp add: retires_def)
  show "fmlookup P' k = None"
    by (rule ccontr) (use sub in \<open>auto dest: fmsubset_lookup\<close>)
  have "fmdom (fmdrop k P) |\<inter>| fmdom (fmupd k v C) = {||}" using assms(1) by auto
  then have "fmupd k v C \<subseteq>\<^sub>f C'" using assms(2) by (simp add: retires_def)
  then show "fmlookup C' k = Some v" by (rule fmsubset_lookup) simp
qed

text \<open>C8: a tool result that reports changes advances the mutation revision by one (in 64 bits),
  appends the changes in order, drops the verification and the accepted completion of the older
  revision and opens the journal; a result without changes leaves all of these alone. In both
  cases the call is closed with the reported outcome and its effect is settled as succeeded.\<close>

theorem tool_result_tracks_changes:
  assumes "step c s (ToolResultReceived r) t"
  shows "(if txChanges r = [] then stMutationRevision t = stMutationRevision s \<and>
       stVerification t = stVerification s \<and> stCompletion t = stCompletion s \<and>
       stJournal t = stJournal s
     else stMutationRevision t = stMutationRevision s + 1 \<and> stVerification t = unevaluated \<and>
       stCompletion t = None \<and> stJournal t = JournalOpen) \<and>
    stChanges t = stChanges s @ txChanges r \<and>
    (\<exists>call. fmlookup (stOpenCalls s) (txCallID r) = Some call \<and>
       fmlookup (stClosedCalls t) (txCallID r) =
         Some \<lparr>trID = txCallID r, trName = tcName call, trIsError = txIsError r\<rparr>) \<and>
    fmlookup (stOpenCalls t) (txCallID r) = None \<and>
    fmlookup (stPendingEffects t) (txEffectID r) = None \<and>
    (\<exists>e. fmlookup (stPendingEffects s) (txEffectID r) = Some e \<and>
       fmlookup (stCompletedEffects t) (txEffectID r) = Some (settle True [] e))"
proof (rule stepE [OF assms])
  fix tr assume t: "t = tState tr" "dispatch c (start c s) s (ToolResultReceived r) = Inr tr"
    and valid: "Validate c s = None"
  then have ap: "applyToolResult c (start c s) s r = Inr tr" by simp
  have apart: "fmdom (stPendingEffects (tState (start c s))) |\<inter>|
      fmdom (stCompletedEffects (tState (start c s))) = {||}"
    using valid_effects_disjoint [OF valid] by (simp add: cloneState_def)
  show ?thesis
    by (rule applyToolResult_state [OF ap], drule retires_settled [OF apart])
      (simp add: t(1) cloneState_def)
qed

theorem tool_result_tracks_changes_witness:
  "\<exists>w. stMutationRevision (demo7 w) = 1 \<and> stVerification (demo7 w) = unevaluated \<and>
     stJournal (demo7 w) = JournalOpen \<and> stChanges (demo7 w) = [demo_change]"
proof -
  obtain w where w: "step text_codec demo6 (ToolResultReceived demo_result) (demo7 w)"
    using demo_step7 ..
  have d: "txChanges demo_result = [demo_change]" "stMutationRevision demo6 = 0" "stChanges demo6 = []"
    by (simp_all add: demo_result_def demo_states)
  show ?thesis using tool_result_tracks_changes [OF w] by (intro exI [of _ w]) (simp add: d)
qed

end
