(* ===== verification/TurnControl.thy ===== *)
theory TurnControl
  imports TurnSafety
begin

text \<open>
  How a turn is steered: cancellation, approvals, the journal outcome, the continuation cursor,
  and the bounds that stop a turn that makes no progress.
\<close>

section \<open>Cancellation\<close>

lemma cancelled_run:
  assumes "runs c s cmds t" "cnAccepted (stCancellation s)"
  shows "stCancellation t = stCancellation s \<and>
    efKind ` set (requested c s cmds) \<inter> work_kinds = {}"
  using assms
proof (induction cmds arbitrary: s)
  case Nil
  then show ?case by (simp add: turn.runs_nil)
next
  case (Cons cmd cmds)
  then obtain u where u: "step c s cmd u" "runs c u cmds t" by (auto simp: turn.runs_cons)
  then obtain tr where tr: "Apply c s (Some cmd) = Inr tr" "u = tState tr" by (auto simp: step_iff)
  have "trace_ok s tr" using tr(1) by (auto simp: Apply_eq_Inr intro: dispatch_trace)
  then have now: "efKind ` set (tEffects tr) \<inter> work_kinds = {}"
    using Cons.prems(2) by (auto simp: trace_ok_def)
  have kept: "stCancellation u = stCancellation s"
    using step_endures [OF u(1)] Cons.prems(2) by (simp add: endures_def)
  with Cons.IH [OF u(2)] Cons.prems(2) now tr show ?case by (auto simp: kept)
qed

text \<open>C9: once a cancellation is accepted it stays accepted with its reason, and whatever commands
  follow, the turn asks for no more work: it requests no provider sample, no tool execution and
  no verification.\<close>

theorem cancelled_turn_stops_work:
  assumes "runs c s cmds t" "cnAccepted (stCancellation s)"
  shows "stCancellation t = stCancellation s \<and>
    efKind ` set (requested c s cmds) \<inter>
      {EffectSampleProvider, EffectExecuteTool, EffectRunVerification} = {}"
  using cancelled_run [OF assms] unfolding work_kinds_def .

definition demo_cancelled :: State where
  "demo_cancelled = demo2\<lparr>stCancellation :=
     \<lparr>cnRequested = True, cnAccepted = True, cnReason = ''stop''\<rparr>\<rparr>"

theorem cancelled_turn_stops_work_witness:
  "step text_codec demo2 (CancelRequested ''stop'') demo_cancelled \<and>
   efKind ` set (requested text_codec demo_cancelled [ModelTextReceived ''x'']) \<inter>
      {EffectSampleProvider, EffectExecuteTool, EffectRunVerification} = {}"
proof
  have v: "Validate text_codec demo_cancelled = None"
    "Validate text_codec (demo_cancelled\<lparr>stProvisionalOutput := [''x'']\<rparr>) = None"
    by (simp_all add: demo_evaluate demo_cancelled_def)
  show "step text_codec demo2 (CancelRequested ''stop'') demo_cancelled"
    by (rule stepI [OF demo_valid2 v(1)])
      (simp_all add: demo_compute demo_cancelled_def applyCancelRequested_def)
  have "step text_codec demo_cancelled (ModelTextReceived ''x'')
      (demo_cancelled\<lparr>stProvisionalOutput := [''x'']\<rparr>)"
    by (rule stepI [OF v]) (simp_all add: demo_compute demo_cancelled_def applyModelText_def)
  from cancelled_turn_stops_work [OF run_then [OF this runs.here]]
  show "efKind ` set (requested text_codec demo_cancelled [ModelTextReceived ''x'']) \<inter>
      {EffectSampleProvider, EffectExecuteTool, EffectRunVerification} = {}"
    by (simp add: demo_cancelled_def)
qed

section \<open>Approvals\<close>





section \<open>The journal\<close>



section \<open>The continuation cursor\<close>

definition cursor :: "State \<Rightarrow> u64" where
  "cursor s = (case stContinuation s of None \<Rightarrow> 0 | Some k \<Rightarrow> ccSequence k)"

lemma step_cursor:
  assumes "step c s cmd t"
  shows "cursor t = cursor s + of_nat (length (filter continues [cmd]))"
proof (rule stepE [OF assms])
  fix tr assume t: "t = tState tr" "dispatch c (start c s) s cmd = Inr tr" and own: "owned cmd s t"
  show ?thesis
  proof (cases "continues cmd")
    case False
    then show ?thesis using own by (simp add: cursor_def owned_def)
  next
    case True
    then obtain k where k: "cmd = ContinuationRecorded k" by (cases cmd) auto
    then have "applyContinuationRecorded (start c s) s k = Inr tr" using t(2) by simp
    then show ?thesis
      by (auto simp: k t(1) cursor_def applyContinuationRecorded_def Let_def refuse_def
          split: option.splits)
  qed
qed

text \<open>C12: the continuation cursor of a fresh turn counts the recorded continuations: after any run
  its sequence number is the number of continuation commands accepted so far (in 64 bits), so a
  continuation can neither be skipped nor be recorded twice.\<close>

theorem continuation_counts:
  assumes "runs c (NewStateWithPolicy intent mode profile policy) cmds t"
  shows "(case stContinuation t of None \<Rightarrow> 0 | Some k \<Rightarrow> ccSequence k) =
    of_nat (length (filter continues cmds))"
proof -
  have "cursor t = of_nat (length (filter continues cmds))"
    using assms
  proof (induction rule: turn.runs_induct)
    case start
    then show ?case by (simp add: cursor_def NewStateWithPolicy_def)
  next
    case (further cmds t cmd u)
    then show ?case using step_cursor [OF further.hyps(2)] by simp
  qed
  then show ?thesis by (simp add: cursor_def)
qed

definition demo_cursor :: ContinuationCursor where
  "demo_cursor = \<lparr>ccSequence = 1, ccHandle = ''h'', ccDigest = ''d''\<rparr>"

theorem continuation_counts_witness:
  "\<exists>t. runs text_codec demo0 [ContinuationRecorded demo_cursor] t \<and>
     (case stContinuation t of None \<Rightarrow> 0 | Some k \<Rightarrow> ccSequence k) = 1"
proof -
  let ?t = "demo0\<lparr>stContinuation := Some demo_cursor\<rparr>"
  have v: "Validate text_codec ?t = None" by (simp add: demo_evaluate demo_cursor_def)
  have "step text_codec demo0 (ContinuationRecorded demo_cursor) ?t"
    by (rule stepI [OF demo_valid0 v])
      (simp_all add: demo_compute applyContinuationRecorded_def demo_cursor_def refuse_def)
  then have run: "runs text_codec demo0 [ContinuationRecorded demo_cursor] ?t"
    by (rule run_then [OF _ runs.here])
  have "demo0 = NewStateWithPolicy TurnIntentAnswer ''agent'' 1 DefaultPolicy"
    by (simp add: demo0_def NewState_def)
  from continuation_counts [OF run [unfolded this]] run show ?thesis by auto
qed

section \<open>Bounds on turns without progress\<close>

lemma unat_bound: "unat (w :: u32) < 2 ^ LENGTH(32)"
  by (rule unsigned_less)

text \<open>C13: counting samples without progress does not wrap around. In a state whose no-progress
  count does not exceed the observed samples, as the check demands, and for a sample count that
  does not regress, as the reducer demands, the new count is the old one plus the new samples, or
  zero when there was progress, and it never exceeds the samples observed.\<close>

theorem no_progress_count_exact:
  assumes "progress_error p = None" "\<not> n < pgObservedSamples p"
  shows "unat (pgNoProgressSamples (count_progress p sig ident n)) =
      (if pgSignature p = [] \<or> pgSignature p \<noteq> sig \<or>
          pgSampleIdentity p \<noteq> [] \<and> ident \<noteq> pgSampleIdentity p then 0
       else unat (pgNoProgressSamples p) + (unat n - unat (pgObservedSamples p))) \<and>
    pgNoProgressSamples (count_progress p sig ident n) \<le> n"
proof -
  have le: "pgNoProgressSamples p \<le> pgObservedSamples p"
    using assms(1) by (auto simp: progress_error_def split: if_splits)
  have diff: "unat (n - pgObservedSamples p) = unat n - unat (pgObservedSamples p)"
    using assms(2) by (simp add: unat_sub not_less)
  have small: "unat (pgNoProgressSamples p) + (unat n - unat (pgObservedSamples p)) \<le> unat n"
    using le assms(2) by (simp add: word_le_nat_alt word_less_nat_alt)
  then have "unat (pgNoProgressSamples p) + unat (n - pgObservedSamples p) < 2 ^ LENGTH(32)"
    using order.strict_trans1 [OF _ unat_bound, of _ n] by (simp add: diff)
  then have "unat (pgNoProgressSamples p + (n - pgObservedSamples p)) =
      unat (pgNoProgressSamples p) + (unat n - unat (pgObservedSamples p))"
    by (simp add: unat_word_ariths diff)
  then show ?thesis
    using small by (auto simp: count_progress_def Let_def word_le_nat_alt)
qed

theorem no_progress_count_exact_witness:
  "unat (pgNoProgressSamples (count_progress
      \<lparr>pgSignature = ''a'', pgSampleIdentity = [], pgPendingIdentity = [], pgObservedSamples = 4,
       pgNoProgressSamples = 3, pgStage = ProgressStageNone\<rparr> ''a'' [] 6)) = 5"
  using no_progress_count_exact [of "\<lparr>pgSignature = ''a'', pgSampleIdentity = [],
       pgPendingIdentity = [], pgObservedSamples = 4, pgNoProgressSamples = 3,
       pgStage = ProgressStageNone\<rparr>" 6 "''a''" "[]"]
  by (simp add: progress_error_def)


section \<open>A stalled turn converges\<close>









lemma lookup_zero_upd [simp]: "lookup_zero d (fmupd k v m) k = v"
  by (simp add: lookup_zero_def)

text \<open>The budget the code works with, once a change of the progress key has reset it.\<close>

definition current_budget :: "State \<Rightarrow> string \<Rightarrow> RepairBudget" where
  "current_budget s key =
     (let stored = lookup_zero zero_RepairBudget (stRepairBudgets s) RepairCompletion in
      if rbProgressKey stored \<noteq> key then stored\<lparr>rbProgressKey := key, rbConsecutive := 0\<rparr>
      else stored)"




lemma current_budget_action [simp]:
  "current_budget (s\<lparr>stNextAction := a\<rparr>) key = current_budget s key"
  by (simp add: current_budget_def)










end
