(* ===== verification/FactStore.thy ===== *)
theory FactStore
  imports KernelValidate
begin

text \<open>
  Domain facts and the stores that keep them: the interface \<open>DomainFactStore\<close>
  (\<open>coordinator.go\<close>) as a locale, and the in-memory reference store of
  \<open>terminal_envelope.go\<close> as its implementation.

  JSON encoding of a state and of an envelope is the standard library's: a parameter of the
  definitions that digest.
\<close>

section \<open>Domain facts\<close>

text \<open>The zero event of a fact that records no event is \<open>None\<close>.\<close>

record DomainFact =
  dfTurnID :: string
  dfSequence :: u64
  dfCommand :: string
  dfEvent :: "Event option"
  dfState :: State
  dfStateDigest :: string

type_synonym marshal_state = "State \<Rightarrow> go_error + string"

text \<open>What an append demands of the fact at an index of the resulting log.\<close>

definition fact_error ::
  "'z codec_scheme \<Rightarrow> marshal_state \<Rightarrow> string \<Rightarrow> nat \<Rightarrow> DomainFact \<Rightarrow> go_error option" where
  "fact_error c marshal turnID index f = first_error
     [require (dfTurnID f = turnID \<and> dfSequence f = of_nat (index + 1) \<and>
               dfCommand f \<noteq> [] \<and> dfStateDigest f \<noteq> [])
        (ErrorF ''invalid domain fact at index %d'' [ArgN index]),
      map_option (ErrorWrap ''invalid domain fact state at index %d: %w'' [ArgN index])
        (Validate c (dfState f)),
      require (Digest c marshal (dfState f) = Inr (dfStateDigest f))
        (ErrorF ''domain fact digest mismatch at index %d'' [ArgN index])]"

section \<open>The interface\<close>

record 'st fact_store_ops =
  soAppend :: "'st \<Rightarrow> string \<Rightarrow> u64 \<Rightarrow> DomainFact list \<Rightarrow> go_error + 'st"
  soLoad :: "'st \<Rightarrow> string \<Rightarrow> go_error + DomainFact list"

text \<open>
  What a store promises: a load gives back every appended fact in order, an append is accepted
  only at the end of the log, it touches the log of its own turn only, and loading never changes
  anything. A refused append leaves no new store behind, so nothing of it is visible.
\<close>

locale fact_store =
  fixes ops :: "'st fact_store_ops"
  assumes load_total: "\<exists>facts. soLoad ops st turnID = Inr facts"
    and append_load: "soAppend ops st turnID n facts = Inr st' \<Longrightarrow> soLoad ops st turnID = Inr old \<Longrightarrow>
      soLoad ops st' turnID = Inr (old @ facts)"
    and append_end: "soAppend ops st turnID n facts = Inr st' \<Longrightarrow> soLoad ops st turnID = Inr old \<Longrightarrow>
      n = of_nat (length old) + 1"
    and append_other: "soAppend ops st turnID n facts = Inr st' \<Longrightarrow> turnID' \<noteq> turnID \<Longrightarrow>
      soLoad ops st' turnID' = soLoad ops st turnID'"
begin

text \<open>A log never shrinks and never changes what it holds.\<close>

lemma append_extends:
  assumes "soAppend ops st turnID n facts = Inr st'" "soLoad ops st turnID' = Inr old"
  shows "\<exists>more. soLoad ops st' turnID' = Inr (old @ more)"
proof (cases "turnID' = turnID")
  case True
  then show ?thesis using append_load [OF assms(1)] assms(2) by blast
next
  case False
  then show ?thesis using append_other [OF assms(1)] assms(2) by (intro exI [of _ "[]"]) simp
qed

text \<open>Two writers that both read the same end of the log cannot both append.\<close>

lemma stale_append_refused:
  assumes "soAppend ops st turnID n facts = Inr st'" "facts \<noteq> []" "length facts < 2 ^ 64"
  shows "soAppend ops st' turnID n facts' \<noteq> Inr st''"
proof
  assume again: "soAppend ops st' turnID n facts' = Inr st''"
  obtain old where old: "soLoad ops st turnID = Inr old" using load_total by blast
  have "n = of_nat (length old) + 1" by (rule append_end [OF assms(1) old])
  moreover have "n = of_nat (length (old @ facts)) + 1"
    by (rule append_end [OF again append_load [OF assms(1) old]])
  ultimately have "(of_nat (length facts) :: u64) = 0" by simp
  then have "take_bit 64 (length facts) = 0" by (simp add: word_of_nat_eq_0_iff take_bit_eq_0_iff)
  then show False using assms(2,3) by (simp add: take_bit_nat_eq_self)
qed

end

section \<open>The memory store\<close>

record ('env, 'mark) MemoryTerminalEnvelopeStore =
  msFacts :: "DomainFact list dict"
  msEnvelopes :: "'env dict"
  msMarkers :: "'mark dict"
  msPublished :: "string fset dict"

definition NewMemoryTerminalEnvelopeStore :: "('env, 'mark) MemoryTerminalEnvelopeStore" where
  "NewMemoryTerminalEnvelopeStore =
     \<lparr>msFacts = fmempty, msEnvelopes = fmempty, msMarkers = fmempty, msPublished = fmempty\<rparr>"

definition AppendDomainFacts ::
  "'z codec_scheme \<Rightarrow> marshal_state \<Rightarrow> ('env, 'mark) MemoryTerminalEnvelopeStore \<Rightarrow> string \<Rightarrow> u64 \<Rightarrow>
     DomainFact list \<Rightarrow> go_error + ('env, 'mark) MemoryTerminalEnvelopeStore" where
  "AppendDomainFacts c marshal s turnID expectedNext facts =
     (let current = lookup_zero [] (msFacts s) turnID;
          log = current @ facts in
      guard_error (require (\<not> (blank turnID \<or> facts = []))
        (ErrorNew ''domain fact append is empty''))
     (guard_error (require (fmlookup (msMarkers s) turnID = None)
        (ErrorNew ''terminal turn rejects new domain facts''))
     (guard_error (require (expectedNext = of_nat (length current + 1))
        (ErrorF ''domain fact sequence conflict: got %d want %d''
           [ArgN (unat expectedNext), ArgN (length current + 1)]))
     (guard_error (index_error (fact_error c marshal turnID) log)
     (Inr (s\<lparr>msFacts := fmupd turnID log (msFacts s)\<rparr>))))))"

definition LoadDomainFacts ::
  "('env, 'mark) MemoryTerminalEnvelopeStore \<Rightarrow> string \<Rightarrow> go_error + DomainFact list" where
  "LoadDomainFacts s turnID = Inr (lookup_zero [] (msFacts s) turnID)"

definition memory_ops ::
  "'z codec_scheme \<Rightarrow> marshal_state \<Rightarrow> ('env, 'mark) MemoryTerminalEnvelopeStore fact_store_ops" where
  "memory_ops c marshal =
     \<lparr>soAppend = AppendDomainFacts c marshal, soLoad = LoadDomainFacts\<rparr>"

lemma AppendDomainFacts_eq_Inr:
  "AppendDomainFacts c marshal s turnID n facts = Inr s' \<longleftrightarrow>
     \<not> blank turnID \<and> facts \<noteq> [] \<and> fmlookup (msMarkers s) turnID = None \<and>
     n = of_nat (length (lookup_zero [] (msFacts s) turnID) + 1) \<and>
     index_error (fact_error c marshal turnID) (lookup_zero [] (msFacts s) turnID @ facts) = None \<and>
     s' = s\<lparr>msFacts := fmupd turnID (lookup_zero [] (msFacts s) turnID @ facts) (msFacts s)\<rparr>"
  by (auto simp: AppendDomainFacts_def Let_def require_def)

interpretation memory: fact_store "memory_ops c marshal" for c marshal
  by unfold_locales
    (auto simp: memory_ops_def LoadDomainFacts_def AppendDomainFacts_eq_Inr lookup_zero_def)

end
