(* ===== verification/Coordinator.thy ===== *)
theory Coordinator
  imports TurnRuns FactStore
begin

text \<open>
  The turn coordinator (\<open>coordinator.go\<close>): it runs a command through the reducer, appends the
  resulting domain facts to the store and only then adopts the new state. It is created for a
  fresh turn or restored from the facts of an interrupted one.

  The domain fact observer is told after the append and its errors are swallowed; it cannot
  change the coordinator and is left out. A commit function given by the caller stands in for
  the store's append.
\<close>

section \<open>Result identities\<close>

fun resultEffectID :: "Command \<Rightarrow> string" where
  "resultEffectID (EffectResultReceived eid _ _) = eid"
| "resultEffectID (PersistenceResultReceived eid _ _) = eid"
| "resultEffectID (ApprovalResultReceived r) = axEffectID r"
| "resultEffectID (InputResultReceived eid _ _ _) = eid"
| "resultEffectID (ToolResultReceived r) = txEffectID r"
| "resultEffectID (ModelSampleResultReceived r) = mrEffectID r"
| "resultEffectID (VerificationFinished r) = vrEffectID r"
| "resultEffectID (JournalResultReceived eid _ _) = eid"
| "resultEffectID _ = []"

section \<open>The coordinator\<close>

record TurnCoordinator =
  coTurnID :: string
  coState :: State
  coNextFact :: u64

datatype coordinator_error =
    Rejected kernel_error
  | CoordinatorError go_error
  | PersistenceFault go_error

type_synonym 'st commit = "'st \<Rightarrow> string \<Rightarrow> u64 \<Rightarrow> DomainFact list \<Rightarrow> go_error + 'st"

definition NewTurnCoordinator ::
  "'z kernel_codec_scheme \<Rightarrow> 'st fact_store_ops \<Rightarrow> 'st \<Rightarrow> string \<Rightarrow> State \<Rightarrow>
     coordinator_error + TurnCoordinator" where
  "NewTurnCoordinator c ops st turnID state =
     guard_error (map_option CoordinatorError (first_error
        [require (turnID \<noteq> []) (ErrorNew ''turn coordinator turn id is empty''),
         require (stProfileRevision state \<noteq> 0)
           (ErrorNew ''turn coordinator requires a frozen profile revision''),
         Validate c state]))
     (case soLoad ops st turnID of
        Inl err \<Rightarrow> Inl (CoordinatorError err)
      | Inr facts \<Rightarrow>
          guard_error (require (facts = []) (CoordinatorError (ErrorNew
            ''turn coordinator requires RestoreTurnCoordinator for existing facts'')))
          (Inr \<lparr>coTurnID = turnID, coState = cloneState c state, coNextFact = 1\<rparr>))"

text \<open>The facts of one transition: one per event, or a single one without an event.\<close>

definition domain_fact ::
  "'z kernel_codec_scheme \<Rightarrow> TurnCoordinator \<Rightarrow> Command \<Rightarrow> State \<Rightarrow> string \<Rightarrow> nat \<Rightarrow> Event option \<Rightarrow>
     DomainFact" where
  "domain_fact c co command state digest index event =
     \<lparr>dfTurnID = coTurnID co, dfSequence = coNextFact co + of_nat index,
      dfCommand = commandName command, dfEvent = event, dfState = cloneState c state,
      dfStateDigest = digest\<rparr>"

definition domain_facts ::
  "'z kernel_codec_scheme \<Rightarrow> TurnCoordinator \<Rightarrow> Command \<Rightarrow> Transition \<Rightarrow> string \<Rightarrow> DomainFact list" where
  "domain_facts c co command tr digest =
     (if tEvents tr = [] then [domain_fact c co command (tState tr) digest 0 None]
      else map (\<lambda>(index, event). domain_fact c co command (tState tr) digest index (Some event))
             (enumerate 0 (tEvents tr)))"

definition transition ::
  "'z kernel_codec_scheme \<Rightarrow> marshal_state \<Rightarrow> 'st commit \<Rightarrow> TurnCoordinator \<Rightarrow> 'st \<Rightarrow> Command \<Rightarrow>
     coordinator_error + TurnCoordinator \<times> 'st \<times> Effect list" where
  "transition c marshal commit co st command =
     (case Apply c (coState co) (Some command) of
        Inl err \<Rightarrow> Inl (Rejected err)
      | Inr tr \<Rightarrow>
     (case Digest c marshal (tState tr) of
        Inl err \<Rightarrow> Inl (CoordinatorError err)
      | Inr digest \<Rightarrow>
     (let facts = domain_facts c co command tr digest in
      case commit st (coTurnID co) (coNextFact co) facts of
        Inl err \<Rightarrow> Inl (PersistenceFault err)
      | Inr st' \<Rightarrow>
          Inr (co\<lparr>coState := tState tr, coNextFact := coNextFact co + of_nat (length facts)\<rparr>,
               st', tEffects tr))))"

section \<open>Restoring\<close>

definition restore_fact_error ::
  "'z kernel_codec_scheme \<Rightarrow> marshal_state \<Rightarrow> string \<Rightarrow> u64 \<Rightarrow> nat \<Rightarrow> DomainFact \<Rightarrow> go_error option" where
  "restore_fact_error c marshal turnID from index f = first_error
     [require (dfTurnID f = turnID \<and> dfSequence f = from + of_nat index)
        (ErrorF ''domain fact sequence is invalid at index %d'' [ArgN index]),
      map_option (ErrorWrap ''domain fact state %d: %w'' [ArgN (index + 1)])
        (Validate c (dfState f)),
      require (Digest c marshal (dfState f) = Inr (dfStateDigest f))
        (ErrorF ''domain fact digest mismatch at sequence %d'' [ArgN (unat (dfSequence f))])]"

text \<open>Read the log back: the checks, and the coordinator before any effect is requeued.\<close>

definition load_coordinator ::
  "'z kernel_codec_scheme \<Rightarrow> marshal_state \<Rightarrow> 'st fact_store_ops \<Rightarrow> 'st \<Rightarrow> string \<Rightarrow>
     coordinator_error + TurnCoordinator" where
  "load_coordinator c marshal ops st turnID =
     guard_error (require (turnID \<noteq> [])
       (CoordinatorError (ErrorNew ''turn coordinator restore dependencies are incomplete'')))
     (case soLoad ops st turnID of
        Inl err \<Rightarrow> Inl (CoordinatorError err)
      | Inr facts \<Rightarrow>
     guard_error (require (facts \<noteq> [])
       (CoordinatorError (ErrorNew ''turn coordinator restore has no domain facts'')))
     (guard_error (require (dfSequence (hd facts) \<noteq> 0)
       (CoordinatorError (ErrorNew ''domain fact sequence is invalid'')))
     (guard_error (map_option CoordinatorError
        (index_error (restore_fact_error c marshal turnID (dfSequence (hd facts))) facts))
     (Inr \<lparr>coTurnID = turnID, coState = cloneState c (dfState (last facts)),
           coNextFact = dfSequence (last facts) + 1\<rparr>))))"

section \<open>Accepted commands and durable facts\<close>

text \<open>One accepted submission, and sequences of them.\<close>

inductive advance ::
  "'z kernel_codec_scheme \<Rightarrow> marshal_state \<Rightarrow> 'st commit \<Rightarrow> TurnCoordinator \<times> 'st \<Rightarrow> Command \<Rightarrow>
     TurnCoordinator \<times> 'st \<Rightarrow> bool" for c marshal commit where
  advance: "transition c marshal commit co st cmd = Inr (co', st', es) \<Longrightarrow>
     advance c marshal commit (co, st) cmd (co', st')"

inductive advances ::
  "'z kernel_codec_scheme \<Rightarrow> marshal_state \<Rightarrow> 'st commit \<Rightarrow> TurnCoordinator \<times> 'st \<Rightarrow> Command list \<Rightarrow>
     TurnCoordinator \<times> 'st \<Rightarrow> bool" for c marshal commit x where
  stay: "advances c marshal commit x [] x"
| extend: "advances c marshal commit x cmds y \<Longrightarrow> advance c marshal commit y cmd z \<Longrightarrow>
     advances c marshal commit x (cmds @ [cmd]) z"

inductive_cases advanceE: "advance c marshal commit x cmd y"

interpretation coordination: run_system "advance c marshal commit" "advances c marshal commit"
  for c marshal commit
proof
  fix x y z cmds cmd
  show "advances c marshal commit x [] y \<longleftrightarrow> y = x"
    by (auto elim: advances.cases intro: advances.intros)
  show "advances c marshal commit x (cmds @ [cmd]) z \<longleftrightarrow>
      (\<exists>y. advances c marshal commit x cmds y \<and> advance c marshal commit y cmd z)"
  proof
    assume "advances c marshal commit x (cmds @ [cmd]) z"
    then show "\<exists>y. advances c marshal commit x cmds y \<and> advance c marshal commit y cmd z"
      by (cases rule: advances.cases) (simp, blast)
  next
    assume "\<exists>y. advances c marshal commit x cmds y \<and> advance c marshal commit y cmd z"
    then show "advances c marshal commit x (cmds @ [cmd]) z" by (blast intro: advances.extend)
  qed
qed

lemma transition_eq_Inr:
  "transition c marshal commit co st cmd = Inr (co', st', es) \<longleftrightarrow>
     (\<exists>tr digest. Apply c (coState co) (Some cmd) = Inr tr \<and>
        Digest c marshal (tState tr) = Inr digest \<and>
        commit st (coTurnID co) (coNextFact co) (domain_facts c co cmd tr digest) = Inr st' \<and>
        co' = co\<lparr>coState := tState tr,
           coNextFact := coNextFact co + of_nat (length (domain_facts c co cmd tr digest))\<rparr> \<and>
        es = tEffects tr)"
  by (auto simp: transition_def Let_def split: sum.splits)

text \<open>The coordinator's commands are a run of the reducer.\<close>

lemma advance_step:
  assumes "advance c marshal commit (co, st) cmd (co', st')"
  shows "step c (coState co) cmd (coState co') \<and> coTurnID co' = coTurnID co"
  using assms by (auto elim!: advanceE simp: transition_eq_Inr step_iff)

lemma advances_runs:
  assumes "advances c marshal commit x cmds y"
  shows "runs c (coState (fst x)) cmds (coState (fst y)) \<and> coTurnID (fst y) = coTurnID (fst x)"
  using assms
proof (induction rule: coordination.runs_induct)
  case start
  show ?case by (simp add: runs.here)
next
  case (further cmds y cmd z)
  then show ?case
    using advance_step [of c marshal commit "fst y" "snd y" cmd "fst z" "snd z"]
    by (auto intro: runs.further)
qed

text \<open>The copy of a state through JSON is as valid and encodes to the same text.\<close>

definition copy_faithful :: "'z kernel_codec_scheme \<Rightarrow> marshal_state \<Rightarrow> bool" where
  "copy_faithful c marshal \<longleftrightarrow> (\<forall>s. Validate c s = None \<longrightarrow>
     Validate c (cloneState c s) = None \<and> marshal (cloneState c s) = marshal s)"

text \<open>The log of a turn agrees with its coordinator.\<close>

definition log_ok ::
  "'z kernel_codec_scheme \<Rightarrow> marshal_state \<Rightarrow> TurnCoordinator \<Rightarrow> DomainFact list \<Rightarrow> bool" where
  "log_ok c marshal co facts \<longleftrightarrow>
     coNextFact co = of_nat (length facts) + 1 \<and>
     (\<forall>i < length facts. restore_fact_error c marshal (coTurnID co) 1 i (facts ! i) = None) \<and>
     (facts \<noteq> [] \<longrightarrow> dfState (last facts) = cloneState c (coState co))"

lemma length_domain_facts: "length (domain_facts c co cmd tr digest) = max 1 (length (tEvents tr))"
  by (cases "tEvents tr") (simp_all add: domain_facts_def)

lemma domain_facts_nonempty [simp]: "domain_facts c co cmd tr digest \<noteq> []"
  by (cases "tEvents tr") (simp_all add: domain_facts_def)

lemma domain_facts_nth:
  "i < length (domain_facts c co cmd tr digest) \<Longrightarrow>
     \<exists>event. domain_facts c co cmd tr digest ! i = domain_fact c co cmd (tState tr) digest i event"
  by (auto simp: domain_facts_def nth_enumerate_eq)

lemma log_ok_extend:
  assumes "log_ok c marshal co facts" "copy_faithful c marshal"
    "Apply c (coState co) (Some cmd) = Inr tr" "Digest c marshal (tState tr) = Inr digest"
  shows "log_ok c marshal (co\<lparr>coState := tState tr,
      coNextFact := coNextFact co + of_nat (length (domain_facts c co cmd tr digest))\<rparr>)
    (facts @ domain_facts c co cmd tr digest)"
proof -
  let ?new = "domain_facts c co cmd tr digest"
  have valid: "Validate c (tState tr) = None" using assms(3) by (simp add: Apply_eq_Inr)
  have copy: "Validate c (cloneState c (tState tr)) = None"
    "Digest c marshal (cloneState c (tState tr)) = Inr digest"
    using assms(2,4) valid by (auto simp: copy_faithful_def Digest_def)
  have new: "restore_fact_error c marshal (coTurnID co) 1 (length facts + i) (?new ! i) = None"
    if small: "i < length ?new" for i
  proof -
    obtain event where "?new ! i = domain_fact c co cmd (tState tr) digest i event"
      using domain_facts_nth [OF small] by blast
    then show ?thesis
      using copy assms(1) by (simp add: restore_fact_error_def domain_fact_def log_ok_def)
  qed
  have "dfState (last ?new) = cloneState c (tState tr)"
  proof -
    have "length ?new - 1 < length ?new" by simp
    from domain_facts_nth [OF this] show ?thesis
      by (auto simp: last_conv_nth domain_fact_def)
  qed
  moreover have "\<forall>i < length (facts @ ?new).
      restore_fact_error c marshal (coTurnID co) 1 i ((facts @ ?new) ! i) = None"
  proof (intro allI impI)
    fix i assume i: "i < length (facts @ ?new)"
    show "restore_fact_error c marshal (coTurnID co) 1 i ((facts @ ?new) ! i) = None"
    proof (cases "i < length facts")
      case True
      then show ?thesis using assms(1) by (simp add: log_ok_def nth_append)
    next
      case False
      then show ?thesis using new [of "i - length facts"] i by (simp add: nth_append)
    qed
  qed
  ultimately show ?thesis
    using assms(1) by (simp add: log_ok_def)
qed

text \<open>Any store that keeps its promises keeps the log in step with the coordinator.\<close>

context fact_store
begin

definition durable :: "'z kernel_codec_scheme \<Rightarrow> marshal_state \<Rightarrow> TurnCoordinator \<times> 'st \<Rightarrow> bool" where
  "durable c marshal x \<longleftrightarrow>
     (\<exists>facts. soLoad ops (snd x) (coTurnID (fst x)) = Inr facts \<and> log_ok c marshal (fst x) facts)"

lemma durable_new:
  assumes "NewTurnCoordinator c ops st turnID s = Inr co"
  shows "durable c marshal (co, st)"
proof -
  have "soLoad ops st turnID = Inr []" "co = \<lparr>coTurnID = turnID, coState = cloneState c s, coNextFact = 1\<rparr>"
    using assms by (auto simp: NewTurnCoordinator_def require_def split: sum.splits if_splits)
  then show ?thesis by (simp add: durable_def log_ok_def)
qed

lemma durable_advance:
  assumes "durable c marshal x" "copy_faithful c marshal" "advance c marshal (soAppend ops) x cmd y"
  shows "durable c marshal y"
proof -
  obtain co st co' st' es where xy: "x = (co, st)" "y = (co', st')"
    and tr: "transition c marshal (soAppend ops) co st cmd = Inr (co', st', es)"
    using assms(3) by (auto elim!: advanceE)
  obtain facts where facts: "soLoad ops st (coTurnID co) = Inr facts" "log_ok c marshal co facts"
    using assms(1) by (auto simp: durable_def xy)
  from tr obtain tr digest where tr: "Apply c (coState co) (Some cmd) = Inr tr"
    "Digest c marshal (tState tr) = Inr digest"
    "soAppend ops st (coTurnID co) (coNextFact co) (domain_facts c co cmd tr digest) = Inr st'"
    "co' = co\<lparr>coState := tState tr,
           coNextFact := coNextFact co + of_nat (length (domain_facts c co cmd tr digest))\<rparr>"
    unfolding transition_eq_Inr by blast
  show ?thesis
    using log_ok_extend [OF facts(2) assms(2) tr(1,2)] append_load [OF tr(3) facts(1)]
    by (auto simp: durable_def xy tr(4))
qed

lemma durable_advances:
  assumes "advances c marshal (soAppend ops) x cmds y" "durable c marshal x" "copy_faithful c marshal"
  shows "durable c marshal y"
  using assms(1,2) by (rule coordination.invariant_along) (rule durable_advance [OF _ assms(3)])

lemma log_grows:
  assumes "advances c marshal (soAppend ops) x cmds y" "soLoad ops (snd x) (coTurnID (fst x)) = Inr old"
  shows "\<exists>more. soLoad ops (snd y) (coTurnID (fst x)) = Inr (old @ more) \<and> (cmds \<noteq> [] \<longrightarrow> more \<noteq> [])"
  using assms(1)
proof (induction rule: coordination.runs_induct)
  case start
  show ?case using assms(2) by simp
next
  case (further cmds y cmd z)
  then obtain more where more: "soLoad ops (snd y) (coTurnID (fst x)) = Inr (old @ more)" by blast
  have id: "coTurnID (fst y) = coTurnID (fst x)" using advances_runs [OF further.hyps(1)] by blast
  obtain tr digest where "soAppend ops (snd y) (coTurnID (fst y)) (coNextFact (fst y))
      (domain_facts c (fst y) cmd tr digest) = Inr (snd z)"
    using further.hyps(2) by (auto elim!: advanceE simp: transition_eq_Inr)
  from append_load [OF this [unfolded id] more] show ?case
    by (intro exI [of _ "more @ domain_facts c (fst y) cmd tr digest"]) simp
qed

lemma load_durable:
  assumes "durable c marshal (co, st)" "coTurnID co \<noteq> []" "soLoad ops st (coTurnID co) \<noteq> Inr []"
  shows "load_coordinator c marshal ops st (coTurnID co) =
    Inr (co\<lparr>coState := cloneState c (cloneState c (coState co))\<rparr>)"
proof -
  obtain facts where facts: "soLoad ops st (coTurnID co) = Inr facts" "log_ok c marshal co facts"
    using assms(1) by (auto simp: durable_def)
  have ne: "facts \<noteq> []" using assms(3) facts(1) by auto
  have fact: "restore_fact_error c marshal (coTurnID co) 1 i (facts ! i) = None" if "i < length facts" for i
    using facts(2) that by (simp add: log_ok_def)
  have hd: "dfSequence (hd facts) = 1"
    using fact [of 0] ne by (simp add: restore_fact_error_def hd_conv_nth)
  have last: "dfSequence (last facts) + 1 = coNextFact co"
  proof -
    have "dfSequence (last facts) = 1 + of_nat (length facts - 1)"
      using fact [of "length facts - 1"] ne by (simp add: restore_fact_error_def last_conv_nth)
    then show ?thesis using facts(2) ne by (simp add: log_ok_def Suc_leI)
  qed
  have "index_error (restore_fact_error c marshal (coTurnID co) 1) facts = None"
    using fact by (simp add: index_error_None)
  then show ?thesis
    using facts ne assms(2) hd last
    by (simp add: load_coordinator_def log_ok_def)
qed

end

end
