(* ===== verification/Dispatcher.thy ===== *)
theory Dispatcher
  imports Coordinator
begin

text \<open>
  The durable effect dispatcher (\<open>effect_dispatcher.go\<close>): the registry through which every effect
  is started, retried and resolved.

  Every entry keeps a \<open>submit\<close> closure that hands a command to the coordinator; all of them are
  the coordinator's \<open>Submit\<close>, so the operations take it as an argument instead, on an outer state
  \<open>'w\<close>. A submission returns the outer state with an error or without one, or does not return
  (\<open>None\<close>). The code calls \<open>submit\<close> under the dispatcher's lock when it starts, retries or
  requeues an effect, and outside of it when it resolves one: a resolution is two critical
  sections with the submission in between. The identity of an entry, which the code compares as
  a pointer, is the number under which it was allocated.
\<close>

section \<open>The registry\<close>

record routedEffect =
  reEffect :: Effect
  reStarted :: bool
  reResult :: "Command option"
  reResolving :: bool
  reSerial :: nat

record DurableEffectDispatcher =
  ddRouted :: "routedEffect dict"
  ddNextSerial :: nat

datatype dispatch_error =
    DispatchError go_error
  | ErrEffectResultIdentity
  | SubmitError coordinator_error

type_synonym 'w submit = "'w \<Rightarrow> Command \<Rightarrow> ('w \<times> dispatch_error option) option"

definition NewDurableEffectDispatcher :: DurableEffectDispatcher where
  "NewDurableEffectDispatcher = \<lparr>ddRouted = fmempty, ddNextSerial = 0\<rparr>"

fun effect_kind_name :: "EffectKind \<Rightarrow> string" where
  "effect_kind_name EffectSampleProvider = ''sample_provider''"
| "effect_kind_name EffectExecuteTool = ''execute_tool''"
| "effect_kind_name EffectAwaitApproval = ''await_approval''"
| "effect_kind_name EffectAwaitInput = ''await_input''"
| "effect_kind_name EffectRunVerification = ''run_verification''"
| "effect_kind_name EffectCommitJournal = ''commit_journal''"
| "effect_kind_name EffectSuspendJournal = ''suspend_journal''"
| "effect_kind_name EffectRollbackJournal = ''rollback_journal''"
| "effect_kind_name EffectKindUnset = []"
| "effect_kind_name (EffectKindOther s) = s"

definition C2RoutedEffect :: "EffectKind \<Rightarrow> bool" where
  "C2RoutedEffect kind \<longleftrightarrow> kind \<in> {EffectExecuteTool, EffectAwaitApproval, EffectAwaitInput}"

definition C3RoutedEffect :: "EffectKind \<Rightarrow> bool" where
  "C3RoutedEffect kind \<longleftrightarrow> kind \<in> {EffectSampleProvider, EffectRunVerification}"

definition C4RoutedEffect :: "EffectKind \<Rightarrow> bool" where
  "C4RoutedEffect kind \<longleftrightarrow>
     kind \<in> {EffectCommitJournal, EffectSuspendJournal, EffectRollbackJournal}"

definition RoutedEffect :: "EffectKind \<Rightarrow> bool" where
  "RoutedEffect kind \<longleftrightarrow> C2RoutedEffect kind \<or> C3RoutedEffect kind \<or> C4RoutedEffect kind"

definition Dispatch ::
  "DurableEffectDispatcher \<Rightarrow> Effect \<Rightarrow> dispatch_error + DurableEffectDispatcher" where
  "Dispatch d effect =
     guard_error (require (RoutedEffect (efKind effect))
       (DispatchError (ErrorF ''no durable route for effect kind %q''
          [ArgS (effect_kind_name (efKind effect))])))
     (guard_error (require (fmlookup (ddRouted d) (efID effect) = None)
       (DispatchError (ErrorF ''effect %q was dispatched twice'' [ArgS (efID effect)])))
     (Inr (d\<lparr>ddRouted := fmupd (efID effect)
               \<lparr>reEffect = effect, reStarted = False, reResult = None, reResolving = False,
                reSerial = ddNextSerial d\<rparr> (ddRouted d),
             ddNextSerial := ddNextSerial d + 1\<rparr>)))"

definition zero_routed :: routedEffect where
  "zero_routed = \<lparr>reEffect = zero_Effect, reStarted = False, reResult = None, reResolving = False,
     reSerial = 0\<rparr>"

definition entry :: "DurableEffectDispatcher \<Rightarrow> string \<Rightarrow> routedEffect" where
  "entry d effectID = lookup_zero zero_routed (ddRouted d) effectID"

definition put_entry ::
  "string \<Rightarrow> routedEffect \<Rightarrow> DurableEffectDispatcher \<Rightarrow> DurableEffectDispatcher" where
  "put_entry effectID e d = d\<lparr>ddRouted := fmupd effectID e (ddRouted d)\<rparr>"

text \<open>The first entry, by effect identity, of a kind and, unless it is empty, a call.\<close>

definition findLocked ::
  "DurableEffectDispatcher \<Rightarrow> EffectKind \<Rightarrow> string \<Rightarrow> dispatch_error + string" where
  "findLocked d kind callID =
     (case find (\<lambda>effectID. efKind (reEffect (entry d effectID)) = kind \<and>
                   (callID = [] \<or> efCallID (reEffect (entry d effectID)) = callID))
             (sorted_keys (ddRouted d)) of
        None \<Rightarrow> Inl (DispatchError (ErrorF ''no routed effect for kind=%q call_id=%q''
                  [ArgS (effect_kind_name kind), ArgS callID]))
      | Some effectID \<Rightarrow> Inr effectID)"

section \<open>Starting, retrying and requeueing\<close>

definition Start ::
  "'w submit \<Rightarrow> DurableEffectDispatcher \<times> 'w \<Rightarrow> EffectKind \<Rightarrow> string \<Rightarrow>
     ((DurableEffectDispatcher \<times> 'w) \<times> (dispatch_error + Effect)) option" where
  "Start submit x kind callID =
     (case findLocked (fst x) kind callID of
        Inl err \<Rightarrow> Some (x, Inl err)
      | Inr effectID \<Rightarrow>
          let e = entry (fst x) effectID; effect = reEffect e; attempt = efAttempt effect + 1 in
          if reStarted e
          then Some (x, Inl (DispatchError (ErrorF ''effect %q is already started''
                  [ArgS (efID effect)])))
          else case submit (snd x) (EffectStarted (efID effect) attempt) of
                 None \<Rightarrow> None
               | Some (w, Some err) \<Rightarrow> Some ((fst x, w), Inl err)
               | Some (w, None) \<Rightarrow>
                   let effect' = effect\<lparr>efStatus := EffectRunning, efAttempt := attempt, efError := []\<rparr>
                   in Some ((put_entry effectID (e\<lparr>reEffect := effect', reStarted := True\<rparr>) (fst x), w),
                            Inr effect'))"

definition Routed ::
  "DurableEffectDispatcher \<Rightarrow> EffectKind \<Rightarrow> string \<Rightarrow> dispatch_error + Effect \<times> bool" where
  "Routed d kind callID =
     (case findLocked d kind callID of
        Inl err \<Rightarrow> Inl err
      | Inr effectID \<Rightarrow> Inr (reEffect (entry d effectID), reStarted (entry d effectID)))"

text \<open>Submit a command for a running entry and return the entry to its requested state.\<close>

definition back_to_requested ::
  "'w submit \<Rightarrow> DurableEffectDispatcher \<times> 'w \<Rightarrow> string \<Rightarrow> Command \<Rightarrow>
     ((DurableEffectDispatcher \<times> 'w) \<times> dispatch_error option) option" where
  "back_to_requested submit x effectID command =
     (let e = entry (fst x) effectID in
      case submit (snd x) command of
        None \<Rightarrow> None
      | Some (w, Some err) \<Rightarrow> Some ((fst x, w), Some err)
      | Some (w, None) \<Rightarrow>
          Some ((put_entry effectID (e\<lparr>reStarted := False,
                   reEffect := (reEffect e)\<lparr>efStatus := EffectRequested\<rparr>\<rparr>) (fst x), w), None))"

definition ScheduleRetry ::
  "'w submit \<Rightarrow> DurableEffectDispatcher \<times> 'w \<Rightarrow> EffectKind \<Rightarrow> string \<Rightarrow> ProviderRetry \<Rightarrow>
     ((DurableEffectDispatcher \<times> 'w) \<times> dispatch_error option) option" where
  "ScheduleRetry submit x kind callID command =
     (case findLocked (fst x) kind callID of
        Inl err \<Rightarrow> Some (x, Some err)
      | Inr effectID \<Rightarrow>
          let e = entry (fst x) effectID; effect = reEffect e in
          if \<not> reStarted e \<or> efStatus effect \<noteq> EffectRunning \<or> pvEffectID command \<noteq> efID effect \<or>
             pvAttempt command \<noteq> efAttempt effect
          then Some (x, Some (DispatchError (ErrorF ''effect %q cannot schedule retry''
                  [ArgS (efID effect)])))
          else back_to_requested submit x effectID (ProviderRetryRequested command))"

definition Requeue ::
  "'w submit \<Rightarrow> DurableEffectDispatcher \<times> 'w \<Rightarrow> EffectKind \<Rightarrow> string \<Rightarrow>
     ((DurableEffectDispatcher \<times> 'w) \<times> dispatch_error option) option" where
  "Requeue submit x kind callID =
     (case findLocked (fst x) kind callID of
        Inl err \<Rightarrow> Some (x, Some err)
      | Inr effectID \<Rightarrow>
          let e = entry (fst x) effectID; effect = reEffect e in
          if \<not> reStarted e \<or> efStatus effect \<noteq> EffectRunning
          then Some (x, Some (DispatchError (ErrorF ''effect %q cannot be requeued''
                  [ArgS (efID effect)])))
          else back_to_requested submit x effectID (EffectRequeued (efID effect)))"

section \<open>Resolving\<close>

text \<open>The first critical section: keep the first result and mark the entry. It gives the command
  to submit, which is the kept one, with the identity of the entry.\<close>

definition may_resolve :: "routedEffect \<Rightarrow> Command \<Rightarrow> bool" where
  "may_resolve e command \<longleftrightarrow> reStarted e \<or>
     (case command of ModelSampleResultReceived _ \<Rightarrow> True | _ \<Rightarrow> False) \<and>
     efKind (reEffect e) = EffectSampleProvider \<and> efStatus (reEffect e) = EffectRequested"

definition kept_result :: "routedEffect \<Rightarrow> Command \<Rightarrow> Command" where
  "kept_result e command = (case reResult e of None \<Rightarrow> command | Some r \<Rightarrow> r)"

definition resolve_begin ::
  "DurableEffectDispatcher \<Rightarrow> Command \<Rightarrow>
     DurableEffectDispatcher \<times> (dispatch_error + string \<times> nat \<times> Command)" where
  "resolve_begin d command =
     (let effectID = resultEffectID command in
      if effectID = [] then (d, Inl ErrEffectResultIdentity)
      else case fmlookup (ddRouted d) effectID of
        None \<Rightarrow> (d, Inl (DispatchError (ErrorF ''effect %q is not routed'' [ArgS effectID])))
      | Some e \<Rightarrow>
          if \<not> may_resolve e command
          then (d, Inl (DispatchError (ErrorF ''effect %q has not started'' [ArgS effectID])))
          else
            let result = kept_result e command; e1 = e\<lparr>reResult := Some result\<rparr> in
            if reResolving e
            then (put_entry effectID e1 d,
                  Inl (DispatchError (ErrorF ''effect %q result is already resolving''
                     [ArgS effectID])))
            else (put_entry effectID (e1\<lparr>reResolving := True\<rparr>) d,
                  Inr (effectID, reSerial e, result)))"

fun journal_failure :: "Command \<Rightarrow> string" where
  "journal_failure (JournalResultReceived _ _ message) = message"
| "journal_failure _ = []"

text \<open>The second critical section, on the same entry: a refused submission frees it for a retry, a
  failed journal returns it to its requested state, and an accepted result removes it.\<close>

definition resolve_end ::
  "DurableEffectDispatcher \<Rightarrow> string \<times> nat \<times> Command \<Rightarrow> bool \<Rightarrow> DurableEffectDispatcher" where
  "resolve_end d ticket accepted =
     (case ticket of (effectID, serial, result) \<Rightarrow>
      case fmlookup (ddRouted d) effectID of
        None \<Rightarrow> d
      | Some e \<Rightarrow>
          if reSerial e \<noteq> serial then d
          else if \<not> accepted then put_entry effectID (e\<lparr>reResolving := False\<rparr>) d
          else if journal_failure result \<noteq> []
          then put_entry effectID (e\<lparr>reResolving := False, reResult := None, reStarted := False,
                 reEffect := (reEffect e)\<lparr>efStatus := EffectRequested,
                                          efError := journal_failure result\<rparr>\<rparr>) d
          else d\<lparr>ddRouted := fmdrop effectID (ddRouted d)\<rparr>)"

section \<open>Looking up\<close>

definition PendingRouted :: "DurableEffectDispatcher \<Rightarrow> EffectKind \<Rightarrow> Effect list" where
  "PendingRouted d kind =
     filter (\<lambda>effect. kind = EffectKindUnset \<or> efKind effect = kind)
       (map (\<lambda>effectID. reEffect (entry d effectID)) (sorted_keys (ddRouted d)))"

end
