(* ===== verification/EffectResults.thy ===== *)
theory EffectResults
  imports TurnSafety Dispatcher
begin

text \<open>
  What the reducer does with the result of an effect: it accepts a result only for an effect that
  is pending and settles that effect in the same transition, so that no effect is settled twice.
  A failed journal is the one exception: it returns the effect to the queue.
\<close>

section \<open>Settling\<close>

definition closed :: "string \<Rightarrow> Transition \<Rightarrow> bool" where
  "closed eid tr \<longleftrightarrow> eid |\<in>| fmdom (stCompletedEffects (tState tr))"

lemma closed_finish: "closed eid tr \<Longrightarrow> finishEffect tr k ok msg = Inr tr' \<Longrightarrow> closed eid tr'"
  by (auto simp: closed_def finishEffect_eq_Inr)

lemma closed_by_finish: "finishEffect tr eid ok msg = Inr tr' \<Longrightarrow> closed eid tr'"
  by (auto simp: closed_def finishEffect_eq_Inr)

lemma finished_pending:
  "finishEffect tr eid ok msg = Inr tr' \<Longrightarrow> eid |\<in>| fmdom (stPendingEffects (tState tr))"
  by (auto simp: finishEffect_eq_Inr intro: fmdomI)

lemma closed_quietly: "closed eid tr \<Longrightarrow> closed eid (finish_quietly tr k ok msg)"
  by (auto simp: finish_quietly_def split: sum.splits intro: closed_finish)

lemma closed_first: "closed eid tr \<Longrightarrow> closed eid (close_first m ok msg tr)"
  by (simp add: close_first_def closed_quietly split: option.splits)

lemma closed_by_kind: "closed eid tr \<Longrightarrow> closed eid (closeEffectsByKind kind ok msg tr)"
proof -
  have "closed eid t \<Longrightarrow> closed eid (fold f xs t)"
    if "\<And>x t. closed eid t \<Longrightarrow> closed eid (f x t)" for f :: "string \<Rightarrow> Transition \<Rightarrow> Transition" and xs t
    using that by (induction xs arbitrary: t) simp_all
  then show "closed eid tr \<Longrightarrow> closed eid (closeEffectsByKind kind ok msg tr)"
    unfolding closeEffectsByKind_def by (simp add: closed_quietly)
qed

lemma closed_modify:
  "closed eid tr \<Longrightarrow> stCompletedEffects (f (tState tr)) = stCompletedEffects (tState tr) \<Longrightarrow>
     closed eid (modify f tr)"
  by (simp add: closed_def)

lemma closed_plain [simp]:
  "closed eid (emit ev tr) = closed eid tr" "closed eid (move p tr) = closed eid tr"
  by (simp_all add: closed_def move_def)

section \<open>The handlers of results\<close>

lemma approval_resolved_closed:
  "closed eid tr \<Longrightarrow> applyApprovalResolved tr s rid = Inr tr' \<Longrightarrow> closed eid tr'"
  by (auto simp: applyApprovalResolved_def Let_def closeEffectByIdentity_def
      intro!: closed_first closed_modify)

lemma input_resolved_closed:
  "closed eid tr \<Longrightarrow> applyInputResolved tr s rid = Inr tr' \<Longrightarrow> closed eid tr'"
  by (auto simp: applyInputResolved_def Let_def closeEffectByIdentity_def
      intro!: closed_first closed_modify)

lemma follow_sample_closed:
  assumes "closed eid tr" "follow_sample c s r tr = Inr tr'"
  shows "closed eid tr'"
  using assms(2)
proof (cases rule: follow_sample_cases)
  case (called t)
  then show ?thesis using assms(1) by (simp add: closed_def applyToolCalls_state(1))
qed (use assms in \<open>simp_all add: closed_def\<close>)

lemma tool_result_closed:
  assumes "Validate c s = None" "applyToolResult c (start c s) s r = Inr tr"
  shows "txEffectID r |\<in>| fmdom (stPendingEffects s) \<and> closed (txEffectID r) tr"
proof -
  have apart: "fmdom (stPendingEffects (tState (start c s))) |\<inter>|
      fmdom (stCompletedEffects (tState (start c s))) = {||}"
    using valid_effects_disjoint [OF assms(1)] by (simp add: cloneState_def)
  show ?thesis
    by (rule applyToolResult_state [OF assms(2)], drule retires_settled [OF apart])
      (auto simp: closed_def cloneState_def intro: fmdomI)
qed

text \<open>The command is a result of the effect, and what became of it.\<close>

definition settles :: "State \<Rightarrow> Command \<Rightarrow> Transition \<Rightarrow> bool" where
  "settles s cmd tr \<longleftrightarrow>
     resultEffectID cmd |\<in>| fmdom (stPendingEffects s) \<and>
     (if journal_failure cmd = [] then closed (resultEffectID cmd) tr
      else resultEffectID cmd |\<in>| fmdom (stPendingEffects (tState tr)))"

lemma settles_finish:
  assumes "finishEffect (start c s) (resultEffectID cmd) ok msg = Inr tr1" "journal_failure cmd = []"
    "closed (resultEffectID cmd) tr1 \<Longrightarrow> closed (resultEffectID cmd) tr"
  shows "settles s cmd tr"
  using finished_pending [OF assms(1)] closed_by_finish [OF assms(1)] assms(2,3)
  by (simp add: settles_def cloneState_def)

lemma dispatch_settles:
  assumes "dispatch c (start c s) s cmd = Inr tr" "resultEffectID cmd \<noteq> []" "Validate c s = None"
  shows "settles s cmd tr"
  using assms(1,2)
proof (induction cmd rule: resultEffectID.induct)
  case (1 eid ok msg)
  then have "finishEffect (start c s) eid ok msg = Inr tr" by (simp add: applyEffectResult_def)
  then show ?case by (intro settles_finish) simp_all
next
  case (2 eid ok msg)
  then have "finishEffect (start c s) eid ok msg = Inr tr" by (simp add: applyPersistenceResult_def)
  then show ?case by (intro settles_finish) simp_all
next
  case (3 r)
  then obtain tr1 tr2 where
    fin: "finishEffect (start c s) (axEffectID r) (axAccepted r) (axError r) = Inr tr1"
    and res: "applyApprovalResolved tr1 (tState tr1) (axRequestID r) = Inr tr2"
    and last: "(if axCanceled r then applyCancelRequested tr2 (tState tr2) CancelReasonApprovalCanceled
                else Inr tr2) = Inr tr"
    by (auto simp: applyApprovalResult_def Let_def bind_result_eq_Inr)
  show ?case
  proof (rule settles_finish)
    show "finishEffect (start c s) (resultEffectID (ApprovalResultReceived r)) (axAccepted r) (axError r) = Inr tr1"
      using fin by simp
    assume "closed (resultEffectID (ApprovalResultReceived r)) tr1"
    then have "closed (axEffectID r) tr2" by (intro approval_resolved_closed [OF _ res]) simp
    then show "closed (resultEffectID (ApprovalResultReceived r)) tr"
      using last applyCancelRequested_state [of tr2] by (auto simp: closed_def split: if_splits)
  qed simp
next
  case (4 eid rid ok msg)
  then obtain tr1 where
    fin: "finishEffect (start c s) eid ok msg = Inr tr1" and res: "applyInputResolved tr1 (tState tr1) rid = Inr tr"
    by (auto simp: applyInputResult_def Let_def bind_result_eq_Inr)
  show ?case
    by (rule settles_finish [of c s _ ok msg tr1]) (use fin input_resolved_closed [OF _ res] in simp_all)
next
  case (5 r)
  then show ?case using tool_result_closed [OF assms(3)] by (simp add: settles_def)
next
  case (6 r)
  then have "applyModelSampleResult c (start c s) s r = Inr tr" by simp
  then show ?case
  proof (rule applyModelSampleResult_eq_Inr)
    fix t1 assume fin: "finishEffect (start c s) (mrEffectID r) (mrError r = []) (mrError r) = Inr t1"
      and fol: "follow_sample c s r (book_sample s r t1) = Inr tr"
    show "settles s (ModelSampleResultReceived r) tr"
      by (rule settles_finish [where ?tr1.0 = t1]) (use fin follow_sample_closed [OF _ fol] in \<open>simp_all add: closed_def\<close>)
  qed
next
  case (7 r)
  then have ap: "applyVerificationFinished (start c s) s r = Inr tr" and "vrEffectID r \<noteq> []" by simp_all
  then have id: "verification_effect s (vrEffectID r) = vrEffectID r" by (simp add: verification_effect_def)
  show ?case
  proof (rule applyVerificationFinished_eq_Inr [OF ap])
    fix t1 a t2 assume fin: "finishEffect (start c s) (verification_effect s (vrEffectID r)) True [] = Inr t1"
      and act: "verification_action s r t1 = Inr (a, t2)"
      and tr: "tr = move PhaseSampling
        (emit ((plain_event EventVerification)\<lparr>evMutation := stMutationRevision s\<rparr>)
          (modify (record_verification s r a) t2))"
    have "stCompletedEffects (tState t2) = stCompletedEffects (tState t1)"
      using act by (rule verification_action_cases) (auto dest: spendRepairBudget_eq_Inr)
    then show "settles s (VerificationFinished r) tr"
      by (intro settles_finish) (use fin in \<open>simp_all add: id tr closed_def\<close>)
  qed
next
  case (8 eid j msg)
  show ?case
  proof (cases "msg = []")
    case True
    with 8 obtain tr1 where "finishEffect (start c s) eid True [] = Inr tr1"
      "stCompletedEffects (tState tr) = stCompletedEffects (tState tr1)"
      by (auto simp: applyJournalResult_def Let_def bind_result_eq_Inr split: option.splits)
    then show ?thesis by (intro settles_finish) (simp_all add: True closed_def)
  next
    case False
    with 8 show ?thesis
      by (auto simp: applyJournalResult_def Let_def settles_def cloneState_def split: option.splits
          intro: fmdomI)
  qed
qed simp_all

lemma result_settles:
  assumes "step c s cmd t" "resultEffectID cmd \<noteq> []"
  shows "resultEffectID cmd |\<in>| fmdom (stPendingEffects s) \<and>
    (if journal_failure cmd = [] then resultEffectID cmd |\<in>| fmdom (stCompletedEffects t)
     else resultEffectID cmd |\<in>| fmdom (stPendingEffects t))"
proof (rule stepE [OF assms(1)])
  fix tr assume "t = tState tr" "dispatch c (start c s) s cmd = Inr tr" "Validate c s = None"
  then show ?thesis using dispatch_settles [of c s cmd tr] assms(2)
    by (auto simp: settles_def closed_def split: if_splits)
qed

end
