(* ===== verification/EffectSystem.thy ===== *)
theory EffectSystem
  imports EffectResults
begin

text \<open>
  The coordinator and the dispatcher at work together, with any number of callers. Each call runs
  in critical sections: a submission takes the coordinator's lock for the transition and then the
  dispatcher's lock once per requested effect; a resolution takes the dispatcher's lock, submits
  outside of it, and takes it again at the end; starting, retrying and requeueing an effect hold
  the dispatcher's lock around their submission. A step of the system is one critical section of
  one call, so the runs are all the interleavings of the calls.
\<close>

section \<open>Calls in progress\<close>

type_synonym ticket = "string \<times> nat \<times> Command"

datatype call =
    Waiting Command "ticket option"
  | Dispatching "Effect list" "ticket option"
  | Returning bool "ticket option"

text \<open>The effects a call has yet to dispatch, and the resolution it belongs to.\<close>

fun transit :: "call \<Rightarrow> Effect list" where
  "transit (Dispatching es _) = es"
| "transit _ = []"

fun held :: "call \<Rightarrow> ticket list" where
  "held (Waiting _ k) = (case k of None \<Rightarrow> [] | Some ticket \<Rightarrow> [ticket])"
| "held (Dispatching _ k) = (case k of None \<Rightarrow> [] | Some ticket \<Rightarrow> [ticket])"
| "held (Returning _ k) = (case k of None \<Rightarrow> [] | Some ticket \<Rightarrow> [ticket])"

text \<open>\<open>tsRequested\<close> counts the effects requested so far.\<close>

record 'st turn_system =
  tsDispatcher :: DurableEffectDispatcher
  tsTurn :: "TurnCoordinator \<times> 'st"
  tsCalls :: "call list"
  tsRequested :: nat

abbreviation turn_state :: "'st turn_system \<Rightarrow> State" where
  "turn_state x \<equiv> coState (fst (tsTurn x))"

text \<open>A submission under the dispatcher's lock: it waits forever if it has an effect to dispatch.\<close>

definition submit_locked ::
  "'z kernel_codec_scheme \<Rightarrow> marshal_state \<Rightarrow> 'st commit \<Rightarrow> (TurnCoordinator \<times> 'st) submit" where
  "submit_locked c marshal commit w command =
     (case transition c marshal commit (fst w) (snd w) command of
        Inl err \<Rightarrow> Some (w, Some (SubmitError err))
      | Inr (co, st, es) \<Rightarrow> if es = [] then Some ((co, st), None) else None)"

text \<open>The next critical section of a call.\<close>

fun proceed ::
  "'z kernel_codec_scheme \<Rightarrow> marshal_state \<Rightarrow> 'st commit \<Rightarrow> call \<Rightarrow> 'st turn_system \<Rightarrow>
     call list \<times> 'st turn_system" where
  "proceed c marshal commit (Waiting command k) x =
     (case transition c marshal commit (fst (tsTurn x)) (snd (tsTurn x)) command of
        Inl err \<Rightarrow> ([Returning False k], x)
      | Inr (co, st, es) \<Rightarrow>
          ([Dispatching es k],
           x\<lparr>tsTurn := (co, st), tsRequested := tsRequested x + length es\<rparr>))"
| "proceed c marshal commit (Dispatching [] k) x = ([Returning True k], x)"
| "proceed c marshal commit (Dispatching (e # es) k) x =
     (case Dispatch (tsDispatcher x) e of
        Inl err \<Rightarrow> ([Returning False k], x)
      | Inr d \<Rightarrow> ([Dispatching es k], x\<lparr>tsDispatcher := d\<rparr>))"
| "proceed c marshal commit (Returning accepted None) x = ([], x)"
| "proceed c marshal commit (Returning accepted (Some ticket)) x =
     ([], x\<lparr>tsDispatcher := resolve_end (tsDispatcher x) ticket accepted\<rparr>)"

datatype action =
    Submits Command
  | Resolves Command
  | Proceeds nat
  | Starts EffectKind string
  | Retries EffectKind string ProviderRetry
  | Requeues EffectKind string

inductive happens ::
  "'z kernel_codec_scheme \<Rightarrow> marshal_state \<Rightarrow> 'st commit \<Rightarrow> 'st turn_system \<Rightarrow> action \<Rightarrow>
     'st turn_system \<Rightarrow> bool" for c marshal commit where
  submits: "happens c marshal commit x (Submits command)
     (x\<lparr>tsCalls := tsCalls x @ [Waiting command None]\<rparr>)"
| resolves: "resolve_begin (tsDispatcher x) command = (d, Inr ticket) \<Longrightarrow>
     happens c marshal commit x (Resolves command)
       (x\<lparr>tsDispatcher := d, tsCalls := tsCalls x @ [Waiting (snd (snd ticket)) (Some ticket)]\<rparr>)"
| refuses: "resolve_begin (tsDispatcher x) command = (d, Inl err) \<Longrightarrow>
     happens c marshal commit x (Resolves command) (x\<lparr>tsDispatcher := d\<rparr>)"
| proceeds: "tsCalls x = earlier @ call # later \<Longrightarrow> proceed c marshal commit call x = (rest, y) \<Longrightarrow>
     happens c marshal commit x (Proceeds (length earlier)) (y\<lparr>tsCalls := earlier @ rest @ later\<rparr>)"
| starts: "Start (submit_locked c marshal commit) (tsDispatcher x, tsTurn x) kind callID = Some ((d, w), r) \<Longrightarrow>
     happens c marshal commit x (Starts kind callID) (x\<lparr>tsDispatcher := d, tsTurn := w\<rparr>)"
| retries: "ScheduleRetry (submit_locked c marshal commit) (tsDispatcher x, tsTurn x) kind callID retry =
       Some ((d, w), r) \<Longrightarrow>
     happens c marshal commit x (Retries kind callID retry) (x\<lparr>tsDispatcher := d, tsTurn := w\<rparr>)"
| requeues: "Requeue (submit_locked c marshal commit) (tsDispatcher x, tsTurn x) kind callID = Some ((d, w), r) \<Longrightarrow>
     happens c marshal commit x (Requeues kind callID) (x\<lparr>tsDispatcher := d, tsTurn := w\<rparr>)"

inductive executes ::
  "'z kernel_codec_scheme \<Rightarrow> marshal_state \<Rightarrow> 'st commit \<Rightarrow> 'st turn_system \<Rightarrow> action list \<Rightarrow>
     'st turn_system \<Rightarrow> bool" for c marshal commit x where
  idle: "executes c marshal commit x [] x"
| extend: "executes c marshal commit x acts y \<Longrightarrow> happens c marshal commit y a z \<Longrightarrow>
     executes c marshal commit x (acts @ [a]) z"

inductive_cases happensE: "happens c marshal commit x a y"

interpretation effects: run_system "happens c marshal commit" "executes c marshal commit"
  for c marshal commit
proof
  fix x y z acts a
  show "executes c marshal commit x [] y \<longleftrightarrow> y = x"
    by (auto elim: executes.cases intro: executes.intros)
  show "executes c marshal commit x (acts @ [a]) z \<longleftrightarrow>
      (\<exists>y. executes c marshal commit x acts y \<and> happens c marshal commit y a z)"
  proof
    assume "executes c marshal commit x (acts @ [a]) z"
    then show "\<exists>y. executes c marshal commit x acts y \<and> happens c marshal commit y a z"
      by (cases rule: executes.cases) (simp, blast)
  next
    assume "\<exists>y. executes c marshal commit x acts y \<and> happens c marshal commit y a z"
    then show "executes c marshal commit x (acts @ [a]) z" by (blast intro: executes.extend)
  qed
qed

text \<open>A new turn: a coordinator without pending effects, an empty registry, and no call.\<close>

definition new_system :: "TurnCoordinator \<Rightarrow> 'st \<Rightarrow> 'st turn_system" where
  "new_system co st = \<lparr>tsDispatcher = NewDurableEffectDispatcher, tsTurn = (co, st), tsCalls = [],
     tsRequested = 0\<rparr>"

section \<open>No deadlock under the dispatcher's lock\<close>

lemma lifecycle_requests_nothing:
  assumes "Apply c s (Some cmd) = Inr tr"
    "cmd = EffectStarted eid n \<or> cmd = EffectRequeued eid \<or> cmd = ProviderRetryRequested r"
  shows "tEffects tr = []"
proof -
  have "dispatch c (start c s) s cmd = Inr tr" using assms(1) by (simp add: Apply_eq_Inr)
  then show ?thesis
    using assms(2)
    by (auto simp: applyEffectStarted_def applyEffectRequeued_def applyProviderRetry_def Let_def
        put_sample_def bind_result_eq_Inr split: option.splits if_splits)
qed

lemma submit_locked_returns:
  assumes "cmd = EffectStarted eid n \<or> cmd = EffectRequeued eid \<or> cmd = ProviderRetryRequested r"
  shows "submit_locked c marshal commit w cmd \<noteq> None"
proof (cases "transition c marshal commit (fst w) (snd w) cmd")
  case (Inr y)
  then obtain co st es where y: "y = (co, st, es)" by (cases y)
  then have "es = []"
    using Inr lifecycle_requests_nothing [OF _ assms] by (auto simp: transition_eq_Inr)
  then show ?thesis using Inr y by (simp add: submit_locked_def)
qed (simp add: submit_locked_def)

lemma operations_return:
  "(\<And>eid n. submit w (EffectStarted eid n) \<noteq> None) \<Longrightarrow> Start submit (d, w) kind callID \<noteq> None"
  "submit w (ProviderRetryRequested retry) \<noteq> None \<Longrightarrow>
     ScheduleRetry submit (d, w) kind callID retry \<noteq> None"
  "(\<And>eid. submit w (EffectRequeued eid) \<noteq> None) \<Longrightarrow> Requeue submit (d, w) kind callID \<noteq> None"
  by (simp_all add: Start_def ScheduleRetry_def Requeue_def back_to_requested_def Let_def
      del: not_None_eq split: sum.split option.split)

lemma lifecycle_returns:
  "Start (submit_locked c marshal commit) (d, w) kind callID \<noteq> None"
  "ScheduleRetry (submit_locked c marshal commit) (d, w) kind callID retry \<noteq> None"
  "Requeue (submit_locked c marshal commit) (d, w) kind callID \<noteq> None"
  by (rule operations_return, rule submit_locked_returns, blast)+

section \<open>What a transition does to the effects\<close>

definition moves_effects :: "State \<Rightarrow> Effect list \<Rightarrow> State \<Rightarrow> bool" where
  "moves_effects s es t \<longleftrightarrow>
     map efID es = ids_after (stNextEffectSequence s) (length es) \<and>
     stNextEffectSequence t = stNextEffectSequence s + of_nat (length es) \<and>
     known_effects t = known_effects s |\<union>| fset_of_list (map efID es) \<and>
     (\<forall>e \<in> set es. known_kind (efKind e)) \<and>
     fmdom (stCompletedEffects s) |\<subseteq>| fmdom (stCompletedEffects t) \<and>
     fmdom (stPendingEffects t) |\<subseteq>| fmdom (stPendingEffects s) |\<union>| fset_of_list (map efID es)"

lemma transition_moves_effects:
  assumes "transition c marshal commit co st cmd = Inr (co', st', es)"
  shows "moves_effects (coState co) es (coState co')" "Validate c (coState co') = None"
    "step c (coState co) cmd (coState co')" "coTurnID co' = coTurnID co"
proof -
  obtain tr where tr: "Apply c (coState co) (Some cmd) = Inr tr" "es = tEffects tr" "coState co' = tState tr"
    "coTurnID co' = coTurnID co"
    using assms by (auto simp: transition_eq_Inr)
  then show valid: "Validate c (coState co') = None" by (simp add: Apply_eq_Inr)
  show step: "step c (coState co) cmd (coState co')" using tr by (auto simp: step_iff)
  show "coTurnID co' = coTurnID co" by (rule tr(4))
  have trace: "trace_ok (coState co) tr" using tr(1) by (auto simp: Apply_eq_Inr intro: dispatch_trace)
  have grows: "fmdom (stCompletedEffects (coState co)) |\<subseteq>| fmdom (stCompletedEffects (coState co'))"
    using step_endures [OF step] by (auto simp: endures_def extends_effects_def dest: fmsubset_dom)
  have "known_effects (coState co') = known_effects (coState co) |\<union>| fset_of_list (map efID es)"
    using trace by (simp add: trace_ok_def tr)
  moreover have "fmdom (stPendingEffects (coState co')) |\<inter>| fmdom (stCompletedEffects (coState co')) = {||}"
    by (rule valid_effects_disjoint [OF valid])
  ultimately have "fmdom (stPendingEffects (coState co')) |\<subseteq>|
      fmdom (stPendingEffects (coState co)) |\<union>| fset_of_list (map efID es)"
    using grows unfolding known_effects_def by blast
  with trace grows show "moves_effects (coState co) es (coState co')"
    by (simp add: moves_effects_def trace_ok_def tr)
qed

text \<open>The identities of a turn are the first ones of the counter.\<close>

definition numbered :: "nat \<Rightarrow> State \<Rightarrow> bool" where
  "numbered n s \<longleftrightarrow>
     stNextEffectSequence s = of_nat n \<and> known_effects s = fset_of_list (ids_after 0 n)"

lemma moves_fresh:
  assumes "moves_effects s es t" "numbered n s" "n + length es \<le> 2 ^ 64"
  shows "numbered (n + length es) t" "distinct (map efID es)"
    "fset_of_list (map efID es) |\<inter>| known_effects s = {||}"
proof -
  have ids: "ids_after 0 (n + length es) = ids_after 0 n @ map efID es"
    using assms(1,2) by (simp add: moves_effects_def numbered_def ids_after_add)
  have "distinct (ids_after 0 (n + length es))" by (rule distinct_ids_after [OF assms(3)])
  then have apart: "distinct (map efID es)" "set (ids_after 0 n) \<inter> set (map efID es) = {}"
    by (simp_all add: ids)
  then show "distinct (map efID es)" by simp
  show "fset_of_list (map efID es) |\<inter>| known_effects s = {||}"
    using apart(2) assms(2) by (auto simp: numbered_def fset_of_list_elem)
  have "known_effects t = fset_of_list (ids_after 0 (n + length es))"
    using assms(1,2) unfolding ids
    by (simp add: moves_effects_def numbered_def del: fset_of_list_map)
  then show "numbered (n + length es) t"
    using assms(1,2) by (simp add: numbered_def moves_effects_def)
qed

end
