(* ===== verification/EffectSafety.thy ===== *)
theory EffectSafety
  imports EffectSystem "HOL-Library.Multiset"
begin

text \<open>
  What the coordinator and the dispatcher guarantee together, under every interleaving of calls:
  no requested effect is lost or registered twice, at most one call resolves an effect at a time,
  and the result it submits is the first one that was reported.
\<close>

section \<open>The registry accounts for the effects\<close>

text \<open>The registry and the effects on their way to it hold every pending effect once.\<close>

definition accounted :: "State \<Rightarrow> DurableEffectDispatcher \<Rightarrow> Effect list \<Rightarrow> nat \<Rightarrow> bool" where
  "accounted s d es n \<longleftrightarrow>
     ddNextSerial d + length es = n \<and> numbered n s \<and> distinct (map efID es) \<and>
     (\<forall>e \<in> set es. known_kind (efKind e) \<and> efID e |\<in>| known_effects s \<and>
        efID e |\<notin>| fmdom (ddRouted d)) \<and>
     fmdom (ddRouted d) |\<subseteq>| known_effects s \<and>
     fmdom (stPendingEffects s) |\<subseteq>| fmdom (ddRouted d) |\<union>| fset_of_list (map efID es)"

lemma accounted_reorder:
  assumes "accounted s d es n" "mset es = mset es'"
  shows "accounted s d es' n"
proof -
  have "set es = set es'" "length es = length es'"
    using assms(2) by (auto dest: mset_eq_setD mset_eq_length)
  moreover have "mset (map efID es) = mset (map efID es')" using assms(2) by simp
  then have "distinct (map efID es) = distinct (map efID es')" by (rule mset_eq_imp_distinct_iff)
  moreover have "fset_of_list (map efID es) = fset_of_list (map efID es')"
    using \<open>set es = set es'\<close> by (simp add: fset_inject [symmetric] fset_of_list.rep_eq del: fset_of_list_map)
  ultimately show ?thesis using assms(1) unfolding accounted_def by simp
qed

lemma accounted_move:
  assumes "accounted s d es n" "moves_effects s new t" "n + length new \<le> 2 ^ 64"
  shows "accounted t d (es @ new) (n + length new)"
proof -
  have old: "numbered n s" using assms(1) by (simp add: accounted_def)
  note fresh = moves_fresh [OF assms(2) old assms(3)]
  have known: "known_effects t = known_effects s |\<union>| fset_of_list (map efID new)"
    using assms(2) unfolding moves_effects_def by blast
  have new: "efID e |\<in>| known_effects t \<and> efID e |\<notin>| known_effects s" if "e \<in> set new" for e
  proof -
    have "efID e |\<in>| fset_of_list (map efID new)" using that by (simp add: fset_of_list_elem)
    then show ?thesis using fresh(3) unfolding known by blast
  qed
  have "distinct (map efID (es @ new))"
    using assms(1) fresh(2) new by (fastforce simp: accounted_def)
  moreover have "\<forall>e \<in> set (es @ new). known_kind (efKind e) \<and> efID e |\<in>| known_effects t \<and>
        efID e |\<notin>| fmdom (ddRouted d)"
    using assms(1,2) new by (auto simp: accounted_def moves_effects_def)
  moreover have "fmdom (ddRouted d) |\<subseteq>| known_effects t"
    using assms(1) unfolding known accounted_def by blast
  moreover have "fmdom (stPendingEffects t) |\<subseteq>|
      fmdom (ddRouted d) |\<union>| fset_of_list (map efID (es @ new))"
  proof -
    have "fmdom (stPendingEffects s) |\<subseteq>| fmdom (ddRouted d) |\<union>| fset_of_list (map efID es)"
      "fmdom (stPendingEffects t) |\<subseteq>| fmdom (stPendingEffects s) |\<union>| fset_of_list (map efID new)"
      using assms(1,2) unfolding accounted_def moves_effects_def by blast+
    then show ?thesis unfolding map_append fset_of_list_append by blast
  qed
  ultimately show ?thesis
    using assms(1) fresh(1) unfolding accounted_def by simp
qed

lemma known_kind_routed: "known_kind kind \<Longrightarrow> RoutedEffect kind"
  by (cases kind) (simp_all add: RoutedEffect_def C2RoutedEffect_def C3RoutedEffect_def C4RoutedEffect_def)

lemma accounted_dispatch:
  assumes "accounted s d (e # es) n"
  obtains d' where "Dispatch d e = Inr d'" "accounted s d' es n"
    "ddRouted d' = fmupd (efID e) \<lparr>reEffect = e, reStarted = False, reResult = None,
       reResolving = False, reSerial = ddNextSerial d\<rparr> (ddRouted d)"
proof -
  let ?d = "d\<lparr>ddRouted := fmupd (efID e) \<lparr>reEffect = e, reStarted = False, reResult = None,
     reResolving = False, reSerial = ddNextSerial d\<rparr> (ddRouted d), ddNextSerial := ddNextSerial d + 1\<rparr>"
  have "RoutedEffect (efKind e)" "fmlookup (ddRouted d) (efID e) = None"
    using assms by (auto simp: accounted_def fmdom_notD intro: known_kind_routed)
  then have "Dispatch d e = Inr ?d" by (simp add: Dispatch_def)
  moreover have "accounted s ?d es n" using assms by (auto simp: accounted_def image_iff)
  ultimately show thesis by (rule that) simp
qed

lemma accounted_drop:
  "accounted s d es n \<Longrightarrow> k |\<notin>| fmdom (stPendingEffects s) \<Longrightarrow>
     accounted s (d\<lparr>ddRouted := fmdrop k (ddRouted d)\<rparr>) es n"
  by (auto simp: accounted_def)

text \<open>An update that changes neither the keys nor the resolution of any entry.\<close>

definition kept_entries :: "DurableEffectDispatcher \<Rightarrow> DurableEffectDispatcher \<Rightarrow> bool" where
  "kept_entries d d' \<longleftrightarrow> ddNextSerial d' = ddNextSerial d \<and> fmdom (ddRouted d') = fmdom (ddRouted d) \<and>
     (\<forall>k e'. fmlookup (ddRouted d') k = Some e' \<longrightarrow> (\<exists>e. fmlookup (ddRouted d) k = Some e \<and>
        reSerial e' = reSerial e \<and> reResolving e' = reResolving e \<and> reResult e' = reResult e))"

lemma accounted_kept: "accounted s d es n \<Longrightarrow> kept_entries d d' \<Longrightarrow> accounted s d' es n"
  by (simp add: accounted_def kept_entries_def)

section \<open>Resolutions in progress hold their entries\<close>

definition ticketed :: "DurableEffectDispatcher \<Rightarrow> ticket list \<Rightarrow> bool" where
  "ticketed d ts \<longleftrightarrow> distinct (map fst ts) \<and>
     (\<forall>eid serial result. (eid, serial, result) \<in> set ts \<longrightarrow>
        (\<exists>e. fmlookup (ddRouted d) eid = Some e \<and> reSerial e = serial \<and> reResolving e \<and>
           reResult e = Some result)) \<and>
     (\<forall>eid e. fmlookup (ddRouted d) eid = Some e \<longrightarrow> reResolving e \<longrightarrow> eid \<in> fst ` set ts) \<and>
     (\<forall>eid e r. fmlookup (ddRouted d) eid = Some e \<longrightarrow> reResult e = Some r \<longrightarrow>
        resultEffectID r = eid \<and> eid \<noteq> [])"

lemma ticketed_reorder:
  assumes "ticketed d ts" "mset ts = mset ts'"
  shows "ticketed d ts'"
proof -
  have "set ts = set ts'" using assms(2) by (rule mset_eq_setD)
  moreover have "mset (map fst ts) = mset (map fst ts')" using assms(2) by simp
  then have "distinct (map fst ts) = distinct (map fst ts')" by (rule mset_eq_imp_distinct_iff)
  ultimately show ?thesis using assms(1) by (simp add: ticketed_def)
qed

lemma ticketed_kept:
  assumes "ticketed d ts" "kept_entries d d'"
  shows "ticketed d' ts"
proof -
  have there: "\<exists>e'. fmlookup (ddRouted d') k = Some e' \<and> reSerial e' = reSerial e \<and>
      reResolving e' = reResolving e \<and> reResult e' = reResult e"
    if e: "fmlookup (ddRouted d) k = Some e" for k e
  proof -
    have "k |\<in>| fmdom (ddRouted d')" using e assms(2) by (simp add: kept_entries_def fmdomI)
    then obtain e' where "fmlookup (ddRouted d') k = Some e'" by auto
    then show ?thesis using e assms(2) by (fastforce simp: kept_entries_def)
  qed
  have origin: "\<exists>e. fmlookup (ddRouted d) k = Some e \<and> reResolving e' = reResolving e \<and> reResult e' = reResult e"
    if "fmlookup (ddRouted d') k = Some e'" for k e'
    using that assms(2) unfolding kept_entries_def by blast
  show ?thesis
    unfolding ticketed_def
  proof (intro conjI allI impI ballI)
    show "distinct (map fst ts)" using assms(1) by (simp add: ticketed_def)
    show "\<exists>e. fmlookup (ddRouted d') eid = Some e \<and> reSerial e = serial \<and> reResolving e \<and>
        reResult e = Some result" if t: "(eid, serial, result) \<in> set ts" for eid serial result
    proof -
      obtain e where "fmlookup (ddRouted d) eid = Some e" "reSerial e = serial" "reResolving e"
        "reResult e = Some result" using assms(1) t unfolding ticketed_def by blast
      then show ?thesis using there [of eid e] by auto
    qed
    fix eid e assume "fmlookup (ddRouted d') eid = Some e"
    then obtain e0 where "fmlookup (ddRouted d) eid = Some e0" "reResolving e = reResolving e0"
      "reResult e = reResult e0" using origin by blast
    then show "reResolving e \<Longrightarrow> eid \<in> fst ` set ts"
      "\<And>r. reResult e = Some r \<Longrightarrow> resultEffectID r = eid" "\<And>r. reResult e = Some r \<Longrightarrow> eid \<noteq> []"
      using assms(1) by (auto simp: ticketed_def)
  qed
qed

lemma ticketed_dispatch:
  assumes "ticketed d ts" "fmlookup (ddRouted d) k = None" "ddRouted d' = fmupd k e (ddRouted d)"
    "\<not> reResolving e" "reResult e = None"
  shows "ticketed d' ts"
  using assms by (fastforce simp: ticketed_def split: if_splits)

lemma kept_refl [simp]: "kept_entries d d"
  by (simp add: kept_entries_def)

lemma kept_put:
  assumes "fmlookup (ddRouted d) k = Some e" "reSerial e' = reSerial e"
    "reResolving e' = reResolving e" "reResult e' = reResult e"
  shows "kept_entries d (put_entry k e' d)"
  using assms fmdomI [OF assms(1)] by (auto simp: kept_entries_def put_entry_def)

text \<open>The outcomes of the first critical section of a resolution.\<close>

lemma resolve_begin_Inr:
  assumes "resolve_begin d cmd = (d', Inr (eid, serial, result))"
  obtains e where "eid = resultEffectID cmd" "eid \<noteq> []" "fmlookup (ddRouted d) eid = Some e"
    "\<not> reResolving e" "may_resolve e cmd" "serial = reSerial e" "result = kept_result e cmd"
    "d' = put_entry eid (e\<lparr>reResult := Some result, reResolving := True\<rparr>) d"
  using assms by (auto simp: resolve_begin_def Let_def split: if_splits option.splits)

lemma resolve_begin_Inl:
  "resolve_begin d cmd = (d', Inl err) \<Longrightarrow> d' = d \<or>
     (\<exists>e. fmlookup (ddRouted d) (resultEffectID cmd) = Some e \<and> reResolving e \<and>
        d' = put_entry (resultEffectID cmd) (e\<lparr>reResult := Some (kept_result e cmd)\<rparr>) d)"
  by (auto simp: resolve_begin_def Let_def split: if_splits option.splits)

lemma ticketed_ticket:
  assumes "ticketed d ts" "(eid, serial, result) \<in> set ts"
  obtains e where "fmlookup (ddRouted d) eid = Some e" "reSerial e = serial" "reResolving e"
    "reResult e = Some result" "resultEffectID result = eid" "eid \<noteq> []"
proof -
  obtain e where
    e: "fmlookup (ddRouted d) eid = Some e" "reSerial e = serial" "reResolving e" "reResult e = Some result"
    using assms unfolding ticketed_def by blast
  moreover have "resultEffectID result = eid \<and> eid \<noteq> []"
    using assms(1) e by (simp add: ticketed_def)
  ultimately show thesis using that by blast
qed

lemma ticketed_entry:
  assumes "ticketed d ts" "fmlookup (ddRouted d) eid = Some e" "reResolving e"
  obtains result where "(eid, reSerial e, result) \<in> set ts" "reResult e = Some result"
proof -
  have "eid \<in> fst ` set ts" using assms by (simp add: ticketed_def)
  then obtain serial result where "(eid, serial, result) \<in> set ts" by auto
  with assms show thesis by (auto elim!: ticketed_ticket intro: that)
qed

lemma ticketed_result:
  "ticketed d ts \<Longrightarrow> fmlookup (ddRouted d) k = Some e \<Longrightarrow> reResult e = Some r \<Longrightarrow>
     resultEffectID r = k \<and> k \<noteq> []"
  unfolding ticketed_def by blast

lemma ticketed_resolving:
  "ticketed d ts \<Longrightarrow> fmlookup (ddRouted d) k = Some e \<Longrightarrow> reResolving e \<Longrightarrow> k \<in> fst ` set ts"
  unfolding ticketed_def by blast

lemma refused_kept:
  assumes "resolve_begin d cmd = (d', Inl err)" "ticketed d ts"
  shows "kept_entries d d'"
  using resolve_begin_Inl [OF assms(1)]
proof (elim disjE exE conjE)
  fix e assume e: "fmlookup (ddRouted d) (resultEffectID cmd) = Some e" "reResolving e"
    and d': "d' = put_entry (resultEffectID cmd) (e\<lparr>reResult := Some (kept_result e cmd)\<rparr>) d"
  obtain result where "reResult e = Some result" by (rule ticketed_entry [OF assms(2) e])
  then show ?thesis unfolding d' by (intro kept_put [OF e(1)]) (simp_all add: kept_result_def)
qed simp

lemma ticketed_begin:
  assumes "resolve_begin d cmd = (d', Inr (eid, serial, result))" "ticketed d ts"
  shows "ticketed d' ((eid, serial, result) # ts)"
  using assms(1)
proof (rule resolve_begin_Inr)
  fix e assume e: "eid = resultEffectID cmd" "eid \<noteq> []" "fmlookup (ddRouted d) eid = Some e"
    "\<not> reResolving e" "serial = reSerial e" "result = kept_result e cmd"
    and d': "d' = put_entry eid (e\<lparr>reResult := Some result, reResolving := True\<rparr>) d"
  have free: "(eid, n, r) \<notin> set ts" for n r
  proof
    assume "(eid, n, r) \<in> set ts"
    then show False by (rule ticketed_ticket [OF assms(2)]) (use e(3,4) in simp)
  qed
  have kept: "resultEffectID result = eid"
    using e assms(2) by (auto simp: kept_result_def ticketed_def split: option.splits)
  show ?thesis
    unfolding ticketed_def
  proof (intro conjI allI impI)
    show "distinct (map fst ((eid, serial, result) # ts))"
      using assms(2) free by (auto simp: ticketed_def)
    show "\<exists>e. fmlookup (ddRouted d') k = Some e \<and> reSerial e = n \<and> reResolving e \<and> reResult e = Some r"
      if "(k, n, r) \<in> set ((eid, serial, result) # ts)" for k n r
    proof (cases "k = eid")
      case True
      then show ?thesis using that free e(5) by (auto simp: d' put_entry_def)
    next
      case False
      then have "(k, n, r) \<in> set ts" using that by simp
      then show ?thesis by (rule ticketed_ticket [OF assms(2)]) (use False in \<open>simp add: d' put_entry_def\<close>)
    qed
    fix k e' assume e': "fmlookup (ddRouted d') k = Some e'"
    have old: "fmlookup (ddRouted d) k = Some e'" if "k \<noteq> eid"
      using that e' by (simp add: d' put_entry_def)
    show "k \<in> fst ` set ((eid, serial, result) # ts)" if "reResolving e'"
      using that ticketed_resolving [OF assms(2) old] by (cases "k = eid") auto
    fix r assume "reResult e' = Some r"
    then have "resultEffectID r = k \<and> k \<noteq> []"
      using e' e(2) kept ticketed_result [OF assms(2) old]
      by (cases "k = eid") (auto simp: d' put_entry_def)
    then show "resultEffectID r = k" "k \<noteq> []" by simp_all
  qed
qed

lemma ticketed_release:
  assumes "ticketed d ((eid, serial, result) # ts)"
    "\<And>k. k \<noteq> eid \<Longrightarrow> fmlookup (ddRouted d') k = fmlookup (ddRouted d) k"
    "\<And>e. fmlookup (ddRouted d') eid = Some e \<Longrightarrow>
       \<not> reResolving e \<and> (reResult e = None \<or> reResult e = Some result)"
  shows "ticketed d' ts"
proof -
  have id: "resultEffectID result = eid" "eid \<noteq> []"
    by (rule ticketed_ticket [OF assms(1), of eid serial result], simp_all)+
  have "distinct (map fst ((eid, serial, result) # ts))" using assms(1) unfolding ticketed_def by blast
  then have other: "distinct (map fst ts)" and out: "eid \<notin> fst ` set ts" by simp_all
  have free: "(eid, n, r) \<notin> set ts" for n r
    using out by (metis fst_conv image_eqI)
  show ?thesis
    unfolding ticketed_def
  proof (intro conjI allI impI)
    show "\<exists>e. fmlookup (ddRouted d') k = Some e \<and> reSerial e = n \<and> reResolving e \<and> reResult e = Some r"
      if t: "(k, n, r) \<in> set ts" for k n r
    proof (rule ticketed_ticket [OF assms(1), of k n r])
      show "(k, n, r) \<in> set ((eid, serial, result) # ts)" using t by simp
    qed (use assms(2) [of k] free [of n r] t in auto)
    fix k e assume e: "fmlookup (ddRouted d') k = Some e"
    have old: "fmlookup (ddRouted d) k = Some e" if "k \<noteq> eid" using that e assms(2) by simp
    show "k \<in> fst ` set ts" if "reResolving e"
      using that e assms(3) [of e] ticketed_resolving [OF assms(1) old] by (cases "k = eid") auto
    fix r assume "reResult e = Some r"
    then have "resultEffectID r = k \<and> k \<noteq> []"
      using e assms(3) [of e] id ticketed_result [OF assms(1) old] by (cases "k = eid") auto
    then show "resultEffectID r = k" "k \<noteq> []" by simp_all
  qed (rule other)
qed

lemma resolve_end_cases:
  assumes "fmlookup (ddRouted d) eid = Some e" "reSerial e = serial"
  obtains (refused) "\<not> accepted" "resolve_end d (eid, serial, result) accepted =
      put_entry eid (e\<lparr>reResolving := False\<rparr>) d"
  | (journal) "accepted" "journal_failure result \<noteq> []"
      "resolve_end d (eid, serial, result) accepted =
         put_entry eid (e\<lparr>reResolving := False, reResult := None, reStarted := False,
           reEffect := (reEffect e)\<lparr>efStatus := EffectRequested,
                                    efError := journal_failure result\<rparr>\<rparr>) d"
  | (removed) "accepted" "journal_failure result = []"
      "resolve_end d (eid, serial, result) accepted = d\<lparr>ddRouted := fmdrop eid (ddRouted d)\<rparr>"
  using assms by (cases accepted; cases "journal_failure result = []") (simp_all add: resolve_end_def)

lemma ticketed_end:
  assumes "ticketed d ((eid, serial, result) # ts)"
  shows "ticketed (resolve_end d (eid, serial, result) accepted) ts"
proof -
  obtain e where e: "fmlookup (ddRouted d) eid = Some e" "reSerial e = serial" "reResult e = Some result"
    by (rule ticketed_ticket [OF assms, of eid serial result]) simp_all
  show ?thesis
    by (rule resolve_end_cases [OF e(1,2), of accepted result]; rule ticketed_release [OF assms])
      (auto simp: put_entry_def e(3))
qed

text \<open>Starting, retrying and requeueing leave the resolutions alone.\<close>

lemma findLocked_entry:
  assumes "findLocked d kind callID = Inr eid"
  shows "fmlookup (ddRouted d) eid = Some (entry d eid)"
proof -
  obtain P where "find P (sorted_keys (ddRouted d)) = Some eid"
    using assms by (auto simp: findLocked_def split: option.splits)
  then have "eid \<in> set (sorted_keys (ddRouted d))" by (metis find_Some_iff nth_mem)
  then have "eid |\<in>| fmdom (ddRouted d)" by simp
  then show ?thesis by (auto simp: entry_def)
qed

lemma Start_kept:
  assumes "Start submit (d, w) kind callID = Some ((d', w'), r)"
  shows "kept_entries d d' \<and> (w' = w \<or> (\<exists>cmd err. submit w cmd = Some (w', err)))"
  using assms
  by (auto simp: Start_def Let_def split: sum.splits option.splits if_splits prod.splits
      intro!: kept_put dest: findLocked_entry)

lemma back_kept:
  assumes "back_to_requested submit (d, w) eid cmd = Some ((d', w'), r)"
    "fmlookup (ddRouted d) eid = Some (entry d eid)"
  shows "kept_entries d d' \<and> (w' = w \<or> (\<exists>cmd err. submit w cmd = Some (w', err)))"
  using assms
  by (auto simp: back_to_requested_def Let_def split: option.splits prod.splits intro!: kept_put)

lemma ScheduleRetry_kept:
  "ScheduleRetry submit (d, w) kind callID retry = Some ((d', w'), r) \<Longrightarrow>
     kept_entries d d' \<and> (w' = w \<or> (\<exists>cmd err. submit w cmd = Some (w', err)))"
  by (auto simp: ScheduleRetry_def Let_def split: sum.splits if_splits
      dest: findLocked_entry back_kept)

lemma Requeue_kept:
  "Requeue submit (d, w) kind callID = Some ((d', w'), r) \<Longrightarrow>
     kept_entries d d' \<and> (w' = w \<or> (\<exists>cmd err. submit w cmd = Some (w', err)))"
  by (auto simp: Requeue_def Let_def split: sum.splits if_splits
      dest: findLocked_entry back_kept)

section \<open>The invariant of the system\<close>

text \<open>The effect of a resolution whose result the reducer has accepted is settled.\<close>

definition settled_ticket :: "State \<Rightarrow> ticket option \<Rightarrow> bool" where
  "settled_ticket s k \<longleftrightarrow> (case k of None \<Rightarrow> True | Some (eid, serial, result) \<Rightarrow>
     journal_failure result = [] \<longrightarrow> eid |\<in>| fmdom (stCompletedEffects s))"

fun call_ok :: "State \<Rightarrow> call \<Rightarrow> bool" where
  "call_ok s (Waiting command k) \<longleftrightarrow>
     (case k of None \<Rightarrow> True | Some (eid, serial, result) \<Rightarrow> command = result)"
| "call_ok s (Dispatching es k) \<longleftrightarrow> settled_ticket s k"
| "call_ok s (Returning accepted k) \<longleftrightarrow> (accepted \<longrightarrow> settled_ticket s k)"

definition sys_ok :: "'z kernel_codec_scheme \<Rightarrow> 'st turn_system \<Rightarrow> bool" where
  "sys_ok c x \<longleftrightarrow> Validate c (turn_state x) = None \<and>
     accounted (turn_state x) (tsDispatcher x) (concat (map transit (tsCalls x))) (tsRequested x) \<and>
     ticketed (tsDispatcher x) (concat (map held (tsCalls x))) \<and>
     (\<forall>call \<in> set (tsCalls x). call_ok (turn_state x) call)"

lemma call_ok_mono:
  "call_ok s call \<Longrightarrow> fmdom (stCompletedEffects s) |\<subseteq>| fmdom (stCompletedEffects t) \<Longrightarrow> call_ok t call"
  by (cases call) (auto simp: settled_ticket_def split: option.splits)

text \<open>A transition of the turn, with the effects it adds to those in transit.\<close>

lemma turn_step:
  assumes "Validate c s = None" "accounted s d es n" "\<forall>call \<in> set calls. call_ok s call"
    "transition c marshal commit co st cmd = Inr (co', st', new)" "s = coState co"
    "n + length new \<le> 2 ^ 64"
  shows "Validate c (coState co') = None" "accounted (coState co') d (es @ new) (n + length new)"
    "\<forall>call \<in> set calls. call_ok (coState co') call"
    "resultEffectID cmd \<noteq> [] \<Longrightarrow> journal_failure cmd = [] \<Longrightarrow>
       resultEffectID cmd |\<in>| fmdom (stCompletedEffects (coState co'))"
proof -
  note moves = transition_moves_effects [OF assms(4)]
  show "Validate c (coState co') = None" by (rule moves(2))
  show "accounted (coState co') d (es @ new) (n + length new)"
    using accounted_move [OF assms(2) _ assms(6)] moves(1) assms(5) by simp
  show "\<forall>call \<in> set calls. call_ok (coState co') call"
    using assms(3) moves(1) by (auto simp: assms(5) moves_effects_def intro: call_ok_mono)
  show "resultEffectID cmd |\<in>| fmdom (stCompletedEffects (coState co'))"
    if "resultEffectID cmd \<noteq> []" "journal_failure cmd = []"
    using result_settles [OF moves(3) that(1)] that(2) by simp
qed

lemma settled_after:
  assumes "call_ok s (Waiting cmd k)" "ticketed d ts" "\<And>ticket. k = Some ticket \<Longrightarrow> ticket \<in> set ts"
    "resultEffectID cmd \<noteq> [] \<Longrightarrow> journal_failure cmd = [] \<Longrightarrow>
       resultEffectID cmd |\<in>| fmdom (stCompletedEffects t)"
  shows "settled_ticket t k"
proof (cases k)
  case (Some ticket)
  obtain eid n r where ticket: "ticket = (eid, n, r)" by (cases ticket)
  have "(eid, n, r) \<in> set ts" using assms(3) Some ticket by simp
  then have "resultEffectID r = eid \<and> eid \<noteq> []" by (rule ticketed_ticket [OF assms(2)]) simp
  then show ?thesis using assms(1,4) Some ticket by (auto simp: settled_ticket_def)
qed (simp add: settled_ticket_def)

text \<open>The invariant seen from some of the calls.\<close>

lemma sys_ok_at:
  assumes "tsCalls x = earlier @ mid @ later"
  shows "sys_ok c x \<longleftrightarrow> Validate c (turn_state x) = None \<and>
     accounted (turn_state x) (tsDispatcher x)
       (concat (map transit mid) @ concat (map transit (earlier @ later))) (tsRequested x) \<and>
     ticketed (tsDispatcher x) (concat (map held mid) @ concat (map held (earlier @ later))) \<and>
     (\<forall>call \<in> set mid. call_ok (turn_state x) call) \<and>
     (\<forall>call \<in> set (earlier @ later). call_ok (turn_state x) call)"
proof -
  have "accounted (turn_state x) (tsDispatcher x) (concat (map transit (tsCalls x))) (tsRequested x) \<longleftrightarrow>
      accounted (turn_state x) (tsDispatcher x)
       (concat (map transit mid) @ concat (map transit (earlier @ later))) (tsRequested x)"
    by (rule iffI; erule accounted_reorder) (simp_all add: assms)
  moreover have "ticketed (tsDispatcher x) (concat (map held (tsCalls x))) \<longleftrightarrow>
      ticketed (tsDispatcher x) (concat (map held mid) @ concat (map held (earlier @ later)))"
    by (rule iffI; erule ticketed_reorder) (simp_all add: assms)
  ultimately show ?thesis by (auto simp: sys_ok_def assms)
qed

lemma sys_ok_put:
  assumes "Validate c (turn_state y) = None"
    "accounted (turn_state y) (tsDispatcher y)
       (concat (map transit rest) @ concat (map transit (earlier @ later))) (tsRequested y)"
    "ticketed (tsDispatcher y) (concat (map held rest) @ concat (map held (earlier @ later)))"
    "\<forall>call \<in> set rest. call_ok (turn_state y) call"
    "\<forall>call \<in> set (earlier @ later). call_ok (turn_state y) call"
  shows "sys_ok c (y\<lparr>tsCalls := earlier @ rest @ later\<rparr>)"
  using assms by (subst sys_ok_at [of _ earlier rest later]) simp_all

lemma proceed_waiting:
  assumes ok: "sys_ok c x" and calls: "tsCalls x = earlier @ Waiting cmd k # later"
    and go: "proceed c marshal commit (Waiting cmd k) x = (rest, y)" and small: "tsRequested y \<le> 2 ^ 64"
  shows "sys_ok c (y\<lparr>tsCalls := earlier @ rest @ later\<rparr>)"
proof -
  note parts = ok [unfolded sys_ok_at [of x earlier "[Waiting cmd k]" later, simplified calls, simplified]]
  show ?thesis
  proof (cases "transition c marshal commit (fst (tsTurn x)) (snd (tsTurn x)) cmd")
    case (Inl err)
    then have rest: "rest = [Returning False k]" "y = x" using go by simp_all
    show ?thesis using parts unfolding rest by (intro sys_ok_put) auto
  next
    case (Inr z)
    obtain co st es where z: "z = (co, st, es)" by (cases z)
    have rest: "rest = [Dispatching es k]"
      and y: "y = x\<lparr>tsTurn := (co, st), tsRequested := tsRequested x + length es\<rparr>"
      using go Inr z by auto
    have bound: "tsRequested x + length es \<le> 2 ^ 64" using small y by simp
    let ?es = "concat (map transit (earlier @ later))" and ?calls = "earlier @ later"
    have "accounted (turn_state x) (tsDispatcher x) ?es (tsRequested x)"
      "\<forall>call \<in> set ?calls. call_ok (turn_state x) call" "Validate c (turn_state x) = None"
      using parts by auto
    note moved = turn_step [OF this(3,1,2) Inr [unfolded z] refl bound]
    have acc: "accounted (coState co) (tsDispatcher x) (es @ ?es) (tsRequested x + length es)"
      by (rule accounted_reorder [OF moved(2)]) simp
    have tick: "ticketed (tsDispatcher x) (held (Waiting cmd k) @ concat (map held ?calls))"
      using parts by simp
    have "settled_ticket (coState co) k"
      by (rule settled_after [OF _ tick _ moved(4)]) (use parts in auto)
    then show ?thesis
      using moved(1,3) acc tick unfolding rest y by (intro sys_ok_put) auto
  qed
qed

lemma proceed_dispatching:
  assumes ok: "sys_ok c x" and calls: "tsCalls x = earlier @ Dispatching es k # later"
    and go: "proceed c marshal commit (Dispatching es k) x = (rest, y)"
  shows "sys_ok c (y\<lparr>tsCalls := earlier @ rest @ later\<rparr>)"
proof -
  note parts = ok [unfolded sys_ok_at [of x earlier "[Dispatching es k]" later, simplified calls, simplified]]
  show ?thesis
  proof (cases es)
    case Nil
    then have rest: "rest = [Returning True k]" "y = x" using go by simp_all
    show ?thesis using parts Nil unfolding rest by (intro sys_ok_put) auto
  next
    case (Cons e es')
    let ?es = "concat (map transit (earlier @ later))"
    have "accounted (turn_state x) (tsDispatcher x) (e # es' @ ?es) (tsRequested x)"
      using parts Cons by simp
    then obtain d where d: "Dispatch (tsDispatcher x) e = Inr d"
      "accounted (turn_state x) d (es' @ ?es) (tsRequested x)"
      "ddRouted d = fmupd (efID e) \<lparr>reEffect = e, reStarted = False, reResult = None,
         reResolving = False, reSerial = ddNextSerial (tsDispatcher x)\<rparr> (ddRouted (tsDispatcher x))"
      by (rule accounted_dispatch)
    have rest: "rest = [Dispatching es' k]" "y = x\<lparr>tsDispatcher := d\<rparr>"
      using go Cons d(1) by simp_all
    have new: "fmlookup (ddRouted (tsDispatcher x)) (efID e) = None"
      using d(1) by (auto simp: Dispatch_def require_def split: if_splits)
    have "ticketed d (held (Dispatching es k) @ concat (map held (earlier @ later)))"
      by (rule ticketed_dispatch [OF _ new d(3)]) (use parts in simp_all)
    then show ?thesis
      using parts d(2) unfolding rest by (intro sys_ok_put) auto
  qed
qed

lemma accounted_end:
  assumes "accounted s d es n" "fmlookup (ddRouted d) eid = Some e" "reSerial e = serial"
    "accepted \<Longrightarrow> journal_failure result = [] \<Longrightarrow> eid |\<notin>| fmdom (stPendingEffects s)"
  shows "accounted s (resolve_end d (eid, serial, result) accepted) es n"
proof (rule resolve_end_cases [OF assms(2,3), of accepted result])
  assume "accepted" "journal_failure result = []"
    "resolve_end d (eid, serial, result) accepted = d\<lparr>ddRouted := fmdrop eid (ddRouted d)\<rparr>"
  then show ?thesis using accounted_drop [OF assms(1) assms(4)] by simp
qed (use assms(1) fmdomI [OF assms(2)] in \<open>auto simp: accounted_def put_entry_def finsert_absorb\<close>)

lemma proceed_returning:
  assumes ok: "sys_ok c x" and calls: "tsCalls x = earlier @ Returning accepted k # later"
    and go: "proceed c marshal commit (Returning accepted k) x = (rest, y)"
  shows "sys_ok c (y\<lparr>tsCalls := earlier @ rest @ later\<rparr>)"
proof -
  note parts = ok [unfolded sys_ok_at [of x earlier "[Returning accepted k]" later, simplified calls, simplified]]
  show ?thesis
  proof (cases k)
    case None
    then have rest: "rest = []" "y = x" using go by simp_all
    show ?thesis using parts None unfolding rest by (intro sys_ok_put) auto
  next
    case (Some ticket)
    obtain eid n r where ticket: "ticket = (eid, n, r)" by (cases ticket)
    let ?d = "resolve_end (tsDispatcher x) (eid, n, r) accepted"
    let ?ts = "concat (map held (earlier @ later))"
    have rest: "rest = []" "y = x\<lparr>tsDispatcher := ?d\<rparr>" using go Some ticket by simp_all
    have tick: "ticketed (tsDispatcher x) ((eid, n, r) # ?ts)" using parts Some ticket by simp
    then obtain e where e: "fmlookup (ddRouted (tsDispatcher x)) eid = Some e" "reSerial e = n"
      by (rule ticketed_ticket [of _ _ eid n r]) simp_all
    have "accounted (turn_state x) ?d (concat (map transit (earlier @ later))) (tsRequested x)"
    proof (rule accounted_end [OF _ e])
      show "accounted (turn_state x) (tsDispatcher x) (concat (map transit (earlier @ later))) (tsRequested x)"
        using parts by simp
      assume "accepted" "journal_failure r = []"
      then have "eid |\<in>| fmdom (stCompletedEffects (turn_state x))"
        using parts by (simp add: Some ticket settled_ticket_def)
      then show "eid |\<notin>| fmdom (stPendingEffects (turn_state x))"
        using valid_effects_disjoint [OF conjunct1 [OF parts]] by auto
    qed
    then show ?thesis
      using parts ticketed_end [OF tick] unfolding rest by (intro sys_ok_put) auto
  qed
qed

lemma proceed_ok:
  assumes "sys_ok c x" "tsCalls x = earlier @ call # later"
    "proceed c marshal commit call x = (rest, y)" "tsRequested y \<le> 2 ^ 64"
  shows "sys_ok c (y\<lparr>tsCalls := earlier @ rest @ later\<rparr>)"
proof (cases call)
  case (Waiting cmd k)
  then show ?thesis using assms by (intro proceed_waiting) auto
next
  case (Dispatching es k)
  then show ?thesis using assms by (intro proceed_dispatching) auto
next
  case (Returning accepted k)
  then show ?thesis using assms by (intro proceed_returning) auto
qed

lemma submit_locked_moves:
  assumes "submit_locked c marshal commit w cmd = Some (w', err)"
  shows "w' = w \<or> transition c marshal commit (fst w) (snd w) cmd = Inr (fst w', snd w', [])"
  using assms by (auto simp: submit_locked_def split: sum.splits if_splits)

lemma lifecycle_ok:
  assumes "sys_ok c x" "kept_entries (tsDispatcher x) d \<and>
      (w = tsTurn x \<or> (\<exists>cmd err. submit_locked c marshal commit (tsTurn x) cmd = Some (w, err)))"
    "tsRequested x \<le> 2 ^ 64"
  shows "sys_ok c (x\<lparr>tsDispatcher := d, tsTurn := w\<rparr>)"
proof -
  note parts = assms(1) [unfolded sys_ok_def]
  have acc: "accounted (turn_state x) d (concat (map transit (tsCalls x))) (tsRequested x)"
    and tick: "ticketed d (concat (map held (tsCalls x)))"
    using parts accounted_kept ticketed_kept conjunct1 [OF assms(2)] by blast+
  consider "w = tsTurn x" | cmd where "transition c marshal commit (fst (tsTurn x)) (snd (tsTurn x)) cmd =
      Inr (fst w, snd w, [])"
    using conjunct2 [OF assms(2)] submit_locked_moves [of c marshal commit "tsTurn x"] by blast
  then show ?thesis
  proof cases
    case 1
    then show ?thesis using parts acc tick by (simp add: sys_ok_def)
  next
    case (2 cmd)
    have "Validate c (turn_state x) = None" "\<forall>call \<in> set (tsCalls x). call_ok (turn_state x) call"
      using parts by blast+
    from turn_step [OF this(1) acc this(2) 2 refl] show ?thesis
      using assms(3) tick by (simp add: sys_ok_def)
  qed
qed

lemma happens_ok:
  assumes "sys_ok c x" "happens c marshal commit x a y" "tsRequested y \<le> 2 ^ 64"
  shows "sys_ok c y"
  using assms(2)
proof (cases rule: happens.cases)
  case (submits command)
  have "sys_ok c (x\<lparr>tsCalls := tsCalls x @ [Waiting command None] @ []\<rparr>)"
    by (rule sys_ok_put) (use assms(1) in \<open>simp_all add: sys_ok_def\<close>)
  then show ?thesis using submits by simp
next
  case (resolves command d ticket)
  obtain eid n r where ticket: "ticket = (eid, n, r)" by (cases ticket)
  have tick: "ticketed d ((eid, n, r) # concat (map held (tsCalls x)))"
    using resolves(3) assms(1) unfolding ticket sys_ok_def by (blast intro: ticketed_begin)
  obtain e e' where e: "fmlookup (ddRouted (tsDispatcher x)) eid = Some e"
    and d: "d = put_entry eid e' (tsDispatcher x)"
    using resolves(3) unfolding ticket by (rule resolve_begin_Inr) blast
  have "accounted (turn_state x) d (concat (map transit (tsCalls x))) (tsRequested x)"
    using assms(1) fmdomI [OF e]
    by (auto simp: sys_ok_def accounted_def d put_entry_def finsert_absorb)
  then have "sys_ok c (x\<lparr>tsDispatcher := d, tsCalls := tsCalls x @ [Waiting r (Some (eid, n, r))] @ []\<rparr>)"
    using sys_ok_put [of c "x\<lparr>tsDispatcher := d\<rparr>" "[Waiting r (Some (eid, n, r))]" "tsCalls x" "[]"]
      assms(1) tick by (simp add: sys_ok_def)
  then show ?thesis using resolves ticket by simp
next
  case (refuses command d err)
  have "kept_entries (tsDispatcher x) d"
    using refused_kept [OF refuses(3)] assms(1) by (auto simp: sys_ok_def)
  then show ?thesis
    using lifecycle_ok [OF assms(1), of d "tsTurn x" marshal commit] refuses assms(3) by simp
next
  case (proceeds earlier call later rest z)
  then show ?thesis using proceed_ok [OF assms(1) proceeds(3,4)] assms(3) by simp
next
  case (starts kind callID d w r)
  then show ?thesis using lifecycle_ok [OF assms(1) Start_kept [OF starts(3)]] assms(3) by simp
next
  case (retries kind callID retry d w r)
  then show ?thesis using lifecycle_ok [OF assms(1) ScheduleRetry_kept [OF retries(3)]] assms(3) by simp
next
  case (requeues kind callID d w r)
  then show ?thesis using lifecycle_ok [OF assms(1) Requeue_kept [OF requeues(3)]] assms(3) by simp
qed

lemma happens_count: "happens c marshal commit x a y \<Longrightarrow> tsRequested x \<le> tsRequested y"
proof (induction rule: happens.induct)
  case (proceeds x earlier call later rest y)
  show ?case
    by (rule proceed.cases [of "(c, marshal, commit, call, x)"])
      (use proceeds(2) in \<open>auto split: sum.splits\<close>)
qed simp_all

lemma executes_ok:
  assumes "executes c marshal commit x acts y" "sys_ok c x" "tsRequested y \<le> 2 ^ 64"
  shows "sys_ok c y"
proof -
  have "tsRequested y \<le> 2 ^ 64 \<longrightarrow> sys_ok c y"
    using assms(1)
  proof (rule effects.invariant_along)
    fix x a y assume "tsRequested x \<le> 2 ^ 64 \<longrightarrow> sys_ok c x" and step: "happens c marshal commit x a y"
    then show "tsRequested y \<le> 2 ^ 64 \<longrightarrow> sys_ok c y"
      using happens_ok [OF _ step] happens_count [OF step] by simp
  qed (simp add: assms(2))
  then show ?thesis using assms(3) by simp
qed

end
