(* ===== verification/Durability.thy ===== *)
theory Durability
  imports Coordinator TurnSafety
begin

text \<open>
  The coordinator on the memory store: every command the reducer accepts becomes durable, nothing
  else does, and the log gives the coordinator back.
\<close>

section \<open>The memory store accepts what the coordinator appends\<close>

lemma commandName_not_empty [simp]: "commandName cmd \<noteq> []"
  by (cases cmd) simp_all

text \<open>Every valid state can be encoded.\<close>

definition encodable :: "'z kernel_codec_scheme \<Rightarrow> marshal_state \<Rightarrow> bool" where
  "encodable c marshal \<longleftrightarrow> (\<forall>s. Validate c s = None \<longrightarrow> (\<exists>text. marshal s = Inr text))"

text \<open>The log of a turn that is still open in the store.\<close>

definition stored ::
  "'z kernel_codec_scheme \<Rightarrow> marshal_state \<Rightarrow>
     TurnCoordinator \<times> ('env, 'mark) MemoryTerminalEnvelopeStore \<Rightarrow> bool" where
  "stored c marshal x \<longleftrightarrow>
     (let facts = lookup_zero [] (msFacts (snd x)) (coTurnID (fst x)) in
      log_ok c marshal (fst x) facts \<and>
      (\<forall>f \<in> set facts. dfCommand f \<noteq> [] \<and> dfStateDigest f \<noteq> []) \<and>
      fmlookup (msMarkers (snd x)) (coTurnID (fst x)) = None)"

lemma restore_fact_append:
  "restore_fact_error c marshal turnID 1 i f = None \<Longrightarrow> dfCommand f \<noteq> [] \<Longrightarrow> dfStateDigest f \<noteq> [] \<Longrightarrow>
     fact_error c marshal turnID i f = None"
  by (simp add: restore_fact_error_def fact_error_def ac_simps)

lemma log_ok_appends:
  assumes "log_ok c marshal co facts" "\<forall>f \<in> set facts. dfCommand f \<noteq> [] \<and> dfStateDigest f \<noteq> []"
  shows "index_error (fact_error c marshal (coTurnID co)) facts = None"
  using assms by (auto simp: index_error_None log_ok_def intro!: restore_fact_append)

lemma Digest_not_empty: "Digest c marshal s = Inr digest \<Longrightarrow> digest \<noteq> []"
  by (auto simp: Digest_def bind_result_eq_Inr)

lemma domain_facts_labelled:
  assumes "f \<in> set (domain_facts c co cmd tr digest)"
  shows "dfCommand f = commandName cmd \<and> dfStateDigest f = digest"
proof -
  obtain i where i: "i < length (domain_facts c co cmd tr digest)" "f = domain_facts c co cmd tr digest ! i"
    using assms by (auto simp: in_set_conv_nth)
  then obtain event where "f = domain_fact c co cmd (tState tr) digest i event"
    using domain_facts_nth [OF i(1)] by auto
  then show ?thesis by (simp add: domain_fact_def)
qed

lemma memory_accepts:
  assumes "stored c marshal (co, st)" "copy_faithful c marshal" "encodable c marshal"
    "\<not> blank (coTurnID co)" "Apply c (coState co) (Some cmd) = Inr tr"
  obtains co' st' where "transition c marshal (AppendDomainFacts c marshal) co st cmd = Inr (co', st', tEffects tr)"
    "coState co' = tState tr" "stored c marshal (co', st')" "coTurnID co' = coTurnID co"
proof -
  have valid: "Validate c (tState tr) = None" using assms(5) by (simp add: Apply_eq_Inr)
  then obtain data where data: "marshal (tState tr) = Inr data"
    using assms(3) by (auto simp: encodable_def)
  define digest where "digest = ''sha256:'' @ sha256_hex c data"
  have digest: "Digest c marshal (tState tr) = Inr digest"
    using valid data by (simp add: Digest_def digest_def)
  let ?old = "lookup_zero [] (msFacts st) (coTurnID co)"
  let ?new = "domain_facts c co cmd tr digest"
  let ?co = "co\<lparr>coState := tState tr, coNextFact := coNextFact co + of_nat (length ?new)\<rparr>"
  let ?st = "st\<lparr>msFacts := fmupd (coTurnID co) (?old @ ?new) (msFacts st)\<rparr>"
  have log: "log_ok c marshal ?co (?old @ ?new)"
    using assms(1) by (intro log_ok_extend [OF _ assms(2,5) digest]) (simp add: stored_def Let_def)
  have labels: "\<forall>f \<in> set (?old @ ?new). dfCommand f \<noteq> [] \<and> dfStateDigest f \<noteq> []"
    using assms(1) Digest_not_empty [OF digest] domain_facts_labelled [of _ c co cmd tr digest]
    by (auto simp: stored_def Let_def)
  have "index_error (fact_error c marshal (coTurnID co)) (?old @ ?new) = None"
    using log_ok_appends [OF log labels] by simp
  then have "AppendDomainFacts c marshal st (coTurnID co) (coNextFact co) ?new = Inr ?st"
    using assms(1,4) by (simp add: AppendDomainFacts_eq_Inr stored_def Let_def log_ok_def ac_simps)
  then have "transition c marshal (AppendDomainFacts c marshal) co st cmd = Inr (?co, ?st, tEffects tr)"
    using assms(5) digest by (auto simp: transition_eq_Inr)
  moreover have "stored c marshal (?co, ?st)"
    using log labels assms(1) by (simp add: stored_def Let_def)
  ultimately show thesis using that by force
qed

lemma stored_new:
  assumes "NewTurnCoordinator c (memory_ops c marshal) st turnID s = Inr co"
    "fmlookup (msMarkers st) turnID = None"
  shows "stored c marshal (co, st)" "coTurnID co = turnID" "turnID \<noteq> []" "coState co = cloneState c s"
proof -
  have "LoadDomainFacts st turnID = Inr []" "turnID \<noteq> []"
    "co = \<lparr>coTurnID = turnID, coState = cloneState c s, coNextFact = 1\<rparr>"
    using assms(1)
    by (auto simp: NewTurnCoordinator_def require_def memory_ops_def split: sum.splits if_splits)
  with assms(2) show "stored c marshal (co, st)" "coTurnID co = turnID" "turnID \<noteq> []" "coState co = cloneState c s"
    by (simp_all add: stored_def Let_def LoadDomainFacts_def log_ok_def)
qed

lemma runs_advances:
  assumes "runs c (coState co) cmds t" "stored c marshal (co, st)" "copy_faithful c marshal"
    "encodable c marshal" "\<not> blank (coTurnID co)"
  shows "\<exists>co' st'. advances c marshal (AppendDomainFacts c marshal) (co, st) cmds (co', st') \<and>
    coState co' = t \<and> stored c marshal (co', st') \<and> coTurnID co' = coTurnID co"
  using assms(1)
proof (induction rule: turn.runs_induct)
  case start
  then show ?case using assms(2) by (intro exI [of _ co] exI [of _ st]) (simp add: advances.stay)
next
  case (further cmds t cmd u)
  then obtain co1 st1 where run: "advances c marshal (AppendDomainFacts c marshal) (co, st) cmds (co1, st1)"
    and state: "coState co1 = t" "stored c marshal (co1, st1)" "coTurnID co1 = coTurnID co" by blast
  obtain tr where tr: "Apply c (coState co1) (Some cmd) = Inr tr" "u = tState tr"
    using further.hyps(2) state(1) by (auto simp: step_iff)
  have open_id: "\<not> blank (coTurnID co1)" using assms(5) state(3) by simp
  obtain co2 st2 where "transition c marshal (AppendDomainFacts c marshal) co1 st1 cmd = Inr (co2, st2, tEffects tr)"
    "coState co2 = tState tr" "stored c marshal (co2, st2)" "coTurnID co2 = coTurnID co1"
    by (rule memory_accepts [OF state(2) assms(3,4) open_id tr(1)])
  then show ?case
    using advances.extend [OF run advance.intros] state(3) tr(2) by metis
qed

section \<open>Accepted commands are durable\<close>

text \<open>C22: on the memory store the coordinator accepts exactly what the reducer accepts. From a new
  coordinator, a sequence of commands leads to a state by durable submissions if and only if it
  leads to that state in the reducer: persistence neither loses an accepted command nor refuses
  one, provided the turn identity is not blank, the store has no terminal record of the turn, and
  the encoder handles valid states.\<close>

theorem durable_turn_equivalent:
  assumes "NewTurnCoordinator c (memory_ops c marshal) st turnID s = Inr co" "\<not> blank turnID"
    "fmlookup (msMarkers st) turnID = None" "copy_faithful c marshal" "encodable c marshal"
  shows "(\<exists>co' st'. advances c marshal (AppendDomainFacts c marshal) (co, st) cmds (co', st') \<and>
      coState co' = t) \<longleftrightarrow> runs c (cloneState c s) cmds t"
proof
  assume "\<exists>co' st'. advances c marshal (AppendDomainFacts c marshal) (co, st) cmds (co', st') \<and>
      coState co' = t"
  then show "runs c (cloneState c s) cmds t"
    using advances_runs stored_new(4) [OF assms(1,3)] by fastforce
next
  assume "runs c (cloneState c s) cmds t"
  then show "\<exists>co' st'. advances c marshal (AppendDomainFacts c marshal) (co, st) cmds (co', st') \<and>
      coState co' = t"
    using runs_advances [of c co cmds t marshal st] stored_new [OF assms(1,3)] assms(2,4,5) by auto
qed

text \<open>C21: what was appended can be read back. After any non-empty sequence of accepted commands on
  the memory store, reading the log passes every check of a restore and gives back the turn, the
  position in the log and the state (as its copy).\<close>

theorem restore_roundtrip:
  assumes "NewTurnCoordinator c (memory_ops c marshal) st turnID s = Inr co" "copy_faithful c marshal"
    "advances c marshal (soAppend (memory_ops c marshal)) (co, st) cmds (co', st')" "cmds \<noteq> []"
  shows "load_coordinator c marshal (memory_ops c marshal) st' turnID =
    Inr (co'\<lparr>coState := cloneState c (cloneState c (coState co'))\<rparr>)"
proof -
  have new: "soLoad (memory_ops c marshal) st turnID = Inr []" "turnID \<noteq> []" "coTurnID co = turnID"
    using assms(1) by (auto simp: NewTurnCoordinator_def require_def split: sum.splits if_splits)
  have id: "coTurnID co' = turnID" using advances_runs [OF assms(3)] new(3) by simp
  note kept = memory.durable_advances [OF assms(3) memory.durable_new [OF assms(1)] assms(2)]
  have "soLoad (memory_ops c marshal) st' turnID \<noteq> Inr []"
    using memory.log_grows [OF assms(3), of "[]"] new assms(4) by auto
  then show ?thesis using memory.load_durable [OF kept] id new(2) by simp
qed

section \<open>A durable example\<close>

definition text_marshal :: marshal_state where
  "text_marshal s = Inr ''{}''"

lemma valid_copy: "Validate text_codec s = None \<Longrightarrow> cloneState text_codec s = s"
  by (rule clone_text) (simp add: Validate_None)

lemma text_faithful: "copy_faithful text_codec text_marshal" "encodable text_codec text_marshal"
  by (simp_all add: copy_faithful_def encodable_def text_marshal_def valid_copy)

definition demo_coordinator :: TurnCoordinator where
  "demo_coordinator = \<lparr>coTurnID = ''t1'', coState = demo0, coNextFact = 1\<rparr>"

abbreviation demo_store :: "(unit, unit) MemoryTerminalEnvelopeStore" where
  "demo_store \<equiv> NewMemoryTerminalEnvelopeStore"

lemma demo_new:
  "NewTurnCoordinator text_codec (memory_ops text_codec text_marshal) demo_store ''t1'' demo0 =
     Inr demo_coordinator" "\<not> blank ''t1''" "fmlookup (msMarkers demo_store) ''t1'' = None"
  "stored text_codec text_marshal (demo_coordinator, demo_store)"
proof -
  show new: "NewTurnCoordinator text_codec (memory_ops text_codec text_marshal) demo_store ''t1'' demo0 =
     Inr demo_coordinator"
    using demo_valid0
    by (simp add: NewTurnCoordinator_def memory_ops_def LoadDomainFacts_def demo_coordinator_def
        NewMemoryTerminalEnvelopeStore_def valid_copy demo0_def NewState_def NewStateWithPolicy_def)
  show "\<not> blank ''t1''" by (simp add: not_blank_Cons solid_def space_encodings_def)
  show none: "fmlookup (msMarkers demo_store) ''t1'' = None" by (simp add: NewMemoryTerminalEnvelopeStore_def)
  show "stored text_codec text_marshal (demo_coordinator, demo_store)"
    by (rule stored_new(1) [OF new none])
qed

theorem durable_turn_equivalent_witness:
  "\<exists>co st. advances text_codec text_marshal (AppendDomainFacts text_codec text_marshal)
     (demo_coordinator, demo_store) demo_sampling (co, st) \<and> coState co = demo5"
  using durable_turn_equivalent [OF demo_new(1-3) text_faithful] demo_run_sampling
  by (simp add: valid_copy demo_valid0)

theorem restore_roundtrip_witness:
  "\<exists>co st. load_coordinator text_codec text_marshal (memory_ops text_codec text_marshal)
     (st :: (unit, unit) MemoryTerminalEnvelopeStore) ''t1'' = Inr co \<and> coState co = demo5"
proof -
  have run: "runs text_codec (coState demo_coordinator) demo_sampling demo5"
    using demo_run_sampling by (simp add: demo_coordinator_def)
  have "\<not> blank (coTurnID demo_coordinator)" using demo_new(2) by (simp add: demo_coordinator_def)
  from runs_advances [OF run demo_new(4) text_faithful this] obtain co st where
    "advances text_codec text_marshal (AppendDomainFacts text_codec text_marshal)
       (demo_coordinator, demo_store) demo_sampling (co, st)" "coState co = demo5" by blast
  then show ?thesis
    using restore_roundtrip [OF demo_new(1) text_faithful(1), of demo_sampling co st]
    by (auto simp: memory_ops_def demo_sampling_def valid_copy demo_valid5)
qed

end
