(* ===== verification/EffectGuarantees.thy ===== *)
theory EffectGuarantees
  imports EffectSafety Durability
begin

text \<open>
  The guarantees of the effect system for a turn that starts fresh, whatever the callers do and in
  whatever order their critical sections run.
\<close>

section \<open>A fresh turn\<close>

lemma fresh_ok:
  assumes "NewTurnCoordinator c ops st turnID (NewStateWithPolicy intent mode profile policy) = Inr co"
  shows "sys_ok c (new_system co st)"
proof -
  let ?s = "NewStateWithPolicy intent mode profile policy"
  have valid: "Validate c ?s = None" and co: "coState co = cloneState c ?s"
    using assms by (auto simp: NewTurnCoordinator_def require_def split: sum.splits if_splits)
  have "cloneState c ?s = ?s" by (simp add: cloneState_def NewStateWithPolicy_def)
  then have "coState co = ?s" using co by simp
  moreover have "numbered 0 ?s" "stPendingEffects ?s = fmempty"
    by (simp_all add: numbered_def known_effects_def NewStateWithPolicy_def)
  ultimately show ?thesis
    using valid
    by (simp add: sys_ok_def new_system_def accounted_def ticketed_def NewDurableEffectDispatcher_def)
qed

text \<open>The effects on their way to the registry, and the resolutions in progress.\<close>

abbreviation in_transit :: "'st turn_system \<Rightarrow> Effect list" where
  "in_transit x \<equiv> concat (map transit (tsCalls x))"

abbreviation tickets :: "'st turn_system \<Rightarrow> ticket list" where
  "tickets x \<equiv> concat (map held (tsCalls x))"

abbreviation registered :: "'st turn_system \<Rightarrow> string fset" where
  "registered x \<equiv> fmdom (ddRouted (tsDispatcher x))"

section \<open>No effect is lost\<close>

text \<open>C16: no requested effect is lost on the way to the dispatcher, under every interleaving of
  submissions, resolutions, starts, retries and requeues of a fresh turn (with at most 2 to the 64
  requested effects). Every pending effect of the turn is registered or about to be registered by
  a call in progress, no effect is registered twice, and the registration of an effect in transit
  never fails.\<close>

theorem no_effect_lost:
  assumes "NewTurnCoordinator c ops st turnID (NewStateWithPolicy intent mode profile policy) = Inr co"
    "executes c marshal commit (new_system co st) acts x" "tsRequested x \<le> 2 ^ 64"
  shows "fmdom (stPendingEffects (turn_state x)) |\<subseteq>|
      registered x |\<union>| fset_of_list (map efID (in_transit x)) \<and>
    distinct (map efID (in_transit x)) \<and>
    registered x |\<inter>| fset_of_list (map efID (in_transit x)) = {||} \<and>
    (\<forall>e \<in> set (in_transit x). \<exists>d. Dispatch (tsDispatcher x) e = Inr d)"
proof -
  have acc: "accounted (turn_state x) (tsDispatcher x) (in_transit x) (tsRequested x)"
    using executes_ok [OF assms(2) fresh_ok [OF assms(1)] assms(3)] by (simp add: sys_ok_def)
  have "\<exists>d. Dispatch (tsDispatcher x) e = Inr d" if "e \<in> set (in_transit x)" for e
  proof -
    have "RoutedEffect (efKind e)" "fmlookup (ddRouted (tsDispatcher x)) (efID e) = None"
      using acc that by (auto simp: accounted_def fmdom_notD intro: known_kind_routed)
    then show ?thesis by (simp add: Dispatch_def)
  qed
  then show ?thesis using acc by (auto simp: accounted_def fset_of_list_elem)
qed

section \<open>Resolutions\<close>

text \<open>C17: at most one call at a time resolves an effect. Under every interleaving the effects of
  the resolutions in progress are pairwise different, each of them is registered and marked as
  resolving with exactly the result its call submits, and a further resolution of such an effect
  is refused and changes nothing.\<close>

theorem resolution_exclusive:
  assumes "NewTurnCoordinator c ops st turnID (NewStateWithPolicy intent mode profile policy) = Inr co"
    "executes c marshal commit (new_system co st) acts x" "tsRequested x \<le> 2 ^ 64"
  shows "distinct (map fst (tickets x)) \<and>
    (\<forall>eid serial result. (eid, serial, result) \<in> set (tickets x) \<longrightarrow>
       (\<exists>e. fmlookup (ddRouted (tsDispatcher x)) eid = Some e \<and> reResolving e \<and>
          reResult e = Some result) \<and>
       (\<forall>other. resultEffectID other = eid \<longrightarrow>
          (\<exists>err. resolve_begin (tsDispatcher x) other = (tsDispatcher x, Inl err))))"
proof -
  have tick: "ticketed (tsDispatcher x) (tickets x)"
    using executes_ok [OF assms(2) fresh_ok [OF assms(1)] assms(3)] by (simp add: sys_ok_def)
  show ?thesis
  proof (intro conjI allI impI)
    show "distinct (map fst (tickets x))" using tick by (simp add: ticketed_def)
    fix eid serial result assume t: "(eid, serial, result) \<in> set (tickets x)"
    obtain e where e: "fmlookup (ddRouted (tsDispatcher x)) eid = Some e" "reResolving e"
      "reResult e = Some result" "eid \<noteq> []" by (rule ticketed_ticket [OF tick t])
    then show "\<exists>e. fmlookup (ddRouted (tsDispatcher x)) eid = Some e \<and> reResolving e \<and>
        reResult e = Some result" by blast
    fix other assume other: "resultEffectID other = eid"
    have "put_entry eid (e\<lparr>reResult := Some result\<rparr>) (tsDispatcher x) = tsDispatcher x"
    proof -
      have "e\<lparr>reResult := Some result\<rparr> = e" using e(3) by (cases e) simp
      moreover have "fmupd eid e (ddRouted (tsDispatcher x)) = ddRouted (tsDispatcher x)"
        by (rule fmap_ext) (use e(1) in auto)
      ultimately show ?thesis by (simp add: put_entry_def)
    qed
    then show "\<exists>err. resolve_begin (tsDispatcher x) other = (tsDispatcher x, Inl err)"
      using e other by (auto simp: resolve_begin_def kept_result_def Let_def)
  qed
qed

text \<open>A result that was recorded stays the result of the effect as long as it is registered.\<close>

definition keeps :: "string \<Rightarrow> Command \<Rightarrow> 'st turn_system \<Rightarrow> bool" where
  "keeps eid r x \<longleftrightarrow> eid |\<in>| known_effects (turn_state x) \<and> (\<forall>e \<in> set (in_transit x). efID e \<noteq> eid) \<and>
     (\<forall>e. fmlookup (ddRouted (tsDispatcher x)) eid = Some e \<longrightarrow> reResult e = Some r)"

lemma known_grows:
  "transition c marshal commit co st cmd = Inr (co', st', es) \<Longrightarrow> eid |\<in>| known_effects (coState co) \<Longrightarrow>
     eid |\<in>| known_effects (coState co')"
  by (drule transition_moves_effects(1)) (simp add: moves_effects_def)

lemma keeps_lifecycle:
  assumes "keeps eid r x" "kept_entries (tsDispatcher x) d \<and>
      (w = tsTurn x \<or> (\<exists>cmd err. submit_locked c marshal commit (tsTurn x) cmd = Some (w, err)))"
  shows "keeps eid r (x\<lparr>tsDispatcher := d, tsTurn := w\<rparr>)"
proof -
  have "eid |\<in>| known_effects (coState (fst w))"
    using assms by (auto simp: keeps_def dest!: submit_locked_moves dest: known_grows)
  then show ?thesis using assms unfolding keeps_def kept_entries_def by simp metis
qed

lemma keeps_waiting:
  assumes "keeps eid r x" "sys_ok c x" "tsCalls x = earlier @ Waiting cmd k # later"
    "proceed c marshal commit (Waiting cmd k) x = (rest, y)" "tsRequested y \<le> 2 ^ 64"
  shows "keeps eid r (y\<lparr>tsCalls := earlier @ rest @ later\<rparr>)"
proof (cases "transition c marshal commit (fst (tsTurn x)) (snd (tsTurn x)) cmd")
  case (Inl err)
  then show ?thesis using assms by (auto simp: keeps_def)
next
  case (Inr z)
  obtain co st es where z: "z = (co, st, es)" by (cases z)
  have y: "rest = [Dispatching es k]" "y = x\<lparr>tsTurn := (co, st), tsRequested := tsRequested x + length es\<rparr>"
    using assms(4) Inr z by auto
  have "numbered (tsRequested x) (turn_state x)" using assms(2) by (simp add: sys_ok_def accounted_def)
  from moves_fresh(3) [OF transition_moves_effects(1) [OF Inr [unfolded z]] this]
  have "fset_of_list (map efID es) |\<inter>| known_effects (turn_state x) = {||}" using assms(5) y by simp
  moreover have "efID e |\<in>| fset_of_list (map efID es)" if "e \<in> set es" for e
    using that by (simp add: fset_of_list_elem)
  ultimately have "\<forall>e \<in> set es. efID e \<noteq> eid"
    using assms(1) unfolding keeps_def by blast
  then show ?thesis
    using assms(1,3) known_grows [OF Inr [unfolded z], of eid] by (auto simp: keeps_def y)
qed

lemma keeps_dispatching:
  assumes "keeps eid r x" "tsCalls x = earlier @ Dispatching es k # later"
    "proceed c marshal commit (Dispatching es k) x = (rest, y)"
  shows "keeps eid r (y\<lparr>tsCalls := earlier @ rest @ later\<rparr>)"
proof (cases es)
  case Nil
  then show ?thesis using assms by (auto simp: keeps_def)
next
  case (Cons e es')
  then show ?thesis
    using assms by (cases "Dispatch (tsDispatcher x) e")
      (auto simp: keeps_def Dispatch_def require_def split: if_splits)
qed

lemma keeps_returning:
  assumes "keeps eid r x" "journal_failure r = []" "sys_ok c x" "tsCalls x = earlier @ Returning accepted k # later"
    "proceed c marshal commit (Returning accepted k) x = (rest, y)"
  shows "keeps eid r (y\<lparr>tsCalls := earlier @ rest @ later\<rparr>)"
proof (cases k)
  case None
  then show ?thesis using assms by (auto simp: keeps_def)
next
  case (Some ticket)
  obtain k1 n r1 where ticket: "ticket = (k1, n, r1)" by (cases ticket)
  have y: "rest = []" "y = x\<lparr>tsDispatcher := resolve_end (tsDispatcher x) (k1, n, r1) accepted\<rparr>"
    using assms(5) Some ticket by simp_all
  have t: "(k1, n, r1) \<in> set (tickets x)" using assms(4) Some ticket by simp
  have tick: "ticketed (tsDispatcher x) (tickets x)" using assms(3) by (simp add: sys_ok_def)
  obtain e where e: "fmlookup (ddRouted (tsDispatcher x)) k1 = Some e" "reSerial e = n" "reResult e = Some r1"
    by (rule ticketed_ticket [OF tick t])
  have same: "k1 = eid \<Longrightarrow> r1 = r" using assms(1) e(1,3) by (simp add: keeps_def)
  have "reResult e' = Some r"
    if e': "fmlookup (ddRouted (resolve_end (tsDispatcher x) (k1, n, r1) accepted)) eid = Some e'" for e'
    by (rule resolve_end_cases [OF e(1,2), of accepted r1];
        use e' assms(1,2) e(3) same in \<open>cases "k1 = eid"; force simp: keeps_def put_entry_def\<close>)
  then show ?thesis using assms(1,4) by (auto simp: keeps_def y)
qed

lemma keeps_step:
  assumes "keeps eid r x" "journal_failure r = []" "sys_ok c x" "happens c marshal commit x a y"
    "tsRequested y \<le> 2 ^ 64"
  shows "keeps eid r y"
  using assms(4)
proof (cases rule: happens.cases)
  case (submits command)
  then show ?thesis using assms(1) by (auto simp: keeps_def)
next
  case (resolves command d ticket)
  obtain k n r1 where ticket: "ticket = (k, n, r1)" by (cases ticket)
  obtain e where "fmlookup (ddRouted (tsDispatcher x)) k = Some e" "r1 = kept_result e command"
    "d = put_entry k (e\<lparr>reResult := Some r1, reResolving := True\<rparr>) (tsDispatcher x)"
    using resolves(3) unfolding ticket by (rule resolve_begin_Inr)
  then show ?thesis using assms(1) resolves(2) by (auto simp: keeps_def put_entry_def kept_result_def)
next
  case (refuses command d err)
  have "kept_entries (tsDispatcher x) d"
    using refused_kept [OF refuses(3)] assms(3) by (auto simp: sys_ok_def)
  then show ?thesis
    using keeps_lifecycle [OF assms(1), of d "tsTurn x" c marshal commit] refuses by simp
next
  case (proceeds earlier call later rest z)
  have "keeps eid r (z\<lparr>tsCalls := earlier @ rest @ later\<rparr>)"
  proof (cases call)
    case (Waiting cmd k)
    show ?thesis
      by (rule keeps_waiting [OF assms(1,3) proceeds(3,4) [unfolded Waiting]])
        (use proceeds(2) assms(5) in simp)
  next
    case (Dispatching es k)
    show ?thesis by (rule keeps_dispatching [OF assms(1) proceeds(3,4) [unfolded Dispatching]])
  next
    case (Returning accepted k)
    show ?thesis by (rule keeps_returning [OF assms(1-3) proceeds(3,4) [unfolded Returning]])
  qed
  then show ?thesis using proceeds(2) by simp
next
  case (starts kind callID d w r')
  then show ?thesis using keeps_lifecycle [OF assms(1) Start_kept [OF starts(3)]] by simp
next
  case (retries kind callID retry d w r')
  then show ?thesis using keeps_lifecycle [OF assms(1) ScheduleRetry_kept [OF retries(3)]] by simp
next
  case (requeues kind callID d w r')
  then show ?thesis using keeps_lifecycle [OF assms(1) Requeue_kept [OF requeues(3)]] by simp
qed

lemma keeps_run:
  assumes "executes c marshal commit x acts y" "keeps eid r x" "journal_failure r = []" "sys_ok c x"
    "tsRequested y \<le> 2 ^ 64"
  shows "keeps eid r y"
proof -
  have "tsRequested y \<le> 2 ^ 64 \<longrightarrow> keeps eid r y \<and> sys_ok c y"
    using assms(1)
  proof (rule effects.invariant_along)
    fix x a y assume "tsRequested x \<le> 2 ^ 64 \<longrightarrow> keeps eid r x \<and> sys_ok c x"
      and step: "happens c marshal commit x a y"
    then show "tsRequested y \<le> 2 ^ 64 \<longrightarrow> keeps eid r y \<and> sys_ok c y"
      using happens_ok [OF _ step] keeps_step [OF _ assms(3) _ step] happens_count [OF step] by simp
  qed (simp add: assms(2,4))
  then show ?thesis using assms(5) by simp
qed

text \<open>C18: the first reported result of an effect is the one that counts. Once a result is recorded
  for a registered effect (and it is not a failed journal, which is to be repeated), every later
  state that still has the effect registered has that same result for it, and whatever other
  result a caller reports, a resolution that is let through submits the recorded one.\<close>

theorem first_result_kept:
  assumes "NewTurnCoordinator c ops st turnID (NewStateWithPolicy intent mode profile policy) = Inr co"
    "executes c marshal commit (new_system co st) acts x" "executes c marshal commit x acts' y"
    "tsRequested y \<le> 2 ^ 64" "journal_failure r = []"
    "fmlookup (ddRouted (tsDispatcher x)) eid = Some e" "reResult e = Some r"
    "fmlookup (ddRouted (tsDispatcher y)) eid = Some e'"
  shows "reResult e' = Some r \<and>
    (\<forall>other d serial submitted. resultEffectID other = eid \<longrightarrow>
       resolve_begin (tsDispatcher y) other = (d, Inr (eid, serial, submitted)) \<longrightarrow> submitted = r)"
proof -
  have "tsRequested x \<le> tsRequested y"
    using assms(3) by (rule effects.relation_along [where R = "\<lambda>x y. tsRequested x \<le> tsRequested y"])
      (auto dest: happens_count)
  then have ok: "sys_ok c x" using executes_ok [OF assms(2) fresh_ok [OF assms(1)]] assms(4) by simp
  have "eid |\<in>| registered x" using assms(6) by (rule fmdomI)
  then have "keeps eid r x"
    using ok assms(6,7) by (auto simp: keeps_def sys_ok_def accounted_def)
  then have "keeps eid r y" by (rule keeps_run [OF assms(3) _ assms(5) ok assms(4)])
  then have res: "reResult e' = Some r" using assms(8) by (simp add: keeps_def)
  moreover have "submitted = r" if "resolve_begin (tsDispatcher y) other = (d, Inr (eid, serial, submitted))"
    for other d serial submitted
    using that by (rule resolve_begin_Inr) (use res assms(8) in \<open>simp add: kept_result_def\<close>)
  ultimately show ?thesis by blast
qed

text \<open>C19: a result is accepted at most once. In every run of the reducer, from any state, at most
  one accepted command reports the result of a given effect, failed journals apart.\<close>

theorem result_accepted_once:
  assumes "runs c s cmds t" "eid \<noteq> []"
  shows "length (filter (\<lambda>cmd. resultEffectID cmd = eid \<and> journal_failure cmd = []) cmds) \<le> 1"
proof -
  let ?results = "filter (\<lambda>cmd. resultEffectID cmd = eid \<and> journal_failure cmd = [])"
  have "length (?results cmds) \<le> 1 \<and>
      (?results cmds \<noteq> [] \<longrightarrow> eid |\<in>| fmdom (stCompletedEffects t) \<and> Validate c t = None)"
    using assms(1)
  proof (induction rule: turn.runs_induct)
    case (further cmds t cmd u)
    have grows: "fmdom (stCompletedEffects t) |\<subseteq>| fmdom (stCompletedEffects u)"
      using step_endures [OF further.hyps(2)] by (auto simp: endures_def extends_effects_def dest: fmsubset_dom)
    have valid: "Validate c u = None" "Validate c t = None"
      using further.hyps(2) by (auto simp: step_iff Apply_eq_Inr)
    show ?case
    proof (cases "resultEffectID cmd = eid \<and> journal_failure cmd = []")
      case True
      then have "eid |\<in>| fmdom (stPendingEffects t)" "eid |\<in>| fmdom (stCompletedEffects u)"
        using result_settles [OF further.hyps(2)] assms(2) by auto
      moreover have "?results cmds = []"
        using further.IH calculation(1) valid_effects_disjoint [OF valid(2)] by auto
      ultimately show ?thesis using True valid by simp
    next
      case False
      then show ?thesis using further.IH grows valid by auto
    qed
  qed simp
  then show ?thesis by blast
qed

section \<open>No deadlock\<close>

text \<open>C20: starting, retrying and requeueing an effect always return, although they submit a command
  while they hold the dispatcher's lock: none of these commands requests an effect, so the
  submission never has to take the lock again.\<close>

theorem lifecycle_never_blocks:
  "(\<exists>y r. Start (submit_locked c marshal commit) (d, w) kind callID = Some (y, r)) \<and>
   (\<exists>y err. ScheduleRetry (submit_locked c marshal commit) (d, w) kind callID retry = Some (y, err)) \<and>
   (\<exists>y err. Requeue (submit_locked c marshal commit) (d, w) kind callID = Some (y, err))"
  using lifecycle_returns(1,3) [of c marshal commit d w kind callID]
    lifecycle_returns(2) [of c marshal commit d w kind callID retry] by auto

section \<open>An example\<close>

text \<open>A submission that nobody interrupts.\<close>

lemma executes_then:
  "executes c marshal commit x acts y \<Longrightarrow> happens c marshal commit y a z \<Longrightarrow>
     executes c marshal commit x (acts @ [a]) z"
  by (rule executes.extend)

lemma proceed_alone:
  assumes "executes c marshal commit x acts y" "tsCalls y = [call]" "proceed c marshal commit call y = (rest, z)"
  shows "executes c marshal commit x (acts @ [Proceeds 0]) (z\<lparr>tsCalls := rest\<rparr>)"
  using executes.extend [OF assms(1) happens.proceeds [of y "[]" call "[]", OF _ assms(3)]] assms(2) by simp

lemma submit_alone:
  assumes "executes c marshal commit x acts y" "tsCalls y = []"
    "transition c marshal commit (fst (tsTurn y)) (snd (tsTurn y)) cmd = Inr (co, st, es)"
  shows "executes c marshal commit x (acts @ [Submits cmd, Proceeds 0])
    (y\<lparr>tsTurn := (co, st), tsCalls := [Dispatching es None], tsRequested := tsRequested y + length es\<rparr>)"
proof -
  have "executes c marshal commit x (acts @ [Submits cmd]) (y\<lparr>tsCalls := [Waiting cmd None]\<rparr>)"
    using executes.extend [OF assms(1) happens.submits [of c marshal commit y cmd]] assms(2) by simp
  from proceed_alone [OF this, of "Waiting cmd None"] show ?thesis using assms(3) by (cases y) simp
qed

lemma submit_quietly:
  assumes "executes c marshal commit x acts y" "tsCalls y = []"
    "transition c marshal commit (fst (tsTurn y)) (snd (tsTurn y)) cmd = Inr (co, st, [])"
  shows "\<exists>acts'. executes c marshal commit x acts' (y\<lparr>tsTurn := (co, st)\<rparr>)"
proof -
  let ?y = "y\<lparr>tsTurn := (co, st), tsCalls := [Dispatching [] None]\<rparr>"
  have "executes c marshal commit x (acts @ [Submits cmd, Proceeds 0]) ?y"
    using submit_alone [OF assms] by simp
  from proceed_alone [OF this, of "Dispatching [] None"]
  have "executes c marshal commit x ((acts @ [Submits cmd, Proceeds 0]) @ [Proceeds 0])
      (?y\<lparr>tsCalls := [Returning True None]\<rparr>)" by simp
  from proceed_alone [OF this, of "Returning True None"] show ?thesis
    using assms(2) by (cases y) auto
qed

text \<open>The example turn on the memory store, up to its first sample.\<close>

lemma demo_submit:
  assumes "stored text_codec text_marshal (co, st)" "coState co = s" "coTurnID co = ''t1''"
    "Validate text_codec s = None" "Validate text_codec t = None" "\<not> Phase_Terminal (stPhase s)"
    "asks (dispatch text_codec (start text_codec s) s cmd) es t"
  obtains co' st' where
    "transition text_codec text_marshal (AppendDomainFacts text_codec text_marshal) co st cmd = Inr (co', st', es)"
    "coState co' = t" "stored text_codec text_marshal (co', st')" "coTurnID co' = ''t1''"
proof -
  obtain tr where tr: "dispatch text_codec (start text_codec s) s cmd = Inr tr" "tEffects tr = es" "tState tr = t"
    using assms(7) by (auto simp: asks_def split: sum.splits)
  then have ap: "Apply text_codec (coState co) (Some cmd) = Inr tr"
    using assms(2,4-6) by (simp add: Apply_eq_Inr)
  have "\<not> blank (coTurnID co)" using demo_new(2) assms(3) by simp
  from memory_accepts [OF assms(1) text_faithful this ap] show thesis
    using that tr assms(3) by metis
qed

definition demo_registered :: DurableEffectDispatcher where
  "demo_registered = \<lparr>ddRouted = fmupd (effect_id 1) \<lparr>reEffect = demo_e1, reStarted = False,
     reResult = None, reResolving = False, reSerial = 0\<rparr> fmempty, ddNextSerial = 1\<rparr>"

abbreviation demo_executes ::
  "action list \<Rightarrow> (unit, unit) MemoryTerminalEnvelopeStore turn_system \<Rightarrow> bool" where
  "demo_executes \<equiv> executes text_codec text_marshal (AppendDomainFacts text_codec text_marshal)
     (new_system demo_coordinator demo_store)"

lemma demo_dispatching:
  "\<exists>acts co st. demo_executes acts \<lparr>tsDispatcher = NewDurableEffectDispatcher, tsTurn = (co, st),
     tsCalls = [Dispatching [demo_e1] None], tsRequested = 1\<rparr> \<and> coState co = demo3 \<and>
     stored text_codec text_marshal (co, st) \<and> coTurnID co = ''t1''"
proof -
  let ?s = "demo0\<lparr>stPhase := PhasePreparing\<rparr>"
  have v: "Validate text_codec ?s = None" by (simp add: demo_evaluate)
  have phases: "\<not> Phase_Terminal (stPhase demo0)" "\<not> Phase_Terminal (stPhase demo2)"
    "\<not> Phase_Terminal (stPhase ?s)"
    by (simp_all add: demo_states)
  have asks1: "asks (dispatch text_codec (start text_codec demo0) demo0 StartTurn) [] ?s"
    and asks2: "asks (dispatch text_codec (start text_codec ?s) ?s PreparationFinished) [] demo2"
    and asks3: "asks (dispatch text_codec (start text_codec demo2) demo2 (ModelSampleRequested ''m1''))
      [demo_e1] demo3"
    by (simp_all add: demo_compute applyModelSampleRequested_def)
  obtain co1 st1 where 1: "transition text_codec text_marshal (AppendDomainFacts text_codec text_marshal)
      demo_coordinator demo_store StartTurn = Inr (co1, st1, [])" "coState co1 = ?s"
      "stored text_codec text_marshal (co1, st1)" "coTurnID co1 = ''t1''"
    by (rule demo_submit [OF demo_new(4) _ _ demo_valid0 v phases(1) asks1])
      (simp_all add: demo_coordinator_def)
  obtain co2 st2 where 2: "transition text_codec text_marshal (AppendDomainFacts text_codec text_marshal)
      co1 st1 PreparationFinished = Inr (co2, st2, [])" "coState co2 = demo2"
      "stored text_codec text_marshal (co2, st2)" "coTurnID co2 = ''t1''"
    by (rule demo_submit [OF 1(3,2,4) v demo_valid2 phases(3) asks2])
  obtain co3 st3 where 3: "transition text_codec text_marshal (AppendDomainFacts text_codec text_marshal)
      co2 st2 (ModelSampleRequested ''m1'') = Inr (co3, st3, [demo_e1])" "coState co3 = demo3"
      "stored text_codec text_marshal (co3, st3)" "coTurnID co3 = ''t1''"
    by (rule demo_submit [OF 2(3,2,4) demo_valid2 demo_valid3 phases(2) asks3])
  let ?x = "\<lambda>w. \<lparr>tsDispatcher = NewDurableEffectDispatcher, tsTurn = w, tsCalls = [], tsRequested = 0\<rparr>"
  have "demo_executes [] (?x (demo_coordinator, demo_store))"
    using executes.idle [of _ _ _ "new_system demo_coordinator demo_store"] by (simp add: new_system_def)
  from submit_quietly [OF this, of StartTurn co1 st1] 1(1)
  obtain acts1 where "demo_executes acts1 (?x (co1, st1))" by auto
  from submit_quietly [OF this, of PreparationFinished co2 st2] 2(1)
  obtain acts2 where "demo_executes acts2 (?x (co2, st2))" by auto
  from submit_alone [OF this, of "ModelSampleRequested ''m1''" co3 st3 "[demo_e1]"] 3
  show ?thesis by auto
qed

text \<open>The effect is registered and started, and its result is being resolved.\<close>

definition demo_entry :: routedEffect where
  "demo_entry = \<lparr>reEffect = running demo_e1, reStarted = True,
     reResult = Some (ModelSampleResultReceived demo_sample), reResolving = True, reSerial = 0\<rparr>"

definition demo_ticket :: ticket where
  "demo_ticket = (effect_id 1, 0, ModelSampleResultReceived demo_sample)"

lemma demo_start:
  assumes "transition c marshal commit co st (EffectStarted (effect_id 1) 1) = Inr (co', st', [])"
  shows "Start (submit_locked c marshal commit) (demo_registered, (co, st)) EffectSampleProvider ''m1'' =
    Some ((demo_registered\<lparr>ddRouted := fmupd (effect_id 1) \<lparr>reEffect = running demo_e1,
      reStarted = True, reResult = None, reResolving = False, reSerial = 0\<rparr> fmempty\<rparr>, (co', st')),
      Inr (running demo_e1))"
proof -
  have entry: "entry demo_registered (effect_id 1) = \<lparr>reEffect = demo_e1, reStarted = False,
      reResult = None, reResolving = False, reSerial = 0\<rparr>"
    by (simp add: entry_def demo_registered_def)
  have "sorted_keys (ddRouted demo_registered) = [effect_id 1]"
    by (simp add: demo_registered_def sorted_keys_upd)
  moreover have "efKind demo_e1 = EffectSampleProvider" "efCallID demo_e1 = ''m1''"
    "efID demo_e1 = effect_id 1" "efAttempt demo_e1 = 0"
    by (simp_all add: demo_e1_def new_effect_def)
  ultimately show ?thesis
    using assms
    by (simp add: Start_def findLocked_def entry submit_locked_def put_entry_def Let_def running_def)
      (simp add: demo_registered_def)
qed

lemma demo_resolving:
  "\<exists>acts x. demo_executes acts x \<and> tsRequested x = 1 \<and> tickets x = [demo_ticket] \<and>
     ddRouted (tsDispatcher x) = fmupd (effect_id 1) demo_entry fmempty"
proof -
  obtain acts co st where run: "demo_executes acts \<lparr>tsDispatcher = NewDurableEffectDispatcher,
      tsTurn = (co, st), tsCalls = [Dispatching [demo_e1] None], tsRequested = 1\<rparr>"
    and co: "coState co = demo3" "stored text_codec text_marshal (co, st)" "coTurnID co = ''t1''"
    using demo_dispatching by blast
  let ?x = "\<lparr>tsDispatcher = demo_registered, tsTurn = (co, st), tsCalls = [], tsRequested = 1\<rparr>"
  have asks: "asks (dispatch text_codec (start text_codec demo3) demo3 (EffectStarted (effect_id 1) 1)) [] demo4"
    and phase: "\<not> Phase_Terminal (stPhase demo3)"
    by (simp_all add: demo_compute applyEffectStarted_def)
  obtain co4 st4 where 4: "transition text_codec text_marshal (AppendDomainFacts text_codec text_marshal)
      co st (EffectStarted (effect_id 1) 1) = Inr (co4, st4, [])"
    by (rule demo_submit [OF co(2,1,3) demo_valid3 demo_valid4 phase asks])
  have "Dispatch NewDurableEffectDispatcher demo_e1 = Inr demo_registered"
    by (simp add: Dispatch_def NewDurableEffectDispatcher_def demo_registered_def demo_e1_def
        new_effect_def RoutedEffect_def C3RoutedEffect_def)
  with proceed_alone [OF run, of "Dispatching [demo_e1] None"]
  have "demo_executes (acts @ [Proceeds 0]) (?x\<lparr>tsCalls := [Dispatching [] None]\<rparr>)" by simp
  from proceed_alone [OF this, of "Dispatching [] None"]
  have "demo_executes ((acts @ [Proceeds 0]) @ [Proceeds 0]) (?x\<lparr>tsCalls := [Returning True None]\<rparr>)" by simp
  from proceed_alone [OF this, of "Returning True None"]
  have "demo_executes (((acts @ [Proceeds 0]) @ [Proceeds 0]) @ [Proceeds 0]) ?x" by simp
  from executes.extend [OF this happens.starts] demo_start [OF 4]
  obtain acts2 where started: "demo_executes acts2 \<lparr>tsDispatcher = demo_registered\<lparr>ddRouted :=
      fmupd (effect_id 1) (demo_entry\<lparr>reResult := None, reResolving := False\<rparr>) fmempty\<rparr>,
      tsTurn = (co4, st4), tsCalls = [], tsRequested = 1\<rparr>" (is "demo_executes _ ?y")
    by (fastforce simp: demo_entry_def)
  have "resolve_begin (tsDispatcher ?y) (ModelSampleResultReceived demo_sample) =
      (demo_registered\<lparr>ddRouted := fmupd (effect_id 1) demo_entry fmempty\<rparr>, Inr demo_ticket)"
    by (simp add: resolve_begin_def demo_sample_def demo_entry_def demo_ticket_def may_resolve_def
        kept_result_def put_entry_def Let_def)
  from executes.extend [OF started happens.resolves [OF this]] show ?thesis
    by (intro exI, intro conjI, assumption) (simp_all add: demo_ticket_def)
qed

theorem no_effect_lost_witness:
  "\<exists>x :: (unit, unit) MemoryTerminalEnvelopeStore turn_system.
     fmdom (stPendingEffects (turn_state x)) = {|effect_id 1|} \<and> registered x = {||} \<and>
     {|effect_id 1|} |\<subseteq>| registered x |\<union>| fset_of_list (map efID (in_transit x)) \<and>
     (\<exists>d. Dispatch (tsDispatcher x) demo_e1 = Inr d)"
proof -
  obtain acts co st where run: "demo_executes acts \<lparr>tsDispatcher = NewDurableEffectDispatcher,
      tsTurn = (co, st), tsCalls = [Dispatching [demo_e1] None], tsRequested = 1\<rparr>" (is "demo_executes acts ?x")
    and co: "coState co = demo3" using demo_dispatching by blast
  have "fmdom (stPendingEffects (turn_state ?x)) = {|effect_id 1|}" by (simp add: co demo_states)
  then show ?thesis
    using no_effect_lost [OF demo_new(1) [unfolded demo0_def NewState_def] run]
    by (intro exI [of _ ?x]) (auto simp: NewDurableEffectDispatcher_def)
qed

theorem result_accepted_once_witness:
  "length (filter (\<lambda>cmd. resultEffectID cmd = effect_id 1 \<and> journal_failure cmd = []) demo_sampling) = 1"
  using result_accepted_once [OF demo_run_sampling, of "effect_id 1"]
  by (simp add: demo_sampling_def demo_sample_def effect_id_not_blank(2) [symmetric])

text \<open>Another result for the same effect.\<close>

definition demo_other :: Command where
  "demo_other = EffectResultReceived (effect_id 1) False ''late''"

lemma demo_other_refused:
  assumes "ddRouted d = fmupd (effect_id 1) demo_entry fmempty"
  shows "resolve_begin d demo_other = (d, Inl (DispatchError
    (ErrorF ''effect %q result is already resolving'' [ArgS (effect_id 1)])))"
  using assms
  by (cases d) (simp add: resolve_begin_def demo_other_def demo_entry_def may_resolve_def
      kept_result_def put_entry_def Let_def)

theorem resolution_exclusive_witness:
  "\<exists>x :: (unit, unit) MemoryTerminalEnvelopeStore turn_system. tickets x = [demo_ticket] \<and>
     (\<exists>err. resolve_begin (tsDispatcher x) demo_other = (tsDispatcher x, Inl err))"
proof -
  obtain acts x where run: "demo_executes acts x" "tsRequested x = 1" "tickets x = [demo_ticket]"
    using demo_resolving by blast
  then show ?thesis
    using resolution_exclusive [OF demo_new(1) [unfolded demo0_def NewState_def] run(1)]
    by (intro exI [of _ x]) (simp add: demo_ticket_def demo_other_def)
qed

theorem first_result_kept_witness:
  "\<exists>x e. executes text_codec text_marshal (AppendDomainFacts text_codec text_marshal)
       x [Resolves demo_other] (x :: (unit, unit) MemoryTerminalEnvelopeStore turn_system) \<and>
     fmlookup (ddRouted (tsDispatcher x)) (effect_id 1) = Some e \<and>
     reResult e = Some (ModelSampleResultReceived demo_sample)"
proof -
  obtain acts x where run: "demo_executes acts x" "tsRequested x = 1"
    and reg: "ddRouted (tsDispatcher x) = fmupd (effect_id 1) demo_entry fmempty"
    using demo_resolving by blast
  have again: "executes text_codec text_marshal (AppendDomainFacts text_codec text_marshal)
      x ([] @ [Resolves demo_other]) x"
    using executes.extend [OF executes.idle happens.refuses [OF demo_other_refused [OF reg]]] by simp
  have e: "fmlookup (ddRouted (tsDispatcher x)) (effect_id 1) = Some demo_entry"
    "reResult demo_entry = Some (ModelSampleResultReceived demo_sample)"
    by (simp_all add: reg demo_entry_def)
  have "reResult demo_entry = Some (ModelSampleResultReceived demo_sample)"
    using first_result_kept [OF demo_new(1) [unfolded demo0_def NewState_def] run(1) again _ _ e(1) e(2) e(1)]
      run(2) by simp
  then show ?thesis using again e(1) by (intro exI [of _ x] exI [of _ demo_entry]) simp
qed

end
