(* ===== verification/Restore.thy ===== *)
theory Restore
  imports EffectSafety Durability
begin

text \<open>
  Restoring an interrupted turn (\<open>RestoreTurnCoordinator\<close>): read the log, requeue the effects that
  were running, and register every pending effect with the dispatcher; and aborting the effects
  of a kind (\<open>DurableEffectDispatcher.Abort\<close>). Here one caller runs alone, so the operations act
  on the dispatcher and the turn together.
\<close>

section \<open>Submitting and resolving\<close>

fun dispatch_all ::
  "DurableEffectDispatcher \<Rightarrow> Effect list \<Rightarrow> DurableEffectDispatcher \<times> dispatch_error option" where
  "dispatch_all d [] = (d, None)"
| "dispatch_all d (e # es) =
     (case Dispatch d e of Inl err \<Rightarrow> (d, Some err) | Inr d' \<Rightarrow> dispatch_all d' es)"

type_synonym 'st turn_world = "DurableEffectDispatcher \<times> TurnCoordinator \<times> 'st"

definition Submit ::
  "'z kernel_codec_scheme \<Rightarrow> marshal_state \<Rightarrow> 'st commit \<Rightarrow> 'st turn_world \<Rightarrow> Command \<Rightarrow>
     'st turn_world \<times> dispatch_error option" where
  "Submit c marshal commit x command =
     (case x of (d, co, st) \<Rightarrow>
      case transition c marshal commit co st command of
        Inl err \<Rightarrow> (x, Some (SubmitError err))
      | Inr (co', st', es) \<Rightarrow>
          (case dispatch_all d es of (d', err) \<Rightarrow> ((d', co', st'), err)))"

definition ResolveWith ::
  "('st turn_world \<Rightarrow> Command \<Rightarrow> 'st turn_world \<times> dispatch_error option) \<Rightarrow> 'st turn_world \<Rightarrow>
     Command \<Rightarrow> 'st turn_world \<times> dispatch_error option" where
  "ResolveWith submit x command =
     (case x of (d, w) \<Rightarrow>
      case resolve_begin d command of
        (d1, Inl err) \<Rightarrow> ((d1, w), Some err)
      | (d1, Inr (effectID, serial, result)) \<Rightarrow>
          (case submit (d1, w) result of
             ((d2, w2), err) \<Rightarrow>
               ((resolve_end d2 (effectID, serial, result) (err = None), w2), err)))"

section \<open>Restoring\<close>

datatype restore_error =
    LoadFailed coordinator_error
  | RequeueFailed string dispatch_error
  | RouteFailed dispatch_error

text \<open>The loop over the effects that were running when the turn was interrupted.\<close>

fun requeue_running ::
  "'z kernel_codec_scheme \<Rightarrow> marshal_state \<Rightarrow> 'st commit \<Rightarrow> Effect dict \<Rightarrow> string list \<Rightarrow>
     'st turn_world \<Rightarrow> 'st turn_world \<times> restore_error option" where
  "requeue_running c marshal commit pending [] x = (x, None)"
| "requeue_running c marshal commit pending (effectID # ids) x =
     (if efStatus (lookup_zero zero_Effect pending effectID) \<noteq> EffectRunning
      then requeue_running c marshal commit pending ids x
      else case Submit c marshal commit x (EffectRequeued effectID) of
             (y, Some err) \<Rightarrow> (y, Some (RequeueFailed effectID err))
           | (y, None) \<Rightarrow> requeue_running c marshal commit pending ids y)"

definition pending_list :: "Effect dict \<Rightarrow> Effect list" where
  "pending_list pending = map (lookup_zero zero_Effect pending) (sortedEffectIDs pending)"

definition RestoreTurnCoordinator ::
  "'z kernel_codec_scheme \<Rightarrow> marshal_state \<Rightarrow> 'st fact_store_ops \<Rightarrow> 'st \<Rightarrow> string \<Rightarrow>
     DurableEffectDispatcher \<Rightarrow> ('st \<times> DurableEffectDispatcher) \<times> (restore_error + TurnCoordinator)" where
  "RestoreTurnCoordinator c marshal ops st turnID d =
     (case load_coordinator c marshal ops st turnID of
        Inl err \<Rightarrow> ((st, d), Inl (LoadFailed err))
      | Inr co \<Rightarrow>
     (case requeue_running c marshal (soAppend ops) (stPendingEffects (coState co))
             (sortedEffectIDs (stPendingEffects (coState co))) (d, co, st) of
        ((d1, co1, st1), Some err) \<Rightarrow> ((st1, d1), Inl err)
      | ((d1, co1, st1), None) \<Rightarrow>
     (case dispatch_all d1 (pending_list (stPendingEffects (cloneState c (coState co1)))) of
        (d2, Some err) \<Rightarrow> ((st1, d2), Inl (RouteFailed err))
      | (d2, None) \<Rightarrow> ((st1, d2), Inr co1))))"

section \<open>What a requeue does\<close>

lemma requeue_step:
  assumes "transition c marshal commit co st (EffectRequeued eid) = Inr (co', st', es)"
  obtains e where "fmlookup (stPendingEffects (coState co)) eid = Some e" "efStatus e = EffectRunning"
    "stPendingEffects (coState co') =
       fmupd eid (e\<lparr>efStatus := EffectRequested\<rparr>) (stPendingEffects (coState co))" "es = []"
proof -
  obtain tr where tr: "Apply c (coState co) (Some (EffectRequeued eid)) = Inr tr" "es = tEffects tr"
    "coState co' = tState tr" using assms by (auto simp: transition_eq_Inr)
  then have d: "applyEffectRequeued (start c (coState co)) (coState co) eid = Inr tr"
    by (simp add: Apply_eq_Inr)
  have "es = []" using lifecycle_requests_nothing [OF tr(1)] tr(2) by blast
  moreover obtain e where "fmlookup (stPendingEffects (coState co)) eid = Some e" "efStatus e = EffectRunning"
    "stPendingEffects (tState tr) = fmupd eid (e\<lparr>efStatus := EffectRequested\<rparr>) (stPendingEffects (coState co))"
    using d by (auto simp: applyEffectRequeued_def Let_def bind_result_eq_Inr cloneState_def
        split: option.splits if_splits)
  ultimately show thesis using that tr(3) by simp
qed

text \<open>The entries of a registry are pending effects as they are dispatched.\<close>

definition fresh_entries :: "Effect dict \<Rightarrow> DurableEffectDispatcher \<Rightarrow> bool" where
  "fresh_entries pending d \<longleftrightarrow>
     (\<forall>k e. fmlookup (ddRouted d) k = Some e \<longrightarrow> fmlookup pending k = Some (reEffect e) \<and>
        \<not> reStarted e \<and> reResult e = None \<and> \<not> reResolving e)"

lemma Dispatch_Inr:
  "Dispatch d e = Inr d' \<Longrightarrow> ddRouted d' = fmupd (efID e) \<lparr>reEffect = e, reStarted = False,
     reResult = None, reResolving = False, reSerial = ddNextSerial d\<rparr> (ddRouted d)"
  by (auto simp: Dispatch_def require_def split: if_splits)

lemma fresh_dispatch:
  "Dispatch d e = Inr d' \<Longrightarrow> fresh_entries pending d \<Longrightarrow> fmlookup pending (efID e) = Some e \<Longrightarrow>
     fresh_entries pending d'"
  by (simp add: fresh_entries_def Dispatch_Inr)

lemma dispatch_all_routes:
  assumes "dispatch_all d es = (d', None)" "\<forall>e \<in> set es. fmlookup pending (efID e) = Some e"
    "fresh_entries pending d"
  shows "fmdom (ddRouted d') = fmdom (ddRouted d) |\<union>| fset_of_list (map efID es) \<and>
    fresh_entries pending d'"
  using assms
proof (induction es arbitrary: d)
  case (Cons e es)
  obtain d1 where d1: "Dispatch d e = Inr d1" "dispatch_all d1 es = (d', None)"
    using Cons.prems(1) by (auto split: sum.splits)
  have "fresh_entries pending d1" using fresh_dispatch [OF d1(1) Cons.prems(3)] Cons.prems(2) by simp
  from Cons.IH [OF d1(2) _ this] Cons.prems(2) show ?case
    by (simp add: Dispatch_Inr [OF d1(1)])
qed simp

section \<open>A restored turn\<close>

lemma requeue_running_sound:
  assumes "requeue_running c marshal commit pending ids (d, co, st) = ((d', co', st'), None)"
  shows "d' = d \<and> runs c (coState co)
      (map EffectRequeued (filter (\<lambda>eid. efStatus (lookup_zero zero_Effect pending eid) = EffectRunning) ids))
      (coState co') \<and>
    (\<forall>k. fmlookup (stPendingEffects (coState co')) k =
       (if k \<in> set ids \<and> efStatus (lookup_zero zero_Effect pending k) = EffectRunning
        then map_option (\<lambda>e. e\<lparr>efStatus := EffectRequested\<rparr>) (fmlookup (stPendingEffects (coState co)) k)
        else fmlookup (stPendingEffects (coState co)) k)) \<and> coTurnID co' = coTurnID co"
  using assms
proof (induction ids arbitrary: d co st)
  case Nil
  then show ?case by (simp add: runs.here)
next
  case (Cons eid ids)
  show ?case
  proof (cases "efStatus (lookup_zero zero_Effect pending eid) = EffectRunning")
    case False
    then show ?thesis using Cons by auto
  next
    case True
    then obtain co1 st1 es d1 where t: "transition c marshal commit co st (EffectRequeued eid) = Inr (co1, st1, es)"
      and d1: "dispatch_all d es = (d1, None)"
      and rest: "requeue_running c marshal commit pending ids (d1, co1, st1) = ((d', co', st'), None)"
      using Cons.prems by (auto simp: Submit_def split: sum.splits prod.splits option.splits)
    obtain e where e: "fmlookup (stPendingEffects (coState co)) eid = Some e"
      "stPendingEffects (coState co1) =
         fmupd eid (e\<lparr>efStatus := EffectRequested\<rparr>) (stPendingEffects (coState co))" "es = []"
      by (rule requeue_step [OF t])
    have "step c (coState co) (EffectRequeued eid) (coState co1)" "coTurnID co1 = coTurnID co"
      using transition_moves_effects [OF t] by simp_all
    with Cons.IH [OF rest] d1 e True show ?thesis
      by (auto simp: turn.runs_cons)
  qed
qed

lemma pending_list_elements:
  "set (pending_list pending) = {e. \<exists>k. fmlookup pending k = Some e}"
  by (auto simp: pending_list_def sortedEffectIDs_def lookup_zero_def image_iff split: option.splits)
    (force intro: fmdomI)+

lemma pending_list_ids:
  assumes "\<And>k e. fmlookup pending k = Some e \<Longrightarrow> efID e = k"
  shows "fset_of_list (map efID (pending_list pending)) = fmdom pending"
proof -
  have "efID ` set (pending_list pending) = fset (fmdom pending)"
    unfolding pending_list_elements using assms by (auto simp: image_iff intro: fmdomI) force
  then show ?thesis by (simp add: fset_inject [symmetric] fset_of_list.rep_eq del: fset_of_list_map)
qed

lemma valid_pending:
  assumes "Validate c s = None" "fmlookup (stPendingEffects s) k = Some e"
  shows "efID e = k" "efStatus e = EffectRequested \<or> efStatus e = EffectRunning"
proof -
  have "fmpred (\<lambda>eid e. validateEffect c eid e False = None) (stPendingEffects s)"
    using assms(1) by (simp add: Validate_None effects_error_None)
  then have "validateEffect c k e False = None" using assms(2) by (rule fmpredD)
  then show "efID e = k" "efStatus e = EffectRequested \<or> efStatus e = EffectRunning"
    by (simp_all add: validateEffect_def)
qed

text \<open>C23: a restored turn continues where the log ends. When a restore with an empty registry
  succeeds, the restored state is reached from the durable one by requeueing exactly the effects
  that were running, no pending effect is running any more, and the registry holds exactly the
  pending effects, each as the state has it and ready to be started, none lost and none twice.\<close>

theorem restored_turn:
  assumes "load_coordinator c marshal ops st turnID = Inr durable"
    "RestoreTurnCoordinator c marshal ops st turnID NewDurableEffectDispatcher = ((st', d), Inr co)"
    "Validate c (coState durable) = None"
  shows "runs c (coState durable)
      (map EffectRequeued (filter (\<lambda>eid. efStatus (lookup_zero zero_Effect
          (stPendingEffects (coState durable)) eid) = EffectRunning)
        (sortedEffectIDs (stPendingEffects (coState durable))))) (coState co) \<and>
    fmdom (stPendingEffects (coState co)) = fmdom (stPendingEffects (coState durable)) \<and>
    (\<forall>k e. fmlookup (stPendingEffects (coState co)) k = Some e \<longrightarrow> efStatus e = EffectRequested) \<and>
    fmdom (ddRouted d) = fmdom (stPendingEffects (coState co)) \<and>
    (\<forall>k e. fmlookup (ddRouted d) k = Some e \<longrightarrow>
       fmlookup (stPendingEffects (coState co)) k = Some (reEffect e) \<and>
       \<not> reStarted e \<and> reResult e = None \<and> \<not> reResolving e)"
proof -
  let ?old = "stPendingEffects (coState durable)" and ?new = "stPendingEffects (coState co)"
  have "\<exists>d1. requeue_running c marshal (soAppend ops) ?old (sortedEffectIDs ?old)
      (NewDurableEffectDispatcher, durable, st) = ((d1, co, st'), None) \<and>
      dispatch_all d1 (pending_list ?new) = (d, None)"
    using assms(1,2)
    by (auto simp: RestoreTurnCoordinator_def cloneState_def split: sum.splits prod.splits option.splits)
  then obtain d1 where rq: "requeue_running c marshal (soAppend ops) ?old (sortedEffectIDs ?old)
      (NewDurableEffectDispatcher, durable, st) = ((d1, co, st'), None)"
    and all: "dispatch_all d1 (pending_list ?new) = (d, None)" by blast
  note sound = requeue_running_sound [OF rq]
  then have run: "runs c (coState durable)
      (map EffectRequeued (filter (\<lambda>eid. efStatus (lookup_zero zero_Effect ?old eid) = EffectRunning)
        (sortedEffectIDs ?old))) (coState co)" by simp
  have valid: "Validate c (coState co) = None" by (rule runs_valid [OF run assms(3)])
  have new: "fmlookup ?new k = map_option (\<lambda>e. if efStatus e = EffectRunning
      then e\<lparr>efStatus := EffectRequested\<rparr> else e) (fmlookup ?old k)" for k
    using sound by (cases "fmlookup ?old k") (auto simp: sortedEffectIDs_def lookup_zero_def intro: fmdomI)
  have dom: "fmdom ?new = fmdom ?old" by (rule fset_eqI) (simp add: fmlookup_dom_iff new)
  have requested: "efStatus e = EffectRequested" if "fmlookup ?new k = Some e" for k e
  proof -
    obtain e0 where "fmlookup ?old k = Some e0"
      "e = (if efStatus e0 = EffectRunning then e0\<lparr>efStatus := EffectRequested\<rparr> else e0)"
      using \<open>fmlookup ?new k = Some e\<close> by (auto simp: new)
    then show ?thesis using valid_pending(2) [OF assms(3)] by fastforce
  qed
  have id: "fmlookup ?new k = Some e \<Longrightarrow> efID e = k" for k e by (rule valid_pending(1) [OF valid])
  then have "\<forall>e \<in> set (pending_list ?new). fmlookup ?new (efID e) = Some e"
    unfolding pending_list_elements by blast
  from dispatch_all_routes [OF all this] sound
  have "fmdom (ddRouted d) = fset_of_list (map efID (pending_list ?new)) \<and> fresh_entries ?new d"
    by (simp add: NewDurableEffectDispatcher_def fresh_entries_def)
  then show ?thesis
    using run dom requested pending_list_ids [OF id] unfolding fresh_entries_def by simp
qed

section \<open>The example turn, interrupted while its sample runs\<close>

definition demo_requeued :: State where
  "demo_requeued = demo4\<lparr>stSampleLedger := fmupd ''m1''
       (zero_ModelSampleState\<lparr>smID := ''m1'', smStatus := SampleRequested, smAttempt := 1\<rparr>) fmempty,
     stActiveSampleID := [],
     stPendingEffects := fmupd (effect_id 1) ((running demo_e1)\<lparr>efStatus := EffectRequested\<rparr>) fmempty\<rparr>"

lemma demo_requeued_valid: "Validate text_codec demo_requeued = None"
  by (simp add: demo_evaluate demo_requeued_def)

lemma demo_requeue:
  "Apply text_codec demo4 (Some (EffectRequeued (effect_id 1))) = Inr tr \<Longrightarrow> tState tr = demo_requeued"
  "\<exists>tr. Apply text_codec demo4 (Some (EffectRequeued (effect_id 1))) = Inr tr"
proof -
  have "leaves (dispatch text_codec (start text_codec demo4) demo4 (EffectRequeued (effect_id 1)))
      (\<lambda>u. u = demo_requeued)"
    by (simp add: demo_compute applyEffectRequeued_def demo_requeued_def)
  then obtain tr' where "dispatch text_codec (start text_codec demo4) demo4 (EffectRequeued (effect_id 1)) = Inr tr'"
    "tState tr' = demo_requeued" by (auto simp: leaves_def split: sum.splits)
  then have "Apply text_codec demo4 (Some (EffectRequeued (effect_id 1))) = Inr tr'"
    using demo_valid4 demo_requeued_valid by (simp add: Apply_eq_Inr demo_states)
  with \<open>tState tr' = demo_requeued\<close>
  show "Apply text_codec demo4 (Some (EffectRequeued (effect_id 1))) = Inr tr \<Longrightarrow> tState tr = demo_requeued"
    "\<exists>tr. Apply text_codec demo4 (Some (EffectRequeued (effect_id 1))) = Inr tr" by auto
qed

lemma demo_interrupted:
  "\<exists>co st. stored text_codec text_marshal (co, st) \<and> coState co = demo4 \<and> coTurnID co = ''t1'' \<and>
     load_coordinator text_codec text_marshal (memory_ops text_codec text_marshal)
       (st :: (unit, unit) MemoryTerminalEnvelopeStore) ''t1'' = Inr co"
proof -
  have run: "runs text_codec demo0 [StartTurn, PreparationFinished, ModelSampleRequested ''m1'',
      EffectStarted (effect_id 1) 1] demo4" (is "runs _ _ ?cmds _")
    using run_after [OF demo_step1 run_then [OF demo_step3 run_then [OF demo_step4 runs.here]]] by simp
  have c: "coState demo_coordinator = demo0" "coTurnID demo_coordinator = ''t1''"
    by (simp_all add: demo_coordinator_def)
  obtain co st where *: "advances text_codec text_marshal (AppendDomainFacts text_codec text_marshal)
      (demo_coordinator, demo_store) ?cmds (co, st)" "coState co = demo4"
      "stored text_codec text_marshal (co, st)" "coTurnID co = ''t1''"
    using runs_advances [OF _ demo_new(4) text_faithful, of ?cmds demo4] run demo_new(2) c by auto
  have adv: "advances text_codec text_marshal (soAppend (memory_ops text_codec text_marshal))
      (demo_coordinator, demo_store) ?cmds (co, st)" using *(1) by (simp add: memory_ops_def)
  note kept = memory.durable_advances [OF adv memory.durable_new [OF demo_new(1)] text_faithful(1)]
  have "soLoad (memory_ops text_codec text_marshal) st ''t1'' \<noteq> Inr []"
    using memory.log_grows [OF adv, of "[]"] c
    by (auto simp: memory_ops_def LoadDomainFacts_def NewMemoryTerminalEnvelopeStore_def)
  then have "load_coordinator text_codec text_marshal (memory_ops text_codec text_marshal) st ''t1'' = Inr co"
    using memory.load_durable [OF kept] *(2,4) by (simp add: valid_copy demo_valid4)
  then show ?thesis using * by blast
qed

theorem restored_turn_witness:
  "\<exists>st d co. fmlookup (stPendingEffects (coState co)) (effect_id 1) =
       Some ((running demo_e1)\<lparr>efStatus := EffectRequested\<rparr>) \<and>
     fmdom (ddRouted d) = {|effect_id 1|} \<and>
     (\<exists>st0 :: (unit, unit) MemoryTerminalEnvelopeStore. RestoreTurnCoordinator text_codec text_marshal
        (memory_ops text_codec text_marshal) st0 ''t1'' NewDurableEffectDispatcher = ((st, d), Inr co))"
proof -
  obtain co st where co: "stored text_codec text_marshal (co, st)" "coState co = demo4" "coTurnID co = ''t1''"
    and load: "load_coordinator text_codec text_marshal (memory_ops text_codec text_marshal)
       (st :: (unit, unit) MemoryTerminalEnvelopeStore) ''t1'' = Inr co"
    using demo_interrupted by blast
  obtain tr where tr: "Apply text_codec (coState co) (Some (EffectRequeued (effect_id 1))) = Inr tr"
    using demo_requeue(2) co(2) by auto
  have "\<not> blank (coTurnID co)" using demo_new(2) co(3) by simp
  then obtain co1 st1 where t: "transition text_codec text_marshal (AppendDomainFacts text_codec text_marshal)
      co st (EffectRequeued (effect_id 1)) = Inr (co1, st1, tEffects tr)" "coState co1 = tState tr"
    by (rule memory_accepts [OF co(1) text_faithful _ tr])
  have none: "tEffects tr = []" using lifecycle_requests_nothing [OF tr] by blast
  have state: "coState co1 = demo_requeued" using demo_requeue(1) tr co(2) t(2) by simp
  have pend: "stPendingEffects demo4 = fmupd (effect_id 1) (running demo_e1) fmempty"
    "stPendingEffects demo_requeued =
       fmupd (effect_id 1) ((running demo_e1)\<lparr>efStatus := EffectRequested\<rparr>) fmempty"
    by (simp_all add: demo4_def demo_requeued_def)
  obtain d where d: "Dispatch NewDurableEffectDispatcher ((running demo_e1)\<lparr>efStatus := EffectRequested\<rparr>) = Inr d"
    by (simp add: Dispatch_def NewDurableEffectDispatcher_def demo_e1_def running_def
        new_effect_def RoutedEffect_def C3RoutedEffect_def)
  have res: "RestoreTurnCoordinator text_codec text_marshal (memory_ops text_codec text_marshal) st ''t1''
      NewDurableEffectDispatcher = ((st1, d), Inr co1)"
    using load t d none state co(2)
    by (simp add: RestoreTurnCoordinator_def memory_ops_def pend sortedEffectIDs_def sorted_keys_upd
        Submit_def running_def cloneState_def pending_list_def)
  have "Validate text_codec (coState co) = None" by (simp add: co(2) demo_valid4)
  from restored_turn [OF load res this] res show ?thesis
    by (intro exI [of _ st1] exI [of _ d] exI [of _ co1]) (auto simp: state pend)
qed

end
