(* ===== verification/RuntimeControl.thy ===== *)
theory RuntimeControl
  imports RunSystem Prelude
begin

text \<open>
  The control plane of a running turn (\<open>runtime_control.go\<close>): answers that arrive before a
  recovered request asks for them, the bounded mailbox of steering input, and the ledger that
  lets every approval or input request be answered once.
\<close>

section \<open>Recovered interactions\<close>

text \<open>The maps of the struct are nil until the first \<open>Mark\<close>; a nil map reads as an empty one.\<close>

record 'a RecoveredInteraction =
  riPending :: "string fset"
  riEarly :: "'a dict"

definition RecoveredInteraction_Mark ::
  "'a RecoveredInteraction \<Rightarrow> string \<Rightarrow> 'a RecoveredInteraction" where
  "RecoveredInteraction_Mark r requestID = r\<lparr>riPending := finsert requestID (riPending r)\<rparr>"

definition RecoveredInteraction_Queue ::
  "'a RecoveredInteraction \<Rightarrow> string \<Rightarrow> 'a \<Rightarrow> 'a RecoveredInteraction \<times> bool" where
  "RecoveredInteraction_Queue r requestID value =
     (if requestID |\<notin>| riPending r then (r, False)
      else if fmlookup (riEarly r) requestID \<noteq> None then (r, False)
      else (r\<lparr>riEarly := fmupd requestID value (riEarly r)\<rparr>, True))"

definition RecoveredInteraction_Take ::
  "'a RecoveredInteraction \<Rightarrow> string \<Rightarrow> 'a RecoveredInteraction \<times> 'a option" where
  "RecoveredInteraction_Take r requestID =
     (r\<lparr>riPending := riPending r |-| {|requestID|}, riEarly := fmdrop requestID (riEarly r)\<rparr>,
      fmlookup (riEarly r) requestID)"

section \<open>The mailbox\<close>

text \<open>A buffered channel: the capacity and the values in it, oldest first.\<close>

record 'a Mailbox =
  mbCapacity :: nat
  mbQueue :: "'a list"

definition DefaultMailboxCapacity :: int where
  "DefaultMailboxCapacity = 64"

definition NewMailbox :: "int \<Rightarrow> 'a Mailbox" where
  "NewMailbox capacity =
     \<lparr>mbCapacity = nat (if capacity \<le> 0 then DefaultMailboxCapacity else capacity), mbQueue = []\<rparr>"

datatype mailbox_error = MailboxUnavailable | MailboxFull

text \<open>The mailbox is \<open>None\<close> for a nil pointer.\<close>

definition Mailbox_Offer :: "'a Mailbox option \<Rightarrow> 'a \<Rightarrow> mailbox_error + 'a Mailbox" where
  "Mailbox_Offer m value =
     (case m of None \<Rightarrow> Inl MailboxUnavailable
      | Some box \<Rightarrow>
          if length (mbQueue box) < mbCapacity box then Inr (box\<lparr>mbQueue := mbQueue box @ [value]\<rparr>)
          else Inl MailboxFull)"

text \<open>One receive of the loop in \<open>Drain\<close>; other goroutines may offer between two of them.\<close>

definition Mailbox_receive :: "'a Mailbox \<Rightarrow> ('a \<times> 'a Mailbox) option" where
  "Mailbox_receive box =
     (case mbQueue box of [] \<Rightarrow> None | v # rest \<Rightarrow> Some (v, box\<lparr>mbQueue := rest\<rparr>))"

function drain_from :: "'a Mailbox \<Rightarrow> 'a list \<Rightarrow> 'a list \<times> 'a Mailbox" where
  "drain_from box result =
     (case Mailbox_receive box of None \<Rightarrow> (result, box) | Some (v, box') \<Rightarrow> drain_from box' (result @ [v]))"
  by pat_completeness auto
termination
  by (relation "measure (\<lambda>(box, _). length (mbQueue box))")
    (auto simp: Mailbox_receive_def split: list.splits)

declare drain_from.simps [simp del]

definition Mailbox_Drain :: "'a Mailbox option \<Rightarrow> 'a list \<times> 'a Mailbox option" where
  "Mailbox_Drain m =
     (case m of None \<Rightarrow> ([], None)
      | Some box \<Rightarrow> (case drain_from box [] of (values, box') \<Rightarrow> (values, Some box')))"

definition Mailbox_Len :: "'a Mailbox option \<Rightarrow> nat" where
  "Mailbox_Len m = (case m of None \<Rightarrow> 0 | Some box \<Rightarrow> length (mbQueue box))"

section \<open>The request ledger\<close>

datatype RequestKind = RequestApproval | RequestInput | RequestKindOther string

record RequestLedger =
  rlPending :: "RequestKind dict"
  rlResolved :: "RequestKind dict"





definition RequestLedger_Pending :: "RequestLedger option \<Rightarrow> RequestKind dict" where
  "RequestLedger_Pending l = (case l of None \<Rightarrow> fmempty | Some ledger \<Rightarrow> rlPending ledger)"

section \<open>The mailbox delivers in order and stays bounded\<close>

datatype 'a mailbox_event = Offered 'a | Received 'a

inductive mailbox_step :: "'a Mailbox \<Rightarrow> 'a mailbox_event \<Rightarrow> 'a Mailbox \<Rightarrow> bool" where
  offer: "Mailbox_Offer (Some box) v = Inr box' \<Longrightarrow> mailbox_step box (Offered v) box'"
| receive: "Mailbox_receive box = Some (v, box') \<Longrightarrow> mailbox_step box (Received v) box'"

inductive mailbox_runs :: "'a Mailbox \<Rightarrow> 'a mailbox_event list \<Rightarrow> 'a Mailbox \<Rightarrow> bool" for box where
  quiet: "mailbox_runs box [] box"
| next_event: "mailbox_runs box evs b \<Longrightarrow> mailbox_step b ev b' \<Longrightarrow> mailbox_runs box (evs @ [ev]) b'"

inductive_simps mailbox_offer_iff: "mailbox_step box (Offered v) box'"
inductive_simps mailbox_receive_iff: "mailbox_step box (Received v) box'"

interpretation mailbox: run_system mailbox_step mailbox_runs
proof
  fix x y z :: "'a Mailbox" and evs ev
  show "mailbox_runs x [] y \<longleftrightarrow> y = x"
    by (auto elim: mailbox_runs.cases intro: mailbox_runs.intros)
  show "mailbox_runs x (evs @ [ev]) z \<longleftrightarrow> (\<exists>y. mailbox_runs x evs y \<and> mailbox_step y ev z)"
  proof
    assume "mailbox_runs x (evs @ [ev]) z"
    then show "\<exists>y. mailbox_runs x evs y \<and> mailbox_step y ev z"
      by (cases rule: mailbox_runs.cases) (simp, blast)
  qed (blast intro: mailbox_runs.next_event)
qed

fun offered :: "'a mailbox_event list \<Rightarrow> 'a list" where
  "offered [] = []"
| "offered (Offered v # evs) = v # offered evs"
| "offered (Received v # evs) = offered evs"

fun received :: "'a mailbox_event list \<Rightarrow> 'a list" where
  "received [] = []"
| "received (Offered v # evs) = received evs"
| "received (Received v # evs) = v # received evs"

lemma offered_append [simp]: "offered (xs @ ys) = offered xs @ offered ys"
  by (induction xs rule: offered.induct) simp_all

lemma received_append [simp]: "received (xs @ ys) = received xs @ received ys"
  by (induction xs rule: received.induct) simp_all

lemma mailbox_step_effect:
  assumes "mailbox_step box ev box'"
  shows "mbCapacity box' = mbCapacity box \<and>
    (length (mbQueue box) \<le> mbCapacity box \<longrightarrow> length (mbQueue box') \<le> mbCapacity box') \<and>
    received [ev] @ mbQueue box' = mbQueue box @ offered [ev]"
  using assms
  by (cases rule: mailbox_step.cases)
    (auto simp: Mailbox_Offer_def Mailbox_receive_def split: if_splits list.splits)

lemma drain_from_all: "drain_from box result = (result @ mbQueue box, box\<lparr>mbQueue := []\<rparr>)"
proof (induction box result rule: drain_from.induct)
  case (1 box result)
  show ?case
  proof (cases "mbQueue box")
    case Nil
    then show ?thesis by (subst drain_from.simps) (simp add: Mailbox_receive_def)
  next
    case (Cons v rest)
    then have "Mailbox_receive box = Some (v, box\<lparr>mbQueue := rest\<rparr>)" by (simp add: Mailbox_receive_def)
    with "1.IH" Cons show ?thesis by (subst drain_from.simps) simp
  qed
qed

text \<open>C24: the mailbox is a bounded queue that loses nothing, repeats nothing and keeps the order,
  however offers and receives of several goroutines interleave: the accepted values are the
  received ones followed by those still waiting, never more than the capacity wait, and a drain
  that runs alone returns exactly the waiting values and leaves the mailbox empty.\<close>

theorem mailbox_fifo:
  assumes "mailbox_runs (NewMailbox capacity) evs box"
  shows "offered evs = received evs @ mbQueue box \<and> length (mbQueue box) \<le> mbCapacity box \<and>
    0 < mbCapacity box \<and> Mailbox_Drain (Some box) = (mbQueue box, Some (box\<lparr>mbQueue := []\<rparr>))"
proof -
  have "offered evs = received evs @ mbQueue box \<and> length (mbQueue box) \<le> mbCapacity box \<and>
      mbCapacity box = mbCapacity (NewMailbox capacity :: 'a Mailbox)"
    using assms
  proof (induction rule: mailbox.runs_induct)
    case start
    show ?case by (simp add: NewMailbox_def)
  next
    case (further evs b ev b')
    then show ?case using mailbox_step_effect [OF further.hyps(2)] by simp
  qed
  then show ?thesis by (simp add: NewMailbox_def DefaultMailboxCapacity_def Mailbox_Drain_def drain_from_all)
qed

theorem mailbox_fifo_witness:
  "\<exists>box. mailbox_runs (NewMailbox 1) [Offered ''a'', Received ''a'', Offered ''b''] box \<and>
     mbQueue box = [''b''] \<and> Mailbox_Drain (Some box) = ([''b''], Some (box\<lparr>mbQueue := []\<rparr>)) \<and>
     Mailbox_Offer (Some box) ''c'' = Inl MailboxFull"
proof -
  let ?box = "\<lparr>mbCapacity = 1, mbQueue = [''b'']\<rparr>"
  have run: "mailbox_runs (NewMailbox 1) [Offered ''a'', Received ''a'', Offered ''b''] ?box"
    unfolding mailbox.runs_cons mailbox.runs_nil mailbox_offer_iff mailbox_receive_iff
    by (simp add: NewMailbox_def Mailbox_Offer_def Mailbox_receive_def)
  then show ?thesis
    using mailbox_fifo [OF run] by (intro exI [of _ ?box]) (simp add: Mailbox_Offer_def)
qed

section \<open>A request is answered once\<close>







end
