(* ===== verification/TerminalEnvelope.thy ===== *)
theory TerminalEnvelope
  imports FactStore
begin

text \<open>
  The terminal transaction record (\<open>measurement.go\<close>, \<open>terminal_envelope.go\<close>): the frozen
  measurement of a turn, the envelope that carries everything a terminal commit persists, its
  validation, and the memory store's commit, recovery and outbox.

  JSON encoding is the standard library's: encoders and the decoded copy of an envelope are
  parameters, collected in a record. The execution receipt is modelled by the fields that the
  envelope is checked against; the other fields travel with it unread.
\<close>

section \<open>Measurement\<close>

definition TerminalMeasurementVersion :: u32 where
  "TerminalMeasurementVersion = 1"

record DurationMeasurement =
  dmRecorded :: bool
  dmMilliseconds :: int

record TerminalLatencyMeasurement =
  tlTurn :: DurationMeasurement
  tlFirstOutput :: DurationMeasurement
  tlProvider :: DurationMeasurement
  tlTool :: DurationMeasurement
  tlApprovalWait :: DurationMeasurement
  tlVerification :: DurationMeasurement
  tlPersistence :: DurationMeasurement

text \<open>The zero time is \<open>0\<close>; times are compared and passed on, never computed with.\<close>

record TerminalMeasurementSnapshot =
  tmVersion :: u32
  tmFrozenAt :: go_time
  tmLatency :: TerminalLatencyMeasurement
  tmUsage :: UsageState
  tmUsageRecorded :: bool
  tmUsageDigest :: string
  tmDigest :: string

text \<open>The encoders that the digests use.\<close>

record measurement_codec =
  marshal_usage :: "UsageState \<Rightarrow> bool \<Rightarrow> go_error + string"
  marshal_measurement :: "TerminalMeasurementSnapshot \<Rightarrow> go_error + string"

definition digest_of :: "'z codec_scheme \<Rightarrow> go_error + string \<Rightarrow> go_error + string" where
  "digest_of c encoded = bind_result encoded (\<lambda>data. Inr (''sha256:'' @ sha256_hex c data))"

definition terminalUsageDigest ::
  "'z codec_scheme \<Rightarrow> 'm measurement_codec_scheme \<Rightarrow> UsageState \<Rightarrow> bool \<Rightarrow> go_error + string" where
  "terminalUsageDigest c m usage recorded = digest_of c (marshal_usage m usage recorded)"

definition terminalMeasurementDigest ::
  "'z codec_scheme \<Rightarrow> 'm measurement_codec_scheme \<Rightarrow> TerminalMeasurementSnapshot \<Rightarrow> go_error + string" where
  "terminalMeasurementDigest c m snapshot = digest_of c (marshal_measurement m (snapshot\<lparr>tmDigest := []\<rparr>))"

text \<open>The durations are checked in the order of a Go map, which is any order; the model takes the
  order of the source. Whether some duration is refused does not depend on it.\<close>

definition duration_error :: "string \<times> DurationMeasurement \<Rightarrow> go_error option" where
  "duration_error entry = (case entry of (name, value) \<Rightarrow> first_error
     [require (\<not> dmMilliseconds value < 0)
        (ErrorF ''terminal measurement %s duration is negative'' [ArgS name]),
      require (\<not> (\<not> dmRecorded value \<and> dmMilliseconds value \<noteq> 0))
        (ErrorF ''terminal measurement %s is unrecorded with a value'' [ArgS name])])"

definition latency_entries :: "TerminalLatencyMeasurement \<Rightarrow> (string \<times> DurationMeasurement) list" where
  "latency_entries l =
     [(''turn'', tlTurn l), (''first_output'', tlFirstOutput l), (''provider'', tlProvider l),
      (''tool'', tlTool l), (''approval_wait'', tlApprovalWait l),
      (''verification'', tlVerification l), (''persistence'', tlPersistence l)]"

text \<open>Compare a recorded digest with the computed one.\<close>

definition digest_error :: "go_error + string \<Rightarrow> string \<Rightarrow> go_error \<Rightarrow> go_error option" where
  "digest_error expected actual mismatch =
     (case expected of Inl err \<Rightarrow> Some err | Inr digest \<Rightarrow> require (actual = digest) mismatch)"

definition ValidateTerminalMeasurement ::
  "'z codec_scheme \<Rightarrow> 'm measurement_codec_scheme \<Rightarrow> TerminalMeasurementSnapshot \<Rightarrow> go_error option" where
  "ValidateTerminalMeasurement c m snapshot = first_error
     ([require (tmVersion snapshot = TerminalMeasurementVersion)
         (ErrorF ''terminal measurement version must be %d'' [ArgN 1]),
       require (tmFrozenAt snapshot \<noteq> 0)
         (ErrorNew ''terminal measurement frozen_at is required'')] @
      map duration_error (latency_entries (tmLatency snapshot)) @
      [require (\<not> (tmUsageRecorded snapshot \<and> \<not> usFrozen (tmUsage snapshot)))
         (ErrorNew ''terminal measurement usage is not frozen''),
       digest_error (terminalUsageDigest c m (tmUsage snapshot) (tmUsageRecorded snapshot))
         (tmUsageDigest snapshot) (ErrorNew ''terminal measurement usage digest mismatch''),
       digest_error (terminalMeasurementDigest c m snapshot)
         (tmDigest snapshot) (ErrorNew ''terminal measurement digest mismatch'')])"

definition zero_latency :: TerminalLatencyMeasurement where
  "zero_latency = (let z = \<lparr>dmRecorded = False, dmMilliseconds = 0\<rparr> in
     \<lparr>tlTurn = z, tlFirstOutput = z, tlProvider = z, tlTool = z, tlApprovalWait = z,
      tlVerification = z, tlPersistence = z\<rparr>)"

definition NewTerminalMeasurementSnapshot ::
  "'z codec_scheme \<Rightarrow> 'm measurement_codec_scheme \<Rightarrow> go_time \<Rightarrow> TerminalLatencyMeasurement option \<Rightarrow>
     UsageState \<Rightarrow> bool \<Rightarrow> go_error + TerminalMeasurementSnapshot" where
  "NewTerminalMeasurementSnapshot c m frozenAt latency usage usageRecorded =
     (let snapshot = \<lparr>tmVersion = TerminalMeasurementVersion, tmFrozenAt = frozenAt,
            tmLatency = (case latency of None \<Rightarrow> zero_latency | Some l \<Rightarrow> l), tmUsage = usage,
            tmUsageRecorded = usageRecorded, tmUsageDigest = [], tmDigest = []\<rparr> in
      bind_result (terminalUsageDigest c m usage usageRecorded)
     (\<lambda>usageDigest. let snapshot1 = snapshot\<lparr>tmUsageDigest := usageDigest\<rparr> in
      bind_result (terminalMeasurementDigest c m snapshot1)
     (\<lambda>digest. let snapshot2 = snapshot1\<lparr>tmDigest := digest\<rparr> in
      guard_error (ValidateTerminalMeasurement c m snapshot2) (Inr snapshot2))))"

definition Measurement_Recorded :: "TerminalMeasurementSnapshot \<Rightarrow> bool" where
  "Measurement_Recorded s \<longleftrightarrow> dmRecorded (tlTurn (tmLatency s)) \<and> tmUsageRecorded s"

section \<open>The envelope\<close>

record 'rest ExecutionReceiptData =
  erInputTokens :: u64
  erOutputTokens :: u64
  erReasoningTokens :: u64
  erCachedTokens :: u64
  erCostMicrounits :: u64
  erCostKnown :: bool
  erMeasurementRecorded :: bool
  erMeasurementDigest :: string
  erUsageDigest :: string
  erRest :: 'rest

record OperationCommitFact =
  ocOperationID :: string
  ocStatus :: string
  ocReceipt :: string

record ProjectionOutboxEntry =
  obID :: string
  obEventID :: string
  obOperationID :: string
  obThreadID :: string
  obTurnID :: string
  obItemID :: string
  obKind :: string
  obPayload :: string

record 'rest TerminalEnvelope =
  teTurnID :: string
  teEffectID :: string
  teFrozenState :: State
  teDomainFacts :: "DomainFact list"
  teMeasurement :: TerminalMeasurementSnapshot
  teReceipt :: "'rest ExecutionReceiptData option"
  teSessionDelta :: string
  teFinalOutput :: "string list"
  teTerminalEvent :: Event
  teOperationCommit :: OperationCommitFact
  teOutbox :: "ProjectionOutboxEntry list"

record TerminalCommitMarker =
  mkTurnID :: string
  mkEffectID :: string
  mkDigest :: string
  mkCommittedAt :: go_time

record 'rest envelope_codec = measurement_codec +
  marshal_envelope :: "'rest TerminalEnvelope \<Rightarrow> go_error + string"
  copy_envelope :: "'rest TerminalEnvelope \<Rightarrow> 'rest TerminalEnvelope"
  marshal_fact :: "DomainFact \<Rightarrow> string"

text \<open>The checks of the receipt against the measurement.\<close>

definition receipt_error :: "'rest TerminalEnvelope \<Rightarrow> 'rest ExecutionReceiptData \<Rightarrow> go_error option" where
  "receipt_error envelope receipt =
     (let m = teMeasurement envelope; usage = tmUsage m in first_error
       [require (erMeasurementDigest receipt = tmDigest m \<and> erUsageDigest receipt = tmUsageDigest m \<and>
           erMeasurementRecorded receipt = Measurement_Recorded m)
          (ErrorNew ''terminal envelope receipt disagrees with measurement''),
        require (tmUsageRecorded m \<longrightarrow>
           erInputTokens receipt = usInputTokens usage \<and> erOutputTokens receipt = usOutputTokens usage \<and>
           erReasoningTokens receipt = usReasoningTokens usage \<and>
           erCachedTokens receipt = usCachedTokens usage \<and>
           erCostMicrounits receipt = usCostMicrounits usage \<and> erCostKnown receipt = usCostKnown usage)
          (ErrorNew ''terminal envelope receipt usage disagrees with measurement'')])"

definition envelope_fact_error :: "string \<Rightarrow> u64 \<Rightarrow> nat \<Rightarrow> DomainFact \<Rightarrow> go_error option" where
  "envelope_fact_error turnID from index f =
     require (dfTurnID f = turnID \<and> dfSequence f = from + of_nat index \<and> dfCommand f \<noteq> [] \<and>
              dfStateDigest f \<noteq> [])
       (ErrorF ''invalid domain fact at index %d'' [ArgN index])"

definition outbox_entry_ok :: "string \<Rightarrow> ProjectionOutboxEntry \<Rightarrow> bool" where
  "outbox_entry_ok turnID entry \<longleftrightarrow>
     obID entry \<noteq> [] \<and> obKind entry \<noteq> [] \<and> obPayload entry \<noteq> [] \<and> obEventID entry \<noteq> [] \<and>
     obOperationID entry \<noteq> [] \<and> obThreadID entry \<noteq> [] \<and> obTurnID entry = turnID \<and>
     obItemID entry \<noteq> []"

fun outbox_error :: "string \<Rightarrow> string set \<Rightarrow> ProjectionOutboxEntry list \<Rightarrow> go_error option" where
  "outbox_error turnID seen [] = None"
| "outbox_error turnID seen (entry # entries) =
     (if \<not> outbox_entry_ok turnID entry \<or> obID entry \<in> seen
      then Some (ErrorNew ''terminal envelope outbox is invalid'')
      else outbox_error turnID (insert (obID entry) seen) entries)"

text \<open>The formatted values of the mismatch message of the terminal event are left out.\<close>

definition validateTerminalEnvelope ::
  "'z codec_scheme \<Rightarrow> ('rest, 'm) envelope_codec_scheme \<Rightarrow> 'rest TerminalEnvelope \<Rightarrow>
     go_error + string" where
  "validateTerminalEnvelope c m envelope =
     guard_error (first_error
       [require (\<not> (blank (teTurnID envelope) \<or> blank (teEffectID envelope)))
          (ErrorNew ''terminal envelope identity is incomplete''),
        map_option (ErrorWrap ''terminal envelope state: %w'' []) (Validate c (teFrozenState envelope)),
        require (Phase_Terminal (stPhase (teFrozenState envelope)) \<and>
            stTerminal (teFrozenState envelope) \<noteq> None)
          (ErrorNew ''terminal envelope state is not terminal''),
        require (teReceipt envelope \<noteq> None) (ErrorNew ''terminal envelope receipt is missing''),
        map_option (ErrorWrap ''terminal envelope measurement: %w'' [])
          (ValidateTerminalMeasurement c m (teMeasurement envelope)),
        (case teReceipt envelope of None \<Rightarrow> None | Some receipt \<Rightarrow> receipt_error envelope receipt),
        require (teSessionDelta envelope = [] \<or> json_valid c (teSessionDelta envelope))
          (ErrorNew ''terminal envelope session delta is invalid''),
        require (ocOperationID (teOperationCommit envelope) \<noteq> [] \<and>
            ocStatus (teOperationCommit envelope) = ''committed'')
          (ErrorNew ''terminal envelope operation commit is invalid''),
        require (evKind (teTerminalEvent envelope) = EventTerminalCommitted \<and>
            evTerminal (teTerminalEvent envelope) \<noteq> None \<and>
            evTerminal (teTerminalEvent envelope) = stTerminal (teFrozenState envelope))
          (ErrorNew ''terminal envelope event disagrees with frozen state''),
        require (teFinalOutput envelope = stFinalOutput (teFrozenState envelope))
          (ErrorNew ''terminal envelope output disagrees with frozen state''),
        require (teDomainFacts envelope \<noteq> []) (ErrorNew ''terminal envelope has no domain facts''),
        (if teDomainFacts envelope = [] then None
         else require (dfSequence (hd (teDomainFacts envelope)) \<noteq> 0)
           (ErrorNew ''domain fact sequence is invalid'')),
        (if teDomainFacts envelope = [] then None
         else index_error (envelope_fact_error (teTurnID envelope) (dfSequence (hd (teDomainFacts envelope))))
           (teDomainFacts envelope)),
        outbox_error (teTurnID envelope) {} (teOutbox envelope)])
     (digest_of c (marshal_envelope m envelope))"

section \<open>The memory store\<close>

datatype TerminalEnvelopeStage =
    StageDomainFacts | StageMeasurement | StageReceipt | StageSessionDelta | StageFinalOutput
  | StageTerminalEvent | StageOperationCommit | StageOutbox | StageCommitMarker

datatype envelope_error =
    ErrTerminalEnvelopeConflict
  | ErrTerminalEnvelopeMissing
  | EnvelopeError go_error
  | StageFailed TerminalEnvelopeStage go_error

type_synonym 'rest envelope_store =
  "('rest TerminalEnvelope, TerminalCommitMarker) MemoryTerminalEnvelopeStore"

definition commit_stages :: "TerminalEnvelopeStage list" where
  "commit_stages = [StageDomainFacts, StageMeasurement, StageReceipt, StageSessionDelta,
     StageFinalOutput, StageTerminalEvent, StageOperationCommit, StageOutbox, StageCommitMarker]"

text \<open>The first stage at which the injected fault strikes; no injector injects nothing.\<close>

fun inject_error ::
  "(TerminalEnvelopeStage \<Rightarrow> go_error option) \<Rightarrow> TerminalEnvelopeStage list \<Rightarrow> envelope_error option" where
  "inject_error inject [] = None"
| "inject_error inject (stage # stages) =
     (case inject stage of Some err \<Rightarrow> Some (StageFailed stage err) | None \<Rightarrow> inject_error inject stages)"

text \<open>The facts of the envelope continue the facts of the store.\<close>

definition continues_facts ::
  "('rest, 'm) envelope_codec_scheme \<Rightarrow> DomainFact list \<Rightarrow> DomainFact list \<Rightarrow> bool" where
  "continues_facts m existing facts \<longleftrightarrow>
     length existing \<le> length facts \<and>
     map (marshal_fact m) existing = map (marshal_fact m) (take (length existing) facts)"

definition CommitTerminal ::
  "'z codec_scheme \<Rightarrow> ('rest, 'm) envelope_codec_scheme \<Rightarrow>
     (TerminalEnvelopeStage \<Rightarrow> go_error option) \<Rightarrow> go_time \<Rightarrow> 'rest envelope_store \<Rightarrow>
     'rest TerminalEnvelope \<Rightarrow> envelope_error + TerminalCommitMarker \<times> 'rest envelope_store" where
  "CommitTerminal c m inject now s envelope =
     (let turnID = teTurnID envelope in
      case validateTerminalEnvelope c m envelope of
        Inl err \<Rightarrow> Inl (EnvelopeError err)
      | Inr digest \<Rightarrow>
     (case fmlookup (msMarkers s) turnID of
        Some marker \<Rightarrow>
          if mkDigest marker \<noteq> digest \<or> mkEffectID marker \<noteq> teEffectID envelope
          then Inl ErrTerminalEnvelopeConflict else Inr (marker, s)
      | None \<Rightarrow>
          if \<not> continues_facts m (lookup_zero [] (msFacts s) turnID) (teDomainFacts envelope)
          then Inl ErrTerminalEnvelopeConflict
          else guard_error (inject_error inject commit_stages)
            (let marker = \<lparr>mkTurnID = turnID, mkEffectID = teEffectID envelope, mkDigest = digest,
                   mkCommittedAt = now\<rparr>
             in Inr (marker, s\<lparr>
                  msEnvelopes := fmupd turnID (copy_envelope m envelope) (msEnvelopes s),
                  msFacts := fmupd turnID (teDomainFacts envelope) (msFacts s),
                  msMarkers := fmupd turnID marker (msMarkers s),
                  msPublished := fmupd turnID {||} (msPublished s)\<rparr>))))"

definition zero_marker :: TerminalCommitMarker where
  "zero_marker = \<lparr>mkTurnID = [], mkEffectID = [], mkDigest = [], mkCommittedAt = 0\<rparr>"

definition LoadTerminal ::
  "('rest, 'm) envelope_codec_scheme \<Rightarrow> 'rest envelope_store \<Rightarrow> string \<Rightarrow>
     envelope_error + 'rest TerminalEnvelope \<times> TerminalCommitMarker" where
  "LoadTerminal m s turnID =
     (case fmlookup (msEnvelopes s) turnID of
        None \<Rightarrow> Inl ErrTerminalEnvelopeMissing
      | Some envelope \<Rightarrow> Inr (copy_envelope m envelope, lookup_zero zero_marker (msMarkers s) turnID))"

definition unpublished :: "'rest envelope_store \<Rightarrow> string \<Rightarrow> 'rest TerminalEnvelope \<Rightarrow>
     ProjectionOutboxEntry list" where
  "unpublished s turnID envelope =
     filter (\<lambda>entry. obID entry |\<notin>| lookup_zero {||} (msPublished s) turnID) (teOutbox envelope)"

definition PendingOutbox ::
  "'rest envelope_store \<Rightarrow> string \<Rightarrow> envelope_error + ProjectionOutboxEntry list" where
  "PendingOutbox s turnID =
     (case fmlookup (msEnvelopes s) turnID of
        None \<Rightarrow> Inl ErrTerminalEnvelopeMissing
      | Some envelope \<Rightarrow> Inr (unpublished s turnID envelope))"

definition PendingTerminalProjections ::
  "('rest, 'm) envelope_codec_scheme \<Rightarrow> 'rest envelope_store \<Rightarrow>
     ('rest TerminalEnvelope \<times> ProjectionOutboxEntry list) list" where
  "PendingTerminalProjections m s =
     concat (map (\<lambda>turnID. case fmlookup (msEnvelopes s) turnID of None \<Rightarrow> []
         | Some envelope \<Rightarrow>
             let pending = unpublished s turnID envelope in
             if pending = [] then [] else [(copy_envelope m envelope, pending)])
       (sorted_keys (msEnvelopes s)))"

definition MarkOutboxPublished ::
  "'rest envelope_store \<Rightarrow> string \<Rightarrow> string list \<Rightarrow> envelope_error + 'rest envelope_store" where
  "MarkOutboxPublished s turnID entryIDs =
     (case fmlookup (msEnvelopes s) turnID of
        None \<Rightarrow> Inl ErrTerminalEnvelopeMissing
      | Some envelope \<Rightarrow>
          (case find (\<lambda>entryID. entryID \<notin> obID ` set (teOutbox envelope)) entryIDs of
             Some entryID \<Rightarrow> Inl (EnvelopeError (ErrorF ''unknown outbox entry %q'' [ArgS entryID]))
           | None \<Rightarrow> Inr (s\<lparr>msPublished := fmupd turnID
               (lookup_zero {||} (msPublished s) turnID |\<union>| fset_of_list entryIDs) (msPublished s)\<rparr>)))"

text \<open>The newest session delta of a thread. The envelopes are visited in the order of a Go map, an
  argument here; \<open>header\<close> decodes the base revision and the manifest revision.\<close>

fun latest_delta ::
  "(string \<Rightarrow> (u64 \<times> u64) option) \<Rightarrow> string \<Rightarrow> 'rest TerminalEnvelope list \<Rightarrow>
     ('rest TerminalEnvelope \<times> u64) option \<Rightarrow> string" where
  "latest_delta header threadID [] latest =
     (case latest of None \<Rightarrow> [] | Some (envelope, _) \<Rightarrow> teSessionDelta envelope)"
| "latest_delta header threadID (envelope # envelopes) latest =
     (if teSessionDelta envelope = [] then latest_delta header threadID envelopes latest
      else case header (teSessionDelta envelope) of
        None \<Rightarrow> latest_delta header threadID envelopes latest
      | Some (base, manifest) \<Rightarrow>
          let revision = (if manifest \<noteq> 0 then manifest else base) in
          if (\<exists>entry \<in> set (teOutbox envelope). obThreadID entry = threadID) \<and>
             (case latest of None \<Rightarrow> True | Some (_, r) \<Rightarrow> r < revision)
          then latest_delta header threadID envelopes (Some (envelope, revision))
          else latest_delta header threadID envelopes latest)"

definition LatestSessionDelta ::
  "(string \<Rightarrow> (u64 \<times> u64) option) \<Rightarrow> string list \<Rightarrow> 'rest envelope_store \<Rightarrow> string \<Rightarrow> string" where
  "LatestSessionDelta header order s threadID =
     latest_delta header threadID (List.map_filter (fmlookup (msEnvelopes s)) order) None"

definition HasTerminalFacts :: "'st fact_store_ops \<Rightarrow> 'st \<Rightarrow> string \<Rightarrow> bool" where
  "HasTerminalFacts ops st turnID \<longleftrightarrow> turnID \<noteq> [] \<and>
     (case soLoad ops st turnID of Inl _ \<Rightarrow> False
      | Inr facts \<Rightarrow> facts \<noteq> [] \<and> Phase_Terminal (stPhase (dfState (last facts))))"

end
