(* ===== verification/TerminalCommit.thy ===== *)
theory TerminalCommit
  imports TerminalEnvelope Durability
begin

text \<open>
  What the terminal commit of the memory store guarantees: it seals the turn, it is all or
  nothing, it continues the durable log, and its outbox is handed out until it is published.
\<close>

section \<open>The terminal commit\<close>

lemma CommitTerminal_Inr:
  assumes "CommitTerminal c m inject now s envelope = Inr (marker, s')"
  obtains (replay) digest where "validateTerminalEnvelope c m envelope = Inr digest" "s' = s"
      "fmlookup (msMarkers s) (teTurnID envelope) = Some marker" "mkDigest marker = digest"
      "mkEffectID marker = teEffectID envelope"
  | (fresh) digest where "validateTerminalEnvelope c m envelope = Inr digest"
      "fmlookup (msMarkers s) (teTurnID envelope) = None"
      "continues_facts m (lookup_zero [] (msFacts s) (teTurnID envelope)) (teDomainFacts envelope)"
      "inject_error inject commit_stages = None"
      "marker = \<lparr>mkTurnID = teTurnID envelope, mkEffectID = teEffectID envelope, mkDigest = digest,
                   mkCommittedAt = now\<rparr>"
      "s' = s\<lparr>msEnvelopes := fmupd (teTurnID envelope) (copy_envelope m envelope) (msEnvelopes s),
              msFacts := fmupd (teTurnID envelope) (teDomainFacts envelope) (msFacts s),
              msMarkers := fmupd (teTurnID envelope) marker (msMarkers s),
              msPublished := fmupd (teTurnID envelope) {||} (msPublished s)\<rparr>"
  using assms by (auto simp: CommitTerminal_def Let_def split: sum.splits option.splits if_splits)

text \<open>C26: a terminal commit seals the turn. After a commit is accepted the store holds its marker
  with the digest and the effect of the envelope; committing the same envelope again, at any later
  time and with any injected fault, gives the same marker and changes nothing; an envelope of the
  same turn with another digest or another effect is refused as a conflict; and the log of the
  turn accepts no further facts.\<close>

theorem terminal_commit_seals:
  assumes "CommitTerminal c m inject now s envelope = Inr (marker, s')"
  shows "fmlookup (msMarkers s') (teTurnID envelope) = Some marker \<and>
    validateTerminalEnvelope c m envelope = Inr (mkDigest marker) \<and>
    mkEffectID marker = teEffectID envelope \<and>
    CommitTerminal c m inject' now' s' envelope = Inr (marker, s') \<and>
    (teTurnID other = teTurnID envelope \<longrightarrow> validateTerminalEnvelope c m other = Inr digest \<longrightarrow>
       digest \<noteq> mkDigest marker \<or> teEffectID other \<noteq> mkEffectID marker \<longrightarrow>
       CommitTerminal c m inject' now' s' other = Inl ErrTerminalEnvelopeConflict) \<and>
    (\<exists>err. AppendDomainFacts c' marshal s' (teTurnID envelope) n facts = Inl err)"
proof -
  have marked: "fmlookup (msMarkers s') (teTurnID envelope) = Some marker"
    and digest: "validateTerminalEnvelope c m envelope = Inr (mkDigest marker)"
    and effect: "mkEffectID marker = teEffectID envelope"
    using assms by (rule CommitTerminal_Inr; simp)+
  have "AppendDomainFacts c' marshal s' (teTurnID envelope) n facts \<noteq> Inr st" for st
    using marked by (simp add: AppendDomainFacts_eq_Inr)
  then have "\<exists>err. AppendDomainFacts c' marshal s' (teTurnID envelope) n facts = Inl err"
    by (cases "AppendDomainFacts c' marshal s' (teTurnID envelope) n facts") auto
  then show ?thesis
    using marked digest effect by (auto simp: CommitTerminal_def)
qed


section \<open>The outbox\<close>

text \<open>C28: an outbox entry is handed out until it is marked as published, and not again. Marking
  entries takes exactly them out of what is pending, in the order of the rest, leaves the outboxes
  of other turns alone and can be repeated without effect; naming an entry the envelope does not
  have refuses the whole request.\<close>

theorem outbox_marks_published:
  assumes "PendingOutbox s turnID = Inr pending"
  shows "(MarkOutboxPublished s turnID entryIDs = Inr s' \<longrightarrow>
      PendingOutbox s' turnID = Inr (filter (\<lambda>entry. obID entry \<notin> set entryIDs) pending) \<and>
      (other \<noteq> turnID \<longrightarrow> PendingOutbox s' other = PendingOutbox s other) \<and>
      MarkOutboxPublished s' turnID entryIDs = Inr s') \<and>
    (\<forall>envelope entryID. fmlookup (msEnvelopes s) turnID = Some envelope \<longrightarrow> entryID \<in> set entryIDs \<longrightarrow>
       entryID \<notin> obID ` set (teOutbox envelope) \<longrightarrow>
       (\<exists>err. MarkOutboxPublished s turnID entryIDs = Inl err))"
proof (intro conjI allI impI)
  obtain envelope where env: "fmlookup (msEnvelopes s) turnID = Some envelope"
    "pending = unpublished s turnID envelope"
    using assms by (auto simp: PendingOutbox_def split: option.splits)
  { assume "MarkOutboxPublished s turnID entryIDs = Inr s'"
    then have known: "find (\<lambda>entryID. entryID \<notin> obID ` set (teOutbox envelope)) entryIDs = None"
      and s': "s' = s\<lparr>msPublished := fmupd turnID
         (lookup_zero {||} (msPublished s) turnID |\<union>| fset_of_list entryIDs) (msPublished s)\<rparr>"
      using env(1) by (auto simp: MarkOutboxPublished_def split: option.splits)
    show "PendingOutbox s' turnID = Inr (filter (\<lambda>entry. obID entry \<notin> set entryIDs) pending)"
      by (auto simp: PendingOutbox_def env s' unpublished_def fset_of_list_elem intro: filter_cong)
    show "PendingOutbox s' other = PendingOutbox s other" if "other \<noteq> turnID"
      using that by (simp add: PendingOutbox_def s' unpublished_def lookup_zero_def split: option.split)
    have "fmupd turnID v (fmupd turnID v (msPublished s)) = fmupd turnID v (msPublished s)" for v
      by (rule fmap_ext) simp
    then show "MarkOutboxPublished s' turnID entryIDs = Inr s'"
      using known env(1) by (simp add: MarkOutboxPublished_def s' ac_simps) }
  fix envelope' entryID
  assume "fmlookup (msEnvelopes s) turnID = Some envelope'" "entryID \<in> set entryIDs"
    "entryID \<notin> obID ` set (teOutbox envelope')"
  then have "find (\<lambda>entryID. entryID \<notin> obID ` set (teOutbox envelope')) entryIDs \<noteq> None"
    by (auto simp: find_None_iff)
  then show "\<exists>err. MarkOutboxPublished s turnID entryIDs = Inl err"
    using \<open>fmlookup (msEnvelopes s) turnID = Some envelope'\<close>
    by (auto simp: MarkOutboxPublished_def split: option.splits)
qed

section \<open>The example turn is committed\<close>

definition text_envelopes :: "unit envelope_codec" where
  "text_envelopes = \<lparr>marshal_usage = (\<lambda>_ _. Inr ''u''), marshal_measurement = (\<lambda>_. Inr ''m''),
     marshal_envelope = (\<lambda>e. Inr (ocOperationID (teOperationCommit e))), copy_envelope = (\<lambda>e. e),
     marshal_fact = dfCommand\<rparr>"

definition demo_measurement :: TerminalMeasurementSnapshot where
  "demo_measurement = \<lparr>tmVersion = 1, tmFrozenAt = 1, tmLatency = zero_latency,
     tmUsage = zero_UsageState, tmUsageRecorded = False, tmUsageDigest = ''sha256:u'',
     tmDigest = ''sha256:m''\<rparr>"

definition demo_receipt :: "unit ExecutionReceiptData" where
  "demo_receipt = \<lparr>erInputTokens = 0, erOutputTokens = 0, erReasoningTokens = 0, erCachedTokens = 0,
     erCostMicrounits = 0, erCostKnown = False, erMeasurementRecorded = False,
     erMeasurementDigest = ''sha256:m'', erUsageDigest = ''sha256:u'', erRest = ()\<rparr>"

definition demo_projection :: ProjectionOutboxEntry where
  "demo_projection = \<lparr>obID = ''o1'', obEventID = ''e1'', obOperationID = ''op1'', obThreadID = ''th1'',
     obTurnID = ''t1'', obItemID = ''i1'', obKind = ''turn.completed'', obPayload = ''{}''\<rparr>"

definition demo_fact :: DomainFact where
  "demo_fact = \<lparr>dfTurnID = ''t1'', dfSequence = 1, dfCommand = ''finish_terminal'', dfEvent = None,
     dfState = demo16 zero_WorkItem, dfStateDigest = ''sha256:{}''\<rparr>"

definition demo_envelope :: "string \<Rightarrow> unit TerminalEnvelope" where
  "demo_envelope op = \<lparr>teTurnID = ''t1'', teEffectID = effect_id 4, teFrozenState = demo16 zero_WorkItem,
     teDomainFacts = [demo_fact], teMeasurement = demo_measurement, teReceipt = Some demo_receipt,
     teSessionDelta = [], teFinalOutput = [''done''],
     teTerminalEvent = (plain_event EventTerminalCommitted)\<lparr>evTerminal := Some demo_decision\<rparr>,
     teOperationCommit = \<lparr>ocOperationID = op, ocStatus = ''committed'', ocReceipt = []\<rparr>,
     teOutbox = [demo_projection]\<rparr>"

lemma demo_envelope_valid:
  assumes "op \<noteq> []"
  shows "validateTerminalEnvelope text_codec text_envelopes (demo_envelope op) = Inr (''sha256:'' @ op)"
proof -
  have "ValidateTerminalMeasurement text_codec text_envelopes demo_measurement = None"
    by (simp add: ValidateTerminalMeasurement_def demo_measurement_def TerminalMeasurementVersion_def
        latency_entries_def zero_latency_def duration_error_def digest_error_def Let_def
        terminalUsageDigest_def terminalMeasurementDigest_def digest_of_def text_envelopes_def text_codec_def)
  moreover have "Phase_Terminal (stPhase (demo16 zero_WorkItem))"
    "stTerminal (demo16 zero_WorkItem) = Some demo_decision"
    "stFinalOutput (demo16 zero_WorkItem) = [''done'']" by (simp_all add: demo16_def)
  ultimately show ?thesis
    using assms demo_valid16 [of zero_WorkItem] demo_new(2)
    by (simp add: validateTerminalEnvelope_def demo_envelope_def receipt_error_def demo_receipt_def
        demo_measurement_def Measurement_Recorded_def zero_latency_def Let_def index_error_None
        envelope_fact_error_def demo_fact_def outbox_entry_ok_def demo_projection_def digest_of_def
        text_envelopes_def text_codec_def plain_event_def)
qed

definition demo_marker :: TerminalCommitMarker where
  "demo_marker = \<lparr>mkTurnID = ''t1'', mkEffectID = effect_id 4, mkDigest = ''sha256:op1'', mkCommittedAt = 7\<rparr>"

definition demo_committed :: "unit envelope_store" where
  "demo_committed = \<lparr>msFacts = fmupd ''t1'' [demo_fact] fmempty,
     msEnvelopes = fmupd ''t1'' (demo_envelope ''op1'') fmempty,
     msMarkers = fmupd ''t1'' demo_marker fmempty, msPublished = fmupd ''t1'' {||} fmempty\<rparr>"

lemma demo_commit:
  "CommitTerminal text_codec text_envelopes (\<lambda>_. None) 7 NewMemoryTerminalEnvelopeStore
     (demo_envelope ''op1'') = Inr (demo_marker, demo_committed)"
proof -
  have "inject_error (\<lambda>_. None) stages = None" for stages by (induction stages) simp_all
  moreover have "teTurnID (demo_envelope ''op1'') = ''t1''" "teEffectID (demo_envelope ''op1'') = effect_id 4"
    "teDomainFacts (demo_envelope ''op1'') = [demo_fact]" "copy_envelope text_envelopes e = e" for e
    by (simp_all add: demo_envelope_def text_envelopes_def)
  ultimately show ?thesis
    by (simp add: CommitTerminal_def demo_envelope_valid NewMemoryTerminalEnvelopeStore_def
        continues_facts_def demo_marker_def demo_committed_def Let_def)
qed

theorem terminal_commit_seals_witness:
  "CommitTerminal text_codec text_envelopes (\<lambda>_. Some (ErrorNew ''disk'')) 9 demo_committed
     (demo_envelope ''op1'') = Inr (demo_marker, demo_committed) \<and>
   CommitTerminal text_codec text_envelopes (\<lambda>_. Some (ErrorNew ''disk'')) 9 demo_committed
     (demo_envelope ''op2'') = Inl ErrTerminalEnvelopeConflict"
proof -
  have "teTurnID (demo_envelope op) = ''t1''" for op by (simp add: demo_envelope_def)
  moreover have "mkDigest demo_marker \<noteq> ''sha256:op2''" by (simp add: demo_marker_def)
  ultimately show ?thesis
    using terminal_commit_seals [OF demo_commit, of "\<lambda>_. Some (ErrorNew ''disk'')" 9 "demo_envelope ''op2''"
        "''sha256:op2''" text_codec text_marshal 0 "[]"] demo_envelope_valid [of "''op2''"] by auto
qed


theorem outbox_marks_published_witness:
  "(\<exists>s. MarkOutboxPublished demo_committed ''t1'' [''o1''] = Inr s \<and> PendingOutbox s ''t1'' = Inr []) \<and>
   (\<exists>err. MarkOutboxPublished demo_committed ''t1'' [''o2''] = Inl err)"
proof -
  have pending: "PendingOutbox demo_committed ''t1'' = Inr [demo_projection]"
    by (simp add: PendingOutbox_def demo_committed_def demo_envelope_def unpublished_def)
  obtain s where mark: "MarkOutboxPublished demo_committed ''t1'' [''o1''] = Inr s"
    by (simp add: MarkOutboxPublished_def demo_committed_def demo_envelope_def demo_projection_def)
  have env: "fmlookup (msEnvelopes demo_committed) ''t1'' = Some (demo_envelope ''op1'')"
    "obID ` set (teOutbox (demo_envelope ''op1'')) = {''o1''}"
    by (simp_all add: demo_committed_def demo_envelope_def demo_projection_def)
  show ?thesis
    using outbox_marks_published [OF pending, of "[''o1'']" s] mark
      outbox_marks_published [OF pending, of "[''o2'']" s] env
    by (auto simp: demo_projection_def)
qed

end
