(* ===== verification/TextDiff.thy ===== *)
theory TextDiff
  imports Prelude
begin

text \<open>
  The line diff of \<open>src/internal/platform/textdiff/textdiff.go\<close>, which previews, receipts and
  the turn's change statistics share: splitting into lines, the edit script with its trimmed
  common prefix and suffix and its longest-common-subsequence table, the grouping into hunks
  and the unified rendering. The table keeps the 32-bit cells of the source; lengths, indices
  and counts, which are lengths of slices in memory, are natural numbers.
\<close>

section \<open>Contents and lines\<close>

abbreviation newline :: char where "newline \<equiv> CHR 0x0A"

record Content =
  Data :: string
  Missing :: bool

record Stats =
  Added :: nat
  Removed :: nat

datatype diff_error = ErrBinary

definition Text :: "string \<Rightarrow> Content" where
  "Text data = \<lparr>Data = data, Missing = False\<rparr>"

definition Absent :: Content where
  "Absent = \<lparr>Data = [], Missing = True\<rparr>"

definition rejectBinary :: "Content \<Rightarrow> Content \<Rightarrow> diff_error option" where
  "rejectBinary earlier later =
     first_error (map (\<lambda>content. require (Missing content \<or> CHR 0x00 \<notin> set (Data content)) ErrBinary)
       [earlier, later])"

definition side :: "string \<Rightarrow> string \<Rightarrow> bool \<Rightarrow> string" where
  "side mark path missing = (if missing then ''/dev/null'' else mark @ path)"

text \<open>A line keeps its terminator; empty content has no lines.\<close>

function (sequential) splitLines :: "string \<Rightarrow> string list" where
  "splitLines [] = []"
| "splitLines text =
     (if newline \<notin> set text then [text]
      else (takeWhile (\<lambda>c. c \<noteq> newline) text @ [newline]) #
        splitLines (tl (dropWhile (\<lambda>c. c \<noteq> newline) text)))"
  by pat_completeness auto
termination
proof (relation "measure length", goal_cases)
  case (2 v va)
  have "length (dropWhile (\<lambda>c. c \<noteq> newline) (v # va)) \<le> length (v # va)"
    by (rule length_dropWhile_le)
  moreover have "dropWhile (\<lambda>c. c \<noteq> newline) (v # va) \<noteq> []"
    using 2 by auto
  ultimately show ?case by (auto simp: neq_Nil_conv)
qed simp

section \<open>Edit scripts\<close>

datatype opKind = opEqual | opRemove | opAdd

record edit_op =
  op_kind :: opKind
  op_before :: int
  op_after :: int

definition equal_op :: "nat \<Rightarrow> nat \<Rightarrow> edit_op" where
  "equal_op row column = \<lparr>op_kind = opEqual, op_before = int row, op_after = int column\<rparr>"

definition remove_op :: "nat \<Rightarrow> edit_op" where
  "remove_op row = \<lparr>op_kind = opRemove, op_before = int row, op_after = -1\<rparr>"

definition add_op :: "nat \<Rightarrow> edit_op" where
  "add_op column = \<lparr>op_kind = opAdd, op_before = -1, op_after = int column\<rparr>"

lemmas op_defs = equal_op_def remove_op_def add_op_def

fun countStats :: "edit_op list \<Rightarrow> Stats" where
  "countStats [] = \<lparr>Added = 0, Removed = 0\<rparr>"
| "countStats (item # script) =
     (let stats = countStats script in
      case op_kind item of
        opAdd \<Rightarrow> stats\<lparr>Added := Added stats + 1\<rparr>
      | opRemove \<Rightarrow> stats\<lparr>Removed := Removed stats + 1\<rparr>
      | opEqual \<Rightarrow> stats)"

definition maxCells :: nat where
  "maxCells = 4 * 2 ^ 20"

definition replaceAll :: "string list \<Rightarrow> string list \<Rightarrow> nat \<Rightarrow> edit_op list" where
  "replaceAll earlier later offset =
     map (\<lambda>index. remove_op (offset + index)) [0..<length earlier] @
     map (\<lambda>index. add_op (offset + index)) [0..<length later]"

text \<open>
  The table of \<open>lcsScript\<close>: one flat slice of \<open>int32\<close> cells, \<open>columns\<close> to a row, filled from
  the last row and column upwards. \<open>fill_row\<close> and \<open>fill_table\<close> are its two loops, counting
  down from the number of columns and rows still to fill.
\<close>

definition max_int32 :: "u32 \<Rightarrow> u32 \<Rightarrow> u32" where
  "max_int32 x y = (if x <s y then y else x)"

fun fill_row :: "string list \<Rightarrow> string list \<Rightarrow> nat \<Rightarrow> nat \<Rightarrow> u32 list \<Rightarrow> u32 list" where
  "fill_row earlier later row 0 table = table"
| "fill_row earlier later row (Suc column) table =
     (let columns = length later + 1;
          cell = (if earlier ! row = later ! column then table ! ((row + 1) * columns + column + 1) + 1
                  else max_int32 (table ! ((row + 1) * columns + column))
                    (table ! (row * columns + column + 1)))
      in fill_row earlier later row column (table[row * columns + column := cell]))"

fun fill_table :: "string list \<Rightarrow> string list \<Rightarrow> nat \<Rightarrow> u32 list \<Rightarrow> u32 list" where
  "fill_table earlier later 0 table = table"
| "fill_table earlier later (Suc row) table =
     fill_table earlier later row (fill_row earlier later row (length later) table)"

function walk_table ::
    "string list \<Rightarrow> string list \<Rightarrow> nat \<Rightarrow> u32 list \<Rightarrow> nat \<Rightarrow> nat \<Rightarrow> edit_op list" where
  "walk_table earlier later offset table row column =
     (let columns = length later + 1 in
      if row < length earlier \<and> column < length later then
        if earlier ! row = later ! column then
          equal_op (offset + row) (offset + column) #
            walk_table earlier later offset table (row + 1) (column + 1)
        else if table ! (row * columns + column + 1) \<le>s table ! ((row + 1) * columns + column) then
          remove_op (offset + row) # walk_table earlier later offset table (row + 1) column
        else
          add_op (offset + column) # walk_table earlier later offset table row (column + 1)
      else
        map (\<lambda>index. remove_op (offset + index)) [row..<length earlier] @
        map (\<lambda>index. add_op (offset + index)) [column..<length later])"
  by pat_completeness auto
termination
  by (relation "measure (\<lambda>(earlier, later, _, _, row, column).
        (length earlier - row) + (length later - column))") auto

declare walk_table.simps [simp del]

definition lcsScript :: "string list \<Rightarrow> string list \<Rightarrow> nat \<Rightarrow> edit_op list" where
  "lcsScript earlier later offset =
     (let cells = (length earlier + 1) * (length later + 1);
          table = fill_table earlier later (length earlier) (replicate cells 0)
      in walk_table earlier later offset table 0 0)"

definition middle :: "string list \<Rightarrow> string list \<Rightarrow> nat \<Rightarrow> edit_op list" where
  "middle earlier later offset =
     (if earlier = [] \<and> later = [] then []
      else if earlier = [] \<or> later = [] \<or> (length earlier + 1) * (length later + 1) > maxCells
      then replaceAll earlier later offset
      else lcsScript earlier later offset)"

fun common_prefix :: "string list \<Rightarrow> string list \<Rightarrow> nat" where
  "common_prefix (x # xs) (y # ys) = (if x = y then Suc (common_prefix xs ys) else 0)"
| "common_prefix _ _ = 0"

definition common_suffix :: "string list \<Rightarrow> string list \<Rightarrow> nat \<Rightarrow> nat" where
  "common_suffix earlier later trimmed =
     common_prefix (rev (drop trimmed earlier)) (rev (drop trimmed later))"

definition diffLines :: "string list \<Rightarrow> string list \<Rightarrow> edit_op list" where
  "diffLines earlier later =
     (let prefix = common_prefix earlier later;
          suffix = common_suffix earlier later prefix
      in map (\<lambda>index. equal_op index index) [0..<prefix] @
         middle (drop prefix (take (length earlier - suffix) earlier))
           (drop prefix (take (length later - suffix) later)) prefix @
         map (\<lambda>index. equal_op (length earlier - suffix + index) (length later - suffix + index))
           [0..<suffix])"

definition Count :: "Content \<Rightarrow> Content \<Rightarrow> diff_error + Stats" where
  "Count earlier later =
     guard_error (rejectBinary earlier later)
       (Inr (countStats (diffLines (splitLines (Data earlier)) (splitLines (Data later)))))"

section \<open>Hunks\<close>

text \<open>The end of the run of unchanged lines at \<open>run\<close>.\<close>

function run_end :: "edit_op list \<Rightarrow> nat \<Rightarrow> nat" where
  "run_end script run =
     (if run < length script \<and> op_kind (script ! run) = opEqual then run_end script (run + 1) else run)"
  by pat_completeness auto
termination by (relation "measure (\<lambda>(script, run). length script - run)") auto

declare run_end.simps [simp del]

lemma run_end_ge: "run \<le> run_end script run"
  by (induction script run rule: run_end.induct) (subst run_end.simps, auto)

lemma run_end_moves:
  "run < length script \<Longrightarrow> op_kind (script ! run) = opEqual \<Longrightarrow> run < run_end script run"
  using run_end_ge [of "run + 1" script] by (subst run_end.simps) simp

function hunk_end :: "edit_op list \<Rightarrow> nat \<Rightarrow> nat \<Rightarrow> nat" where
  "hunk_end script contextLines stop =
     (if stop < length script then
        if op_kind (script ! stop) \<noteq> opEqual then hunk_end script contextLines (stop + 1)
        else
          let run = run_end script stop in
          if run - stop > 2 * contextLines \<or> run = length script
          then min (stop + contextLines) (length script)
          else hunk_end script contextLines run
      else stop)"
  by pat_completeness auto
termination
  by (relation "measure (\<lambda>(script, _, stop). length script - stop)")
     (use run_end_moves in \<open>auto intro!: diff_less_mono2\<close>)

declare hunk_end.simps [simp del]

lemma hunk_end_ge: "stop \<le> hunk_end script contextLines stop"
proof (induction script contextLines stop rule: hunk_end.induct)
  case (1 script c stop)
  show ?case
    using 1 run_end_moves [of stop script] by (subst hunk_end.simps) (auto simp: Let_def)
qed

lemma hunk_end_moves:
  "stop < length script \<Longrightarrow> op_kind (script ! stop) \<noteq> opEqual \<Longrightarrow> stop < hunk_end script c stop"
  using hunk_end_ge [of "stop + 1" script c] by (subst hunk_end.simps) simp

function group :: "edit_op list \<Rightarrow> nat \<Rightarrow> nat \<Rightarrow> edit_op list list" where
  "group script contextLines index =
     (if index < length script then
        if op_kind (script ! index) = opEqual then group script contextLines (index + 1)
        else
          let start = index - contextLines; stop = hunk_end script contextLines index
          in drop start (take stop script) # group script contextLines stop
      else [])"
  by pat_completeness auto
termination
  by (relation "measure (\<lambda>(script, _, index). length script - index)")
     (use hunk_end_moves in \<open>auto intro!: diff_less_mono2\<close>)

declare group.simps [simp del]

section \<open>Rendering\<close>

fun op_byte :: "opKind \<Rightarrow> char" where
  "op_byte opEqual = CHR '' ''"
| "op_byte opRemove = CHR ''-''"
| "op_byte opAdd = CHR ''+''"

definition no_newline_marker :: string where
  "no_newline_marker = newline # CHR 0x5C # '' No newline at end of file'' @ [newline]"

definition writeLine :: "opKind \<Rightarrow> string \<Rightarrow> string" where
  "writeLine kind line =
     op_byte kind # (if line \<noteq> [] \<and> last line = newline then butlast line @ [newline]
                     else line @ no_newline_marker)"

definition formatRange :: "nat \<Rightarrow> nat \<Rightarrow> string" where
  "formatRange start count =
     (if count = 0 then decimal start @ '',0''
      else if count = 1 then decimal start
      else decimal start @ '','' @ decimal count)"

text \<open>The position and length of one side of a hunk; a side with no line starts at 0.\<close>

fun hunk_range :: "(edit_op \<Rightarrow> int) \<Rightarrow> edit_op list \<Rightarrow> nat \<times> nat" where
  "hunk_range position [] = (0, 0)"
| "hunk_range position (item # ops) =
     (if position item \<ge> 0 then (nat (position item) + 1, Suc (snd (hunk_range position ops)))
      else hunk_range position ops)"

definition hunk_line :: "string list \<Rightarrow> string list \<Rightarrow> edit_op \<Rightarrow> string" where
  "hunk_line earlier later item =
     (if op_kind item = opAdd then writeLine opAdd (later ! nat (op_after item))
      else writeLine (op_kind item) (earlier ! nat (op_before item)))"

definition hunk_body :: "edit_op list \<Rightarrow> string list \<Rightarrow> string list \<Rightarrow> string" where
  "hunk_body ops earlier later = concat (map (hunk_line earlier later) ops)"

definition writeHunk :: "edit_op list \<Rightarrow> string list \<Rightarrow> string list \<Rightarrow> string" where
  "writeHunk ops earlier later =
     (let (beforeStart, beforeCount) = hunk_range op_before ops;
          (afterStart, afterCount) = hunk_range op_after ops
      in ''@@ -'' @ formatRange beforeStart beforeCount @ '' +'' @ formatRange afterStart afterCount @
         '' @@'' @ [newline] @ hunk_body ops earlier later)"

definition DefaultContext :: int where
  "DefaultContext = 3"

definition Unified :: "string \<Rightarrow> Content \<Rightarrow> Content \<Rightarrow> int \<Rightarrow> diff_error + string \<times> Stats" where
  "Unified path earlier later contextLines =
     guard_error (rejectBinary earlier later)
       (let context = nat (if contextLines < 0 then DefaultContext else contextLines);
            beforeLines = splitLines (Data earlier);
            afterLines = splitLines (Data later);
            script = diffLines beforeLines afterLines;
            stats = countStats script
        in if Added stats = 0 \<and> Removed stats = 0 then Inr ([], stats)
           else Inr (''--- '' @ side ''a/'' path (Missing earlier) @ [newline] @
                     ''+++ '' @ side ''b/'' path (Missing later) @ [newline] @
                     concat (map (\<lambda>hunk. writeHunk hunk beforeLines afterLines)
                       (group script context 0)), stats))"

end
