(* ===== verification/DiffScript.thy ===== *)
theory DiffScript
  imports TextDiff
begin

text \<open>
  What the edit scripts of \<open>TextDiff\<close> mean. \<open>walks\<close> says that a script walks two texts from
  one pair of positions to another, keeping, dropping or adding one line at a time; \<open>lcs\<close> is
  the recursive length of a longest common subsequence. The 32-bit table of \<open>lcsScript\<close> holds
  \<open>lcs\<close> of every pair of suffixes, so that the script the code walks out of it keeps as many
  lines as any common subsequence has.
\<close>

section \<open>Walks\<close>

fun walks :: "string list \<Rightarrow> string list \<Rightarrow> nat \<Rightarrow> nat \<Rightarrow> edit_op list \<Rightarrow> nat \<Rightarrow> nat \<Rightarrow> bool" where
  "walks earlier later i j [] i' j' \<longleftrightarrow> i' = i \<and> j' = j"
| "walks earlier later i j (item # ops) i' j' \<longleftrightarrow>
     (case op_kind item of
        opEqual \<Rightarrow> i < length earlier \<and> j < length later \<and> earlier ! i = later ! j \<and>
          op_before item = int i \<and> op_after item = int j \<and> walks earlier later (Suc i) (Suc j) ops i' j'
      | opRemove \<Rightarrow> i < length earlier \<and> op_before item = int i \<and> op_after item = -1 \<and>
          walks earlier later (Suc i) j ops i' j'
      | opAdd \<Rightarrow> j < length later \<and> op_before item = -1 \<and> op_after item = int j \<and>
          walks earlier later i (Suc j) ops i' j')"

lemma path_append:
  "walks b a i j (s @ t) i' j' \<longleftrightarrow> (\<exists>k l. walks b a i j s k l \<and> walks b a k l t i' j')"
  by (induction s arbitrary: i j) (auto split: opKind.splits)

lemma path_le: "walks b a i j s i' j' \<Longrightarrow> i \<le> i' \<and> j \<le> j'"
  by (induction s arbitrary: i j) (fastforce split: opKind.splits)+

lemma path_bounds:
  "walks b a i j s i' j' \<Longrightarrow> i \<le> length b \<Longrightarrow> j \<le> length a \<Longrightarrow> i' \<le> length b \<and> j' \<le> length a"
  by (induction s arbitrary: i j) (auto split: opKind.splits)

lemma path_equals:
  "(\<forall>k < n. i + k < length b \<and> j + k < length a \<and> b ! (i + k) = a ! (j + k)) \<Longrightarrow>
     walks b a i j (map (\<lambda>k. equal_op (i + k) (j + k)) [0..<n]) (i + n) (j + n)"
proof (induction n)
  case (Suc n)
  then show ?case by (auto simp: path_append op_defs)
qed simp

lemma path_removes:
  assumes "row \<le> n" and "offset + n \<le> length b"
  shows "walks b a (offset + row) j (map (\<lambda>k. remove_op (offset + k)) [row..<n]) (offset + n) j"
  using assms by (induction n rule: dec_induct) (auto simp: path_append op_defs)

lemma path_adds:
  assumes "column \<le> n" and "offset + n \<le> length a"
  shows "walks b a i (offset + column) (map (\<lambda>k. add_op (offset + k)) [column..<n]) i (offset + n)"
  using assms by (induction n rule: dec_induct) (auto simp: path_append op_defs)

lemma Added_append [simp]: "Added (countStats (s @ t)) = Added (countStats s) + Added (countStats t)"
  and Removed_append [simp]: "Removed (countStats (s @ t)) = Removed (countStats s) + Removed (countStats t)"
  by (induction s) (auto simp: Let_def split: opKind.splits)

lemma countStats_equals [simp]:
  "countStats (map (\<lambda>k. equal_op (f k) (g k)) ks) = \<lparr>Added = 0, Removed = 0\<rparr>"
  by (induction ks) (simp_all add: equal_op_def)

lemma countStats_removes [simp]:
  "countStats (map (\<lambda>k. remove_op (f k)) ks) = \<lparr>Added = 0, Removed = length ks\<rparr>"
  by (induction ks) (simp_all add: remove_op_def)

lemma countStats_adds [simp]:
  "countStats (map (\<lambda>k. add_op (f k)) ks) = \<lparr>Added = length ks, Removed = 0\<rparr>"
  by (induction ks) (simp_all add: add_op_def)

section \<open>Longest common subsequences\<close>

fun lcs :: "'a list \<Rightarrow> 'a list \<Rightarrow> nat" where
  "lcs [] ys = 0"
| "lcs (x # xs) [] = 0"
| "lcs (x # xs) (y # ys) =
     (if x = y then Suc (lcs xs ys) else max (lcs xs (y # ys)) (lcs (x # xs) ys))"

lemma lcs_Nil2 [simp]: "lcs xs [] = 0"
  by (cases xs) simp_all

lemma lcs_le: "lcs xs ys \<le> length xs"
  by (induction xs ys rule: lcs.induct) auto

lemma subseq_below_lcs: "subseq zs xs \<Longrightarrow> subseq zs ys \<Longrightarrow> length zs \<le> lcs xs ys"
proof (induction xs ys arbitrary: zs rule: lcs.induct)
  case (3 x xs y ys)
  show ?case
  proof (cases zs)
    case (Cons z zs')
    consider (same) "x = y" "z = x" | (other) "x = y" "z \<noteq> x" | (left) "x \<noteq> y" "z \<noteq> x"
      | (right) "x \<noteq> y" "z \<noteq> y" by blast
    then show ?thesis
    proof cases
      case same
      with 3 Cons show ?thesis by simp
    next
      case other
      with "3.prems" Cons have "length zs \<le> lcs xs ys" by (intro "3.IH"(1)) simp_all
      with other show ?thesis by simp
    next
      case left
      with "3.prems" Cons have "length zs \<le> lcs xs (y # ys)" by (intro "3.IH"(2)) simp_all
      with left show ?thesis by simp
    next
      case right
      with "3.prems" Cons have "length zs \<le> lcs (x # xs) ys" by (intro "3.IH"(3)) simp_all
      with right show ?thesis by simp
    qed
  qed simp
qed auto

lemma lcs_drop:
  assumes "i < length xs" and "j < length ys"
  shows "lcs (drop i xs) (drop j ys) =
    (if xs ! i = ys ! j then Suc (lcs (drop (Suc i) xs) (drop (Suc j) ys))
     else max (lcs (drop (Suc i) xs) (drop j ys)) (lcs (drop i xs) (drop (Suc j) ys)))"
  using assms by (simp add: Cons_nth_drop_Suc [symmetric])

lemma subseq_butlast:
  assumes "subseq zs (xs @ [x])"
  shows "subseq (butlast zs) xs"
proof -
  from assms obtain us vs where zs: "zs = us @ vs" and us: "subseq us xs" and vs: "subseq vs [x]"
    by (auto simp: subseq_append_iff)
  from vs have "length vs \<le> 1" using list_emb_length by fastforce
  then have "butlast zs = us @ butlast vs \<and> butlast vs = [] \<or> vs = []"
    by (cases vs) (auto simp: zs butlast_append)
  moreover have "subseq (butlast us) xs"
    using us by (meson prefixeq_butlast prefix_imp_subseq subseq_order.order_trans)
  ultimately show ?thesis using us zs by auto
qed

lemma common_beside_suffix:
  "subseq zs (xs @ us) \<Longrightarrow> subseq zs (ys @ us) \<Longrightarrow>
     \<exists>ws. subseq ws xs \<and> subseq ws ys \<and> length zs \<le> length ws + length us"
proof (induction us arbitrary: zs rule: rev_induct)
  case (snoc u us)
  from snoc.prems have "subseq (butlast zs) (xs @ us)" "subseq (butlast zs) (ys @ us)"
    by (metis append_assoc subseq_butlast)+
  from snoc.IH [OF this] show ?case by fastforce
qed auto

lemma common_beside_prefix:
  "subseq zs (us @ xs) \<Longrightarrow> subseq zs (us @ ys) \<Longrightarrow>
     \<exists>ws. subseq ws xs \<and> subseq ws ys \<and> length zs \<le> length us + length ws"
proof (induction us arbitrary: zs)
  case (Cons u us)
  from Cons.prems have "subseq (tl zs) (us @ xs)" "subseq (tl zs) (us @ ys)"
    by (cases zs; auto split: if_splits dest: subseq_Cons')+
  from Cons.IH [OF this] show ?case by fastforce
qed auto

section \<open>The table\<close>

text \<open>A cell below \<open>2 ^ 31\<close> reads back as the number it holds.\<close>

lemma sint_of_nat: "n < 2 ^ 31 \<Longrightarrow> sint (word_of_nat n :: u32) = int n"
  by (simp add: signed_of_nat signed_take_bit_int_eq_self)

definition cell_ok :: "string list \<Rightarrow> string list \<Rightarrow> u32 list \<Rightarrow> nat \<Rightarrow> nat \<Rightarrow> bool" where
  "cell_ok b a table r c \<longleftrightarrow>
     table ! (r * (length a + 1) + c) = word_of_nat (lcs (drop r b) (drop c a))"

lemma sint_lcs:
  "length b < 2 ^ 31 \<Longrightarrow> sint (word_of_nat (lcs (drop r b) ys) :: u32) = int (lcs (drop r b) ys)"
  using lcs_le [of "drop r b" ys] by (intro sint_of_nat) simp

lemma max_int32_lcs:
  assumes "length b < 2 ^ 31"
  shows "max_int32 (word_of_nat (lcs (drop r b) xs)) (word_of_nat (lcs (drop r' b) ys)) =
    word_of_nat (max (lcs (drop r b) xs) (lcs (drop r' b) ys))"
  using sint_lcs [OF assms, of r xs] sint_lcs [OF assms, of r' ys]
  by (simp add: max_int32_def word_sless_alt max_def)

lemma flat_less:
  "r \<le> n \<Longrightarrow> c \<le> m \<Longrightarrow> r * (m + 1) + c < (n + 1) * (m + 1)" for r c n m :: nat
  by (metis add.commute add_less_mono1 le_less_trans less_Suc_eq_le mult_Suc mult_le_mono1
      nat_add_left_cancel_less Suc_eq_plus1 add_le_mono1 not_less)

lemma fill_row_rest:
  "length (fill_row b a row column table) = length table"
  "k < row * (length a + 1) \<or> row * (length a + 1) + column \<le> k \<Longrightarrow>
     fill_row b a row column table ! k = table ! k"
  by (induction column arbitrary: table) (auto simp: Let_def)

lemma fill_row_cells:
  assumes "length b < 2 ^ 31" and "length table = (length b + 1) * (length a + 1)"
    and "row < length b" and "column \<le> length a"
    and "\<And>c. c \<le> length a \<Longrightarrow> cell_ok b a table (row + 1) c"
    and "\<And>c. column \<le> c \<Longrightarrow> c \<le> length a \<Longrightarrow> cell_ok b a table row c"
    and "c \<le> length a"
  shows "cell_ok b a (fill_row b a row column table) row c"
  using assms
proof (induction column arbitrary: table)
  case (Suc column)
  let ?m = "length a + 1"
  let ?cell = "if b ! row = a ! column then table ! ((row + 1) * ?m + column + 1) + 1
    else max_int32 (table ! ((row + 1) * ?m + column)) (table ! (row * ?m + column + 1))"
  let ?table = "table[row * ?m + column := ?cell]"
  have below: "cell_ok b a table (row + 1) c'" if "c' \<le> length a" for c'
    using Suc.prems(5) that by blast
  have right: "cell_ok b a table row (column + 1)"
    using Suc.prems(4,6) by simp
  have "?cell = word_of_nat (lcs (drop row b) (drop column a))"
    using below [of column] below [of "column + 1"] right Suc.prems(1,3,4)
    by (simp add: cell_ok_def lcs_drop max_int32_lcs [simplified] add.assoc)
  then have here: "cell_ok b a ?table row column"
    using Suc.prems flat_less [of row "length b" column "length a"] by (simp add: cell_ok_def)
  have "cell_ok b a (fill_row b a row column ?table) row c"
  proof (rule Suc.IH)
    show "cell_ok b a ?table (row + 1) c'" if "c' \<le> length a" for c'
      using below [OF that] Suc.prems(4) by (simp add: cell_ok_def)
    show "cell_ok b a ?table row c'" if "column \<le> c'" "c' \<le> length a" for c'
    proof (cases "c' = column")
      case False
      with that Suc.prems(6) [of c'] show ?thesis by (simp add: cell_ok_def)
    qed (use here in simp)
  qed (use Suc.prems in simp_all)
  then show ?case by (simp only: fill_row.simps Let_def)
qed simp

lemma fill_table_cells:
  assumes "length b < 2 ^ 31" and "length table = (length b + 1) * (length a + 1)"
    and "rows \<le> length b"
    and "\<And>r c. rows \<le> r \<Longrightarrow> r \<le> length b \<Longrightarrow> c \<le> length a \<Longrightarrow> cell_ok b a table r c"
    and "\<And>r. r < rows \<Longrightarrow> cell_ok b a table r (length a)"
    and "r \<le> length b" and "c \<le> length a"
  shows "cell_ok b a (fill_table b a rows table) r c"
  using assms
proof (induction rows arbitrary: table)
  case (Suc row)
  let ?table = "fill_row b a row (length a) table"
  have "cell_ok b a (fill_table b a row ?table) r c"
  proof (rule Suc.IH)
    show "cell_ok b a ?table r' c'" if "row \<le> r'" "r' \<le> length b" "c' \<le> length a" for r' c'
    proof (cases "r' = row")
      case True
      with Suc.prems that show ?thesis by (auto intro!: fill_row_cells)
    next
      case False
      have "row * (length a + 1) + length a \<le> (row + 1) * (length a + 1)" by simp
      also have "\<dots> \<le> r' * (length a + 1)"
        using False that by (intro mult_le_mono1) simp
      finally have "row * (length a + 1) + length a \<le> r' * (length a + 1) + c'" by simp
      then show ?thesis
        using False that Suc.prems(4) [of r' c'] by (simp add: cell_ok_def fill_row_rest)
    qed
    show "cell_ok b a ?table r' (length a)" if "r' < row" for r'
    proof -
      have "r' * (length a + 1) + length a < row * (length a + 1)"
        using flat_less [of r' "row - 1" "length a" "length a"] that by simp
      then show ?thesis using Suc.prems(5) [of r'] that by (simp add: cell_ok_def fill_row_rest)
    qed
  qed (use Suc.prems in \<open>simp_all add: fill_row_rest\<close>)
  then show ?case by simp
qed simp

lemma table_cells:
  assumes "length b < 2 ^ 31" and "r \<le> length b" and "c \<le> length a"
  shows "cell_ok b a (fill_table b a (length b)
    (replicate ((length b + 1) * (length a + 1)) 0)) r c"
proof (rule fill_table_cells)
  let ?zeros = "replicate ((length b + 1) * (length a + 1)) 0"
  have zero: "?zeros ! (r * (length a + 1) + c) = 0" if "r \<le> length b" "c \<le> length a" for r c
    using that by (intro nth_replicate flat_less)
  show "cell_ok b a ?zeros r (length a)" if "r < length b" for r
    using zero [of r "length a"] that by (simp only: cell_ok_def) simp
  show "cell_ok b a ?zeros r c" if "length b \<le> r" "r \<le> length b" "c \<le> length a" for r c
    using zero [of r c] that by (simp only: cell_ok_def) simp
qed (use assms in simp_all)

section \<open>The script\<close>

text \<open>\<open>within xs offset ys\<close>: \<open>xs\<close> is the slice of \<open>ys\<close> that starts at \<open>offset\<close>.\<close>

definition within :: "'a list \<Rightarrow> nat \<Rightarrow> 'a list \<Rightarrow> bool" where
  "within xs offset ys \<longleftrightarrow>
     offset + length xs \<le> length ys \<and> (\<forall>k < length xs. ys ! (offset + k) = xs ! k)"

lemma walk_path:
  assumes "within b offset earlier" and "within a offset later"
    and "row \<le> length b" and "column \<le> length a"
  shows "walks earlier later (offset + row) (offset + column)
    (walk_table b a offset table row column) (offset + length b) (offset + length a)"
  using assms
proof (induction b a offset table row column rule: walk_table.induct)
  case (1 b a offset table row column)
  let ?left = "map (\<lambda>index. remove_op (offset + index)) [row..<length b]"
  let ?new = "map (\<lambda>index. add_op (offset + index)) [column..<length a]"
  show ?case
  proof (cases "row < length b \<and> column < length a")
    case True
    with 1 show ?thesis
      by (subst walk_table.simps) (auto simp: Let_def op_defs within_def)
  next
    case False
    have "walks earlier later (offset + row) (offset + column) ?left
        (offset + length b) (offset + column)"
      using "1.prems" by (intro path_removes) (auto simp: within_def)
    moreover have "walks earlier later (offset + length b) (offset + column) ?new
        (offset + length b) (offset + length a)"
      using "1.prems" by (intro path_adds) (auto simp: within_def)
    ultimately show ?thesis using False by (subst walk_table.simps) (auto simp: path_append)
  qed
qed

lemma walk_stats:
  assumes "length b < 2 ^ 31" and "row \<le> length b" and "column \<le> length a"
    and "\<And>r c. r \<le> length b \<Longrightarrow> c \<le> length a \<Longrightarrow> cell_ok b a table r c"
  shows "Removed (countStats (walk_table b a offset table row column)) +
      lcs (drop row b) (drop column a) = length b - row \<and>
    Added (countStats (walk_table b a offset table row column)) +
      lcs (drop row b) (drop column a) = length a - column"
  using assms
proof (induction b a offset table row column rule: walk_table.induct)
  case (1 b a offset table row column)
  let ?m = "length a + 1"
  show ?case
  proof (cases "row < length b \<and> column < length a")
    case inside: True
    have below: "cell_ok b a table (row + 1) column" and right: "cell_ok b a table row (column + 1)"
      using inside by (auto intro!: "1.prems"(4))
    then have order: "table ! (row * ?m + column + 1) \<le>s table ! ((row + 1) * ?m + column) \<longleftrightarrow>
        lcs (drop row b) (drop (Suc column) a) \<le> lcs (drop (Suc row) b) (drop column a)"
      using sint_lcs [OF "1.prems"(1)] by (simp add: cell_ok_def word_sle_eq add.assoc)
    show ?thesis
      using inside "1.prems" "1.IH" [OF refl] order
      by (subst (1 2) walk_table.simps)
         (auto simp: Let_def op_defs lcs_drop simp del: mult_Suc)
  next
    case False
    then have "row = length b \<or> column = length a" using "1.prems" by auto
    with False show ?thesis by (subst (1 2) walk_table.simps) auto
  qed
qed

lemma middle_path:
  assumes "within b offset earlier" and "within a offset later"
  shows "walks earlier later offset offset (middle b a offset) (offset + length b) (offset + length a)"
proof -
  have "walks earlier later (offset + 0) (offset + 0) (walk_table b a offset table 0 0)
      (offset + length b) (offset + length a)" for table
    using assms by (intro walk_path) simp_all
  moreover have "walks earlier later offset offset (replaceAll b a offset) (offset + length b) (offset + length a)"
    using path_removes [of 0 "length b" offset earlier later offset] assms
      path_adds [of 0 "length a" offset later earlier "offset + length b"]
    by (auto simp: replaceAll_def path_append within_def)
  ultimately show ?thesis by (auto simp: middle_def lcsScript_def Let_def)
qed

lemma middle_stats:
  assumes "(length b + 1) * (length a + 1) \<le> maxCells"
  shows "Removed (countStats (middle b a offset)) + lcs b a = length b"
    and "Added (countStats (middle b a offset)) + lcs b a = length a"
proof -
  have "length b + 1 \<le> (length b + 1) * (length a + 1)" by simp
  then have "length b < 2 ^ 31" using assms by (simp add: maxCells_def)
  note walk_stats [OF this, of 0 0 a _ offset, OF _ _ table_cells [OF this]]
  then show "Removed (countStats (middle b a offset)) + lcs b a = length b"
    and "Added (countStats (middle b a offset)) + lcs b a = length a"
    using assms by (auto simp: middle_def lcsScript_def replaceAll_def)
qed

lemma common_prefix_le: "common_prefix xs ys \<le> length xs" "common_prefix xs ys \<le> length ys"
  by (induction xs ys rule: common_prefix.induct) auto

lemma take_common_prefix: "take (common_prefix xs ys) xs = take (common_prefix xs ys) ys"
  by (induction xs ys rule: common_prefix.induct) auto

lemma common_suffix_le:
  "common_suffix xs ys n \<le> length xs - n" "common_suffix xs ys n \<le> length ys - n"
  using common_prefix_le [of "rev (drop n xs)" "rev (drop n ys)"] by (simp_all add: common_suffix_def)

lemma drop_common_suffix:
  assumes "n \<le> length xs" and "n \<le> length ys"
  shows "drop (length xs - common_suffix xs ys n) xs = drop (length ys - common_suffix xs ys n) ys"
proof -
  have "drop (length (drop n xs) - common_suffix xs ys n) (drop n xs) =
      drop (length (drop n ys) - common_suffix xs ys n) (drop n ys)"
    using take_common_prefix [of "rev (drop n xs)" "rev (drop n ys)"]
    by (simp add: common_suffix_def take_rev)
  then show ?thesis using assms common_suffix_le [of xs ys n] by (simp add: add.commute)
qed

text \<open>The parts of a text that \<open>diffLines\<close> looks at separately.\<close>

lemma trimmed_parts:
  assumes "n + m \<le> length xs"
  shows "xs = take n xs @ drop n (take (length xs - m) xs) @ drop (length xs - m) xs"
  using assms by (metis append_assoc append_take_drop_id le_add_diff_inverse2 le_diff_conv
      min.absorb1 take_take add_le_imp_le_diff add.commute)

lemma diffLines_path: "walks earlier later 0 0 (diffLines earlier later) (length earlier) (length later)"
proof -
  define p where "p = common_prefix earlier later"
  define s where "s = common_suffix earlier later p"
  have p: "p \<le> length earlier" "p \<le> length later"
    using common_prefix_le by (simp_all add: p_def)
  have s: "s \<le> length earlier - p" "s \<le> length later - p"
    using common_suffix_le by (simp_all add: s_def)
  let ?b = "drop p (take (length earlier - s) earlier)"
  let ?a = "drop p (take (length later - s) later)"
  have "earlier ! k = later ! k" if "k < p" for k
    using take_common_prefix [of earlier later] that by (metis nth_take p_def)
  then have front: "walks earlier later 0 0 (map (\<lambda>k. equal_op k k) [0..<p]) p p"
    using path_equals [of p 0 earlier 0 later] p by simp
  have mid: "walks earlier later p p (middle ?b ?a p) (length earlier - s) (length later - s)"
    using middle_path [of ?b p earlier ?a later] p s by (simp add: within_def)
  have ends: "length earlier - s + s = length earlier" "length later - s + s = length later"
    using p s by simp_all
  have "earlier ! (length earlier - s + k) = later ! (length later - s + k)" if "k < s" for k
    using drop_common_suffix [OF p] s that by (metis diff_le_self nth_drop s_def)
  moreover have "length earlier - s + k < length earlier \<and> length later - s + k < length later"
    if "k < s" for k
    using p s that by linarith
  ultimately have "walks earlier later (length earlier - s) (length later - s)
      (map (\<lambda>k. equal_op (length earlier - s + k) (length later - s + k)) [0..<s])
      (length earlier - s + s) (length later - s + s)"
    by (intro path_equals) blast
  then have rear: "walks earlier later (length earlier - s) (length later - s)
      (map (\<lambda>k. equal_op (length earlier - s + k) (length later - s + k)) [0..<s])
      (length earlier) (length later)"
    using ends by (simp only:)
  from front mid rear show ?thesis
    by (auto simp: diffLines_def Let_def path_append p_def [symmetric] s_def [symmetric])
qed

definition kept_lines :: "string list \<Rightarrow> edit_op list \<Rightarrow> string list" where
  "kept_lines earlier script =
     map (\<lambda>item. earlier ! nat (op_before item)) (filter (\<lambda>item. op_kind item = opEqual) script)"

lemma path_kept:
  assumes "walks b a i j s i' j'"
  shows "subseq (kept_lines b s) (drop i b)" and "subseq (kept_lines b s) (drop j a)"
  using assms
  by (induction s arbitrary: i j)
     (auto simp: kept_lines_def Cons_nth_drop_Suc [symmetric] split: opKind.splits)

lemma path_counts:
  "walks b a i j s i' j' \<Longrightarrow>
     i + length (kept_lines b s) + Removed (countStats s) = i' \<and>
     j + length (kept_lines b s) + Added (countStats s) = j'"
proof (induction s arbitrary: i j)
  case (Cons item s)
  then show ?case
    by (cases "op_kind item") (auto simp: kept_lines_def Let_def dest!: Cons.IH)
qed (simp add: kept_lines_def)

lemma diffLines_trimmed:
  assumes "p = common_prefix earlier later" and "s = common_suffix earlier later p"
    and "subseq zs earlier" and "subseq zs later"
  shows "\<exists>ws. subseq ws (drop p (take (length earlier - s) earlier)) \<and>
    subseq ws (drop p (take (length later - s) later)) \<and> length zs \<le> p + length ws + s"
proof -
  have p: "p \<le> length earlier" "p \<le> length later"
    using common_prefix_le by (simp_all add: assms(1))
  have s: "s \<le> length earlier - p" "s \<le> length later - p"
    using common_suffix_le by (simp_all add: assms(2))
  let ?b = "drop p (take (length earlier - s) earlier)"
  let ?a = "drop p (take (length later - s) later)"
  let ?front = "take p earlier" and ?rear = "drop (length earlier - s) earlier"
  have "earlier = ?front @ ?b @ ?rear" and "later = ?front @ ?a @ ?rear"
    using trimmed_parts [of p s earlier] trimmed_parts [of p s later] p s
      take_common_prefix [of earlier later] drop_common_suffix [OF p]
    by (simp_all add: assms(1) [symmetric] assms(2) [symmetric] le_diff_conv2 add.commute)
  then obtain us where us: "subseq us (?b @ ?rear)" "subseq us (?a @ ?rear)"
      "length zs \<le> length ?front + length us"
    using common_beside_prefix [of zs ?front "?b @ ?rear" "?a @ ?rear"] assms(3,4) by metis
  from common_beside_suffix [OF us(1,2)] us(3) s p show ?thesis by fastforce
qed

text \<open>C29: The edit script is a correct and minimal diff. It walks both texts from start to end,
dropping and adding one line at a time and keeping only lines that are equal on both sides;
the lines it keeps, with the removed lines, make up the old text and, with the added lines,
the new one. When what is left of the two texts after trimming the common prefix and suffix
fits into the table, no common subsequence of the two texts is longer than what the script
keeps, so no script removes or adds fewer lines: the 32-bit cells never overflow.
\<close>

theorem diff_minimal:
  assumes p: "p = common_prefix earlier later" and s: "s = common_suffix earlier later p"
    and fits: "(length earlier - p - s + 1) * (length later - p - s + 1) \<le> maxCells"
  shows "walks earlier later 0 0 (diffLines earlier later) (length earlier) (length later) \<and>
    subseq (kept_lines earlier (diffLines earlier later)) earlier \<and>
    subseq (kept_lines earlier (diffLines earlier later)) later \<and>
    length (kept_lines earlier (diffLines earlier later)) +
      Removed (countStats (diffLines earlier later)) = length earlier \<and>
    length (kept_lines earlier (diffLines earlier later)) +
      Added (countStats (diffLines earlier later)) = length later \<and>
    (\<forall>zs. subseq zs earlier \<longrightarrow> subseq zs later \<longrightarrow>
       length zs \<le> length (kept_lines earlier (diffLines earlier later)))"
proof (intro conjI allI impI)
  let ?b = "drop p (take (length earlier - s) earlier)"
  let ?a = "drop p (take (length later - s) later)"
  note walk = diffLines_path [of earlier later]
  show "walks earlier later 0 0 (diffLines earlier later) (length earlier) (length later)"
    by (rule walk)
  show "subseq (kept_lines earlier (diffLines earlier later)) earlier"
    and "subseq (kept_lines earlier (diffLines earlier later)) later"
    using path_kept [OF walk] by simp_all
  show "length (kept_lines earlier (diffLines earlier later)) +
      Removed (countStats (diffLines earlier later)) = length earlier"
    and "length (kept_lines earlier (diffLines earlier later)) +
      Added (countStats (diffLines earlier later)) = length later"
    using path_counts [OF walk] by simp_all
  fix zs assume "subseq zs earlier" and "subseq zs later"
  from diffLines_trimmed [OF p s this] obtain ws
    where "subseq ws ?b" "subseq ws ?a" "length zs \<le> p + length ws + s" by blast
  moreover from this have "length ws \<le> lcs ?b ?a" by (intro subseq_below_lcs)
  moreover have "Removed (countStats (middle ?b ?a p)) + lcs ?b ?a = length earlier - s - p"
    using middle_stats(1) [of ?b ?a p] fits by (simp add: add.commute [of p s])
  moreover have "Removed (countStats (diffLines earlier later)) = Removed (countStats (middle ?b ?a p))"
    by (simp add: diffLines_def Let_def p [symmetric] s [symmetric])
  moreover have "p + s \<le> length earlier"
    using common_prefix_le [of earlier later] common_suffix_le [of earlier later p] p s by simp
  ultimately show "length zs \<le> length (kept_lines earlier (diffLines earlier later))"
    using path_counts [OF walk] by linarith
qed

theorem diff_minimal_witness:
  "common_prefix [''a'', ''b'', ''c'', ''e''] [''a'', ''c'', ''d'', ''e''] = 1 \<and>
   common_suffix [''a'', ''b'', ''c'', ''e''] [''a'', ''c'', ''d'', ''e''] 1 = 1 \<and>
   diffLines [''a'', ''b'', ''c'', ''e''] [''a'', ''c'', ''d'', ''e''] =
     [equal_op 0 0, remove_op 1, equal_op 2 1, add_op 2, equal_op 3 3] \<and>
   subseq (kept_lines [''a'', ''b'', ''c'', ''e'']
     (diffLines [''a'', ''b'', ''c'', ''e''] [''a'', ''c'', ''d'', ''e''])) [''a'', ''c'', ''d'', ''e'']"
proof (intro conjI)
  show "subseq (kept_lines [''a'', ''b'', ''c'', ''e'']
     (diffLines [''a'', ''b'', ''c'', ''e''] [''a'', ''c'', ''d'', ''e''])) [''a'', ''c'', ''d'', ''e'']"
    by (rule diff_minimal [of 1 _ _ 1, THEN conjunct2, THEN conjunct2, THEN conjunct1])
       (simp_all add: common_suffix_def maxCells_def)
next
  have "lcsScript [''b'', ''c''] [''c'', ''d''] 1 = [remove_op 1, equal_op 2 1, add_op 2]"
    by code_simp
  then show "diffLines [''a'', ''b'', ''c'', ''e''] [''a'', ''c'', ''d'', ''e''] =
      [equal_op 0 0, remove_op 1, equal_op 2 1, add_op 2, equal_op 3 3]"
    by (simp add: diffLines_def Let_def common_suffix_def middle_def maxCells_def) (simp add: numeral_3_eq_3)
qed (simp_all add: common_suffix_def)

end
