(* ===== verification/FilePatch.thy ===== *)
theory FilePatch
  imports TextDiff
begin

text \<open>
  How the file tools apply the hunks of a unified diff:
  \<open>src/internal/adapter/tool/file/patch.go\<close>. The hunks themselves come from a diff reader
  outside the repository; here a hunk is the data the code takes from it, the line numbers and
  counts of the header and the bytes of the body.
\<close>

record Hunk =
  OrigStartLine :: int
  OrigLines :: int
  NewStartLine :: int
  NewLines :: int
  Body :: string

datatype patch_error =
    HunkOutsideSource
  | ContextMismatch
  | RemovedMismatch
  | InvalidPrefix
  | CountMismatch

text \<open>\<open>bytes.SplitAfter\<close> at the newline: every piece but the last ends with one.\<close>

function SplitAfter :: "string \<Rightarrow> string list" where
  "SplitAfter data =
     (if newline \<notin> set data then [data]
      else (takeWhile (\<lambda>c. c \<noteq> newline) data @ [newline]) #
        SplitAfter (tl (dropWhile (\<lambda>c. c \<noteq> newline) data)))"
  by pat_completeness auto
termination
proof (relation "measure length", goal_cases)
  case (2 data)
  have "length (dropWhile (\<lambda>c. c \<noteq> newline) data) \<le> length data"
    by (rule length_dropWhile_le)
  moreover have "data \<noteq> []" using 2 by auto
  ultimately show ?case by (cases data) auto
qed simp

declare SplitAfter.simps [simp del]

definition splitPatchLines :: "string \<Rightarrow> string list" where
  "splitPatchLines data = (if data = [] then [] else SplitAfter data)"

definition splitPatchBody :: "string \<Rightarrow> string list" where
  "splitPatchBody data =
     (if data = [] then []
      else let lines = SplitAfter data in if last lines = [] then butlast lines else lines)"

text \<open>
  The state of the loops of \<open>applyPatchHunks\<close>: the bytes written, the next source line, and the
  lines of the current hunk counted on either side.
\<close>

record patch_state =
  patched :: string
  cursor :: nat
  originalCount :: int
  newCount :: int

fun apply_body :: "string list \<Rightarrow> string list \<Rightarrow> patch_state \<Rightarrow> patch_error + patch_state" where
  "apply_body lines [] st = Inr st"
| "apply_body lines ([] # body) st = apply_body lines body st"
| "apply_body lines ((mark # text) # body) st =
     (if mark = CHR '' '' then
        if cursor st \<ge> length lines \<or> lines ! cursor st \<noteq> text then Inl ContextMismatch
        else apply_body lines body
          (st\<lparr>patched := patched st @ lines ! cursor st, cursor := cursor st + 1,
              originalCount := originalCount st + 1, newCount := newCount st + 1\<rparr>)
      else if mark = CHR ''-'' then
        if cursor st \<ge> length lines \<or> lines ! cursor st \<noteq> text then Inl RemovedMismatch
        else apply_body lines body
          (st\<lparr>cursor := cursor st + 1, originalCount := originalCount st + 1\<rparr>)
      else if mark = CHR ''+'' then
        apply_body lines body (st\<lparr>patched := patched st @ text, newCount := newCount st + 1\<rparr>)
      else if mark = CHR 0x5C then apply_body lines body st
      else Inl InvalidPrefix)"

definition hunk_start :: "Hunk \<Rightarrow> int" where
  "hunk_start hunk = (if OrigStartLine hunk = 0 then 0 else OrigStartLine hunk - 1)"

fun apply_hunks :: "string list \<Rightarrow> Hunk list \<Rightarrow> string \<Rightarrow> nat \<Rightarrow> patch_error + string" where
  "apply_hunks lines [] written position = Inr (written @ concat (drop position lines))"
| "apply_hunks lines (hunk # hunks) written position =
     (let start = hunk_start hunk in
      if start < int position \<or> start > int (length lines) then Inl HunkOutsideSource
      else
        bind_result
          (apply_body lines (splitPatchBody (Body hunk))
            \<lparr>patched = written @ concat (drop position (take (nat start) lines)), cursor = nat start,
             originalCount = 0, newCount = 0\<rparr>)
          (\<lambda>st. if originalCount st \<noteq> OrigLines hunk \<or> newCount st \<noteq> NewLines hunk
                then Inl CountMismatch
                else apply_hunks lines hunks (patched st) (cursor st)))"

definition applyPatchHunks :: "string \<Rightarrow> Hunk list \<Rightarrow> patch_error + string" where
  "applyPatchHunks source hunks =
     (if hunks = [] then Inr source else apply_hunks (splitPatchLines source) hunks [] 0)"

end
