(* ===== verification/PatchRoundtrip.thy ===== *)
theory PatchRoundtrip
  imports DiffScript FilePatch
begin

text \<open>
  The file tools apply what the diff renders. \<open>tiled\<close> says what the grouping keeps of a
  script: hunks in order, with nothing but unchanged lines between them, each with an
  unchanged line unless the script starts with it. A hunk that is a walk through the two texts
  takes the cursor of \<open>apply_body\<close> along it and writes the new lines.
\<close>

section \<open>Lines\<close>

definition is_line :: "string \<Rightarrow> bool" where
  "is_line l \<longleftrightarrow> l \<noteq> [] \<and> last l = newline \<and> newline \<notin> set (butlast l)"

definition ends_closed :: "string \<Rightarrow> bool" where
  "ends_closed data \<longleftrightarrow> data = [] \<or> last data = newline"

lemma is_line_alt: "is_line l \<longleftrightarrow> (\<exists>t. newline \<notin> set t \<and> l = t @ [newline])"
  by (auto simp: is_line_def) (metis append_butlast_last_id)

lemma cut_line:
  "newline \<notin> set t \<Longrightarrow> takeWhile (\<lambda>c. c \<noteq> newline) (t @ newline # rest) = t"
  "newline \<notin> set t \<Longrightarrow> dropWhile (\<lambda>c. c \<noteq> newline) (t @ newline # rest) = newline # rest"
  by (induction t) auto

lemma SplitAfter_lines: "\<forall>l \<in> set ls. is_line l \<Longrightarrow> SplitAfter (concat ls) = ls @ [[]]"
proof (induction ls)
  case (Cons l ls)
  then obtain t where "newline \<notin> set t" "l = t @ [newline]" by (auto simp: is_line_alt)
  with Cons show ?case by (subst SplitAfter.simps) (simp add: cut_line)
qed (simp add: SplitAfter.simps)

lemma splitLines_step:
  "data \<noteq> [] \<Longrightarrow> splitLines data =
     (if newline \<notin> set data then [data]
      else (takeWhile (\<lambda>c. c \<noteq> newline) data @ [newline]) #
        splitLines (tl (dropWhile (\<lambda>c. c \<noteq> newline) data)))"
  by (cases data) simp_all

lemma first_line: "newline \<in> set data \<Longrightarrow> \<exists>t rest. newline \<notin> set t \<and> data = t @ newline # rest"
  by (metis split_list_first)

lemma splitLines_concat [simp]: "concat (splitLines data) = data"
proof (induction data rule: length_induct)
  case (1 data)
  show ?case
  proof (cases "newline \<in> set data")
    case True
    then obtain t rest where "newline \<notin> set t" "data = t @ newline # rest"
      using first_line by blast
    with 1 show ?thesis by (simp add: splitLines_step cut_line)
  qed (cases data; simp)
qed

lemma splitLines_closed: "ends_closed data \<Longrightarrow> l \<in> set (splitLines data) \<Longrightarrow> is_line l"
proof (induction data rule: length_induct)
  case (1 data)
  show ?case
  proof (cases "newline \<in> set data")
    case True
    then obtain t rest where data: "newline \<notin> set t" "data = t @ newline # rest"
      using first_line by blast
    with "1.prems" have "l = t @ [newline] \<or> l \<in> set (splitLines rest)" "ends_closed rest"
      by (auto simp: splitLines_step cut_line ends_closed_def split: if_splits)
    moreover have "is_line (t @ [newline])" using data by (auto simp: is_line_alt)
    ultimately show ?thesis using "1.IH" [THEN spec, of rest] data(2) by auto
  next
    case False
    with "1.prems"(1) have "data = []" by (auto simp: ends_closed_def) (metis last_in_set)
    with "1.prems"(2) show ?thesis by simp
  qed
qed

lemma splitPatchLines_closed:
  assumes "ends_closed data"
  shows "\<exists>rest. splitPatchLines data = splitLines data @ rest \<and> concat rest = []"
proof (cases "data = []")
  case False
  have "SplitAfter (concat (splitLines data)) = splitLines data @ [[]]"
    using splitLines_closed [OF assms] by (intro SplitAfter_lines) blast
  with False show ?thesis by (simp add: splitPatchLines_def)
qed (simp add: splitPatchLines_def)

section \<open>Hunks\<close>

abbreviation all_equal :: "edit_op list \<Rightarrow> bool" where
  "all_equal ops \<equiv> \<forall>item \<in> set ops. op_kind item = opEqual"

inductive tiled :: "bool \<Rightarrow> edit_op list \<Rightarrow> edit_op list list \<Rightarrow> bool" where
  rest: "all_equal ops \<Longrightarrow> tiled at_start ops []"
| hunk: "all_equal gap \<Longrightarrow> ops \<noteq> [] \<Longrightarrow> (\<exists>item \<in> set ops. op_kind item = opEqual) \<or> at_start \<and> gap = [] \<Longrightarrow>
     tiled False others hunks \<Longrightarrow> tiled at_start (gap @ ops @ others) (ops # hunks)"

lemma run_end_equal:
  "run \<le> k \<Longrightarrow> k < run_end script run \<Longrightarrow> op_kind (script ! k) = opEqual"
proof (induction script run rule: run_end.induct)
  case (1 script run)
  then show ?case
    by (cases "k = run") (auto simp: run_end.simps [of script run] split: if_splits)
qed

lemma run_end_le: "run \<le> length script \<Longrightarrow> run_end script run \<le> length script"
  by (induction script run rule: run_end.induct) (subst run_end.simps, auto)

lemma hunk_end_le: "stop \<le> length script \<Longrightarrow> hunk_end script c stop \<le> length script"
proof (induction script c stop rule: hunk_end.induct)
  case (1 script c stop)
  then show ?case
    using run_end_le [of stop script] by (subst hunk_end.simps) (auto simp: Let_def)
qed

lemma hunk_end_context:
  "hunk_end script c stop + k < length script \<Longrightarrow> k < c \<Longrightarrow>
     op_kind (script ! (hunk_end script c stop + k)) = opEqual"
proof (induction script c stop rule: hunk_end.induct)
  case (1 script c stop)
  let ?run = "run_end script stop"
  consider (change) "stop < length script" "op_kind (script ! stop) \<noteq> opEqual"
    | (inner) "stop < length script" "op_kind (script ! stop) = opEqual"
        "\<not> (?run - stop > 2 * c \<or> ?run = length script)"
    | (last) "stop < length script" "op_kind (script ! stop) = opEqual"
        "?run - stop > 2 * c \<or> ?run = length script"
    | (finished) "\<not> stop < length script" by blast
  then show ?case
  proof cases
    case last
    then have "hunk_end script c stop = min (stop + c) (length script)"
      by (subst hunk_end.simps) (simp add: Let_def)
    with last "1.prems" show ?thesis by (intro run_end_equal [of stop]) auto
  qed (use 1 in \<open>simp_all add: hunk_end.simps [of script c stop] Let_def\<close>)
qed

lemma group_tiled:
  assumes "0 < c" and "p \<le> index" and "\<And>k. p \<le> k \<Longrightarrow> k < index \<Longrightarrow> k < length script \<Longrightarrow> op_kind (script ! k) = opEqual"
    and "\<And>k. p \<noteq> 0 \<Longrightarrow> k < c \<Longrightarrow> p + k < length script \<Longrightarrow> op_kind (script ! (p + k)) = opEqual"
  shows "tiled (p = 0) (drop p script) (group script c index)"
  using assms
proof (induction script c index arbitrary: p rule: group.induct)
  case (1 script c index)
  consider (finished) "length script \<le> index" | (same) "index < length script" "op_kind (script ! index) = opEqual"
    | (change) "index < length script" "op_kind (script ! index) \<noteq> opEqual" by fastforce
  then show ?case
  proof cases
    case finished
    then have "all_equal (drop p script)"
      using "1.prems"(3) by (auto simp: in_set_conv_nth)
    with finished show ?thesis by (subst group.simps) (simp add: tiled.rest)
  next
    case same
    then have "tiled (p = 0) (drop p script) (group script c (index + 1))"
      using "1.prems" by (intro "1.IH"(1)) (auto simp: less_Suc_eq)
    with same show ?thesis by (subst group.simps) simp
  next
    case change
    let ?start = "index - c" and ?stop = "hunk_end script c index"
    have stop: "index < ?stop" "?stop \<le> length script"
      using change hunk_end_moves hunk_end_le by auto
    have start: "p \<le> ?start"
    proof (cases "p = 0")
      case False
      have "\<not> index < p + c"
      proof
        assume "index < p + c"
        then have "op_kind (script ! (p + (index - p))) = opEqual"
          using False change "1.prems"(2) by (intro "1.prems"(4)) auto
        with change "1.prems"(2) show False by simp
      qed
      then show ?thesis by simp
    qed simp
    let ?gap = "drop p (take ?start script)" and ?ops = "drop ?start (take ?stop script)"
    have "take ?stop (drop 0 script) = take ?start script @ ?ops"
      using stop by (metis append_take_drop_id diff_le_self drop_0 le_trans less_imp_le take_take min.absorb1)
    then have split: "drop p script = ?gap @ ?ops @ drop ?stop script"
      using start stop by (metis append_assoc append_take_drop_id drop_0 drop_append length_take min.absorb2
          diff_is_0_eq less_imp_le le_trans diff_le_self drop0)
    have gap: "all_equal ?gap"
      using "1.prems"(3) stop by (auto simp: in_set_conv_nth)
    have context_line: "(\<exists>item \<in> set ?ops. op_kind item = opEqual) \<or> p = 0 \<and> ?gap = []"
    proof (cases "index = 0")
      case False
      have "p < index"
        using "1.prems"(1,2) "1.prems"(4) [of 0] change False by (cases "p = index") auto
      then have "op_kind (script ! (index - 1)) = opEqual"
        using change by (intro "1.prems"(3)) auto
      moreover have "script ! (index - 1) = ?ops ! (index - 1 - ?start)" "index - 1 - ?start < length ?ops"
        using "1.prems"(1) stop False by auto
      ultimately show ?thesis using nth_mem by metis
    qed (use "1.prems"(2) in simp)
    have "tiled (?stop = 0) (drop ?stop script) (group script c ?stop)"
      using "1.prems"(1) change hunk_end_context [of script c index]
      by (intro "1.IH"(2)) (auto simp: add.commute)
    then have "tiled False (drop ?stop script) (group script c ?stop)" using stop by simp
    moreover have "?ops \<noteq> []" using stop by simp
    ultimately have "tiled (p = 0) (?gap @ ?ops @ drop ?stop script) (?ops # group script c ?stop)"
      using gap context_line by (intro tiled.hunk)
    then show ?thesis
      unfolding split [symmetric] using change by (subst group.simps) (simp add: Let_def)
  qed
qed

section \<open>Applying hunks\<close>

definition hunk_of :: "string list \<Rightarrow> string list \<Rightarrow> edit_op list \<Rightarrow> Hunk" where
  "hunk_of earlier later ops =
     \<lparr>OrigStartLine = int (fst (hunk_range op_before ops)), OrigLines = int (snd (hunk_range op_before ops)),
      NewStartLine = int (fst (hunk_range op_after ops)), NewLines = int (snd (hunk_range op_after ops)),
      Body = hunk_body ops earlier later\<rparr>"

lemma path_range:
  "walks b a i j ops i' j' \<Longrightarrow>
     hunk_range op_before ops = (if i' = i then 0 else i + 1, i' - i) \<and>
     hunk_range op_after ops = (if j' = j then 0 else j + 1, j' - j)"
proof (induction ops arbitrary: i j)
  case (Cons item ops)
  show ?case
  proof (cases "op_kind item")
    case opEqual
    with Cons.prems have step: "walks b a (Suc i) (Suc j) ops i' j'"
      and "op_before item = int i" "op_after item = int j" by auto
    with opEqual Cons.IH [OF step] path_le [OF step] show ?thesis by auto
  next
    case opRemove
    with Cons.prems have step: "walks b a (Suc i) j ops i' j'"
      and "op_before item = int i" "op_after item = -1" by auto
    with opRemove Cons.IH [OF step] path_le [OF step] show ?thesis by auto
  next
    case opAdd
    with Cons.prems have step: "walks b a i (Suc j) ops i' j'"
      and "op_before item = -1" "op_after item = int j" by auto
    with opAdd Cons.IH [OF step] path_le [OF step] show ?thesis by auto
  qed
qed simp

lemma writeLine_line: "is_line l \<Longrightarrow> writeLine kind l = op_byte kind # l"
  by (auto simp: is_line_alt writeLine_def)

lemma op_byte_not_newline: "op_byte kind \<noteq> newline"
  by (cases kind) simp_all

lemma hunk_line_simps:
  "op_kind item = opEqual \<Longrightarrow> op_before item = int i \<Longrightarrow> is_line (b ! i) \<Longrightarrow>
     hunk_line b a item = CHR '' '' # b ! i"
  "op_kind item = opRemove \<Longrightarrow> op_before item = int i \<Longrightarrow> is_line (b ! i) \<Longrightarrow>
     hunk_line b a item = CHR ''-'' # b ! i"
  "op_kind item = opAdd \<Longrightarrow> op_after item = int j \<Longrightarrow> is_line (a ! j) \<Longrightarrow>
     hunk_line b a item = CHR ''+'' # a ! j"
  by (simp_all add: hunk_line_def writeLine_line)

lemma hunk_lines:
  assumes "walks b a i j ops i' j'" and "\<forall>l \<in> set b \<union> set a. is_line l" and "item \<in> set ops"
  shows "is_line (hunk_line b a item)"
proof -
  have mark: "c \<noteq> newline \<Longrightarrow> is_line l \<Longrightarrow> is_line (c # l)" for c l
    by (auto simp: is_line_def)
  from assms show ?thesis
  proof (induction ops arbitrary: i j)
    case (Cons head ops)
    show ?case
    proof (cases "item = head")
      case True
      with Cons.prems show ?thesis
        by (cases "op_kind head") (auto simp: hunk_line_simps intro!: mark)
    next
      case False
      with Cons show ?thesis by (auto split: opKind.splits)
    qed
  qed simp
qed

lemma splitPatchBody_hunk:
  assumes "walks b a i j ops i' j'" and "\<forall>l \<in> set b \<union> set a. is_line l"
  shows "splitPatchBody (hunk_body ops b a) = map (hunk_line b a) ops"
proof (cases ops)
  case (Cons item rest)
  have lines: "is_line (hunk_line b a item')" if "item' \<in> set ops" for item'
    using hunk_lines [OF assms that] .
  have "SplitAfter (concat (map (hunk_line b a) ops)) = map (hunk_line b a) ops @ [[]]"
    using lines by (intro SplitAfter_lines) auto
  moreover have "concat (map (hunk_line b a) ops) \<noteq> []"
    using lines [of item] Cons by (auto simp: is_line_def)
  ultimately show ?thesis by (simp add: splitPatchBody_def hunk_body_def Let_def del: concat_eq_Nil_conv)
qed (simp add: splitPatchBody_def hunk_body_def)

lemma slice_Cons:
  "j < j' \<Longrightarrow> j' \<le> length a \<Longrightarrow> drop j (take j' a) = a ! j # drop (Suc j) (take j' a)"
  by (simp add: Cons_nth_drop_Suc [symmetric, of j "take j' a"])

lemma apply_path:
  assumes "walks b a i j ops i' j'" and "\<forall>l \<in> set b \<union> set a. is_line l"
    and "i \<le> length b" and "j \<le> length a" and "cursor st = i"
  shows "apply_body (b @ rest) (map (hunk_line b a) ops) st =
    Inr (st\<lparr>patched := patched st @ concat (drop j (take j' a)), cursor := i',
            originalCount := originalCount st + int (i' - i), newCount := newCount st + int (j' - j)\<rparr>)"
  using assms
proof (induction ops arbitrary: i j st)
  case (Cons item ops)
  note bounds = path_bounds [OF Cons.prems(1,3,4)]
  have le: "i \<le> i'" "j \<le> j'" using path_le [OF Cons.prems(1)] by auto
  show ?case
  proof (cases "op_kind item")
    case opEqual
    with Cons.prems have step: "walks b a (Suc i) (Suc j) ops i' j'" and here: "i < length b" "j < length a"
        "b ! i = a ! j" "op_before item = int i"
      by auto
    from path_le [OF step] have "Suc i \<le> i'" "Suc j \<le> j'" by auto
    with here opEqual Cons.prems bounds show ?thesis
      by (simp add: hunk_line_simps nth_append Cons.IH [OF step] slice_Cons)
  next
    case opRemove
    with Cons.prems have step: "walks b a (Suc i) j ops i' j'" and here: "i < length b" "op_before item = int i"
      by auto
    from path_le [OF step] have "Suc i \<le> i'" by auto
    with here opRemove Cons.prems bounds show ?thesis
      by (simp add: hunk_line_simps nth_append Cons.IH [OF step])
  next
    case opAdd
    with Cons.prems have step: "walks b a i (Suc j) ops i' j'" and here: "j < length a" "op_after item = int j"
      by auto
    from path_le [OF step] have "Suc j \<le> j'" by auto
    with here opAdd Cons.prems bounds show ?thesis
      by (simp add: hunk_line_simps Cons.IH [OF step] slice_Cons)
  qed
qed simp

lemma path_equal_slice:
  "walks b a i j ops i' j' \<Longrightarrow> all_equal ops \<Longrightarrow> i \<le> length b \<Longrightarrow> j \<le> length a \<Longrightarrow>
     drop i (take i' b) = drop j (take j' a)"
proof (induction ops arbitrary: i j)
  case (Cons item ops)
  then have step: "walks b a (Suc i) (Suc j) ops i' j'" and here: "i < length b" "j < length a" "b ! i = a ! j"
    by auto
  with path_le [OF step] path_bounds [OF step] Cons show ?case by (simp add: slice_Cons)
qed simp

lemma drop_slice: "j \<le> l \<Longrightarrow> drop j xs = drop j (take l xs) @ drop l xs"
  by (induction xs arbitrary: j l) (auto simp: drop_Cons' take_Cons')

lemma path_equal_moves:
  "walks b a i j ops i' j' \<Longrightarrow> item \<in> set ops \<Longrightarrow> op_kind item = opEqual \<Longrightarrow> i < i'"
proof (induction ops arbitrary: i j)
  case (Cons head ops)
  then show ?case
    using path_le [of b a "Suc i" "Suc j" ops i' j']
    by (cases "op_kind head") (auto dest: Suc_lessD)
qed simp

lemma apply_tiled:
  assumes "tiled at_start ops hunks" and "walks b a i j ops (length b) (length a)"
    and "i \<le> length b" and "j \<le> length a" and "at_start \<Longrightarrow> i = 0"
    and "\<forall>l \<in> set b \<union> set a. is_line l" and "concat rest = []"
  shows "apply_hunks (b @ rest) (map (hunk_of b a) hunks) written i = Inr (written @ concat (drop j a))"
  using assms
proof (induction at_start ops hunks arbitrary: i j written rule: tiled.induct)
  case (rest ops at_start)
  from path_equal_slice [OF rest.prems(1) rest.hyps rest.prems(2,3)] have "drop i b = drop j a" by simp
  with rest.prems show ?case by simp
next
  case (hunk gap ops at_start others hunks)
  from hunk.prems(1) obtain k l k' l' where gap: "walks b a i j gap k l" and ops: "walks b a k l ops k' l'"
      and others: "walks b a k' l' others (length b) (length a)"
    by (auto simp: path_append)
  note kl = path_bounds [OF gap hunk.prems(2,3)]
  then have kl': "k' \<le> length b" "l' \<le> length a" using path_bounds [OF ops] by auto
  have order: "i \<le> k" "j \<le> l" "k \<le> k'" "l \<le> l'" using path_le [OF gap] path_le [OF ops] by auto
  have same: "drop i (take k b) = drop j (take l a)"
    using path_equal_slice [OF gap hunk.hyps(1) hunk.prems(2,3)] .
  have start: "hunk_start (hunk_of b a ops) = int k"
  proof (cases "k' = k")
    case True
    with path_equal_moves [OF ops] hunk.hyps(3) have "at_start" "gap = []" by auto
    with gap hunk.prems(4) have "k = 0" by simp
    with True path_range [OF ops] show ?thesis by (simp add: hunk_start_def hunk_of_def)
  next
    case False
    with path_range [OF ops] show ?thesis by (simp add: hunk_start_def hunk_of_def)
  qed
  have body: "splitPatchBody (Body (hunk_of b a ops)) = map (hunk_line b a) ops"
    using splitPatchBody_hunk [OF ops hunk.prems(5)] by (simp add: hunk_of_def)
  have "drop j a = drop j (take l a) @ drop l (take l' a) @ drop l' a"
    using drop_slice [OF order(2), of a] drop_slice [OF order(4), of a] by simp
  then have split: "concat (drop j a) = concat (drop i (take k b)) @ concat (drop l (take l' a)) @ concat (drop l' a)"
    using same by (metis concat_append)
  have counts: "OrigLines (hunk_of b a ops) = int (k' - k)" "NewLines (hunk_of b a ops) = int (l' - l)"
    using path_range [OF ops] by (simp_all add: hunk_of_def)
  have next_hunks: "apply_hunks (b @ rest) (map (hunk_of b a) hunks) w k' = Inr (w @ concat (drop l' a))" for w
    using hunk.IH [OF others kl' _ hunk.prems(5,6)] by simp
  show ?case
    using kl order
    by (simp add: Let_def start body counts apply_path [OF ops hunk.prems(5)] next_hunks split)
qed

definition unified_hunk :: "Hunk \<Rightarrow> string" where
  "unified_hunk hunk =
     ''@@ -'' @ formatRange (nat (OrigStartLine hunk)) (nat (OrigLines hunk)) @
     '' +'' @ formatRange (nat (NewStartLine hunk)) (nat (NewLines hunk)) @ '' @@'' @ [newline] @
     Body hunk"

lemma writeHunk_unified: "writeHunk ops b a = unified_hunk (hunk_of b a ops)"
  by (simp add: writeHunk_def unified_hunk_def hunk_of_def split: prod.splits)

lemma no_changes_equal:
  "Added (countStats ops) = 0 \<Longrightarrow> Removed (countStats ops) = 0 \<Longrightarrow> all_equal ops"
  by (induction ops) (auto simp: Let_def split: opKind.splits)

lemma common_prefix_self [simp]: "common_prefix xs xs = length xs"
  by (induction xs) simp_all

lemma diffLines_self: "countStats (diffLines xs xs) = \<lparr>Added = 0, Removed = 0\<rparr>"
  by (simp add: diffLines_def Let_def common_suffix_def middle_def)

lemma apply_diff:
  assumes "ends_closed b" and "ends_closed a" and "0 < c"
  shows "applyPatchHunks b (map (hunk_of (splitLines b) (splitLines a))
    (group (diffLines (splitLines b) (splitLines a)) c 0)) = Inr a"
proof -
  let ?b = "splitLines b" and ?a = "splitLines a"
  let ?hunks = "group (diffLines ?b ?a) c 0"
  obtain rest where lines: "splitPatchLines b = ?b @ rest" "concat rest = []"
    using splitPatchLines_closed [OF assms(1)] by blast
  have "tiled True (diffLines ?b ?a) ?hunks"
    using group_tiled [of c 0 0 "diffLines ?b ?a"] assms(3) by simp
  from apply_tiled [OF this diffLines_path _ _ _ _ lines(2)] splitLines_closed assms
  have "apply_hunks (?b @ rest) (map (hunk_of ?b ?a) ?hunks) [] 0 = Inr a" by fastforce
  moreover from this have "b = a" if "?hunks = []" using that lines(2) by simp
  ultimately show ?thesis using lines(1) by (cases "?hunks = []") (simp_all add: applyPatchHunks_def)
qed

text \<open>C30: A rendered diff applies. For two texts whose last line is terminated (or that are empty or
missing), the unified diff is the file header followed by hunks that, read back as line numbers,
counts and body, the patch tool applies to the old text to obtain exactly the new one: no hunk is
refused for its position, its context or its counts. Equal texts give an empty diff. The number
of context lines must not be 0, since a hunk without context that only adds lines is rendered at
position 0.
\<close>

theorem diff_patch_roundtrip:
  assumes "rejectBinary earlier later = None"
    and "ends_closed (Data earlier)" and "ends_closed (Data later)" and "contextLines \<noteq> 0"
  shows "\<exists>hunks diff stats.
    Unified path earlier later contextLines = Inr (diff, stats) \<and>
    applyPatchHunks (Data earlier) hunks = Inr (Data later) \<and>
    diff = (if Data earlier = Data later then []
      else ''--- '' @ side ''a/'' path (Missing earlier) @ [newline] @
           ''+++ '' @ side ''b/'' path (Missing later) @ [newline] @ concat (map unified_hunk hunks))"
proof -
  let ?b = "splitLines (Data earlier)" and ?a = "splitLines (Data later)"
  let ?c = "nat (if contextLines < 0 then DefaultContext else contextLines)"
  let ?script = "diffLines ?b ?a"
  let ?hunks = "map (hunk_of ?b ?a) (group ?script ?c 0)"
  have "0 < ?c" using assms(4) by (simp add: DefaultContext_def)
  then have applied: "applyPatchHunks (Data earlier) ?hunks = Inr (Data later)"
    using assms by (intro apply_diff)
  have unchanged: "Added (countStats ?script) = 0 \<and> Removed (countStats ?script) = 0 \<longleftrightarrow>
      Data earlier = Data later"
  proof
    assume "Added (countStats ?script) = 0 \<and> Removed (countStats ?script) = 0"
    then have "all_equal ?script" using no_changes_equal by blast
    with path_equal_slice [OF diffLines_path] have "?b = ?a" by fastforce
    then show "Data earlier = Data later" by (metis splitLines_concat)
  qed (simp add: diffLines_self)
  have "Unified path earlier later contextLines = Inr (if Data earlier = Data later then []
      else ''--- '' @ side ''a/'' path (Missing earlier) @ [newline] @
           ''+++ '' @ side ''b/'' path (Missing later) @ [newline] @ concat (map unified_hunk ?hunks),
      countStats ?script)"
    using assms(1) unchanged by (simp add: Unified_def Let_def writeHunk_unified comp_def)
  with applied show ?thesis by blast
qed

theorem diff_patch_roundtrip_witness:
  "\<exists>hunks diff stats.
    Unified ''f'' (Text ''old\<newline>'') Absent 3 = Inr (diff, stats) \<and>
    applyPatchHunks ''old\<newline>'' hunks = Inr []"
  using diff_patch_roundtrip [of "Text ''old\<newline>''" Absent 3 "''f''"]
  by (simp add: Text_def Absent_def rejectBinary_def ends_closed_def) blast

text \<open>
  With no context, a line added in the middle is rendered as a hunk at position 0 and lands at
  the start of the file.
\<close>

lemma zero_context_misplaced:
  "applyPatchHunks ''a\<newline>b\<newline>''
     (map (hunk_of [''a\<newline>'', ''b\<newline>''] [''a\<newline>'', ''x\<newline>'', ''b\<newline>''])
       (group (diffLines [''a\<newline>'', ''b\<newline>''] [''a\<newline>'', ''x\<newline>'', ''b\<newline>'']) 0 0)) =
     Inr ''x\<newline>a\<newline>b\<newline>''"
proof -
  have "diffLines [''a\<newline>'', ''b\<newline>''] [''a\<newline>'', ''x\<newline>'', ''b\<newline>''] =
      [equal_op 0 0, add_op 1, equal_op 1 2]"
    by (simp add: diffLines_def Let_def common_suffix_def middle_def replaceAll_def)
       (simp add: numeral_2_eq_2)
  then show ?thesis by (simp only:) code_simp
qed

end
