(* ===== verification/GoPath.thy ===== *)
theory GoPath
  imports Prelude
begin

text \<open>
  The part of Go's \<open>path/filepath\<close> the file tools use, for a system whose separator is the
  slash, where \<open>ToSlash\<close> and \<open>FromSlash\<close> change nothing: \<open>IsAbs\<close>, and \<open>Clean\<close>, which drops
  empty and dot elements and resolves an element followed by a double dot, and \<open>Rel\<close>, which fails
  when the base would have to be left through an unknown parent.
\<close>

definition IsAbs :: "string \<Rightarrow> bool" where
  "IsAbs path \<longleftrightarrow> (\<exists>rest. path = CHR ''/'' # rest)"

lemma IsAbs_code [code]: "IsAbs [] = False" "IsAbs (c # rest) \<longleftrightarrow> c = CHR ''/''"
  by (simp_all add: IsAbs_def)

declare IsAbs_code [simp]

fun path_elements :: "string \<Rightarrow> string list" where
  "path_elements [] = [[]]"
| "path_elements (c # rest) =
     (if c = CHR ''/'' then [] # path_elements rest
      else case path_elements rest of [] \<Rightarrow> [[c]] | element # others \<Rightarrow> (c # element) # others)"

fun join_elements :: "string list \<Rightarrow> string" where
  "join_elements [] = []"
| "join_elements [element] = element"
| "join_elements (element # others) = element @ ''/'' @ join_elements others"

text \<open>The elements kept so far are on a stack, the last one on top.\<close>

fun clean_elements :: "bool \<Rightarrow> string list \<Rightarrow> string list \<Rightarrow> string list" where
  "clean_elements rooted kept [] = List.rev kept"
| "clean_elements rooted kept (element # others) =
     (if element = [] \<or> element = ''.'' then clean_elements rooted kept others
      else if element = ''..'' then
        (case kept of
           [] \<Rightarrow> clean_elements rooted (if rooted then [] else [''..'']) others
         | latest # below \<Rightarrow>
             if latest = ''..'' then clean_elements rooted (''..'' # kept) others
             else clean_elements rooted below others)
      else clean_elements rooted (element # kept) others)"

definition Clean :: "string \<Rightarrow> string" where
  "Clean path =
     (let cleaned = join_elements (clean_elements (IsAbs path) [] (path_elements path)) in
      if IsAbs path then CHR ''/'' # cleaned else if cleaned = [] then ''.'' else cleaned)"

text \<open>Elements as \<open>Clean\<close> leaves them: no empty, dot or double-dot element.\<close>

definition plain_element :: "string \<Rightarrow> bool" where
  "plain_element element \<longleftrightarrow>
     element \<noteq> [] \<and> element \<noteq> ''.'' \<and> element \<noteq> ''..'' \<and> CHR ''/'' \<notin> set element"

definition plain_path :: "string \<Rightarrow> bool" where
  "plain_path path \<longleftrightarrow> list_all plain_element (path_elements path)"

lemma path_elements_not_empty [simp]: "path_elements path \<noteq> []"
  by (cases path) (auto split: list.splits)

lemma join_path_elements: "join_elements (path_elements path) = path"
proof (induction path)
  case (Cons c rest)
  obtain element others where "path_elements rest = element # others"
    using path_elements_not_empty by (metis neq_Nil_conv)
  with Cons show ?case by (cases others) auto
qed simp

lemma clean_plain: "list_all plain_element elements \<Longrightarrow> clean_elements rooted kept elements = List.rev kept @ elements"
  by (induction elements arbitrary: kept) (auto simp: plain_element_def)

lemma plain_path_not_abs: "plain_path path \<Longrightarrow> \<not> IsAbs path \<and> path \<noteq> []"
  by (cases path) (auto simp: plain_path_def plain_element_def split: list.splits if_splits)

text \<open>A path of plain elements is its own clean form.\<close>

lemma Clean_plain: "plain_path path \<Longrightarrow> Clean path = path"
  using plain_path_not_abs [of path]
  by (simp add: Clean_def Let_def plain_path_def clean_plain join_path_elements)

section \<open>Relative paths\<close>

fun strip_common :: "string list \<Rightarrow> string list \<Rightarrow> string list \<times> string list" where
  "strip_common (b # bs) (t # ts) = (if b = t then strip_common bs ts else (b # bs, t # ts))"
| "strip_common bs ts = (bs, ts)"

text \<open>The elements of a clean path; the root has the empty element only, the dot has none.\<close>

definition base_elements :: "string \<Rightarrow> string list" where
  "base_elements path = (if path = ''.'' then [] else if path = ''/'' then [[]] else path_elements path)"

definition Rel :: "string \<Rightarrow> string \<Rightarrow> string option" where
  "Rel basepath targpath =
     (let base = Clean basepath; targ = Clean targpath in
      if base = targ then Some ''.''
      else if IsAbs base \<noteq> IsAbs targ then None
      else case strip_common (base_elements base) (path_elements targ) of
        ([], ts) \<Rightarrow> Some (join_elements ts)
      | (b # bs, ts) \<Rightarrow> if b = ''..'' then None else Some (join_elements (replicate (Suc (length bs)) ''..'' @ ts)))"

end
