(* ===== verification/FileBroker.thy ===== *)
theory FileBroker
  imports GoPath
begin

text \<open>
  The File Broker, \<open>src/internal/security/filebroker/broker.go\<close>: a plan of file changes with the
  state each file must have before and gets after, its validation, and the commit, which checks
  every file twice, writes before it deletes, verifies the outcome and rolls back what it wrote
  when anything fails. Settling the execution lease around the commit is not part of the model.

  The workspace it works on is the map of regular files with the operations of
  \<open>src/internal/security/sandbox/workspace.go\<close> and \<open>workspace_fs_unix.go\<close> that the broker calls.
  The operating system decides how a call ends: it is done, it is refused and changes nothing, or
  it has changed the file but synchronizing the directory fails, and the call returns an error all
  the same. \<open>outcome\<close> gives the end of the n-th call; \<open>sha256\<close>, the plan encoding and the
  identity of a newly written file are parameters as well.
\<close>

section \<open>The workspace\<close>

record workspace_file =
  file_data :: string
  file_mode :: u32
  file_identity :: string

datatype io_outcome = Done | Refused | Unsynced

record disk =
  files :: "workspace_file dict"
  calls :: nat

record FileState =
  Exists :: bool
  Digest :: string
  Identity :: string
  Mode :: u32

record FileEntry =
  EntryPath :: string
  Before :: FileState
  BeforeData :: string
  After :: FileState
  AfterData :: string

record FilePlan =
  PlanVersionOf :: int
  Entries :: "FileEntry list"
  PlanDigest :: string

record host =
  outcome :: "nat \<Rightarrow> io_outcome"
  identity_at :: "nat \<Rightarrow> string"
  umask :: u32
  sha256 :: "string \<Rightarrow> string"
  encode_plan :: "FilePlan \<Rightarrow> string"
  context_canceled :: "nat \<Rightarrow> bool"
  hook_fails :: "string \<Rightarrow> bool"

definition Perm :: "u32 \<Rightarrow> u32" where
  "Perm mode = and mode 0x1FF"

definition called :: "disk \<Rightarrow> disk" where
  "called d = d\<lparr>calls := calls d + 1\<rparr>"

definition new_file :: "host \<Rightarrow> disk \<Rightarrow> string \<Rightarrow> u32 \<Rightarrow> workspace_file" where
  "new_file host d data mode =
     \<lparr>file_data = data, file_mode = mode, file_identity = identity_at host (calls d)\<rparr>"

definition put_file :: "string \<Rightarrow> workspace_file \<Rightarrow> disk \<Rightarrow> disk" where
  "put_file name f d = d\<lparr>files := fmupd name f (files d)\<rparr>"

definition drop_file :: "string \<Rightarrow> disk \<Rightarrow> disk" where
  "drop_file name d = d\<lparr>files := fmdrop name (files d)\<rparr>"

text \<open>Each operation returns whether it succeeded, with the workspace it leaves.\<close>

definition SnapshotFile :: "host \<Rightarrow> string \<Rightarrow> disk \<Rightarrow> (unit + workspace_file option) \<times> disk" where
  "SnapshotFile host name d =
     ((if outcome host (calls d) = Done then Inr (fmlookup (files d) name) else Inl ()), called d)"

definition AtomicWrite :: "host \<Rightarrow> string \<Rightarrow> string \<Rightarrow> u32 \<Rightarrow> disk \<Rightarrow> bool \<times> disk" where
  "AtomicWrite host name data mode d =
     (case outcome host (calls d) of
        Refused \<Rightarrow> (False, called d)
      | Unsynced \<Rightarrow> (False, called (put_file name (new_file host d data (Perm mode)) d))
      | Done \<Rightarrow> (True, called (put_file name (new_file host d data (Perm mode)) d)))"

text \<open>Creating refuses a name that exists, and the kernel applies the umask to the mode.\<close>

definition AtomicCreate :: "host \<Rightarrow> string \<Rightarrow> string \<Rightarrow> u32 \<Rightarrow> disk \<Rightarrow> bool \<times> disk" where
  "AtomicCreate host name data mode d =
     (if fmlookup (files d) name \<noteq> None then (False, called d)
      else let created = put_file name (new_file host d data (and (Perm mode) (not (umask host)))) d in
        case outcome host (calls d) of
          Refused \<Rightarrow> (False, called d)
        | Unsynced \<Rightarrow> (False, called created)
        | Done \<Rightarrow> (True, called created))"

definition Remove :: "host \<Rightarrow> string \<Rightarrow> disk \<Rightarrow> bool \<times> disk" where
  "Remove host name d =
     (if fmlookup (files d) name = None then (False, called d)
      else case outcome host (calls d) of
          Refused \<Rightarrow> (False, called d)
        | Unsynced \<Rightarrow> (False, called (drop_file name d))
        | Done \<Rightarrow> (True, called (drop_file name d)))"

section \<open>Plans\<close>

datatype plan_error =
    PlanIncomplete
  | PathInvalid
  | ControlMetadata
  | BeforeIncomplete
  | BeforeDigestMismatch
  | BeforeContentOfMissing
  | AfterIncomplete
  | ContentOfDeleted
  | NoChange
  | PathsNotSorted
  | PlanDigestMismatch

definition PlanVersion :: int where
  "PlanVersion = 1"

definition hex_char :: "char \<Rightarrow> bool" where
  "hex_char c \<longleftrightarrow> c \<in> set ''0123456789abcdefABCDEF''"

definition validDigest :: "string \<Rightarrow> bool" where
  "validDigest value \<longleftrightarrow> length value = 64 \<and> list_all hex_char value"

definition sameContent :: "FileState \<Rightarrow> FileState \<Rightarrow> bool" where
  "sameContent left right \<longleftrightarrow>
     Exists left = Exists right \<and>
     (\<not> Exists left \<or> Digest left = Digest right \<and> Mode left = Mode right)"

text \<open>
  \<open>strings.EqualFold\<close> against an ASCII name: letters fold to lower case, and the Kelvin sign
  and the long s fold to \<open>k\<close> and \<open>s\<close>.
\<close>

fun fold_ascii :: "string \<Rightarrow> string" where
  "fold_ascii (c1 # c2 # c3 # rest) =
     (if c1 = CHR 0xE2 \<and> c2 = CHR 0x84 \<and> c3 = CHR 0xAA then CHR ''k'' # fold_ascii rest
      else if c1 = CHR 0xC5 \<and> c2 = CHR 0xBF then CHR ''s'' # fold_ascii (c3 # rest)
      else (if CHR ''A'' \<le> c1 \<and> c1 \<le> CHR ''Z'' then char_of (of_char c1 + 32 :: nat) else c1) #
        fold_ascii (c2 # c3 # rest))"
| "fold_ascii [c1, c2] =
     (if c1 = CHR 0xC5 \<and> c2 = CHR 0xBF then ''s''
      else (if CHR ''A'' \<le> c1 \<and> c1 \<le> CHR ''Z'' then char_of (of_char c1 + 32 :: nat) else c1) # fold_ascii [c2])"
| "fold_ascii [c1] = [if CHR ''A'' \<le> c1 \<and> c1 \<le> CHR ''Z'' then char_of (of_char c1 + 32 :: nat) else c1]"
| "fold_ascii [] = []"

definition protected_names :: "string list" where
  "protected_names = [''.git'', ''.qcode'', ''.qcode-worktree'', ''.agents'', ''.codex'']"

definition path_error :: "string \<Rightarrow> plan_error option" where
  "path_error path =
     first_error
       [require (\<not> (path = [] \<or> path = ''.'' \<or> hd path = CHR ''/'' \<or> path = ''..'' \<or>
           take 3 path = ''../'' \<or> CHR 0x5C \<in> set path)) PathInvalid,
        require (fold_ascii (takeWhile (\<lambda>c. c \<noteq> CHR ''/'') path) \<notin> set protected_names) ControlMetadata]"

definition validateEntry :: "host \<Rightarrow> FileEntry \<Rightarrow> plan_error option" where
  "validateEntry host entry =
     first_error
       [path_error (EntryPath entry),
        require (\<not> (Exists (Before entry) \<and>
           (\<not> validDigest (Digest (Before entry)) \<or> Identity (Before entry) = []))) BeforeIncomplete,
        require (Exists (Before entry) \<longrightarrow> Digest (Before entry) = sha256 host (BeforeData entry))
          BeforeDigestMismatch,
        require (Exists (Before entry) \<or> BeforeData entry = []) BeforeContentOfMissing,
        require (Exists (After entry) \<longrightarrow> validDigest (Digest (After entry)) \<and>
           Digest (After entry) = sha256 host (AfterData entry) \<and> Mode (After entry) \<noteq> 0) AfterIncomplete,
        require (Exists (After entry) \<or> AfterData entry = []) ContentOfDeleted,
        require (\<not> sameContent (Before entry) (After entry)) NoChange]"

definition planDigest :: "host \<Rightarrow> FilePlan \<Rightarrow> string" where
  "planDigest host plan = sha256 host (encode_plan host (plan\<lparr>PlanDigest := []\<rparr>))"

fun entries_error :: "host \<Rightarrow> string \<Rightarrow> FileEntry list \<Rightarrow> plan_error option" where
  "entries_error host previous [] = None"
| "entries_error host previous (entry # entries) =
     (case validateEntry host entry of
        Some err \<Rightarrow> Some err
      | None \<Rightarrow>
          if previous \<noteq> [] \<and> EntryPath entry \<le> previous then Some PathsNotSorted
          else entries_error host (EntryPath entry) entries)"

definition Plan_Validate :: "host \<Rightarrow> FilePlan \<Rightarrow> plan_error option" where
  "Plan_Validate host plan =
     first_error
       [require (PlanVersionOf plan = PlanVersion \<and> validDigest (PlanDigest plan)) PlanIncomplete,
        entries_error host [] (Entries plan),
        require (planDigest host plan = PlanDigest plan) PlanDigestMismatch]"

definition NewPlan :: "host \<Rightarrow> FileEntry list \<Rightarrow> plan_error + FilePlan" where
  "NewPlan host entries =
     (let cleaned = map (\<lambda>entry. entry\<lparr>EntryPath := Clean (EntryPath entry)\<rparr>) entries;
          plan = \<lparr>PlanVersionOf = PlanVersion, Entries = sort_key EntryPath cleaned, PlanDigest = []\<rparr>;
          sealed = plan\<lparr>PlanDigest := planDigest host plan\<rparr>
      in guard_error (Plan_Validate host sealed) (Inr sealed))"

section \<open>Commit\<close>

text \<open>
  A journal records the file before and after the transaction; either call may fail. The broker
  passes it the absolute path, which the path below the root identifies.
\<close>

record Journal =
  journal_before :: "string \<Rightarrow> bool"
  journal_after :: "string \<Rightarrow> bool"

datatype commit_error =
    SnapshotError string
  | Stale string
  | JournalBeforeError string
  | RevalidateError string
  | ChangedDuringPreparation string
  | Canceled
  | HookError string
  | ChangedBeforeApply string
  | ApplyError string
  | CommittedSnapshotError string
  | ResultMismatch string
  | JournalSettlementError string

datatype file_fault =
    RollbackSnapshot string
  | ChangedAfterWrite string
  | RestoreFailed string

text \<open>The error a commit returns: its cause, and what went wrong in the rollback.\<close>

record commit_failure =
  cause :: commit_error
  fileErrors :: "file_fault list"
  journalErrors :: "string list"

record commit_result =
  ResultBefore :: "FileState dict"
  ResultAfter :: "FileState dict"
  SettlementStatus :: string
  SettlementReason :: string

definition file_state :: "host \<Rightarrow> workspace_file option \<Rightarrow> FileState" where
  "file_state host value =
     (case value of
        None \<Rightarrow> \<lparr>Exists = False, Digest = [], Identity = [], Mode = 0\<rparr>
      | Some f \<Rightarrow> \<lparr>Exists = True, Digest = sha256 host (file_data f), Identity = file_identity f,
          Mode = Perm (file_mode f)\<rparr>)"

definition snapshot :: "host \<Rightarrow> string \<Rightarrow> disk \<Rightarrow> (unit + FileState) \<times> disk" where
  "snapshot host path d =
     (case SnapshotFile host path d of
        (Inl u, d') \<Rightarrow> (Inl u, d')
      | (Inr value, d') \<Rightarrow> (Inr (file_state host value), d'))"

definition apply_entry :: "host \<Rightarrow> FileEntry \<Rightarrow> disk \<Rightarrow> bool \<times> disk" where
  "apply_entry host entry d =
     (if \<not> Exists (After entry) then Remove host (EntryPath entry) d
      else if Exists (Before entry)
      then AtomicWrite host (EntryPath entry) (AfterData entry) (Mode (After entry)) d
      else AtomicCreate host (EntryPath entry) (AfterData entry) (Mode (After entry)) d)"

definition journal_fails :: "(Journal \<Rightarrow> string \<Rightarrow> bool) \<Rightarrow> Journal option \<Rightarrow> string \<Rightarrow> bool" where
  "journal_fails hook journal path = (case journal of None \<Rightarrow> False | Some j \<Rightarrow> \<not> hook j path)"

text \<open>Undo one entry of the transaction; the files are taken in the reverse order.\<close>

definition restore_entry :: "host \<Rightarrow> FileEntry \<Rightarrow> disk \<Rightarrow> file_fault list \<times> disk" where
  "restore_entry host entry d =
     (case snapshot host (EntryPath entry) d of
        (Inl _, d') \<Rightarrow> ([RollbackSnapshot (EntryPath entry)], d')
      | (Inr current, d') \<Rightarrow>
          if \<not> sameContent current (After entry) then ([ChangedAfterWrite (EntryPath entry)], d')
          else
            let (ok, d'') =
              (if Exists (Before entry)
               then AtomicWrite host (EntryPath entry) (BeforeData entry) (Mode (Before entry)) d'
               else Remove host (EntryPath entry) d')
            in (if ok then [] else [RestoreFailed (EntryPath entry)], d''))"

fun restore_entries :: "host \<Rightarrow> FileEntry list \<Rightarrow> disk \<Rightarrow> file_fault list \<times> disk" where
  "restore_entries host [] d = ([], d)"
| "restore_entries host (entry # entries) d =
     (let (faults, d') = restore_entry host entry d;
          (more, d'') = restore_entries host entries d'
      in (faults @ more, d''))"

definition rollback ::
    "host \<Rightarrow> Journal option \<Rightarrow> FilePlan \<Rightarrow> FileEntry list \<Rightarrow> commit_error \<Rightarrow> disk \<Rightarrow> commit_failure \<times> disk" where
  "rollback host journal plan applied why d =
     (let (faults, d') = restore_entries host (List.rev applied) d in
      (\<lparr>cause = why, fileErrors = faults,
        journalErrors = filter (journal_fails journal_after journal) (map EntryPath (Entries plan))\<rparr>, d'))"

definition refused :: "commit_error \<Rightarrow> commit_failure" where
  "refused why = \<lparr>cause = why, fileErrors = [], journalErrors = []\<rparr>"

text \<open>The first loop of \<open>commitConsumed\<close>: every file is as the plan expects, twice.\<close>

fun prepare_entries ::
    "host \<Rightarrow> Journal option \<Rightarrow> FileEntry list \<Rightarrow> commit_result \<Rightarrow> disk \<Rightarrow>
     commit_error option \<times> commit_result \<times> disk" where
  "prepare_entries host journal [] result d = (None, result, d)"
| "prepare_entries host journal (entry # entries) result d =
     (case snapshot host (EntryPath entry) d of
        (Inl _, d1) \<Rightarrow> (Some (SnapshotError (EntryPath entry)), result, d1)
      | (Inr current, d1) \<Rightarrow>
          if current \<noteq> Before entry then (Some (Stale (EntryPath entry)), result, d1)
          else
            let result' = result\<lparr>ResultBefore := fmupd (EntryPath entry) current (ResultBefore result)\<rparr> in
            if journal_fails journal_before journal (EntryPath entry)
            then (Some (JournalBeforeError (EntryPath entry)), result', d1)
            else
              (case snapshot host (EntryPath entry) d1 of
                 (Inl _, d2) \<Rightarrow> (Some (RevalidateError (EntryPath entry)), result', d2)
               | (Inr again, d2) \<Rightarrow>
                   if again \<noteq> Before entry
                   then (Some (ChangedDuringPreparation (EntryPath entry)), result', d2)
                   else prepare_entries host journal entries result' d2))"

text \<open>One round of the second loop: the writes, or the deletions.\<close>

fun apply_entries ::
    "host \<Rightarrow> bool \<Rightarrow> FileEntry list \<Rightarrow> FileEntry list \<Rightarrow> disk \<Rightarrow>
     commit_error option \<times> FileEntry list \<times> disk" where
  "apply_entries host deletes [] applied d = (None, applied, d)"
| "apply_entries host deletes (entry # entries) applied d =
     (if deletes = Exists (After entry) then apply_entries host deletes entries applied d
      else if context_canceled host (calls d) then (Some Canceled, applied, d)
      else if hook_fails host (EntryPath entry) then (Some (HookError (EntryPath entry)), applied, d)
      else
        case snapshot host (EntryPath entry) d of
          (Inl _, d1) \<Rightarrow> (Some (RevalidateError (EntryPath entry)), applied, d1)
        | (Inr current, d1) \<Rightarrow>
            if current \<noteq> Before entry then (Some (ChangedBeforeApply (EntryPath entry)), applied, d1)
            else
              let (ok, d2) = apply_entry host entry d1 in
              if \<not> ok then (Some (ApplyError (EntryPath entry)), applied, d2)
              else apply_entries host deletes entries (applied @ [entry]) d2)"

fun verify_entries ::
    "host \<Rightarrow> Journal option \<Rightarrow> FileEntry list \<Rightarrow> commit_result \<Rightarrow> disk \<Rightarrow>
     commit_error option \<times> commit_result \<times> disk" where
  "verify_entries host journal [] result d = (None, result, d)"
| "verify_entries host journal (entry # entries) result d =
     (case snapshot host (EntryPath entry) d of
        (Inl _, d1) \<Rightarrow> (Some (CommittedSnapshotError (EntryPath entry)), result, d1)
      | (Inr current, d1) \<Rightarrow>
          if \<not> sameContent current (After entry) then (Some (ResultMismatch (EntryPath entry)), result, d1)
          else
            let result' = result\<lparr>ResultAfter := fmupd (EntryPath entry) current (ResultAfter result)\<rparr> in
            if journal_fails journal_after journal (EntryPath entry)
            then (Some (JournalSettlementError (EntryPath entry)), result', d1)
            else verify_entries host journal entries result' d1)"

definition commitConsumed ::
    "host \<Rightarrow> Journal option \<Rightarrow> FilePlan \<Rightarrow> disk \<Rightarrow> commit_failure option \<times> commit_result \<times> disk" where
  "commitConsumed host journal plan d =
     (let begun = \<lparr>ResultBefore = fmempty, ResultAfter = fmempty,
                   SettlementStatus = ''failed'', SettlementReason = ''file_commit_failed''\<rparr>;
          (unready, result, d1) = prepare_entries host journal (Entries plan) begun d
      in case unready of
           Some why \<Rightarrow> (Some (refused why), result, d1)
         | None \<Rightarrow>
             let (unwritten, written, d2) = apply_entries host False (Entries plan) [] d1;
                 (stopped, applied, d3) =
                   (case unwritten of
                      Some why \<Rightarrow> (Some why, written, d2)
                    | None \<Rightarrow> apply_entries host True (Entries plan) written d2)
             in case stopped of
                  Some why \<Rightarrow>
                    let (failure, d4) = rollback host journal plan applied why d3;
                        reason = (if why = Canceled then ''context_canceled'' else SettlementReason result)
                    in (Some failure, result\<lparr>SettlementReason := reason\<rparr>, d4)
                | None \<Rightarrow>
                    let (unverified, result', d4) = verify_entries host journal (Entries plan) result d3 in
                    case unverified of
                      Some why \<Rightarrow>
                        let (failure, d5) = rollback host journal plan applied why d4 in (Some failure, result', d5)
                    | None \<Rightarrow>
                        (None, result'\<lparr>SettlementStatus := ''succeeded'',
                           SettlementReason := ''file_transaction_committed''\<rparr>, d4))"

end
