(* ===== verification/FileApply.thy ===== *)
theory FileApply
  imports TextDiff FileBroker
begin

text \<open>
  The validate-then-apply transactions of the file tools, \<open>src/internal/adapter/tool/file/apply.go\<close>:
  write, edit, move and delete requests are checked and composed against an in-memory view of the
  workspace, which reads a file the first time a request touches it, and become a plan for the File
  Broker. The transaction keeps its files by their path below the workspace root; \<open>resolve\<close>, the
  path resolution of the sandbox, and \<open>fresh\<close>, the read-before-write check of the journal, are
  parameters. The excerpt an edit error carries is left out.
\<close>

section \<open>Requests\<close>

record changeRequest =
  Op :: string
  Path :: string
  WriteContent :: string
  Old :: string
  New :: string
  To :: string

datatype apply_error =
    NoChanges
  | TooManyChanges
  | PathRequired
  | OldRequired
  | ToRequired
  | OpRequired
  | UnknownOp
  | UnexpectedFields "string list"
  | ResolveFailed string
  | NotFresh string
  | ReadFailed string
  | FileMissing
  | BinaryFile
  | EditMatch nat
  | SameFile
  | MoveTargetExists

definition opWrite :: string where "opWrite = ''write''"
definition opEdit :: string where "opEdit = ''edit''"
definition opMove :: string where "opMove = ''move''"
definition opDelete :: string where "opDelete = ''delete''"

lemmas op_names = opWrite_def opEdit_def opMove_def opDelete_def

definition maxTransactionChanges :: nat where
  "maxTransactionChanges = 64"

definition named :: "changeRequest \<Rightarrow> string list \<Rightarrow> string list" where
  "named request taken =
     filter (\<lambda>field.
       (field = ''content'' \<and> WriteContent request \<noteq> []) \<or> (field = ''old'' \<and> Old request \<noteq> []) \<or>
       (field = ''new'' \<and> New request \<noteq> []) \<or> (field = ''to'' \<and> To request \<noteq> [])) taken"

definition validate_request :: "changeRequest \<Rightarrow> apply_error option" where
  "validate_request r =
     (let takes_only = (\<lambda>taken. require (named r taken = []) (UnexpectedFields (named r taken))) in
      if blank (Path r) then Some PathRequired
      else if Op r = opWrite then takes_only [''old'', ''new'', ''to'']
      else if Op r = opEdit then
        (if Old r = [] then Some OldRequired else takes_only [''content'', ''to''])
      else if Op r = opMove then
        (if blank (To r) then Some ToRequired else takes_only [''content'', ''old'', ''new''])
      else if Op r = opDelete then takes_only [''content'', ''old'', ''new'', ''to'']
      else if Op r = [] then Some OpRequired
      else Some UnknownOp)"

section \<open>Editing\<close>

definition isBinary :: "string \<Rightarrow> bool" where
  "isBinary data \<longleftrightarrow> CHR 0x00 \<in> set data"

text \<open>\<open>strings.Count\<close> and \<open>strings.Replace\<close> of a text that is not empty.\<close>

function count_text :: "string \<Rightarrow> string \<Rightarrow> nat" where
  "count_text old content =
     (if old = [] \<or> content = [] then 0
      else if take (length old) content = old then Suc (count_text old (drop (length old) content))
      else count_text old (tl content))"
  by pat_completeness auto
termination by (relation "measure (\<lambda>(_, content). length content)") (auto simp: neq_Nil_conv)

declare count_text.simps [simp del]

fun replace_first :: "string \<Rightarrow> string \<Rightarrow> string \<Rightarrow> string" where
  "replace_first old new [] = []"
| "replace_first old new (c # content) =
     (if take (length old) (c # content) = old then new @ drop (length old) (c # content)
      else c # replace_first old new content)"

definition replaceOnce :: "string \<Rightarrow> string \<Rightarrow> string \<Rightarrow> apply_error + string" where
  "replaceOnce data old new =
     (if isBinary data then Inl BinaryFile
      else if count_text old data \<noteq> 1 then Inl (EditMatch (count_text old data))
      else Inr (replace_first old new data))"

section \<open>Transactions\<close>

record plannedFile =
  canonical :: string
  mode :: u32
  beforeMode :: u32
  existed :: bool
  before :: string
  beforeState :: FileState
  exists :: bool
  later :: string

record transaction =
  planned_files :: "plannedFile dict"
  order :: "string list"

definition kind_created :: string where "kind_created = ''created''"
definition kind_deleted :: string where "kind_deleted = ''deleted''"
definition kind_modified :: string where "kind_modified = ''modified''"

definition kind :: "plannedFile \<Rightarrow> string" where
  "kind p =
     (if \<not> existed p \<and> exists p then kind_created
      else if existed p \<and> \<not> exists p then kind_deleted
      else if existed p \<and> exists p \<and> (before p \<noteq> later p \<or> beforeMode p \<noteq> mode p) then kind_modified
      else [])"

definition put_planned :: "plannedFile \<Rightarrow> transaction \<Rightarrow> transaction" where
  "put_planned p x = x\<lparr>planned_files := fmupd (canonical p) p (planned_files x)\<rparr>"

definition read_planned :: "host \<Rightarrow> string \<Rightarrow> workspace_file option \<Rightarrow> plannedFile" where
  "read_planned host path value =
     (case value of
        None \<Rightarrow> \<lparr>canonical = path, mode = 0x1A4, beforeMode = 0, existed = False, before = [],
          beforeState = file_state host None, exists = False, later = []\<rparr>
      | Some f \<Rightarrow> \<lparr>canonical = path, mode = Perm (file_mode f), beforeMode = Perm (file_mode f),
          existed = True, before = file_data f, beforeState = file_state host (Some f),
          exists = True, later = file_data f\<rparr>)"

definition load ::
    "host \<Rightarrow> (string \<Rightarrow> string option) \<Rightarrow> string \<Rightarrow> transaction \<Rightarrow> disk \<Rightarrow>
     (apply_error + plannedFile \<times> transaction) \<times> disk" where
  "load host resolve name x d =
     (case resolve name of
        None \<Rightarrow> (Inl (ResolveFailed name), d)
      | Some path \<Rightarrow>
          (case fmlookup (planned_files x) path of
             Some p \<Rightarrow> (Inr (p, x), d)
           | None \<Rightarrow>
               (case SnapshotFile host path d of
                  (Inl _, d') \<Rightarrow> (Inl (ReadFailed name), d')
                | (Inr value, d') \<Rightarrow>
                    let p = read_planned host path value in
                    (Inr (p, (put_planned p x)\<lparr>order := order x @ [path]\<rparr>), d'))))"

text \<open>The change one request makes to the file it names; a move needs a second file.\<close>

definition edit_planned :: "changeRequest \<Rightarrow> plannedFile \<Rightarrow> apply_error + plannedFile" where
  "edit_planned request p =
     (if Op request = opWrite then Inr (p\<lparr>exists := True, later := WriteContent request\<rparr>)
      else if Op request = opEdit then
        (if \<not> exists p then Inl FileMissing
         else bind_result (replaceOnce (later p) (Old request) (New request))
           (\<lambda>text. Inr (p\<lparr>later := text\<rparr>)))
      else if Op request = opDelete then
        (if \<not> exists p then Inl FileMissing else Inr (p\<lparr>exists := False, later := []\<rparr>))
      else Inr p)"

definition move_planned :: "plannedFile \<Rightarrow> plannedFile \<Rightarrow> transaction \<Rightarrow> apply_error + transaction" where
  "move_planned p target x =
     (if canonical target = canonical p then Inl SameFile
      else if exists target then Inl MoveTargetExists
      else Inr (put_planned (p\<lparr>exists := False, later := []\<rparr>)
        (put_planned (target\<lparr>exists := True, later := later p, mode := mode p\<rparr>) x)))"

definition compose ::
    "host \<Rightarrow> (string \<Rightarrow> string option) \<Rightarrow> changeRequest \<Rightarrow> transaction \<Rightarrow> disk \<Rightarrow>
     (apply_error + transaction) \<times> disk" where
  "compose host resolve request x d =
     (case load host resolve (Path request) x d of
        (Inl err, d1) \<Rightarrow> (Inl err, d1)
      | (Inr (p, x1), d1) \<Rightarrow>
          if Op request = opMove then
            (if \<not> exists p then (Inl FileMissing, d1)
             else
               case load host resolve (To request) x1 d1 of
                 (Inl err, d2) \<Rightarrow> (Inl err, d2)
               | (Inr (target, x2), d2) \<Rightarrow> (move_planned p target x2, d2))
          else (bind_result (edit_planned request p) (\<lambda>p'. Inr (put_planned p' x1)), d1))"

fun compose_all ::
    "host \<Rightarrow> (string \<Rightarrow> string option) \<Rightarrow> changeRequest list \<Rightarrow> transaction \<Rightarrow> disk \<Rightarrow>
     (apply_error + transaction) \<times> disk" where
  "compose_all host resolve [] x d = (Inr x, d)"
| "compose_all host resolve (request # requests) x d =
     (case compose host resolve request x d of
        (Inl err, d') \<Rightarrow> (Inl err, d')
      | (Inr x', d') \<Rightarrow> compose_all host resolve requests x' d')"

text \<open>Every path a request names, resolved; a path already seen is not asked for again.\<close>

fun freshness_error ::
    "(string \<Rightarrow> string option) \<Rightarrow> (string \<Rightarrow> bool) \<Rightarrow> string list \<Rightarrow> string list \<Rightarrow> apply_error option" where
  "freshness_error resolve fresh [] seen = None"
| "freshness_error resolve fresh (name # names) seen =
     (if blank name then freshness_error resolve fresh names seen
      else
        case resolve name of
          None \<Rightarrow> Some (ResolveFailed name)
        | Some path \<Rightarrow>
            if path \<in> set seen then freshness_error resolve fresh names seen
            else if \<not> fresh path then Some (NotFresh name)
            else freshness_error resolve fresh names (path # seen))"

definition checkFreshness ::
    "(string \<Rightarrow> string option) \<Rightarrow> (string \<Rightarrow> bool) \<Rightarrow> changeRequest list \<Rightarrow> apply_error option" where
  "checkFreshness resolve fresh requests =
     freshness_error resolve fresh (concat (map (\<lambda>r. [Path r, To r]) requests)) []"

definition changed_files :: "transaction \<Rightarrow> plannedFile list" where
  "changed_files x =
     filter (\<lambda>p. kind p \<noteq> []) (List.map_filter (\<lambda>path. fmlookup (planned_files x) path) (order x))"

record AppliedChange =
  ChangePath :: string
  ChangeKind :: string
  ChangeAdded :: nat
  ChangeRemoved :: nat

definition summarize_file :: "plannedFile \<Rightarrow> AppliedChange \<times> string" where
  "summarize_file p =
     (let earlier_side = \<lparr>Data = before p, Missing = \<not> existed p\<rparr>;
          later_side = \<lparr>Data = later p, Missing = \<not> exists p\<rparr>;
          applied = (\<lambda>stats. \<lparr>ChangePath = canonical p, ChangeKind = kind p,
             ChangeAdded = Added stats, ChangeRemoved = Removed stats\<rparr>)
      in case Unified (canonical p) earlier_side later_side DefaultContext of
           Inr (body, stats) \<Rightarrow> (applied stats, body)
         | Inl ErrBinary \<Rightarrow>
             (applied \<lparr>Added = 0, Removed = 0\<rparr>, ''Binary file '' @ canonical p @ '' differs'' @ [newline]))"

definition summarize :: "transaction \<Rightarrow> AppliedChange list \<times> string" where
  "summarize x =
     (map (fst \<circ> summarize_file) (changed_files x), concat (map (snd \<circ> summarize_file) (changed_files x)))"

definition prepareTransaction ::
    "host \<Rightarrow> (string \<Rightarrow> string option) \<Rightarrow> (string \<Rightarrow> bool) \<Rightarrow> changeRequest list \<Rightarrow> disk \<Rightarrow>
     (apply_error + transaction \<times> AppliedChange list \<times> string) \<times> disk" where
  "prepareTransaction host resolve fresh requests d =
     (if requests = [] then (Inl NoChanges, d)
      else if length requests > maxTransactionChanges then (Inl TooManyChanges, d)
      else case first_error (map validate_request requests @ [checkFreshness resolve fresh requests]) of
        Some err \<Rightarrow> (Inl err, d)
      | None \<Rightarrow>
          (case compose_all host resolve requests \<lparr>planned_files = fmempty, order = []\<rparr> d of
             (Inl err, d') \<Rightarrow> (Inl err, d')
           | (Inr x, d') \<Rightarrow> (Inr (x, summarize x), d')))"

definition broker_entry :: "host \<Rightarrow> plannedFile \<Rightarrow> FileEntry" where
  "broker_entry host p =
     \<lparr>EntryPath = canonical p, Before = beforeState p, BeforeData = before p,
      After = (if exists p
               then \<lparr>Exists = True, Digest = sha256 host (later p), Identity = [], Mode = Perm (mode p)\<rparr>
               else \<lparr>Exists = False, Digest = [], Identity = [], Mode = 0\<rparr>),
      AfterData = later p\<rparr>"

definition brokerPlan :: "host \<Rightarrow> transaction \<Rightarrow> plan_error + FilePlan" where
  "brokerPlan host x = NewPlan host (map (broker_entry host) (changed_files x))"

end
