(* ===== verification/BrokerSafety.thy ===== *)
theory BrokerSafety
  imports FileBroker
begin

text \<open>
  A commit of the File Broker changes the workspace as planned or not at all, unless it says so.
  The lemmas follow the loops: reading changes no file; an applied entry is the only file that
  changed; a restored entry has its old content again, whatever the order.
\<close>

section \<open>What the workspace holds\<close>

definition contents :: "disk \<Rightarrow> string \<Rightarrow> (string \<times> u32) option" where
  "contents d path = map_option (\<lambda>f. (file_data f, Perm (file_mode f))) (fmlookup (files d) path)"

definition before_content :: "FileEntry \<Rightarrow> (string \<times> u32) option" where
  "before_content entry =
     (if Exists (Before entry) then Some (BeforeData entry, Mode (Before entry)) else None)"

definition after_content :: "FileEntry \<Rightarrow> (string \<times> u32) option" where
  "after_content entry =
     (if Exists (After entry) then Some (AfterData entry, Mode (After entry)) else None)"

text \<open>
  No file of the workspace differs from the old content in the plan and has the same digest.
\<close>

definition no_collision :: "host \<Rightarrow> FilePlan \<Rightarrow> disk \<Rightarrow> bool" where
  "no_collision host plan d \<longleftrightarrow>
     (\<forall>entry \<in> set (Entries plan). \<forall>f. fmlookup (files d) (EntryPath entry) = Some f \<longrightarrow>
        sha256 host (file_data f) = sha256 host (BeforeData entry) \<longrightarrow> file_data f = BeforeData entry)"

text \<open>The mode of a planned file has permission bits only, none of which the umask clears.\<close>

definition modes_fit :: "host \<Rightarrow> FilePlan \<Rightarrow> bool" where
  "modes_fit host plan \<longleftrightarrow>
     (\<forall>entry \<in> set (Entries plan). Exists (After entry) \<longrightarrow>
        Perm (Mode (After entry)) = Mode (After entry) \<and>
        (\<not> Exists (Before entry) \<longrightarrow> and (Mode (After entry)) (not (umask host)) = Mode (After entry)))"

lemma Perm_Perm [simp]: "Perm (Perm m) = Perm m"
  by (simp add: Perm_def and.assoc)

lemma files_called [simp]: "files (called d) = files d"
  by (simp add: called_def)

lemma files_put_file [simp]: "files (put_file name f d) = fmupd name f (files d)"
  by (simp add: put_file_def)

lemma files_drop_file [simp]: "files (drop_file name d) = fmdrop name (files d)"
  by (simp add: drop_file_def)

lemma files_snapshot [simp]: "files (snd (snapshot host path d)) = files d"
  by (simp add: snapshot_def SnapshotFile_def)

lemma snapshot_Inr:
  "snapshot host path d = (Inr current, d') \<Longrightarrow>
     current = file_state host (fmlookup (files d) path) \<and> files d' = files d"
  by (auto simp: snapshot_def SnapshotFile_def split: if_splits)

lemma snapshot_Inl: "snapshot host path d = (Inl u, d') \<Longrightarrow> files d' = files d \<and> outcome host (calls d) \<noteq> Done"
  by (auto simp: snapshot_def SnapshotFile_def split: if_splits)

lemma file_state_content:
  assumes "file_state host value = Before entry"
    and "\<And>f. value = Some f \<Longrightarrow> sha256 host (file_data f) = sha256 host (BeforeData entry) \<Longrightarrow> file_data f = BeforeData entry"
    and "validateEntry host entry = None"
  shows "map_option (\<lambda>f. (file_data f, Perm (file_mode f))) value = before_content entry"
  using assms
  by (cases "value")
     (auto simp: file_state_def before_content_def validateEntry_def dest!: sym [of _ "Before entry"])

section \<open>Validated plans\<close>

lemma path_error_not_empty: "path_error path = None \<Longrightarrow> path \<noteq> []"
  by (auto simp: path_error_def)

lemma entries_error_sorted:
  "entries_error host previous entries = None \<Longrightarrow>
     (\<forall>entry \<in> set entries. validateEntry host entry = None \<and> (previous \<noteq> [] \<longrightarrow> previous < EntryPath entry)) \<and>
     distinct (map EntryPath entries)"
proof (induction entries arbitrary: previous)
  case (Cons entry entries)
  from Cons.prems have entry: "validateEntry host entry = None"
      "previous \<noteq> [] \<Longrightarrow> previous < EntryPath entry"
      "entries_error host (EntryPath entry) entries = None"
    by (auto split: option.splits if_splits)
  moreover from entry(1) have "EntryPath entry \<noteq> []"
    using path_error_not_empty by (simp add: validateEntry_def)
  ultimately show ?case using Cons.IH [OF entry(3)] by fastforce
qed simp

lemma Plan_Validate_entries:
  assumes "Plan_Validate host plan = None"
  shows "entry \<in> set (Entries plan) \<Longrightarrow> validateEntry host entry = None"
    and "distinct (map EntryPath (Entries plan))"
  using entries_error_sorted [of host "[]" "Entries plan"] assms by (simp_all add: Plan_Validate_def)

lemma eq_key_imp_eq_value_entry:
  assumes "distinct (map EntryPath entries)"
  shows "e \<in> set entries \<Longrightarrow> e' \<in> set entries \<Longrightarrow> EntryPath e = EntryPath e' \<Longrightarrow> e = e'"
  using assms by (auto simp: distinct_map dest: inj_onD)

section \<open>The loops\<close>

lemma prepare_keeps:
  "prepare_entries host journal entries result d = (err, result', d') \<Longrightarrow>
     files d' = files d \<and>
     (err = None \<longrightarrow> (\<forall>entry \<in> set entries. file_state host (fmlookup (files d) (EntryPath entry)) = Before entry))"
proof (induction entries arbitrary: result d)
  case (Cons entry entries)
  from Cons.prems show ?case
    by (auto simp: Let_def split: prod.splits sum.splits if_splits
        dest!: snapshot_Inr snapshot_Inl Cons.IH)
qed simp

lemma verify_keeps:
  "verify_entries host journal entries result d = (err, result', d') \<Longrightarrow>
     files d' = files d \<and>
     (err = None \<longrightarrow> (\<forall>entry \<in> set entries.
        sameContent (file_state host (fmlookup (files d) (EntryPath entry))) (After entry)))"
proof (induction entries arbitrary: result d)
  case (Cons entry entries)
  from Cons.prems show ?case
    by (auto simp: Let_def split: prod.splits sum.splits if_splits
        dest!: snapshot_Inr snapshot_Inl Cons.IH)
qed simp

lemma prepare_status:
  "prepare_entries host journal entries result d = (err, result', d') \<Longrightarrow>
     SettlementStatus result' = SettlementStatus result"
proof (induction entries arbitrary: result d)
  case (Cons entry entries)
  from Cons.prems show ?case
    by (auto simp: Let_def split: prod.splits sum.splits if_splits dest!: Cons.IH)
qed simp

lemma verify_status:
  "verify_entries host journal entries result d = (err, result', d') \<Longrightarrow>
     SettlementStatus result' = SettlementStatus result"
proof (induction entries arbitrary: result d)
  case (Cons entry entries)
  from Cons.prems show ?case
    by (auto simp: Let_def split: prod.splits sum.splits if_splits dest!: Cons.IH)
qed simp

text \<open>What a successful \<open>apply_entry\<close> leaves at its path.\<close>

definition applied_file :: "host \<Rightarrow> FileEntry \<Rightarrow> workspace_file option \<Rightarrow> bool" where
  "applied_file host entry value \<longleftrightarrow>
     (if Exists (After entry) then
        \<exists>f. value = Some f \<and> file_data f = AfterData entry \<and>
          file_mode f = (if Exists (Before entry) then Perm (Mode (After entry))
                         else and (Perm (Mode (After entry))) (not (umask host)))
      else value = None)"

lemma apply_entry_done:
  "apply_entry host entry d = (True, d') \<Longrightarrow>
     applied_file host entry (fmlookup (files d') (EntryPath entry)) \<and>
     (\<forall>path. path \<noteq> EntryPath entry \<longrightarrow> fmlookup (files d') path = fmlookup (files d) path)"
  by (auto simp: apply_entry_def AtomicWrite_def AtomicCreate_def Remove_def applied_file_def new_file_def
      Let_def split: if_splits io_outcome.splits)

lemma apply_entry_failed:
  "apply_entry host entry d = (False, d') \<Longrightarrow> (\<And>n. outcome host n \<noteq> Unsynced) \<Longrightarrow> files d' = files d"
  by (auto simp: apply_entry_def AtomicWrite_def AtomicCreate_def Remove_def Let_def
      split: if_splits io_outcome.splits)

text \<open>The entries that were applied, and nothing else, differ from the start.\<close>

definition changed_only :: "host \<Rightarrow> disk \<Rightarrow> FileEntry list \<Rightarrow> disk \<Rightarrow> bool" where
  "changed_only host start applied d \<longleftrightarrow>
     (\<forall>entry \<in> set applied. applied_file host entry (fmlookup (files d) (EntryPath entry))) \<and>
     (\<forall>path. path \<notin> EntryPath ` set applied \<longrightarrow> fmlookup (files d) path = fmlookup (files start) path)"

lemma changed_only_files: "files d' = files d \<Longrightarrow> changed_only host start applied d' = changed_only host start applied d"
  by (simp add: changed_only_def)

lemma changed_only_step:
  assumes "changed_only host start applied d" and "apply_entry host entry d = (True, d')"
    and "EntryPath entry \<notin> EntryPath ` set applied"
  shows "changed_only host start (applied @ [entry]) d'"
  using assms apply_entry_done [OF assms(2)] by (auto simp: changed_only_def image_iff)

lemma apply_entries_changed:
  assumes "apply_entries host deletes entries applied d = (err, applied', d')"
    and "changed_only host start applied d" and "distinct (map EntryPath entries)"
    and "\<And>entry. entry \<in> set entries \<Longrightarrow> deletes \<noteq> Exists (After entry) \<Longrightarrow> EntryPath entry \<notin> EntryPath ` set applied"
    and "\<And>n. outcome host n \<noteq> Unsynced"
  shows "changed_only host start applied' d' \<and> set applied \<subseteq> set applied' \<and>
    set applied' \<subseteq> set applied \<union> {entry \<in> set entries. deletes \<noteq> Exists (After entry)} \<and>
    distinct (map EntryPath applied') = distinct (map EntryPath applied) \<and>
    (err = None \<longrightarrow> {entry \<in> set entries. deletes \<noteq> Exists (After entry)} \<subseteq> set applied')"
  using assms(1-4)
proof (induction entries arbitrary: applied d)
  case (Cons entry entries)
  consider (skip) "deletes = Exists (After entry)"
    | (stop) "deletes \<noteq> Exists (After entry)" "applied' = applied" "files d' = files d" "err \<noteq> None"
    | (go) d1 d2 where "deletes \<noteq> Exists (After entry)" "files d1 = files d"
        "apply_entry host entry d1 = (True, d2)"
        "apply_entries host deletes entries (applied @ [entry]) d2 = (err, applied', d')"
    using Cons.prems(1) assms(5)
    by (fastforce simp: Let_def split: prod.splits sum.splits if_splits
        dest!: snapshot_Inr snapshot_Inl apply_entry_failed)
  then show ?case
  proof cases
    case skip
    with Cons.prems(1) have "apply_entries host deletes entries applied d = (err, applied', d')" by simp
    from Cons.IH [OF this Cons.prems(2)] Cons.prems(3,4) skip show ?thesis by auto
  next
    case stop
    with Cons.prems(2) show ?thesis using changed_only_files [OF stop(3)] by auto
  next
    case go
    have fresh: "EntryPath entry \<notin> EntryPath ` set applied" using Cons.prems(4) go(1) by auto
    have step: "changed_only host start (applied @ [entry]) d2"
      using Cons.prems(2) changed_only_files [OF go(2)] go(3) fresh by (intro changed_only_step) auto
    have unused: "EntryPath e \<notin> EntryPath ` set (applied @ [entry])"
      if "e \<in> set entries" "deletes \<noteq> Exists (After e)" for e
    proof -
      have "EntryPath e \<noteq> EntryPath entry"
        using Cons.prems(3) that(1) by (metis distinct.simps(2) imageI list.simps(9) list.set_map)
      with Cons.prems(4) [of e] that show ?thesis by simp
    qed
    have "distinct (map EntryPath entries)" using Cons.prems(3) by simp
    from Cons.IH [OF go(4) step this unused] fresh go(1) show ?thesis by auto
  qed
qed simp

lemma AtomicWrite_done:
  "AtomicWrite host name data mode d = (True, d') \<Longrightarrow>
     files d' = fmupd name (new_file host d data (Perm mode)) (files d)"
  by (auto simp: AtomicWrite_def split: io_outcome.splits)

lemma Remove_done: "Remove host name d = (True, d') \<Longrightarrow> files d' = fmdrop name (files d)"
  by (auto simp: Remove_def split: io_outcome.splits if_splits)

lemma restore_entry_clean:
  assumes "restore_entry host entry d = ([], d')"
  shows "map_option (\<lambda>f. (file_data f, Perm (file_mode f))) (fmlookup (files d') (EntryPath entry)) =
      map_option (\<lambda>(data, mode). (data, Perm mode)) (before_content entry) \<and>
    (\<forall>path. path \<noteq> EntryPath entry \<longrightarrow> fmlookup (files d') path = fmlookup (files d) path)"
proof (cases "snapshot host (EntryPath entry) d")
  case (Pair seen d1)
  show ?thesis
  proof (cases seen)
    case (Inr current)
    with Pair have d1: "files d1 = files d" using snapshot_Inr by blast
    show ?thesis
    proof (cases "Exists (Before entry)")
      case True
      with assms Pair Inr
      have "AtomicWrite host (EntryPath entry) (BeforeData entry) (Mode (Before entry)) d1 = (True, d')"
        by (auto simp: restore_entry_def split: if_splits prod.splits)
      from AtomicWrite_done [OF this] d1 True show ?thesis by (simp add: before_content_def new_file_def)
    next
      case False
      with assms Pair Inr have "Remove host (EntryPath entry) d1 = (True, d')"
        by (auto simp: restore_entry_def split: if_splits prod.splits)
      from Remove_done [OF this] d1 False show ?thesis by (simp add: before_content_def)
    qed
  qed (use assms Pair in \<open>simp add: restore_entry_def\<close>)
qed

lemma restore_entries_clean:
  "restore_entries host entries d = ([], d') \<Longrightarrow>
     (\<forall>path. (\<exists>entry \<in> set entries. EntryPath entry = path \<and>
          contents d' path = map_option (\<lambda>(data, mode). (data, Perm mode)) (before_content entry)) \<or>
        path \<notin> EntryPath ` set entries \<and> contents d' path = contents d path)"
proof (induction entries arbitrary: d)
  case (Cons entry entries)
  then obtain d1 where first: "restore_entry host entry d = ([], d1)"
      and others: "restore_entries host entries d1 = ([], d')"
    by (auto simp: Let_def split: prod.splits)
  show ?case
    using Cons.IH [OF others] restore_entry_clean [OF first]
    by (auto simp: contents_def) (metis (no_types, lifting) image_eqI)
qed (simp add: contents_def)

text \<open>When every call is done, an applied entry is restored.\<close>

lemma restore_entry_works:
  assumes "\<And>n. outcome host n = Done"
    and "applied_file host entry (fmlookup (files d) (EntryPath entry))"
    and "validateEntry host entry = None"
    and "Exists (After entry) \<Longrightarrow> Perm (Mode (After entry)) = Mode (After entry) \<and>
        (\<not> Exists (Before entry) \<longrightarrow> and (Mode (After entry)) (not (umask host)) = Mode (After entry))"
  shows "\<exists>d'. restore_entry host entry d = ([], d') \<and>
    (\<forall>path. path \<noteq> EntryPath entry \<longrightarrow> fmlookup (files d') path = fmlookup (files d) path)"
proof -
  let ?state = "file_state host (fmlookup (files d) (EntryPath entry))"
  have "sameContent ?state (After entry)"
    using assms(2,3,4)
    by (auto simp: applied_file_def sameContent_def file_state_def validateEntry_def split: if_splits)
  moreover have "Exists (Before entry) \<or> fmlookup (files d) (EntryPath entry) \<noteq> None"
    using assms(2,3) by (auto simp: applied_file_def validateEntry_def sameContent_def split: if_splits)
  ultimately show ?thesis
    using assms(1)
    by (auto simp: restore_entry_def snapshot_def SnapshotFile_def AtomicWrite_def Remove_def)
qed

lemma restore_entries_work:
  assumes "\<And>n. outcome host n = Done" and "distinct (map EntryPath entries)"
    and "\<And>entry. entry \<in> set entries \<Longrightarrow> applied_file host entry (fmlookup (files d) (EntryPath entry)) \<and>
      validateEntry host entry = None \<and>
      (Exists (After entry) \<longrightarrow> Perm (Mode (After entry)) = Mode (After entry) \<and>
        (\<not> Exists (Before entry) \<longrightarrow> and (Mode (After entry)) (not (umask host)) = Mode (After entry)))"
  shows "fst (restore_entries host entries d) = []"
  using assms(2,3)
proof (induction entries arbitrary: d)
  case (Cons entry entries)
  obtain d1 where d1: "restore_entry host entry d = ([], d1)"
      "\<And>path. path \<noteq> EntryPath entry \<Longrightarrow> fmlookup (files d1) path = fmlookup (files d) path"
    using restore_entry_works [OF assms(1), of entry d] Cons.prems(2) by (metis list.set_intros(1))
  have "fst (restore_entries host entries d1) = []"
  proof (rule Cons.IH)
    fix e assume "e \<in> set entries"
    moreover have "EntryPath entry \<notin> EntryPath ` set entries" using Cons.prems(1) by simp
    moreover from calculation have "EntryPath e \<noteq> EntryPath entry" by (metis imageI)
    ultimately show "applied_file host e (fmlookup (files d1) (EntryPath e)) \<and>
      validateEntry host e = None \<and>
      (Exists (After e) \<longrightarrow> Perm (Mode (After e)) = Mode (After e) \<and>
        (\<not> Exists (Before e) \<longrightarrow> and (Mode (After e)) (not (umask host)) = Mode (After e)))"
      using Cons.prems(2) [of e] d1(2) by simp
  qed (use Cons.prems(1) in simp)
  with d1(1) show ?case by (simp split: prod.splits)
qed simp

section \<open>The commit\<close>

text \<open>The three ways a commit ends.\<close>

lemma commit_cases:
  assumes commit: "commitConsumed host journal plan d = (failure, result, d')"
    and valid: "Plan_Validate host plan = None" and synced: "\<And>n. outcome host n \<noteq> Unsynced"
  obtains (refused) why where "failure = Some (refused why)" "files d' = files d" "SettlementStatus result = ''failed''"
  | (rolled_back) applied why d3 err where "failure = Some err" "rollback host journal plan applied why d3 = (err, d')"
      "changed_only host d applied d3" "set applied \<subseteq> set (Entries plan)" "distinct (map EntryPath applied)"
      "\<forall>entry \<in> set (Entries plan). file_state host (fmlookup (files d) (EntryPath entry)) = Before entry"
      "SettlementStatus result = ''failed''"
  | (committed) d3 where "failure = None" "files d' = files d3" "changed_only host d (Entries plan) d3"
      "\<forall>entry \<in> set (Entries plan).
         sameContent (file_state host (fmlookup (files d3) (EntryPath entry))) (After entry)"
      "SettlementStatus result = ''succeeded''"
proof -
  let ?es = "Entries plan"
  let ?begun = "\<lparr>ResultBefore = fmempty, ResultAfter = fmempty,
    SettlementStatus = ''failed'', SettlementReason = ''file_commit_failed''\<rparr>"
  obtain unready r1 d1 where P: "prepare_entries host journal ?es ?begun d = (unready, r1, d1)"
    by (metis prod_cases3)
  obtain u w d2 where A1: "apply_entries host False ?es [] d1 = (u, w, d2)" by (metis prod_cases3)
  obtain s a d3 where A2: "(case u of Some why \<Rightarrow> (Some why, w, d2) | None \<Rightarrow> apply_entries host True ?es w d2) = (s, a, d3)"
    by (metis prod_cases3)
  obtain v r2 d4 where V: "verify_entries host journal ?es r1 d3 = (v, r2, d4)" by (metis prod_cases3)
  have r1: "SettlementStatus r1 = ''failed''" using prepare_status [OF P] by simp
  have r2: "SettlementStatus r2 = ''failed''" using verify_status [OF V] r1 by simp
  note P' = prepare_keeps [OF P] and V' = verify_keeps [OF V]
  note unique = Plan_Validate_entries(2) [OF valid]
  have d1: "changed_only host d [] d1" using P' by (simp add: changed_only_def)
  note first = apply_entries_changed [OF A1 d1 unique _ synced, simplified]
  have a: "changed_only host d a d3 \<and> set a \<subseteq> set ?es \<and> distinct (map EntryPath a) \<and> (s = None \<longrightarrow> set ?es \<subseteq> set a)"
  proof (cases u)
    case None
    have fresh: "EntryPath entry \<notin> EntryPath ` set w" if "entry \<in> set ?es" "True \<noteq> Exists (After entry)" for entry
    proof
      assume "EntryPath entry \<in> EntryPath ` set w"
      then obtain e where e: "e \<in> set w" "EntryPath e = EntryPath entry" by auto
      with first have "e \<in> set ?es" "Exists (After e)" by blast+
      with e that eq_key_imp_eq_value_entry [OF unique, of e entry] show False by simp
    qed
    have w: "changed_only host d w d2" using first by blast
    from None A2 have run: "apply_entries host True ?es w d2 = (s, a, d3)" by simp
    note second = apply_entries_changed [OF run w unique fresh synced]
    with None first show ?thesis by blast
  qed (use A2 first in auto)
  consider why where "unready = Some why" | why where "unready = None" "s = Some why"
    | why where "unready = None" "s = None" "v = Some why" | "unready = None" "s = None" "v = None"
    by (cases unready; cases s; cases v) auto
  then show thesis
  proof cases
    case (1 why)
    with commit P P' r1 show ?thesis by (intro refused) (auto simp: commitConsumed_def)
  next
    case (2 why)
    obtain err d5 where R: "rollback host journal plan a why d3 = (err, d5)" by fastforce
    with 2 commit P A1 A2 have "failure = Some err" "d' = d5" "SettlementStatus result = SettlementStatus r1"
      by (auto simp: commitConsumed_def Let_def)
    with R a P' 2 r1 show ?thesis by (intro rolled_back [of err a why d3]) auto
  next
    case (3 why)
    obtain err d5 where R: "rollback host journal plan a why d4 = (err, d5)" by fastforce
    with 3 commit P A1 A2 V have "failure = Some err" "d' = d5" "result = r2"
      by (auto simp: commitConsumed_def Let_def)
    with R a P' V' 3 r2 changed_only_files [of d4 d3 host d a] show ?thesis
      by (intro rolled_back [of err a why d4]) auto
  next
    case 4
    with commit P A1 A2 V have "failure = None" "d' = d4" "SettlementStatus result = ''succeeded''"
      by (auto simp: commitConsumed_def Let_def)
    moreover have "changed_only host d ?es d3" using a 4 by (simp add: changed_only_def) blast
    ultimately show ?thesis using V' 4 by (intro committed [of d3]) auto
  qed
qed

lemma old_contents:
  assumes "Plan_Validate host plan = None" and "no_collision host plan d"
    and "entry \<in> set (Entries plan)"
    and "file_state host (fmlookup (files d) (EntryPath entry)) = Before entry"
  shows "contents d (EntryPath entry) = before_content entry"
  using file_state_content [OF assms(4)] Plan_Validate_entries(1) [OF assms(1,3)] assms(2,3)
  by (auto simp: contents_def no_collision_def)

lemma rolled_back_contents:
  assumes "restore_entries host (List.rev applied) d3 = ([], d')" and "changed_only host d applied d3"
    and "\<And>entry. entry \<in> set applied \<Longrightarrow> contents d (EntryPath entry) = before_content entry"
  shows "contents d' = contents d"
proof
  fix path
  have perm: "map_option (\<lambda>(data, mode). (data, Perm mode)) (contents d path) = contents d path"
    by (cases "fmlookup (files d) path") (simp_all add: contents_def)
  from restore_entries_clean [OF assms(1), rule_format, of path] show "contents d' path = contents d path"
  proof
    assume "\<exists>entry \<in> set (List.rev applied). EntryPath entry = path \<and>
      contents d' path = map_option (\<lambda>(data, mode). (data, Perm mode)) (before_content entry)"
    then obtain entry where entry: "entry \<in> set applied" "EntryPath entry = path"
        "contents d' path = map_option (\<lambda>(data, mode). (data, Perm mode)) (before_content entry)" by auto
    with assms(3) [OF entry(1)] perm show ?thesis by simp
  next
    assume "path \<notin> EntryPath ` set (List.rev applied) \<and> contents d' path = contents d3 path"
    with assms(2) show ?thesis by (simp add: changed_only_def contents_def)
  qed
qed

lemma committed_contents:
  assumes "applied_file host entry value" and "sameContent (file_state host value) (After entry)"
  shows "map_option (\<lambda>f. (file_data f, Perm (file_mode f))) value = after_content entry"
  using assms by (auto simp: applied_file_def sameContent_def file_state_def after_content_def split: if_splits)

lemma failed_commit_restored:
  assumes valid: "Plan_Validate host plan = None" and fresh: "no_collision host plan d"
    and synced: "\<And>n. outcome host n \<noteq> Unsynced"
    and commit: "commitConsumed host journal plan d = (Some err, result, d')" and clean: "fileErrors err = []"
  shows "contents d' = contents d"
  using commit valid synced
proof (cases rule: commit_cases)
  case (rolled_back applied why d3 err')
  show ?thesis
  proof (rule rolled_back_contents)
    show "restore_entries host (List.rev applied) d3 = ([], d')"
      using rolled_back(1,2) clean by (auto simp: rollback_def Let_def split: prod.splits)
    show "contents d (EntryPath entry) = before_content entry" if "entry \<in> set applied" for entry
      using that rolled_back(4,6) by (intro old_contents [OF valid fresh]) auto
  qed (rule rolled_back(3))
qed (simp_all add: contents_def fun_eq_iff)

lemma commit_succeeds:
  assumes "Plan_Validate host plan = None" and "\<And>n. outcome host n \<noteq> Unsynced"
    and "commitConsumed host journal plan d = (None, result, d')"
  shows "\<forall>entry \<in> set (Entries plan). contents d' (EntryPath entry) = after_content entry"
    and "\<forall>path. path \<notin> EntryPath ` set (Entries plan) \<longrightarrow> contents d' path = contents d path"
proof -
  from assms(3,1,2) have "(\<forall>entry \<in> set (Entries plan). contents d' (EntryPath entry) = after_content entry) \<and>
      (\<forall>path. path \<notin> EntryPath ` set (Entries plan) \<longrightarrow> contents d' path = contents d path)"
  proof (cases rule: commit_cases)
    case (committed d3)
    have "contents d' (EntryPath entry) = after_content entry" if "entry \<in> set (Entries plan)" for entry
      using that committed(2,3,4) unfolding contents_def
      by (intro committed_contents [where host = host]) (simp_all add: changed_only_def)
    moreover have "contents d' path = contents d path" if "path \<notin> EntryPath ` set (Entries plan)" for path
      using that committed(2,3) by (simp add: contents_def changed_only_def)
    ultimately show ?thesis by blast
  qed simp_all
  then show "\<forall>entry \<in> set (Entries plan). contents d' (EntryPath entry) = after_content entry"
    and "\<forall>path. path \<notin> EntryPath ` set (Entries plan) \<longrightarrow> contents d' path = contents d path" by auto
qed

text \<open>C31: A commit of the File Broker is all or nothing, or says that it is not. For a valid plan, and
on a file system whose failed operations change nothing, a commit that succeeds leaves every planned
file with exactly its planned content and mode, or absent, and every other file as it was; a commit
that fails, whether by a stale file, a cancelled context, a failing journal, a failed operation or a
result that does not match, and whose error reports no failed restoration, leaves the content of the
whole workspace as it was.
\<close>

theorem commit_all_or_nothing:
  assumes valid: "Plan_Validate host plan = None" and fresh: "no_collision host plan d"
    and synced: "\<And>n. outcome host n \<noteq> Unsynced"
    and commit: "commitConsumed host journal plan d = (failure, result, d')"
  shows "case failure of
      None \<Rightarrow> SettlementStatus result = ''succeeded'' \<and>
        (\<forall>entry \<in> set (Entries plan). contents d' (EntryPath entry) = after_content entry) \<and>
        (\<forall>path. path \<notin> EntryPath ` set (Entries plan) \<longrightarrow> contents d' path = contents d path)
    | Some err \<Rightarrow> SettlementStatus result = ''failed'' \<and>
        (fileErrors err = [] \<longrightarrow> contents d' = contents d)"
  using commit valid synced
proof (cases rule: commit_cases)
  case (refused why)
  then show ?thesis by (simp add: contents_def fun_eq_iff)
next
  case (rolled_back applied why d3 err)
  have "contents d' = contents d" if "fileErrors err = []"
    using failed_commit_restored [OF valid fresh synced] commit rolled_back(1) that by blast
  with rolled_back show ?thesis by simp
next
  case (committed d3)
  then show ?thesis using commit_succeeds [OF valid synced] commit by simp
qed

text \<open>C32: Whatever stops a commit, the rollback works: when every file operation succeeds and the modes
of the plan survive the umask, a commit that fails, because a file is stale, the context is
cancelled, the journal fails or a check refuses, restores the whole workspace and reports no
failed restoration. No entry it applied is taken for a file that someone else changed.
\<close>

theorem rollback_complete:
  assumes valid: "Plan_Validate host plan = None" and fresh: "no_collision host plan d"
    and works: "\<And>n. outcome host n = Done" and modes: "modes_fit host plan"
    and commit: "commitConsumed host journal plan d = (Some err, result, d')"
  shows "fileErrors err = [] \<and> contents d' = contents d"
proof -
  have synced: "outcome host n \<noteq> Unsynced" for n using works by simp
  have "fileErrors err = []"
    using commit valid synced
  proof (cases rule: commit_cases)
    case (refused why)
    then show ?thesis by (simp add: refused_def)
  next
    case (rolled_back applied why d3 err')
    have "fst (restore_entries host (List.rev applied) d3) = []"
    proof (rule restore_entries_work [OF works])
      show "distinct (map EntryPath (List.rev applied))" using rolled_back(5) by (simp add: rev_map [symmetric])
      fix entry assume "entry \<in> set (List.rev applied)"
      then have "entry \<in> set applied" "entry \<in> set (Entries plan)" using rolled_back(4) by auto
      then show "applied_file host entry (fmlookup (files d3) (EntryPath entry)) \<and>
        validateEntry host entry = None \<and>
        (Exists (After entry) \<longrightarrow> Perm (Mode (After entry)) = Mode (After entry) \<and>
          (\<not> Exists (Before entry) \<longrightarrow> and (Mode (After entry)) (not (umask host)) = Mode (After entry)))"
        using rolled_back(3) Plan_Validate_entries(1) [OF valid] modes
        by (simp add: changed_only_def modes_fit_def)
    qed
    with rolled_back(1,2) show ?thesis by (auto simp: rollback_def Let_def split: prod.splits)
  qed simp
  with failed_commit_restored [OF valid fresh synced commit] show ?thesis by simp
qed

section \<open>A small workspace\<close>

text \<open>A host whose operations all succeed, with a digest that tells the texts below apart.\<close>

definition demo_sha :: "string \<Rightarrow> string" where
  "demo_sha data = replicate 63 (CHR ''0'') @ [if data = ''x'' then CHR ''1'' else CHR ''2'']"

definition demo_host :: host where
  "demo_host = \<lparr>outcome = \<lambda>_. Done, identity_at = \<lambda>_. ''id'', umask = 0x12, sha256 = demo_sha,
     encode_plan = \<lambda>_. [], context_canceled = \<lambda>_. False, hook_fails = \<lambda>_. False\<rparr>"

definition demo_entry :: FileEntry where
  "demo_entry = \<lparr>EntryPath = ''a'', Before = file_state demo_host None, BeforeData = [],
     After = \<lparr>Exists = True, Digest = demo_sha ''x'', Identity = [], Mode = 0x1A4\<rparr>, AfterData = ''x''\<rparr>"

definition demo_plan :: FilePlan where
  "demo_plan = \<lparr>PlanVersionOf = 1, Entries = [demo_entry], PlanDigest = demo_sha []\<rparr>"

definition demo_disk :: disk where
  "demo_disk = \<lparr>files = fmempty, calls = 0\<rparr>"

lemmas demo_broker_defs = demo_sha_def demo_host_def demo_entry_def demo_plan_def demo_disk_def

lemma demo_plan_valid: "outcome host = out \<Longrightarrow> sha256 host = demo_sha \<Longrightarrow> encode_plan host = (\<lambda>_. []) \<Longrightarrow>
    Plan_Validate host demo_plan = None"
  by (simp add: demo_broker_defs Plan_Validate_def PlanVersion_def validDigest_def hex_char_def
      validateEntry_def path_error_def protected_names_def sameContent_def file_state_def planDigest_def
      list_all_iff require_def)

lemmas commit_eval = commitConsumed_def snapshot_def SnapshotFile_def apply_entry_def AtomicCreate_def
  new_file_def file_state_def sameContent_def journal_fails_def Perm_def rollback_def restore_entry_def
  Remove_def called_def put_file_def drop_file_def refused_def Let_def

definition failing_journal :: Journal where
  "failing_journal = \<lparr>journal_before = \<lambda>_. True, journal_after = \<lambda>_. False\<rparr>"

lemma demo_commits: "fst (commitConsumed demo_host None demo_plan demo_disk) = None"
  by (simp add: demo_broker_defs commit_eval)

lemma demo_fails:
  "fst (commitConsumed demo_host (Some failing_journal) demo_plan demo_disk) =
     Some \<lparr>cause = JournalSettlementError ''a'', fileErrors = [], journalErrors = [''a'']\<rparr>"
  by (simp add: demo_broker_defs commit_eval failing_journal_def)

theorem commit_all_or_nothing_witness:
  "contents (snd (snd (commitConsumed demo_host None demo_plan demo_disk))) ''a'' = Some (''x'', 0x1A4)"
proof -
  obtain failure result d' where run: "commitConsumed demo_host None demo_plan demo_disk = (failure, result, d')"
    by (metis prod_cases3)
  with demo_commits have "failure = None" by simp
  with commit_all_or_nothing [OF demo_plan_valid [of demo_host] _ _ run] run show ?thesis
    by (simp add: demo_broker_defs no_collision_def after_content_def)
qed

theorem rollback_complete_witness:
  "contents (snd (snd (commitConsumed demo_host (Some failing_journal) demo_plan demo_disk))) =
     contents demo_disk"
proof -
  obtain failure result d' where
    run: "commitConsumed demo_host (Some failing_journal) demo_plan demo_disk = (failure, result, d')"
    by (metis prod_cases3)
  with demo_fails obtain err where err: "failure = Some err" by auto
  have "modes_fit demo_host demo_plan"
    by (simp add: demo_broker_defs modes_fit_def Perm_def)
  with rollback_complete [OF demo_plan_valid [of demo_host] _ _ _ run [unfolded err]] run show ?thesis
    by (simp add: demo_broker_defs no_collision_def)
qed

text \<open>
  A directory that cannot be synchronized makes a write fail after it happened: the commit
  reports the failure, no failed restoration, and leaves the file.
\<close>

lemma unsynced_write_kept:
  fixes host defines "host \<equiv> demo_host\<lparr>outcome := \<lambda>n. if n = 3 then Unsynced else Done\<rparr>"
  shows "fst (commitConsumed host None demo_plan demo_disk) =
      Some \<lparr>cause = ApplyError ''a'', fileErrors = [], journalErrors = []\<rparr> \<and>
    contents (snd (snd (commitConsumed host None demo_plan demo_disk))) ''a'' = Some (''x'', 0x1A4)"
  by (simp add: host_def demo_broker_defs commit_eval contents_def)

text \<open>
  A umask that clears planned bits makes a created file differ from the plan; the rollback then
  takes it for a file changed by someone else and leaves it.
\<close>

lemma umask_blocks_creation:
  fixes host defines "host \<equiv> demo_host\<lparr>umask := 0x3F\<rparr>"
  shows "fst (commitConsumed host None demo_plan demo_disk) =
      Some \<lparr>cause = ResultMismatch ''a'', fileErrors = [ChangedAfterWrite ''a''], journalErrors = []\<rparr> \<and>
    contents (snd (snd (commitConsumed host None demo_plan demo_disk))) ''a'' = Some (''x'', 0x180)"
  by (simp add: host_def demo_broker_defs commit_eval contents_def)

end
