(* ===== verification/ApplyTransaction.thy ===== *)
theory ApplyTransaction
  imports FileApply BrokerSafety
begin

text \<open>
  What the transactions of the file tools mean. The specification runs the requests one after the
  other on a map that gives every path its mode and, when it exists, its content; the transaction
  is a view on such a map that reads the workspace lazily. Together with the commit of the File
  Broker: what a caller asks for is what the workspace holds afterwards.
\<close>

section \<open>The specification\<close>

type_synonym path_view = "string \<Rightarrow> u32 \<times> string option"

definition spec_edit :: "changeRequest \<Rightarrow> u32 \<times> string option \<Rightarrow> apply_error + u32 \<times> string option" where
  "spec_edit r slot =
     (if Op r = opWrite then Inr (fst slot, Some (WriteContent r))
      else if Op r = opEdit then
        (case snd slot of
           None \<Rightarrow> Inl FileMissing
         | Some c \<Rightarrow> bind_result (replaceOnce c (Old r) (New r)) (\<lambda>t. Inr (fst slot, Some t)))
      else if Op r = opDelete then
        (if snd slot = None then Inl FileMissing else Inr (fst slot, None))
      else Inr slot)"

definition spec_change :: "(string \<Rightarrow> string option) \<Rightarrow> changeRequest \<Rightarrow> path_view \<Rightarrow> apply_error + path_view" where
  "spec_change resolve r v =
     (case resolve (Path r) of
        None \<Rightarrow> Inl (ResolveFailed (Path r))
      | Some p \<Rightarrow>
          if Op r = opMove then
            (if snd (v p) = None then Inl FileMissing
             else case resolve (To r) of
                 None \<Rightarrow> Inl (ResolveFailed (To r))
               | Some t \<Rightarrow>
                   if t = p then Inl SameFile
                   else if snd (v t) \<noteq> None then Inl MoveTargetExists
                   else Inr (v(t := v p, p := (fst (v p), None))))
          else bind_result (spec_edit r (v p)) (\<lambda>slot. Inr (v(p := slot))))"

fun spec_changes :: "(string \<Rightarrow> string option) \<Rightarrow> changeRequest list \<Rightarrow> path_view \<Rightarrow> apply_error + path_view" where
  "spec_changes resolve [] v = Inr v"
| "spec_changes resolve (r # rs) v = bind_result (spec_change resolve r v) (spec_changes resolve rs)"

definition disk_view :: "disk \<Rightarrow> path_view" where
  "disk_view d path =
     (case fmlookup (files d) path of
        None \<Rightarrow> (0x1A4, None)
      | Some f \<Rightarrow> (Perm (file_mode f), Some (file_data f)))"

section \<open>The view of a transaction\<close>

definition planned_slot :: "plannedFile \<Rightarrow> u32 \<times> string option" where
  "planned_slot p = (mode p, if exists p then Some (later p) else None)"

definition view :: "transaction \<Rightarrow> disk \<Rightarrow> path_view" where
  "view x d path =
     (case fmlookup (planned_files x) path of None \<Rightarrow> disk_view d path | Some p \<Rightarrow> planned_slot p)"

text \<open>A planned file remembers what was on disk, and a deleted one has no content.\<close>

definition based :: "host \<Rightarrow> disk \<Rightarrow> plannedFile \<Rightarrow> bool" where
  "based host d p \<longleftrightarrow>
     (let r = read_planned host (canonical p) (fmlookup (files d) (canonical p)) in
      existed p = existed r \<and> before p = before r \<and> beforeMode p = beforeMode r \<and>
      beforeState p = beforeState r \<and> (\<not> exists p \<longrightarrow> later p = []) \<and> Perm (mode p) = mode p)"

definition tracked :: "host \<Rightarrow> transaction \<Rightarrow> disk \<Rightarrow> bool" where
  "tracked host x d \<longleftrightarrow>
     (\<forall>path p. fmlookup (planned_files x) path = Some p \<longrightarrow> canonical p = path \<and> based host d p) \<and>
     set (order x) = fset (fmdom (planned_files x))"

lemma tracked_lookup:
  "tracked host x d \<Longrightarrow> fmlookup (planned_files x) path = Some p \<Longrightarrow> canonical p = path \<and> based host d p"
  by (simp add: tracked_def)

lemma tracked_order:
  "tracked host x d \<Longrightarrow> fmlookup (planned_files x) path = Some p \<Longrightarrow> path \<in> set (order x)"
  using fmdomI [of "planned_files x" path p] by (simp add: tracked_def)

lemma based_files: "files d' = files d \<Longrightarrow> based host d' p = based host d p"
  by (simp add: based_def)

lemma tracked_files: "files d' = files d \<Longrightarrow> tracked host x d' = tracked host x d"
  by (simp add: tracked_def based_def)

lemma view_files: "files d' = files d \<Longrightarrow> view x d' = view x d"
  by (simp add: view_def disk_view_def fun_eq_iff split: option.splits)

lemma tracked_put:
  assumes "tracked host x d" and "fmlookup (planned_files x) (canonical p) \<noteq> None" and "based host d p"
  shows "tracked host (put_planned p x) d"
  using assms by (auto simp: tracked_def put_planned_def intro: fmdomI)

lemma view_put: "view (put_planned p x) d = (view x d)(canonical p := planned_slot p)"
  by (auto simp: view_def put_planned_def fun_eq_iff)

lemma based_read: "based host d (read_planned host path (fmlookup (files d) path))"
  by (cases "fmlookup (files d) path") (simp_all add: based_def read_planned_def Perm_def)

lemma read_planned_slot:
  "canonical (read_planned host path (fmlookup (files d) path)) = path"
  "planned_slot (read_planned host path (fmlookup (files d) path)) = disk_view d path"
  by (cases "fmlookup (files d) path"; simp add: read_planned_def planned_slot_def disk_view_def)+

lemma load_found:
  assumes "load host resolve name x d = (Inr (p, x'), d')" and tracked: "tracked host x d"
  shows "files d' = files d \<and> tracked host x' d \<and> view x' d = view x d \<and>
    resolve name = Some (canonical p) \<and> fmlookup (planned_files x') (canonical p) = Some p \<and>
    planned_slot p = view x d (canonical p) \<and>
    (\<forall>q r. fmlookup (planned_files x) q = Some r \<longrightarrow> fmlookup (planned_files x') q = Some r)"
proof -
  from assms(1) obtain path where path: "resolve name = Some path" by (auto simp: load_def split: option.splits)
  show ?thesis
  proof (cases "fmlookup (planned_files x) path")
    case (Some q)
    with assms path tracked_lookup [OF tracked Some] show ?thesis by (auto simp: load_def view_def)
  next
    case None
    let ?p = "read_planned host path (fmlookup (files d) path)"
    from assms(1) path None have p: "p = ?p" "x' = (put_planned ?p x)\<lparr>order := order x @ [path]\<rparr>" "files d' = files d"
      by (auto simp: load_def SnapshotFile_def Let_def split: if_splits)
    have "tracked host x' d"
      using tracked based_read [of host d path] read_planned_slot(1) [of host path d]
      by (auto simp: p tracked_def put_planned_def)
    moreover have "view x' d = view x d"
      using None read_planned_slot [of host path d] by (auto simp: p view_def put_planned_def fun_eq_iff)
    ultimately show ?thesis
      using p path None read_planned_slot [of host path d] by (auto simp: view_def put_planned_def)
  qed
qed

lemma load_files: "load host resolve name x d = (r, d') \<Longrightarrow> files d' = files d"
  by (auto simp: load_def SnapshotFile_def Let_def split: option.splits if_splits)

lemma compose_files: "compose host resolve r x d = (out, d') \<Longrightarrow> files d' = files d"
  by (auto simp: compose_def split: prod.splits sum.splits if_splits dest!: load_files)

lemma compose_all_files: "compose_all host resolve rs x d = (out, d') \<Longrightarrow> files d' = files d"
  by (induction rs arbitrary: x d) (auto split: prod.splits sum.splits dest!: compose_files)

lemma load_failed:
  assumes "load host resolve name x d = (Inl err, d')" and "\<forall>n. err \<noteq> ReadFailed n"
  shows "resolve name = None \<and> err = ResolveFailed name"
  using assms by (auto simp: load_def SnapshotFile_def Let_def split: option.splits if_splits)

lemma edit_planned_spec:
  "spec_edit r (planned_slot p) = bind_result (edit_planned r p) (\<lambda>p'. Inr (planned_slot p'))"
  by (cases "replaceOnce (later p) (Old r) (New r)")
     (auto simp: spec_edit_def edit_planned_def planned_slot_def)

lemma edit_planned_based:
  "edit_planned r p = Inr p' \<Longrightarrow> based host d p \<Longrightarrow> canonical p' = canonical p \<and> based host d p'"
  by (auto simp: edit_planned_def based_def bind_result_eq_Inr Let_def split: if_splits)

text \<open>One request on the transaction is one request of the specification.\<close>

text \<open>The two ways a loaded file changes: in place, and by moving it to another loaded file.\<close>

lemma edit_refines:
  assumes tracked: "tracked host x d" and look: "fmlookup (planned_files x) (canonical p) = Some p"
    and "resolve (Path r) = Some (canonical p)" and "planned_slot p = view x d (canonical p)" and "Op r \<noteq> opMove"
  shows "spec_change resolve r (view x d) =
      bind_result (bind_result (edit_planned r p) (\<lambda>p'. Inr (put_planned p' x))) (\<lambda>x'. Inr (view x' d)) \<and>
    (\<forall>x'. bind_result (edit_planned r p) (\<lambda>p'. Inr (put_planned p' x)) = Inr x' \<longrightarrow> tracked host x' d)"
proof (cases "edit_planned r p")
  case (Inl err)
  with assms(3-5) edit_planned_spec [of r p] show ?thesis by (simp add: spec_change_def)
next
  case edited: (Inr p')
  have basis: "based host d p" using tracked_lookup [OF tracked look] by simp
  from edit_planned_based [OF edited basis] have p': "canonical p' = canonical p" "based host d p'" by auto
  have "spec_edit r (planned_slot p) = Inr (planned_slot p')" using edit_planned_spec [of r p] edited by simp
  moreover have "tracked host (put_planned p' x) d" using tracked look p' by (intro tracked_put) auto
  ultimately show ?thesis using assms(3-5) p' edited by (simp add: spec_change_def view_put)
qed

lemma move_refines:
  assumes tracked: "tracked host x d" and look: "fmlookup (planned_files x) (canonical p) = Some p"
      "fmlookup (planned_files x) (canonical t) = Some t"
    and names: "resolve (Path r) = Some (canonical p)" "resolve (To r) = Some (canonical t)"
    and slot: "planned_slot p = view x d (canonical p)" "planned_slot t = view x d (canonical t)"
    and move: "Op r = opMove" and there: "exists p"
  shows "spec_change resolve r (view x d) = bind_result (move_planned p t x) (\<lambda>x'. Inr (view x' d)) \<and>
    (\<forall>x'. move_planned p t x = Inr x' \<longrightarrow> tracked host x' d)"
proof -
  have source: "snd (view x d (canonical p)) = None \<longleftrightarrow> \<not> exists p"
    and target: "snd (view x d (canonical t)) = None \<longleftrightarrow> \<not> exists t"
    by (simp_all add: slot [symmetric] planned_slot_def)
  let ?t = "t\<lparr>exists := True, later := later p, mode := mode p\<rparr>" and ?p = "p\<lparr>exists := False, later := []\<rparr>"
  have slots: "planned_slot ?t = planned_slot p" "planned_slot ?p = (fst (planned_slot p), None)"
    using there by (simp_all add: planned_slot_def)
  have kept: "tracked host (put_planned ?p (put_planned ?t x)) d"
    using tracked look tracked_lookup [OF tracked look(1)] tracked_lookup [OF tracked look(2)]
    by (intro tracked_put) (auto simp: based_def put_planned_def Let_def)
  show ?thesis
    using names slot source target move there kept slots
    by (auto simp: move_planned_def spec_change_def view_put fun_upd_twist)
qed

lemma compose_refines:
  assumes "compose host resolve r x d = (outcome', d')" and tracked: "tracked host x d"
    and "\<And>n. outcome' \<noteq> Inl (ReadFailed n)"
  shows "spec_change resolve r (view x d) = bind_result outcome' (\<lambda>x'. Inr (view x' d)) \<and>
    (\<forall>x'. outcome' = Inr x' \<longrightarrow> files d' = files d \<and> tracked host x' d)"
proof (cases "load host resolve (Path r) x d")
  case (Pair loaded d1)
  show ?thesis
  proof (cases loaded)
    case (Inl err)
    with Pair assms(1,3) load_failed [of host resolve "Path r" x d err d1] show ?thesis
      by (auto simp: compose_def spec_change_def)
  next
    case (Inr px)
    obtain p x1 where px: "px = (p, x1)" by fastforce
    note found = load_found [OF _ tracked, of resolve "Path r" p x1 d1]
    from Pair Inr px found have L: "files d1 = files d" "tracked host x1 d" "view x1 d = view x d"
        "resolve (Path r) = Some (canonical p)" "fmlookup (planned_files x1) (canonical p) = Some p"
        "planned_slot p = view x d (canonical p)" by auto
    have exists: "snd (view x d (canonical p)) = None \<longleftrightarrow> \<not> exists p"
      by (simp add: L(6) [symmetric] planned_slot_def)
    show ?thesis
    proof (cases "Op r = opMove")
      case False
      with assms(1) Pair Inr px have out: "outcome' = bind_result (edit_planned r p) (\<lambda>p'. Inr (put_planned p' x1))" "d' = d1"
        by (auto simp: compose_def)
      show ?thesis using edit_refines [where resolve = resolve and r = r, OF L(2,5,4) _ False] L(1,3,6) out by simp
    next
      case move: True
      show ?thesis
      proof (cases "exists p")
        case False
        with move assms(1) Pair Inr px L exists show ?thesis by (auto simp: compose_def spec_change_def)
      next
        case True
        obtain loaded2 d2 where second: "load host resolve (To r) x1 d1 = (loaded2, d2)" by fastforce
        have tracked1: "tracked host x1 d1" using L(1,2) tracked_files by blast
        show ?thesis
        proof (cases loaded2)
          case (Inl err)
          with move True assms(1,3) Pair \<open>loaded = Inr px\<close> px second L exists load_failed [of host resolve "To r" x1 d1 err d2]
          show ?thesis by (auto simp: compose_def spec_change_def)
        next
          case (Inr tx)
          obtain t x2 where tx: "tx = (t, x2)" by fastforce
          from second Inr tx load_found [OF _ tracked1, of resolve "To r" t x2 d2] L(1) view_files [OF L(1)]
          have M: "files d2 = files d" "tracked host x2 d1" "view x2 d1 = view x1 d1"
              "resolve (To r) = Some (canonical t)" "fmlookup (planned_files x2) (canonical t) = Some t"
              "planned_slot t = view x1 d1 (canonical t)" "fmlookup (planned_files x2) (canonical p) = Some p"
            using L(5) by auto
          have N: "tracked host x2 d" "view x2 d = view x d" "planned_slot t = view x d (canonical t)"
            using M L(1,3) tracked_files [OF L(1)] view_files [OF L(1)] by auto
          have out: "outcome' = move_planned p t x2" "d' = d2"
            using move True assms(1) Pair \<open>loaded = Inr px\<close> px second Inr tx by (auto simp: compose_def)
          have "planned_slot p = view x2 d (canonical p)" "planned_slot t = view x2 d (canonical t)"
            using L(6) N(2,3) by simp_all
          from move_refines [where resolve = resolve and r = r, OF N(1) M(7,5) L(4) M(4) this move True] show ?thesis using out M(1) N(2) by simp
        qed
      qed
    qed
  qed
qed

lemma compose_all_refines:
  assumes "compose_all host resolve rs x d = (outcome', d')" and "tracked host x d"
    and "\<And>n. outcome' \<noteq> Inl (ReadFailed n)"
  shows "spec_changes resolve rs (view x d) = bind_result outcome' (\<lambda>x'. Inr (view x' d)) \<and>
    (\<forall>x'. outcome' = Inr x' \<longrightarrow> files d' = files d \<and> tracked host x' d)"
  using assms
proof (induction rs arbitrary: x d)
  case (Cons r rs)
  obtain first d1 where first: "compose host resolve r x d = (first, d1)" by fastforce
  show ?case
  proof (cases first)
    case (Inl err)
    with Cons.prems first compose_refines [OF first Cons.prems(2)] show ?thesis by auto
  next
    case (Inr x1)
    from compose_refines [OF first Cons.prems(2)] Inr
    have step: "spec_change resolve r (view x d) = Inr (view x1 d)" "files d1 = files d" "tracked host x1 d" by auto
    from Cons.prems(1) first Inr have rest: "compose_all host resolve rs x1 d1 = (outcome', d')" by simp
    have "tracked host x1 d1" using step tracked_files by blast
    from Cons.IH [OF rest this Cons.prems(3)] step view_files [OF step(2)] tracked_files [OF step(2)]
    show ?thesis by simp
  qed
qed auto

lemma view_empty: "view \<lparr>planned_files = fmempty, order = []\<rparr> d = disk_view d"
  by (simp add: view_def fun_eq_iff)

lemma tracked_empty: "tracked host \<lparr>planned_files = fmempty, order = []\<rparr> d"
  by (simp add: tracked_def)

text \<open>C33: A file transaction does what running its requests one after the other would do. Once the
requests are well formed and fresh, and unless a file cannot be read, preparing the transaction
fails exactly when the sequential specification fails, with the same error, and otherwise its view
of every path, the ones it never read included, is the specification's result. Preparing writes
nothing.
\<close>

theorem transaction_refines:
  assumes "prepareTransaction host resolve fresh requests d = (outcome', d')"
    and "requests \<noteq> []" and "length requests \<le> maxTransactionChanges"
    and "list_all (\<lambda>r. validate_request r = None) requests" and "checkFreshness resolve fresh requests = None"
    and "\<And>n. outcome' \<noteq> Inl (ReadFailed n)"
  shows "spec_changes resolve requests (disk_view d) = bind_result outcome' (\<lambda>(x, _). Inr (view x d)) \<and>
    files d' = files d"
proof -
  let ?x = "\<lparr>planned_files = fmempty, order = []\<rparr>"
  obtain composed d1 where run: "compose_all host resolve requests ?x d = (composed, d1)" by fastforce
  have "first_error (map validate_request requests @ [checkFreshness resolve fresh requests]) = None"
    using assms(4,5) by (auto simp: list_all_iff)
  with assms(1-3) run have out: "outcome' = bind_result composed (\<lambda>x. Inr (x, summarize x))" "d' = d1"
    by (cases composed; auto simp: prepareTransaction_def)+
  have "composed \<noteq> Inl (ReadFailed n)" for n using out(1) assms(6) [of n] by auto
  from compose_all_refines [OF run tracked_empty this] out compose_all_files [OF run]
  show ?thesis by (cases composed) (simp_all add: view_empty)
qed

section \<open>From the requests to the workspace\<close>

definition visible :: "u32 \<times> string option \<Rightarrow> (string \<times> u32) option" where
  "visible slot = map_option (\<lambda>data. (data, Perm (fst slot))) (snd slot)"

lemma visible_disk: "visible (disk_view d path) = contents d path"
  by (cases "fmlookup (files d) path") (simp_all add: visible_def disk_view_def contents_def)

lemma unchanged_file:
  "based host d p \<Longrightarrow> kind p = [] \<Longrightarrow> visible (planned_slot p) = contents d (canonical p)"
  by (cases "fmlookup (files d) (canonical p)")
     (auto simp: based_def read_planned_def kind_def kind_created_def kind_deleted_def kind_modified_def
       visible_def planned_slot_def contents_def split: if_splits)

lemma entry_content: "after_content (broker_entry host p) = visible (planned_slot p)"
  by (simp add: after_content_def broker_entry_def visible_def planned_slot_def)

lemma in_map_filter: "y \<in> set (List.map_filter f xs) \<longleftrightarrow> (\<exists>x \<in> set xs. f x = Some y)"
  by (induction xs) (auto split: option.splits)

lemma set_changed_files:
  assumes "tracked host x d"
  shows "set (changed_files x) = {p. fmlookup (planned_files x) (canonical p) = Some p \<and> kind p \<noteq> []}"
proof -
  have "p \<in> set (List.map_filter (fmlookup (planned_files x)) (order x)) \<longleftrightarrow>
      fmlookup (planned_files x) (canonical p) = Some p" for p
  proof
    assume "p \<in> set (List.map_filter (fmlookup (planned_files x)) (order x))"
    then obtain path where "fmlookup (planned_files x) path = Some p" by (auto simp: in_map_filter)
    with tracked_lookup [OF assms] show "fmlookup (planned_files x) (canonical p) = Some p" by blast
  next
    assume "fmlookup (planned_files x) (canonical p) = Some p"
    with tracked_order [OF assms] show "p \<in> set (List.map_filter (fmlookup (planned_files x)) (order x))"
      by (metis in_map_filter)
  qed
  then show ?thesis by (auto simp: changed_files_def)
qed

lemma brokerPlan_entries:
  assumes "brokerPlan host x = Inr plan" and "tracked host x d"
    and "\<And>p. p \<in> set (changed_files x) \<Longrightarrow> Clean (canonical p) = canonical p"
  shows "Plan_Validate host plan = None \<and> set (Entries plan) = broker_entry host ` set (changed_files x)"
proof -
  have "map ((\<lambda>e. e\<lparr>EntryPath := Clean (EntryPath e)\<rparr>) \<circ> broker_entry host) (changed_files x) =
      map (broker_entry host) (changed_files x)"
    using assms(3) by (intro map_cong) (auto simp: broker_entry_def)
  then show ?thesis using assms(1) by (auto simp: brokerPlan_def NewPlan_def Let_def)
qed

lemma load_resolved:
  "load host resolve name x d = (Inr (p, x'), d') \<Longrightarrow>
     \<forall>path \<in> set (order x). \<exists>name. resolve name = Some path \<Longrightarrow>
     \<forall>path \<in> set (order x'). \<exists>name. resolve name = Some path"
  by (auto simp: load_def SnapshotFile_def Let_def put_planned_def split: option.splits if_splits)

lemma compose_resolved:
  assumes "compose host resolve r x d = (Inr x', d')" and "\<forall>path \<in> set (order x). \<exists>name. resolve name = Some path"
  shows "\<forall>path \<in> set (order x'). \<exists>name. resolve name = Some path"
proof -
  obtain p x1 d1 where first: "load host resolve (Path r) x d = (Inr (p, x1), d1)"
    using assms(1) by (auto simp: compose_def split: prod.splits sum.splits)
  note one = load_resolved [OF first assms(2)]
  show ?thesis
  proof (cases "Op r = opMove")
    case True
    then obtain t x2 d2 where second: "load host resolve (To r) x1 d1 = (Inr (t, x2), d2)"
        and "move_planned p t x2 = Inr x'"
      using assms(1) first by (auto simp: compose_def split: prod.splits sum.splits if_splits)
    then have "order x' = order x2" by (auto simp: move_planned_def put_planned_def split: if_splits)
    with load_resolved [OF second one] show ?thesis by simp
  next
    case False
    with assms(1) first have "order x' = order x1"
      by (auto simp: compose_def put_planned_def bind_result_eq_Inr)
    with one show ?thesis by simp
  qed
qed

lemma compose_all_resolved:
  "compose_all host resolve rs x d = (Inr x', d') \<Longrightarrow>
     \<forall>path \<in> set (order x). \<exists>name. resolve name = Some path \<Longrightarrow>
     \<forall>path \<in> set (order x'). \<exists>name. resolve name = Some path"
proof (induction rs arbitrary: x d)
  case (Cons r rs)
  from Cons.prems(1) obtain x1 d1 where first: "compose host resolve r x d = (Inr x1, d1)"
      and rest: "compose_all host resolve rs x1 d1 = (Inr x', d')"
    by (auto split: prod.splits sum.splits)
  from Cons.IH [OF rest compose_resolved [OF first Cons.prems(2)]] show ?case .
qed simp

text \<open>C34: What a caller asks for is what the workspace holds. When a transaction of the file tools is
prepared, its plan is accepted and the File Broker commits it, the sequential specification of the
requests succeeds, and afterwards every path of the workspace has the content and the permissions
the specification gives it, or is absent when the specification says so: files the requests do not
change are untouched.
\<close>

theorem applied_requests:
  assumes prepared: "prepareTransaction host resolve fresh requests d = (Inr (x, changes, diff), d1)"
    and plan: "brokerPlan host x = Inr plan"
    and commit: "commitConsumed host journal plan d1 = (None, result, d2)"
    and synced: "\<And>n. outcome host n \<noteq> Unsynced"
    and clean: "\<And>name path. resolve name = Some path \<Longrightarrow> Clean path = path"
  shows "\<exists>v. spec_changes resolve requests (disk_view d) = Inr v \<and> (\<forall>path. contents d2 path = visible (v path))"
proof -
  let ?x = "\<lparr>planned_files = fmempty, order = []\<rparr>"
  from prepared have run: "compose_all host resolve requests ?x d = (Inr x, d1)"
    by (auto simp: prepareTransaction_def split: if_splits option.splits prod.splits sum.splits)
  from compose_all_refines [OF run tracked_empty]
  have spec: "spec_changes resolve requests (disk_view d) = Inr (view x d)" and "files d1 = files d" and x: "tracked host x d"
    by (auto simp: view_empty)
  then have d1: "contents d1 = contents d" by (simp add: contents_def fun_eq_iff)
  have "Clean (canonical p) = canonical p" if "p \<in> set (changed_files x)" for p
  proof -
    from that set_changed_files [OF x] have "canonical p \<in> set (order x)" using tracked_order [OF x] by blast
    with compose_all_resolved [OF run] clean show ?thesis by auto
  qed
  note entries = brokerPlan_entries [OF plan x this]
  note finished = commit_succeeds [OF entries [THEN conjunct1] synced commit]
  have "contents d2 path = visible (view x d path)" for path
  proof (cases "\<exists>p \<in> set (changed_files x). canonical p = path")
    case True
    then obtain p where p: "p \<in> set (changed_files x)" "canonical p = path" by blast
    then have "contents d2 path = after_content (broker_entry host p)"
      using finished(1) entries by (auto simp: broker_entry_def)
    with p set_changed_files [OF x] show ?thesis by (auto simp: entry_content view_def)
  next
    case False
    then have "path \<notin> EntryPath ` set (Entries plan)" using entries by (auto simp: broker_entry_def)
    with finished(2) d1 have "contents d2 path = contents d path" by simp
    moreover have "visible (view x d path) = contents d path"
    proof (cases "fmlookup (planned_files x) path")
      case (Some p)
      with tracked_lookup [OF x Some] False set_changed_files [OF x] unchanged_file [of host d p]
      show ?thesis by (auto simp: view_def)
    qed (simp add: view_def visible_disk)
    ultimately show ?thesis by simp
  qed
  with spec show ?thesis by blast
qed

section \<open>A small transaction\<close>

definition demo_resolve :: "string \<Rightarrow> string option" where
  "demo_resolve name = (if Clean name = name then Some name else None)"

definition demo_request :: changeRequest where
  "demo_request = \<lparr>Op = ''write'', Path = ''a'', WriteContent = ''x'', Old = [], New = [], To = []\<rparr>"

definition demo_planned :: plannedFile where
  "demo_planned = (read_planned demo_host ''a'' None)\<lparr>exists := True, later := ''x''\<rparr>"

definition demo_transaction :: transaction where
  "demo_transaction = \<lparr>planned_files = fmupd ''a'' demo_planned fmempty, order = [''a'']\<rparr>"

lemma demo_clean: "Clean ''a'' = ''a''"
  by (simp add: Clean_def)

lemma demo_request_valid: "validate_request demo_request = None" "checkFreshness demo_resolve (\<lambda>_. True) [demo_request] = None"
  using TrimSpace_not_blank [of "CHR ''a''" "''a''"]
  by (simp_all add: space_encodings_def demo_request_def validate_request_def op_names named_def checkFreshness_def
      demo_resolve_def demo_clean solid_def)

lemma demo_prepared:
  "prepareTransaction demo_host demo_resolve (\<lambda>_. True) [demo_request] demo_disk =
     (Inr (demo_transaction, summarize demo_transaction), called demo_disk)"
  using demo_request_valid
  by (simp add: prepareTransaction_def maxTransactionChanges_def compose_def load_def SnapshotFile_def
      demo_request_def demo_resolve_def demo_clean demo_disk_def demo_host_def called_def op_names edit_planned_def
      put_planned_def read_planned_def demo_transaction_def demo_planned_def Let_def)

theorem transaction_refines_witness:
  "spec_changes demo_resolve [demo_request] (disk_view demo_disk) = Inr (view demo_transaction demo_disk)"
  using transaction_refines [OF demo_prepared] demo_request_valid
  by (simp add: maxTransactionChanges_def)

lemma demo_changed: "changed_files demo_transaction = [demo_planned]"
  by (simp add: changed_files_def demo_transaction_def demo_planned_def read_planned_def kind_def kind_created_def)

lemma demo_broker_plan: "brokerPlan demo_host demo_transaction = Inr demo_plan"
proof -
  have "broker_entry demo_host demo_planned = demo_entry"
    by (simp add: broker_entry_def demo_planned_def read_planned_def demo_broker_defs file_state_def Perm_def)
  moreover have "demo_entry\<lparr>EntryPath := Clean (EntryPath demo_entry)\<rparr> = demo_entry"
    by (simp add: demo_entry_def demo_clean)
  moreover have "demo_plan = \<lparr>PlanVersionOf = PlanVersion, Entries = [demo_entry], PlanDigest = demo_sha []\<rparr>"
    by (simp add: demo_plan_def PlanVersion_def)
  ultimately show ?thesis
    using demo_plan_valid [of demo_host]
    by (simp add: brokerPlan_def demo_changed NewPlan_def Let_def planDigest_def demo_host_def)
qed

theorem applied_requests_witness:
  "\<exists>v. spec_changes demo_resolve [demo_request] (disk_view demo_disk) = Inr v \<and>
     contents (snd (snd (commitConsumed demo_host None demo_plan (called demo_disk)))) ''a'' = visible (v ''a'')"
proof -
  obtain failure result d2 where run: "commitConsumed demo_host None demo_plan (called demo_disk) = (failure, result, d2)"
    by (metis prod_cases3)
  moreover have "fst (commitConsumed demo_host None demo_plan (called demo_disk)) = None"
    by (simp add: demo_broker_defs commit_eval)
  ultimately have committed: "commitConsumed demo_host None demo_plan (called demo_disk) = (None, result, d2)" by simp
  obtain changes diff where prepared: "prepareTransaction demo_host demo_resolve (\<lambda>_. True) [demo_request] demo_disk =
      (Inr (demo_transaction, changes, diff), called demo_disk)"
    using demo_prepared by (metis surj_pair)
  have "outcome demo_host n \<noteq> Unsynced" for n by (simp add: demo_host_def)
  moreover have "Clean path = path" if "demo_resolve name = Some path" for name path
    using that by (auto simp: demo_resolve_def split: if_splits)
  ultimately have "\<exists>v. spec_changes demo_resolve [demo_request] (disk_view demo_disk) = Inr v \<and>
      (\<forall>path. contents d2 path = visible (v path))"
    by (rule applied_requests [OF prepared demo_broker_plan committed])
  with committed show ?thesis by auto
qed

end
