(* ===== verification/BudgetLedger.thy ===== *)
theory BudgetLedger
  imports Prelude
begin

text \<open>
  The work budget of sub-agents, \<open>src/internal/orchestration/budget/ledger.go\<close>: a tree of scopes
  with limits on tokens, cost and slots, reservations that count against every scope up to the
  root, and their settlement or refund. Amounts are 64-bit words and add with wrap-around, as in
  the source; slots are a signed \<open>int\<close>. The mutex makes each operation one step. A scope that the
  source reaches through a pointer is named by its identifier here.
\<close>

section \<open>Data\<close>

datatype Resource = ResourceTokens | ResourceCostMicrounits | ResourceSlots

record Limits =
  MaxTokens :: u64
  MaxCostMicros :: u64
  MaxSlots :: u64

record Usage =
  Tokens :: u64
  CostMicros :: u64
  Slots :: u64

record ScopeSnapshot =
  ID :: string
  ParentID :: string
  ScopeLimits :: Limits
  Reserved :: Usage
  Spent :: Usage

record Reservation =
  ReservationID :: string
  ScopeID :: string
  Amount :: Usage

record reservation_entry =
  entry_value :: Reservation
  active :: bool

record Ledger =
  accounts :: "ScopeSnapshot dict"
  reservations :: "reservation_entry dict"

datatype ledger_error =
    ScopeInvalid
  | ScopeNotFound string
  | Conflict string
  | ReservationInvalid
  | SettlementInvalid
  | RefundInvalid
  | ReservationMissing string
  | Exhausted string Resource u64 u64
  | Underflow string
  | HierarchyCycle

definition no_usage :: Usage where
  "no_usage = \<lparr>Tokens = 0, CostMicros = 0, Slots = 0\<rparr>"

definition NewLedger :: Ledger where
  "NewLedger = \<lparr>accounts = fmempty, reservations = fmempty\<rparr>"

section \<open>Amounts\<close>

definition addUsage :: "Usage \<Rightarrow> Usage \<Rightarrow> Usage" where
  "addUsage left right =
     \<lparr>Tokens = Tokens left + Tokens right, CostMicros = CostMicros left + CostMicros right,
      Slots = Slots left + Slots right\<rparr>"

definition subtractUsage :: "Usage \<Rightarrow> Usage \<Rightarrow> Usage option" where
  "subtractUsage left right =
     (if Tokens left < Tokens right \<or> CostMicros left < CostMicros right \<or> Slots left <s Slots right
      then None
      else Some \<lparr>Tokens = Tokens left - Tokens right, CostMicros = CostMicros left - CostMicros right,
             Slots = Slots left - Slots right\<rparr>)"

definition budgetExhaustion :: "string \<Rightarrow> Limits \<Rightarrow> Usage \<Rightarrow> Usage \<Rightarrow> ledger_error option" where
  "budgetExhaustion scopeID limits reserved spent =
     (let tokens = Tokens reserved + Tokens spent;
          cost = CostMicros reserved + CostMicros spent;
          slots = Slots reserved + Slots spent
      in if MaxTokens limits > 0 \<and> tokens > MaxTokens limits
         then Some (Exhausted scopeID ResourceTokens tokens (MaxTokens limits))
         else if MaxCostMicros limits > 0 \<and> cost > MaxCostMicros limits
         then Some (Exhausted scopeID ResourceCostMicrounits cost (MaxCostMicros limits))
         else if 0 <s MaxSlots limits \<and> MaxSlots limits <s slots
         then Some (Exhausted scopeID ResourceSlots slots (MaxSlots limits))
         else None)"

section \<open>Operations\<close>

text \<open>The scopes from \<open>key\<close> up to the root.\<close>

function pathLocked :: "ScopeSnapshot dict \<Rightarrow> string list \<Rightarrow> string \<Rightarrow> ledger_error + string list" where
  "pathLocked accts seen key =
     (if key = [] then Inr []
      else if key \<in> set seen then Inl HierarchyCycle
      else
        case fmlookup accts key of
          None \<Rightarrow> Inl (ScopeNotFound key)
        | Some current \<Rightarrow>
            bind_result (pathLocked accts (key # seen) (ParentID current)) (\<lambda>rest. Inr (key # rest)))"
  by pat_completeness auto
termination
proof (relation "measure (\<lambda>(accts, seen, _). card (fset (fmdom accts) - set seen))", goal_cases)
  case (2 accts seen key current)
  then have "key \<in> fset (fmdom accts) - set seen" by (auto intro: fmdomI)
  then have "fset (fmdom accts) - set (key # seen) \<subset> fset (fmdom accts) - set seen" by auto
  then show ?case by (simp add: psubset_card_mono)
qed simp

declare pathLocked.simps [simp del]

definition EnsureScope :: "string \<Rightarrow> string \<Rightarrow> Limits \<Rightarrow> Ledger \<Rightarrow> ledger_error option \<times> Ledger" where
  "EnsureScope key parentID limits l =
     (if key = [] \<or> key = parentID \<or> MaxSlots limits <s 0 then (Some ScopeInvalid, l)
      else if parentID \<noteq> [] \<and> fmlookup (accounts l) parentID = None
      then (Some (ScopeNotFound parentID), l)
      else
        case fmlookup (accounts l) key of
          Some existing \<Rightarrow>
            if ParentID existing \<noteq> parentID \<or> ScopeLimits existing \<noteq> limits then (Some (Conflict key), l)
            else (None, l)
        | None \<Rightarrow>
            (None, l\<lparr>accounts := fmupd key \<lparr>ID = key, ParentID = parentID, ScopeLimits = limits,
               Reserved = no_usage, Spent = no_usage\<rparr> (accounts l)\<rparr>))"

definition at_scope :: "(ScopeSnapshot \<Rightarrow> ScopeSnapshot) \<Rightarrow> string \<Rightarrow> ScopeSnapshot dict \<Rightarrow> ScopeSnapshot dict" where
  "at_scope f key accts = (case fmlookup accts key of None \<Rightarrow> accts | Some a \<Rightarrow> fmupd key (f a) accts)"

definition reserve_error :: "Usage \<Rightarrow> ScopeSnapshot dict \<Rightarrow> string \<Rightarrow> ledger_error option" where
  "reserve_error amount accts key =
     (case fmlookup accts key of
        None \<Rightarrow> None
      | Some a \<Rightarrow> budgetExhaustion (ID a) (ScopeLimits a) (addUsage (Reserved a) amount) (Spent a))"

definition Reserve :: "Reservation \<Rightarrow> Ledger \<Rightarrow> ledger_error option \<times> Ledger" where
  "Reserve r l =
     (if ReservationID r = [] \<or> ScopeID r = [] \<or> Slots (Amount r) <s 0 then (Some ReservationInvalid, l)
      else
        case fmlookup (reservations l) (ReservationID r) of
          Some existing \<Rightarrow>
            if entry_value existing \<noteq> r then (Some (Conflict (ReservationID r)), l) else (None, l)
        | None \<Rightarrow>
            (case pathLocked (accounts l) [] (ScopeID r) of
               Inl err \<Rightarrow> (Some err, l)
             | Inr path \<Rightarrow>
                 (case first_error (map (reserve_error (Amount r) (accounts l)) path) of
                    Some err \<Rightarrow> (Some err, l)
                  | None \<Rightarrow>
                      (None, l\<lparr>accounts :=
                           fold (at_scope (\<lambda>a. a\<lparr>Reserved := addUsage (Reserved a) (Amount r)\<rparr>)) path (accounts l),
                         reservations := fmupd (ReservationID r) \<lparr>entry_value = r, active = True\<rparr>
                           (reservations l)\<rparr>))))"

text \<open>
  The loop that takes a reservation off its scopes. It stops at an underflow and keeps what it has
  changed until then.
\<close>

fun release_path ::
    "(ScopeSnapshot \<Rightarrow> ScopeSnapshot) \<Rightarrow> Usage \<Rightarrow> string list \<Rightarrow> ScopeSnapshot dict \<Rightarrow>
     ledger_error option \<times> ScopeSnapshot dict" where
  "release_path spend amount [] accts = (None, accts)"
| "release_path spend amount (key # path) accts =
     (case fmlookup accts key of
        None \<Rightarrow> release_path spend amount path accts
      | Some a \<Rightarrow>
          (case subtractUsage (Reserved a) amount of
             None \<Rightarrow> (Some (Underflow (ID a)), accts)
           | Some reserved \<Rightarrow>
               release_path spend amount path (fmupd key (spend (a\<lparr>Reserved := reserved\<rparr>)) accts)))"

definition scope_error :: "ScopeSnapshot dict \<Rightarrow> string \<Rightarrow> ledger_error option" where
  "scope_error accts key =
     (case fmlookup accts key of
        None \<Rightarrow> None
      | Some a \<Rightarrow> budgetExhaustion (ID a) (ScopeLimits a) (Reserved a) (Spent a))"

text \<open>What \<open>Settle\<close> and \<open>Refund\<close> share: find the reservation, release it, close it.\<close>

definition close_reservation ::
    "(ScopeSnapshot \<Rightarrow> ScopeSnapshot) \<Rightarrow> string \<Rightarrow> Ledger \<Rightarrow> (ledger_error option \<times> string list) \<times> Ledger" where
  "close_reservation spend key l =
     (case fmlookup (reservations l) key of
        None \<Rightarrow> ((Some (ReservationMissing key), []), l)
      | Some current \<Rightarrow>
          if \<not> active current then ((None, []), l)
          else
            case pathLocked (accounts l) [] (ScopeID (entry_value current)) of
              Inl err \<Rightarrow> ((Some err, []), l)
            | Inr path \<Rightarrow>
                (case release_path spend (Amount (entry_value current)) path (accounts l) of
                   (Some err, accts) \<Rightarrow> ((Some err, []), l\<lparr>accounts := accts\<rparr>)
                 | (None, accts) \<Rightarrow>
                     ((None, path), l\<lparr>accounts := accts,
                        reservations := fmupd key (current\<lparr>active := False\<rparr>) (reservations l)\<rparr>)))"

definition Settle :: "string \<Rightarrow> Usage \<Rightarrow> Ledger \<Rightarrow> ledger_error option \<times> Ledger" where
  "Settle key actual l =
     (if key = [] \<or> Slots actual \<noteq> 0 then (Some SettlementInvalid, l)
      else
        case close_reservation (\<lambda>a. a\<lparr>Spent := addUsage (Spent a) actual\<rparr>) key l of
          ((Some err, _), l') \<Rightarrow> (Some err, l')
        | ((None, path), l') \<Rightarrow> (first_error (map (scope_error (accounts l')) path), l'))"

definition Refund :: "string \<Rightarrow> Ledger \<Rightarrow> ledger_error option \<times> Ledger" where
  "Refund key l =
     (if key = [] then (Some RefundInvalid, l)
      else let ((err, _), l') = close_reservation (\<lambda>a. a) key l in (err, l'))"

definition Snapshot :: "string \<Rightarrow> Ledger \<Rightarrow> ledger_error + ScopeSnapshot" where
  "Snapshot key l =
     (case fmlookup (accounts l) key of None \<Rightarrow> Inl (ScopeNotFound key) | Some a \<Rightarrow> Inr a)"

end
