(* ===== verification/BudgetSafety.thy ===== *)
theory BudgetSafety
  imports BudgetLedger
begin

text \<open>
  What the work budget guarantees. Amounts are read as natural numbers, which is faithful as long
  as the total volume of all reservations and settlements stays below \<open>2 ^ 63\<close>; \<open>sound\<close> is the
  invariant of a ledger: the scopes form a forest, a scope has reserved exactly what the open
  reservations below it hold, and no scope carries more than that volume.
\<close>

section \<open>Amounts as numbers\<close>

fun amount :: "Resource \<Rightarrow> Usage \<Rightarrow> nat" where
  "amount ResourceTokens u = unat (Tokens u)"
| "amount ResourceCostMicrounits u = unat (CostMicros u)"
| "amount ResourceSlots u = unat (Slots u)"

fun limit :: "Resource \<Rightarrow> Limits \<Rightarrow> nat" where
  "limit ResourceTokens m = unat (MaxTokens m)"
| "limit ResourceCostMicrounits m = unat (MaxCostMicros m)"
| "limit ResourceSlots m = unat (MaxSlots m)"

lemma sint_of_nat_u64: "n < 2 ^ 63 \<Longrightarrow> sint (word_of_nat n :: u64) = int n"
  by (simp add: signed_of_nat signed_take_bit_int_eq_self)

lemma sint_small: "unat x < 2 ^ 63 \<Longrightarrow> sint x = int (unat x)" for x :: u64
  using sint_of_nat_u64 [of "unat x"] by simp

lemma sless_small: "unat x < 2 ^ 63 \<Longrightarrow> unat y < 2 ^ 63 \<Longrightarrow> x <s y \<longleftrightarrow> unat x < unat y" for x y :: u64
  by (simp only: word_sless_alt sint_small of_nat_less_iff)

lemma nonneg_small: "\<not> x <s 0 \<Longrightarrow> unat x < 2 ^ 63" for x :: u64
proof -
  assume "\<not> x <s 0"
  then have "0 \<le> sint x" by (simp add: word_sless_alt)
  moreover have "sint x < 2 ^ 63" using sint_lt [of x] by simp
  ultimately have "uint x = sint x" by (simp add: uint_sint take_bit_int_eq_self)
  with \<open>sint x < 2 ^ 63\<close> show ?thesis by (simp add: unat_eq_nat_uint nat_less_iff)
qed

lemma unat_plus_small: "unat x + unat y < 2 ^ 64 \<Longrightarrow> unat (x + y) = unat x + unat y" for x y :: u64
  by (simp add: unat_word_ariths)

lemma amount_add:
  "amount r a + amount r b < 2 ^ 64 \<Longrightarrow> amount r (addUsage a b) = amount r a + amount r b"
  by (cases r) (auto simp: addUsage_def unat_plus_small)

lemma amount_no_usage [simp]: "amount r no_usage = 0"
  by (cases r) (simp_all add: no_usage_def)

lemma subtract_some:
  assumes "\<And>r. amount r b \<le> amount r a" and "amount ResourceSlots a < 2 ^ 63"
  shows "\<exists>c. subtractUsage a b = Some c \<and> (\<forall>r. amount r c + amount r b = amount r a)"
proof -
  have le: "Tokens b \<le> Tokens a" "CostMicros b \<le> CostMicros a" "Slots b \<le> Slots a"
    using assms(1) [of ResourceTokens] assms(1) [of ResourceCostMicrounits] assms(1) [of ResourceSlots]
    by (simp_all add: word_le_nat_alt)
  moreover have "\<not> Slots a <s Slots b"
    using assms(1) [of ResourceSlots] assms(2) sless_small [of "Slots a" "Slots b"] by simp
  ultimately have "subtractUsage a b = Some \<lparr>Tokens = Tokens a - Tokens b,
      CostMicros = CostMicros a - CostMicros b, Slots = Slots a - Slots b\<rparr>"
    by (simp add: subtractUsage_def not_less)
  moreover have "amount r \<lparr>Tokens = Tokens a - Tokens b, CostMicros = CostMicros a - CostMicros b,
      Slots = Slots a - Slots b\<rparr> + amount r b = amount r a" for r
    using le assms(1) [of r] by (cases r) (simp_all add: unat_sub)
  ultimately show ?thesis by blast
qed

lemma not_exhausted:
  assumes "budgetExhaustion key m reserved spent = None" and "\<And>r. amount r reserved + amount r spent < 2 ^ 63"
    and "\<not> MaxSlots m <s 0" and "0 < limit r m"
  shows "amount r reserved + amount r spent \<le> limit r m"
proof -
  have sum: "unat (Tokens reserved + Tokens spent) = amount ResourceTokens reserved + amount ResourceTokens spent"
      "unat (CostMicros reserved + CostMicros spent) =
        amount ResourceCostMicrounits reserved + amount ResourceCostMicrounits spent"
      "unat (Slots reserved + Slots spent) = amount ResourceSlots reserved + amount ResourceSlots spent"
    using assms(2) [of ResourceTokens] assms(2) [of ResourceCostMicrounits] assms(2) [of ResourceSlots]
    by (simp_all add: unat_plus_small)
  have slots: "unat (Slots reserved + Slots spent) < 2 ^ 63"
    using sum(3) assms(2) [of ResourceSlots] by simp
  note signed = sless_small [OF nonneg_small [OF assms(3)] slots] sless_small [of 0 "MaxSlots m", OF _ nonneg_small [OF assms(3)]]
  show ?thesis
    using assms(1,4) sum signed
    by (cases r) (auto simp: budgetExhaustion_def Let_def word_less_nat_alt split: if_splits)
qed

section \<open>Paths\<close>

lemma path_facts:
  "pathLocked accts seen key = Inr p \<Longrightarrow>
     distinct p \<and> set p \<inter> set seen = {} \<and> set p \<subseteq> fset (fmdom accts) \<and>
     (\<forall>seen'. set seen' \<inter> set p = {} \<longrightarrow> pathLocked accts seen' key = Inr p)"
proof (induction accts seen key arbitrary: p rule: pathLocked.induct)
  case (1 accts seen key)
  show ?case
  proof (cases "key = []")
    case True
    with "1.prems" show ?thesis by (simp add: pathLocked.simps)
  next
    case False
    with "1.prems" obtain a q where a: "key \<notin> set seen" "fmlookup accts key = Some a"
        "pathLocked accts (key # seen) (ParentID a) = Inr q" "p = key # q"
      by (auto simp: pathLocked.simps [of accts seen key] bind_result_eq_Inr split: if_splits option.splits)
    from "1.IH" [OF False a(1,2,3)] have IH: "distinct q" "set q \<inter> set (key # seen) = {}" "set q \<subseteq> fset (fmdom accts)"
        "\<And>seen'. set seen' \<inter> set q = {} \<Longrightarrow> pathLocked accts seen' (ParentID a) = Inr q" by auto
    have "pathLocked accts seen' key = Inr p" if "set seen' \<inter> set p = {}" for seen'
      using that a False IH(2) IH(4) [of "key # seen'"] by (subst pathLocked.simps) auto
    with IH a show ?thesis by (auto intro: fmdomI)
  qed
qed

lemma path_parents:
  "(\<And>k. map_option ParentID (fmlookup b k) = map_option ParentID (fmlookup a k)) \<Longrightarrow>
     pathLocked b seen key = pathLocked a seen key"
proof (induction a seen key rule: pathLocked.induct)
  case (1 a seen key)
  have same: "map_option ParentID (fmlookup b key) = map_option ParentID (fmlookup a key)" by (rule "1.prems")
  have up: "pathLocked b (key # seen) (ParentID x) = pathLocked a (key # seen) (ParentID x)"
    if "key \<noteq> []" "key \<notin> set seen" "fmlookup a key = Some x" for x
    using "1.IH" [OF that] "1.prems" by blast
  show ?case
  proof (cases "fmlookup a key")
    case None
    with same show ?thesis by (simp add: pathLocked.simps [of _ seen key])
  next
    case (Some x)
    with same obtain y where "fmlookup b key = Some y" "ParentID y = ParentID x" by auto
    with Some up show ?thesis by (simp add: pathLocked.simps [of _ seen key])
  qed
qed

lemma path_fresh:
  assumes "fmlookup accts new = None"
  shows "pathLocked accts seen key = Inr p \<Longrightarrow> pathLocked (fmupd new a accts) seen key = Inr p"
  using assms
proof (induction accts seen key arbitrary: p rule: pathLocked.induct)
  case (1 accts seen key)
  show ?case
  proof (cases "key = []")
    case True
    with "1.prems" show ?thesis by (simp add: pathLocked.simps)
  next
    case False
    with "1.prems" obtain x q where x: "key \<notin> set seen" "fmlookup accts key = Some x"
        "pathLocked accts (key # seen) (ParentID x) = Inr q" "p = key # q"
      by (auto simp: pathLocked.simps [of accts seen key] bind_result_eq_Inr split: if_splits option.splits)
    from "1.IH" [OF False x(1,2,3) "1.prems"(2)] x False "1.prems"(2) show ?thesis
      by (subst pathLocked.simps) auto
  qed
qed

definition ancestors :: "ScopeSnapshot dict \<Rightarrow> string \<Rightarrow> string set" where
  "ancestors accts key = (case pathLocked accts [] key of Inl _ \<Rightarrow> {} | Inr p \<Rightarrow> set p)"

section \<open>The loops over a path\<close>

lemma fold_at_scope:
  "distinct path \<Longrightarrow>
     fmlookup (fold (at_scope f) path accts) key =
       (if key \<in> set path then map_option f (fmlookup accts key) else fmlookup accts key)"
  by (induction path arbitrary: accts) (auto simp: at_scope_def split: option.splits)

text \<open>What the loop does when it runs to its end.\<close>

definition released ::
    "(ScopeSnapshot \<Rightarrow> ScopeSnapshot) \<Rightarrow> Usage \<Rightarrow> string list \<Rightarrow> ScopeSnapshot dict \<Rightarrow> ScopeSnapshot dict \<Rightarrow> bool" where
  "released spend u path accts accts' \<longleftrightarrow>
     (\<forall>k. k \<notin> set path \<longrightarrow> fmlookup accts' k = fmlookup accts k) \<and>
     (\<forall>k a. k \<in> set path \<longrightarrow> fmlookup accts k = Some a \<longrightarrow>
        (\<exists>c. fmlookup accts' k = Some (spend (a\<lparr>Reserved := c\<rparr>)) \<and>
          (\<forall>r. amount r c + amount r u = amount r (Reserved a)))) \<and>
     (\<forall>k. fmlookup accts k = None \<longrightarrow> fmlookup accts' k = None)"

definition holds :: "Usage \<Rightarrow> ScopeSnapshot \<Rightarrow> bool" where
  "holds u a \<longleftrightarrow> (\<forall>r. amount r u \<le> amount r (Reserved a)) \<and> amount ResourceSlots (Reserved a) < 2 ^ 63"

lemma release_path_works:
  assumes "distinct path" and "\<forall>k \<in> set path. \<forall>a. fmlookup accts k = Some a \<longrightarrow> holds u a"
  shows "\<exists>accts'. release_path spend u path accts = (None, accts') \<and> released spend u path accts accts'"
  using assms
proof (induction path arbitrary: accts)
  case (Cons key path)
  show ?case
  proof (cases "fmlookup accts key")
    case None
    with Cons.IH [of accts] Cons.prems obtain accts'
      where "release_path spend u path accts = (None, accts')" "released spend u path accts accts'" by auto
    with None show ?thesis by (auto simp: released_def)
  next
    case (Some a)
    with Cons.prems(2) have "holds u a" by simp
    then obtain c where c: "subtractUsage (Reserved a) u = Some c" "\<And>r. amount r c + amount r u = amount r (Reserved a)"
      using subtract_some [of u "Reserved a"] by (auto simp: holds_def)
    let ?accts = "fmupd key (spend (a\<lparr>Reserved := c\<rparr>)) accts"
    have "\<forall>k \<in> set path. \<forall>b. fmlookup ?accts k = Some b \<longrightarrow> holds u b"
      using Cons.prems by auto
    with Cons.IH [of ?accts] Cons.prems(1) obtain accts'
      where rest: "release_path spend u path ?accts = (None, accts')" "released spend u path ?accts accts'" by auto
    have "released spend u (key # path) accts accts'"
      unfolding released_def
    proof (intro conjI allI impI)
      show "fmlookup accts' k = fmlookup accts k" if "k \<notin> set (key # path)" for k
        using that rest(2) by (auto simp: released_def)
      show "\<exists>c. fmlookup accts' k = Some (spend (a'\<lparr>Reserved := c\<rparr>)) \<and> (\<forall>r. amount r c + amount r u = amount r (Reserved a'))"
        if "k \<in> set (key # path)" "fmlookup accts k = Some a'" for k a'
        using that Cons.prems(1) Some c(2) rest(2) by (cases "k = key") (auto simp: released_def)
      show "fmlookup accts' k = None" if "fmlookup accts k = None" for k
        using that Some rest(2) by (cases "k = key") (auto simp: released_def)
    qed
    with Some c(1) rest(1) show ?thesis by simp
  qed
qed (simp add: released_def)

section \<open>The invariant\<close>

definition held_by :: "Resource \<Rightarrow> string \<Rightarrow> ScopeSnapshot dict \<Rightarrow> reservation_entry option \<Rightarrow> nat" where
  "held_by r scope accts e =
     (case e of
        None \<Rightarrow> 0
      | Some x \<Rightarrow>
          if active x \<and> scope \<in> ancestors accts (ScopeID (entry_value x)) then amount r (Amount (entry_value x))
          else 0)"

definition held :: "Resource \<Rightarrow> string \<Rightarrow> Ledger \<Rightarrow> nat" where
  "held r scope l =
     (\<Sum>k \<in> fset (fmdom (reservations l)). held_by r scope (accounts l) (fmlookup (reservations l) k))"

lemma held_by_same: "ancestors accts' = ancestors accts \<Longrightarrow> held_by r scope accts' e = held_by r scope accts e"
  by (simp add: held_by_def split: option.splits)

lemma held_add:
  assumes "fmlookup (reservations l) k = None"
    and "ancestors accts = ancestors (accounts l)"
  shows "held r scope (l\<lparr>accounts := accts, reservations := fmupd k e (reservations l)\<rparr>) =
    held r scope l + held_by r scope (accounts l) (Some e)"
proof -
  have "k \<notin> fset (fmdom (reservations l))" using assms(1) by (simp add: fmdom_notI)
  then show ?thesis
    using held_by_same [OF assms(2)] by (auto simp: held_def intro!: sum.cong)
qed

lemma held_close:
  assumes "fmlookup (reservations l) k = Some e"
    and "ancestors accts = ancestors (accounts l)"
  shows "held r scope (l\<lparr>accounts := accts, reservations := fmupd k (e\<lparr>active := False\<rparr>) (reservations l)\<rparr>) +
    held_by r scope (accounts l) (Some e) = held r scope l"
proof -
  let ?D = "fset (fmdom (reservations l))"
  have k: "k \<in> ?D" using assms(1) by (rule fmdomI)
  have "(\<Sum>k' \<in> ?D. held_by r scope (accounts l) (fmlookup (reservations l) k')) =
      held_by r scope (accounts l) (Some e) +
      (\<Sum>k' \<in> ?D - {k}. held_by r scope (accounts l) (fmlookup (reservations l) k'))"
    using k assms(1) by (simp add: sum.remove)
  moreover have "(\<Sum>k' \<in> insert k ?D. held_by r scope accts (fmlookup (fmupd k (e\<lparr>active := False\<rparr>) (reservations l)) k')) =
      (\<Sum>k' \<in> ?D - {k}. held_by r scope (accounts l) (fmlookup (reservations l) k'))"
  proof -
    have "(\<Sum>k' \<in> insert k ?D. held_by r scope accts (fmlookup (fmupd k (e\<lparr>active := False\<rparr>) (reservations l)) k')) =
        held_by r scope accts (Some (e\<lparr>active := False\<rparr>)) +
        (\<Sum>k' \<in> ?D - {k}. held_by r scope accts (fmlookup (fmupd k (e\<lparr>active := False\<rparr>) (reservations l)) k'))"
      by (simp add: sum.insert_remove)
    also have "held_by r scope accts (Some (e\<lparr>active := False\<rparr>)) = 0" by (simp add: held_by_def)
    also have "(\<Sum>k' \<in> ?D - {k}. held_by r scope accts (fmlookup (fmupd k (e\<lparr>active := False\<rparr>) (reservations l)) k')) =
        (\<Sum>k' \<in> ?D - {k}. held_by r scope (accounts l) (fmlookup (reservations l) k'))"
      by (rule sum.cong) (auto simp: held_by_same [OF assms(2)])
    finally show ?thesis by simp
  qed
  ultimately show ?thesis by (simp add: held_def)
qed

lemma held_at_least:
  assumes "fmlookup (reservations l) k = Some e" and "active e" and "scope \<in> ancestors (accounts l) (ScopeID (entry_value e))"
  shows "amount r (Amount (entry_value e)) \<le> held r scope l"
proof -
  have "held_by r scope (accounts l) (fmlookup (reservations l) k) \<le> held r scope l"
    unfolding held_def using assms(1) by (intro member_le_sum) (auto intro: fmdomI)
  with assms show ?thesis by (simp add: held_by_def)
qed

definition account_ok :: "(Resource \<Rightarrow> nat) \<Rightarrow> Ledger \<Rightarrow> string \<Rightarrow> ScopeSnapshot \<Rightarrow> bool" where
  "account_ok volume l k a \<longleftrightarrow>
     k \<noteq> [] \<and> ID a = k \<and> \<not> MaxSlots (ScopeLimits a) <s 0 \<and> (\<exists>p. pathLocked (accounts l) [] k = Inr p) \<and>
     (\<forall>r. amount r (Reserved a) = held r k l \<and> held r k l + amount r (Spent a) \<le> volume r)"

definition sound :: "(Resource \<Rightarrow> nat) \<Rightarrow> Ledger \<Rightarrow> bool" where
  "sound volume l \<longleftrightarrow>
     (\<forall>k a. fmlookup (accounts l) k = Some a \<longrightarrow> account_ok volume l k a) \<and>
     (\<forall>k e. fmlookup (reservations l) k = Some e \<longrightarrow>
        (\<exists>p. pathLocked (accounts l) [] (ScopeID (entry_value e)) = Inr p))"

definition within_limits :: "Ledger \<Rightarrow> bool" where
  "within_limits l \<longleftrightarrow>
     (\<forall>k a r. fmlookup (accounts l) k = Some a \<longrightarrow> 0 < limit r (ScopeLimits a) \<longrightarrow>
        amount r (Reserved a) + amount r (Spent a) \<le> limit r (ScopeLimits a))"

lemma soundD:
  "sound volume l \<Longrightarrow> fmlookup (accounts l) k = Some a \<Longrightarrow> account_ok volume l k a"
  "sound volume l \<Longrightarrow> fmlookup (reservations l) k' = Some e \<Longrightarrow>
     \<exists>p. pathLocked (accounts l) [] (ScopeID (entry_value e)) = Inr p"
  by (auto simp: sound_def)

lemma sound_mono:
  assumes "sound volume l" and "\<And>r. volume r \<le> volume' r"
  shows "sound volume' l"
proof -
  have "account_ok volume' l k a" if "account_ok volume l k a" for k a
    using that assms(2) unfolding account_ok_def by (meson order_trans)
  with assms(1) show ?thesis by (auto simp: sound_def)
qed

lemma sound_new: "sound volume NewLedger"
  by (simp add: sound_def NewLedger_def)

lemma within_new: "within_limits NewLedger"
  by (simp add: within_limits_def NewLedger_def)

section \<open>The operations keep the invariant\<close>

lemma ancestors_parents:
  assumes "\<And>k. map_option ParentID (fmlookup b k) = map_option ParentID (fmlookup a k)"
  shows "ancestors b = ancestors a"
  using path_parents [OF assms] by (simp add: ancestors_def fun_eq_iff)

lemma EnsureScope_sound:
  assumes "EnsureScope key parentID limits l = (err, l')" and "sound volume l"
  shows "sound volume l' \<and> (within_limits l \<longrightarrow> within_limits l')"
proof (cases "l' = l")
  case False
  let ?a = "\<lparr>ID = key, ParentID = parentID, ScopeLimits = limits, Reserved = no_usage, Spent = no_usage\<rparr>"
  let ?accts = "fmupd key ?a (accounts l)"
  from assms(1) False have new: "l' = l\<lparr>accounts := ?accts\<rparr>" "fmlookup (accounts l) key = None"
      "key \<noteq> []" "\<not> MaxSlots limits <s 0" "parentID \<noteq> [] \<longrightarrow> fmlookup (accounts l) parentID \<noteq> None"
    by (auto simp: EnsureScope_def split: if_splits option.splits)
  have keeps: "pathLocked ?accts [] k = Inr p" if "pathLocked (accounts l) [] k = Inr p" for k p
    using path_fresh [OF new(2) that] .
  have same: "ancestors ?accts k = ancestors (accounts l) k \<and> key \<notin> ancestors (accounts l) k"
    if "pathLocked (accounts l) [] k = Inr p" for k p
    using keeps [OF that] path_facts [OF that] that new(2) by (auto simp: ancestors_def fmlookup_dom_iff)
  have "held r scope l' = held r scope l" for r scope
    unfolding held_def using soundD(2) [OF assms(2)] same new(1)
    by (intro sum.cong) (force simp: held_by_def split: option.splits)+
  moreover have "held r key l = 0" for r
    unfolding held_def using soundD(2) [OF assms(2)] same
    by (intro sum.neutral) (force simp: held_by_def split: option.splits)
  moreover have "\<exists>p. pathLocked ?accts [] key = Inr p"
  proof (cases "parentID = []")
    case True
    with new(3) show ?thesis by (simp add: pathLocked.simps)
  next
    case False
    then obtain a where "fmlookup (accounts l) parentID = Some a" using new(5) by auto
    from soundD(1) [OF assms(2) this] obtain p where p: "pathLocked (accounts l) [] parentID = Inr p"
      by (auto simp: account_ok_def)
    have "key \<notin> set p" using path_facts [OF p] new(2) by (auto simp: fmlookup_dom_iff)
    with path_facts [OF keeps [OF p]] have "pathLocked ?accts [key] parentID = Inr p" by auto
    with new(3) show ?thesis by (subst pathLocked.simps) simp
  qed
  ultimately have "account_ok volume l' k a" if "fmlookup ?accts k = Some a" for k a
    using that new soundD(1) [OF assms(2), of k a] keeps by (auto simp: account_ok_def split: if_splits)
  moreover have "\<exists>p. pathLocked ?accts [] (ScopeID (entry_value e)) = Inr p"
    if "fmlookup (reservations l) k = Some e" for k e
    using soundD(2) [OF assms(2) that] keeps by blast
  ultimately show ?thesis using new(1) by (auto simp: sound_def within_limits_def split: if_splits)
qed (use assms in simp)

lemma Reserve_sound:
  assumes "Reserve r l = (err, l')" and "sound volume l"
    and small: "\<And>res. volume res + amount res (Amount r) < 2 ^ 63"
  shows "sound (\<lambda>res. volume res + amount res (Amount r)) l' \<and> (within_limits l \<longrightarrow> within_limits l')"
proof (cases "l' = l")
  case True
  with assms(2) show ?thesis using sound_mono [OF assms(2)] by simp
next
  case False
  let ?f = "\<lambda>a. a\<lparr>Reserved := addUsage (Reserved a) (Amount r)\<rparr>"
  from assms(1) False obtain path where new:
      "fmlookup (reservations l) (ReservationID r) = None" "pathLocked (accounts l) [] (ScopeID r) = Inr path"
      "\<And>k. k \<in> set path \<Longrightarrow> reserve_error (Amount r) (accounts l) k = None"
      "l' = l\<lparr>accounts := fold (at_scope ?f) path (accounts l),
        reservations := fmupd (ReservationID r) \<lparr>entry_value = r, active = True\<rparr> (reservations l)\<rparr>"
    by (auto simp: Reserve_def split: if_splits option.splits sum.splits)
  let ?accts = "fold (at_scope ?f) path (accounts l)"
  note path = path_facts [OF new(2)]
  have look: "fmlookup ?accts k = (if k \<in> set path then map_option ?f (fmlookup (accounts l) k) else fmlookup (accounts l) k)" for k
    using fold_at_scope path by blast
  have parents: "map_option ParentID (fmlookup ?accts k) = map_option ParentID (fmlookup (accounts l) k)" for k
    by (simp add: look option.map_comp comp_def)
  note paths = path_parents [OF parents] and anc = ancestors_parents [OF parents]
  have acc: "accounts l' = ?accts" using new(4) by simp
  have held: "held res k l' = held res k l + (if k \<in> set path then amount res (Amount r) else 0)" for res k
    using held_add [OF new(1) anc, of res k "\<lparr>entry_value = r, active = True\<rparr>"] new(2,4)
    by (simp add: held_by_def ancestors_def)
  have sum: "amount res (addUsage (Reserved a) (Amount r)) = amount res (Reserved a) + amount res (Amount r)"
    if "fmlookup (accounts l) k = Some a" for res k a
  proof -
    have "amount res (Reserved a) + amount res (Spent a) \<le> volume res"
      using soundD(1) [OF assms(2) that] by (simp add: account_ok_def)
    with small [of res] show ?thesis by (intro amount_add) simp
  qed
  have "account_ok (\<lambda>res. volume res + amount res (Amount r)) l' k a" if "fmlookup ?accts k = Some a" for k a
  proof -
    from that obtain b where b: "fmlookup (accounts l) k = Some b" "a = (if k \<in> set path then ?f b else b)"
      by (auto simp: look split: if_splits)
    have ok: "account_ok volume l k b" by (rule soundD(1) [OF assms(2) b(1)])
    moreover have "amount res (Reserved a) = held res k l' \<and>
        held res k l' + amount res (Spent a) \<le> volume res + amount res (Amount r)" for res
      using ok sum [OF b(1), of res] b(2) held [of res k] unfolding account_ok_def by (auto elim!: allE [of _ res])
    ultimately show ?thesis using b(2) by (simp add: account_ok_def acc paths)
  qed
  moreover have "within_limits l'" if within: "within_limits l"
    unfolding within_limits_def
  proof (intro allI impI)
    fix k a res assume a: "fmlookup (accounts l') k = Some a" and positive: "0 < limit res (ScopeLimits a)"
    from a new(4) obtain b where b: "fmlookup (accounts l) k = Some b" "a = (if k \<in> set path then ?f b else b)"
      by (auto simp: look split: if_splits)
    show "amount res (Reserved a) + amount res (Spent a) \<le> limit res (ScopeLimits a)"
    proof (cases "k \<in> set path")
      case True
      from new(3) [OF True] b(1)
      have ok: "budgetExhaustion (ID b) (ScopeLimits b) (addUsage (Reserved b) (Amount r)) (Spent b) = None"
        by (simp add: reserve_error_def)
      have "amount x (addUsage (Reserved b) (Amount r)) + amount x (Spent b) < 2 ^ 63" for x
        using soundD(1) [OF assms(2) b(1)] small [of x] sum [OF b(1), of x] by (auto simp: account_ok_def elim!: allE [of _ x])
      from not_exhausted [OF ok this] soundD(1) [OF assms(2) b(1)] True b(2) positive show ?thesis
        by (simp add: account_ok_def)
    next
      case False
      with b positive within show ?thesis by (simp add: within_limits_def)
    qed
  qed
  ultimately show ?thesis
    using new(2,4) soundD(2) [OF assms(2)] by (auto simp: sound_def paths split: if_splits)
qed

abbreviation spend_by :: "Usage \<Rightarrow> ScopeSnapshot \<Rightarrow> ScopeSnapshot" where
  "spend_by u a \<equiv> a\<lparr>Spent := addUsage (Spent a) u\<rparr>"

text \<open>An open reservation can be released: every scope above it still holds its amount.\<close>

lemma close_releases:
  assumes "sound volume l" and "\<And>res. volume res < 2 ^ 63"
    and "fmlookup (reservations l) key = Some e" and "active e"
  shows "\<exists>path accts. pathLocked (accounts l) [] (ScopeID (entry_value e)) = Inr path \<and>
    release_path spend (Amount (entry_value e)) path (accounts l) = (None, accts) \<and>
    released spend (Amount (entry_value e)) path (accounts l) accts"
proof -
  from soundD(2) [OF assms(1,3)] obtain path where path: "pathLocked (accounts l) [] (ScopeID (entry_value e)) = Inr path" by blast
  have "holds (Amount (entry_value e)) a" if "k \<in> set path" "fmlookup (accounts l) k = Some a" for k a
  proof -
    have ok: "account_ok volume l k a" by (rule soundD(1) [OF assms(1) that(2)])
    have "amount r (Amount (entry_value e)) \<le> amount r (Reserved a)" for r
      using held_at_least [OF assms(3,4), of k r] ok that(1) path by (simp add: account_ok_def ancestors_def)
    moreover have "amount ResourceSlots (Reserved a) < 2 ^ 63"
      using ok assms(2) [of ResourceSlots] by (auto simp: account_ok_def elim!: allE [of _ ResourceSlots])
    ultimately show ?thesis by (simp add: holds_def)
  qed
  then have "\<forall>k \<in> set path. \<forall>a. fmlookup (accounts l) k = Some a \<longrightarrow> holds (Amount (entry_value e)) a"
    by simp
  moreover have "distinct path" using path_facts [OF path] by blast
  ultimately have "\<exists>accts. release_path spend (Amount (entry_value e)) path (accounts l) = (None, accts) \<and>
      released spend (Amount (entry_value e)) path (accounts l) accts"
    by (intro release_path_works)
  with path show ?thesis by simp
qed

definition affordable :: "string \<Rightarrow> Usage \<Rightarrow> Ledger \<Rightarrow> bool" where
  "affordable key u l \<longleftrightarrow>
     (\<forall>e. fmlookup (reservations l) key = Some e \<longrightarrow> (\<forall>r. amount r u \<le> amount r (Amount (entry_value e))))"

text \<open>What closing an open reservation does: the scopes above it release its amount and spend \<open>u\<close>.\<close>

lemma close_open:
  assumes close: "close_reservation (spend_by u) key l = ((err, path), l')" and sound: "sound volume l"
    and small: "\<And>res. volume res + amount res u < 2 ^ 63"
    and e: "fmlookup (reservations l) key = Some e" "active e"
  obtains p where "pathLocked (accounts l) [] (ScopeID (entry_value e)) = Inr p" and "err = None"
    and "reservations l' = fmupd key (e\<lparr>active := False\<rparr>) (reservations l)"
    and "released (spend_by u) (Amount (entry_value e)) p (accounts l) (accounts l')"
    and "\<And>k. pathLocked (accounts l') [] k = pathLocked (accounts l) [] k"
    and "\<And>res k. held res k l' + (if k \<in> set p then amount res (Amount (entry_value e)) else 0) = held res k l"
proof -
  have volume: "volume res < 2 ^ 63" for res using small [of res] by simp
  let ?u = "Amount (entry_value e)"
  from close_releases [OF sound volume e, of "spend_by u"] obtain p accts where
      p: "pathLocked (accounts l) [] (ScopeID (entry_value e)) = Inr p"
      and run: "release_path (spend_by u) ?u p (accounts l) = (None, accts)"
      and released: "released (spend_by u) ?u p (accounts l) accts" by blast
  have off: "fmlookup accts k = fmlookup (accounts l) k" if "k \<notin> set p" for k
    using released that by (simp add: released_def)
  have on: "\<exists>c. fmlookup accts k = Some (spend_by u (a\<lparr>Reserved := c\<rparr>)) \<and>
      (\<forall>r. amount r c + amount r ?u = amount r (Reserved a))"
    if "k \<in> set p" "fmlookup (accounts l) k = Some a" for k a
    using released that by (simp add: released_def)
  have none: "fmlookup accts k = None" if "fmlookup (accounts l) k = None" for k
    using released that by (simp add: released_def)
  from close e p run have l': "l' = l\<lparr>accounts := accts, reservations := fmupd key (e\<lparr>active := False\<rparr>) (reservations l)\<rparr>"
      and err: "err = None"
    by (auto simp: close_reservation_def)
  have parents: "map_option ParentID (fmlookup accts k) = map_option ParentID (fmlookup (accounts l) k)" for k
  proof (cases "fmlookup (accounts l) k")
    case (Some a)
    then show ?thesis using off [of k] on [of k a] by (cases "k \<in> set p") auto
  qed (use none in simp)
  note paths = path_parents [OF parents] and anc = ancestors_parents [OF parents]
  have held: "held res k l' + (if k \<in> set p then amount res ?u else 0) = held res k l" for res k
    using held_close [OF e(1) anc, of res k] e(2) p l' by (simp add: held_by_def ancestors_def)
  show thesis using that [OF p err] l' released paths held by simp
qed

lemma closed_account:
  assumes sound: "sound volume l" and small: "volume res + amount res u < 2 ^ 63"
    and released: "released (spend_by u) w p (accounts l) (accounts l')"
    and held: "held res k l' + (if k \<in> set p then amount res w else 0) = held res k l"
    and a: "fmlookup (accounts l') k = Some a"
  obtains b where "fmlookup (accounts l) k = Some b" and "ScopeLimits a = ScopeLimits b" and "ID a = ID b"
    and "amount res (Reserved a) = held res k l'"
    and "amount res (Spent a) \<le> amount res (Spent b) + (if k \<in> set p then amount res u else 0)"
proof -
  obtain b where b: "fmlookup (accounts l) k = Some b"
    using released a by (cases "fmlookup (accounts l) k") (simp_all add: released_def)
  have ok: "account_ok volume l k b" by (rule soundD(1) [OF sound b])
  show thesis
  proof (cases "k \<in> set p")
    case True
    have "\<exists>c. fmlookup (accounts l') k = Some (spend_by u (b\<lparr>Reserved := c\<rparr>)) \<and>
        (\<forall>r. amount r c + amount r w = amount r (Reserved b))"
      using released True b by (simp add: released_def)
    then obtain c where c: "a = spend_by u (b\<lparr>Reserved := c\<rparr>)"
        "amount res c + amount res w = amount res (Reserved b)" using a by auto
    have "amount res (addUsage (Spent b) u) = amount res (Spent b) + amount res u"
      using ok small by (intro amount_add) (auto simp: account_ok_def elim!: allE [of _ res])
    moreover have "amount res c = held res k l'" using c(2) ok held True by (simp add: account_ok_def)
    ultimately show thesis using that b c True by simp
  next
    case False
    then have "a = b" using released a b by (simp add: released_def)
    then show thesis using that ok b held False by (simp add: account_ok_def)
  qed
qed

lemma close_sound:
  assumes close: "close_reservation (spend_by u) key l = ((err, path), l')" and sound: "sound volume l"
    and small: "\<And>res. volume res + amount res u < 2 ^ 63"
  shows "sound (\<lambda>res. volume res + amount res u) l' \<and> err \<in> {None, Some (ReservationMissing key)} \<and>
    (within_limits l \<longrightarrow> affordable key u l \<longrightarrow> within_limits l')"
proof (cases "\<exists>e. fmlookup (reservations l) key = Some e \<and> active e")
  case False
  with close have "l' = l" "err \<in> {None, Some (ReservationMissing key)}"
    by (auto simp: close_reservation_def split: option.splits)
  with sound_mono [OF sound] show ?thesis by simp
next
  case True
  then obtain e where e: "fmlookup (reservations l) key = Some e" "active e" by blast
  let ?u = "Amount (entry_value e)"
  show ?thesis
  proof (rule close_open [OF close sound small e])
    fix p assume p: "pathLocked (accounts l) [] (ScopeID (entry_value e)) = Inr p"
        and err: "err = None" and res: "reservations l' = fmupd key (e\<lparr>active := False\<rparr>) (reservations l)"
        and released: "released (spend_by u) ?u p (accounts l) (accounts l')"
        and paths: "\<And>k. pathLocked (accounts l') [] k = pathLocked (accounts l) [] k"
        and held: "\<And>res k. held res k l' + (if k \<in> set p then amount res ?u else 0) = held res k l"
    note closed = closed_account [OF sound small released held]
    have "account_ok (\<lambda>res. volume res + amount res u) l' k a" if a: "fmlookup (accounts l') k = Some a" for k a
    proof -
      obtain b where b: "fmlookup (accounts l) k = Some b" "ScopeLimits a = ScopeLimits b" "ID a = ID b"
        by (rule closed [OF a])
      have ok: "account_ok volume l k b" by (rule soundD(1) [OF sound b(1)])
      have "amount res (Reserved a) = held res k l' \<and> held res k l' + amount res (Spent a) \<le> volume res + amount res u" for res
      proof (rule closed [OF a, of res])
        fix c assume "fmlookup (accounts l) k = Some c" and c: "amount res (Reserved a) = held res k l'"
          "amount res (Spent a) \<le> amount res (Spent c) + (if k \<in> set p then amount res u else 0)"
        then have "c = b" using b(1) by simp
        with c show ?thesis using ok held [of res k] by (auto simp: account_ok_def elim!: allE [of _ res] split: if_splits)
      qed
      with ok b show ?thesis by (simp add: account_ok_def paths)
    qed
    moreover have "within_limits l'" if within: "within_limits l" and frugal: "affordable key u l"
      unfolding within_limits_def
    proof (intro allI impI)
      fix k a res assume a: "fmlookup (accounts l') k = Some a" and positive: "0 < limit res (ScopeLimits a)"
      obtain b where b: "fmlookup (accounts l) k = Some b" "ScopeLimits a = ScopeLimits b"
          "amount res (Reserved a) = held res k l'"
          "amount res (Spent a) \<le> amount res (Spent b) + (if k \<in> set p then amount res u else 0)"
        by (rule closed [OF a, of res])
      have "amount res (Reserved b) = held res k l"
        using soundD(1) [OF sound b(1)] by (simp add: account_ok_def)
      moreover have "amount res (Reserved b) + amount res (Spent b) \<le> limit res (ScopeLimits b)"
        using within b(1,2) positive by (simp add: within_limits_def)
      moreover have "amount res u \<le> amount res ?u" using frugal e(1) by (simp add: affordable_def)
      ultimately show "amount res (Reserved a) + amount res (Spent a) \<le> limit res (ScopeLimits a)"
        using b held [of res k] by (auto split: if_splits)
    qed
    moreover have "\<exists>p. pathLocked (accounts l') [] (ScopeID (entry_value x)) = Inr p" if "fmlookup (reservations l') k = Some x" for k x
      using that res p soundD(2) [OF sound, of k x] by (auto simp: paths split: if_splits)
    ultimately show ?thesis using err by (simp add: sound_def)
  qed
qed

lemma nested_pair: "\<exists>a b c. x = ((a, b), c)"
  by (metis surj_pair)

lemma Refund_spends_nothing: "close_reservation (\<lambda>a. a) = close_reservation (spend_by no_usage)"
proof -
  have "(\<lambda>a. a) = spend_by no_usage" by (simp add: fun_eq_iff addUsage_def no_usage_def)
  then show ?thesis by (rule arg_cong)
qed

lemma no_underflow:
  assumes "close_reservation spend key l = ((err, path), l')" and "sound volume l" and "\<And>res. volume res < 2 ^ 63"
  shows "err \<in> {None, Some (ReservationMissing key)}"
proof (cases "\<exists>e. fmlookup (reservations l) key = Some e \<and> active e")
  case True
  then obtain e where "fmlookup (reservations l) key = Some e" "active e" by blast
  with close_releases [OF assms(2,3) this, of spend] assms(1) show ?thesis
    by (auto simp: close_reservation_def)
qed (use assms(1) in \<open>auto simp: close_reservation_def split: option.splits\<close>)

lemma first_error_in: "first_error xs = Some e \<Longrightarrow> Some e \<in> set xs"
  by (induction xs rule: first_error.induct) auto

lemma scope_errors_exhaustion: "first_error (map (scope_error accts) path) \<noteq> Some (Underflow scope)"
proof
  assume "first_error (map (scope_error accts) path) = Some (Underflow scope)"
  from first_error_in [OF this] obtain k where "scope_error accts k = Some (Underflow scope)" by force
  then show False
    by (cases "fmlookup accts k") (simp_all add: scope_error_def budgetExhaustion_def Let_def split: if_splits)
qed

section \<open>Runs\<close>

datatype ledger_op =
    EnsureScopeOp string string Limits
  | ReserveOp Reservation
  | SettleOp string Usage
  | RefundOp string

fun perform :: "ledger_op \<Rightarrow> Ledger \<Rightarrow> ledger_error option \<times> Ledger" where
  "perform (EnsureScopeOp key parent limits) l = EnsureScope key parent limits l"
| "perform (ReserveOp r) l = Reserve r l"
| "perform (SettleOp key u) l = Settle key u l"
| "perform (RefundOp key) l = Refund key l"

text \<open>What one operation may add to the amount a scope carries.\<close>

fun op_volume :: "Resource \<Rightarrow> ledger_op \<Rightarrow> nat" where
  "op_volume res (EnsureScopeOp _ _ _) = 0"
| "op_volume res (ReserveOp r) = amount res (Amount r)"
| "op_volume res (SettleOp _ u) = amount res u"
| "op_volume res (RefundOp _) = 0"

fun perform_all :: "ledger_op list \<Rightarrow> Ledger \<Rightarrow> Ledger" where
  "perform_all [] l = l"
| "perform_all (op # ops) l = perform_all ops (snd (perform op l))"

text \<open>No settlement spends more than its reservation holds.\<close>

fun frugal :: "ledger_op list \<Rightarrow> Ledger \<Rightarrow> bool" where
  "frugal [] l = True"
| "frugal (op # ops) l \<longleftrightarrow>
     (case op of SettleOp key u \<Rightarrow> affordable key u l | _ \<Rightarrow> True) \<and> frugal ops (snd (perform op l))"

lemma perform_sound:
  assumes "sound volume l" and "\<And>res. volume res + op_volume res op < 2 ^ 63"
  shows "sound (\<lambda>res. volume res + op_volume res op) (snd (perform op l)) \<and>
    (within_limits l \<longrightarrow> (case op of SettleOp key u \<Rightarrow> affordable key u l | _ \<Rightarrow> True) \<longrightarrow>
       within_limits (snd (perform op l)))"
proof (cases op)
  case (EnsureScopeOp key parent limits)
  with EnsureScope_sound [OF surjective_pairing assms(1)] show ?thesis by simp
next
  case (ReserveOp r)
  with Reserve_sound [OF surjective_pairing assms(1), of r] assms(2) show ?thesis by simp
next
  case (SettleOp key u)
  obtain err path l' where c: "close_reservation (spend_by u) key l = ((err, path), l')"
    using nested_pair [of "close_reservation (spend_by u) key l"] by (elim exE)
  then have "snd (Settle key u l) = l \<or> snd (Settle key u l) = l'"
    by (simp add: Settle_def split: option.splits)
  then show ?thesis
  proof
    assume "snd (Settle key u l) = l"
    with sound_mono [OF assms(1), of "\<lambda>res. volume res + amount res u"] SettleOp show ?thesis by simp
  next
    assume "snd (Settle key u l) = l'"
    with close_sound [OF c assms(1)] assms(2) SettleOp show ?thesis by simp
  qed
next
  case (RefundOp key)
  obtain err path l' where c: "close_reservation (spend_by no_usage) key l = ((err, path), l')"
    using nested_pair [of "close_reservation (spend_by no_usage) key l"] by (elim exE)
  then have "snd (Refund key l) = l \<or> snd (Refund key l) = l'"
    by (simp add: Refund_def Refund_spends_nothing)
  moreover have "affordable key no_usage l" by (simp add: affordable_def)
  moreover have "sound volume l' \<and> (within_limits l \<longrightarrow> affordable key no_usage l \<longrightarrow> within_limits l')"
    using close_sound [OF c assms(1)] assms(2) RefundOp by simp
  ultimately show ?thesis using RefundOp assms(1) by auto
qed

lemma perform_all_sound:
  assumes "sound volume l" and "\<And>res. volume res + (\<Sum>op \<leftarrow> ops. op_volume res op) < 2 ^ 63"
  shows "sound (\<lambda>res. volume res + (\<Sum>op \<leftarrow> ops. op_volume res op)) (perform_all ops l) \<and>
    (within_limits l \<longrightarrow> frugal ops l \<longrightarrow> within_limits (perform_all ops l))"
  using assms
proof (induction ops arbitrary: l volume)
  case (Cons op ops)
  let ?l = "snd (perform op l)" and ?rest = "\<lambda>res. \<Sum>op \<leftarrow> ops. op_volume res op"
  have small: "volume res + op_volume res op + ?rest res < 2 ^ 63" for res
    using Cons.prems(2) [of res] by (simp only: list.map sum_list.Cons add.assoc)
  have first: "volume res + op_volume res op < 2 ^ 63" for res
    using small [of res] by (rule order_le_less_trans [OF le_add1])
  note step = perform_sound [OF Cons.prems(1) first]
  note rest = Cons.IH [OF step [THEN conjunct1] small]
  have "sound (\<lambda>res. volume res + (\<Sum>op \<leftarrow> op # ops. op_volume res op)) (perform_all ops ?l)"
    using rest [THEN conjunct1] by (simp only: list.map sum_list.Cons add.assoc)
  moreover have "within_limits (perform_all ops ?l)" if "within_limits l" "frugal (op # ops) l"
    using that step [THEN conjunct2] rest [THEN conjunct2] by simp
  ultimately show ?case by simp
qed simp

text \<open>C35: The books of the work budget balance. After any sequence of operations whose total volume
stays below \<open>2 ^ 63\<close>, every scope has reserved exactly what the open reservations of the scopes at
or below it hold, in each resource, so a scope with no open reservation below it has nothing
reserved; and releasing a reservation, by settlement or refund, never fails halfway with an
underflow.
\<close>

theorem budget_books_balance:
  assumes volume: "\<And>res. (\<Sum>op \<leftarrow> ops. op_volume res op) < 2 ^ 63"
  shows "(\<forall>scope a res. fmlookup (accounts (perform_all ops NewLedger)) scope = Some a \<longrightarrow>
      amount res (Reserved a) = held res scope (perform_all ops NewLedger)) \<and>
    (\<forall>key u scope. fst (Settle key u (perform_all ops NewLedger)) \<noteq> Some (Underflow scope) \<and>
      fst (Refund key (perform_all ops NewLedger)) \<noteq> Some (Underflow scope))"
proof (intro conjI allI impI)
  let ?l = "perform_all ops NewLedger"
  have ok: "sound (\<lambda>res. \<Sum>op \<leftarrow> ops. op_volume res op) ?l"
    using perform_all_sound [of "\<lambda>_. 0" NewLedger ops] sound_new volume by simp
  show "amount res (Reserved a) = held res scope ?l" if "fmlookup (accounts ?l) scope = Some a" for scope a res
    using soundD(1) [OF ok that] by (simp add: account_ok_def)
  have released: "fst (fst (close_reservation spend key ?l)) \<noteq> Some (Underflow scope)" for spend key scope
    using no_underflow [OF _ ok volume, of spend key] by (cases "close_reservation spend key ?l") (auto split: prod.splits)
  show "fst (Settle key u ?l) \<noteq> Some (Underflow scope)" for key u scope
    using released [of "spend_by u" key scope] scope_errors_exhaustion [of _ _ scope]
    by (auto simp: Settle_def split: prod.splits option.splits)
  show "fst (Refund key ?l) \<noteq> Some (Underflow scope)" for key scope
    using released [of "\<lambda>a. a" key scope] by (auto simp: Refund_def split: prod.splits)
qed

text \<open>C36: No limit of the work budget is exceeded. As long as no settlement spends more than its
reservation holds and the total volume stays below \<open>2 ^ 63\<close>, whatever the order of the operations
and whichever of them fail, what a scope has reserved and spent together stays within its limit, in
every resource that has one, at every level of the hierarchy.
\<close>

theorem budget_never_exceeded:
  assumes volume: "\<And>res. (\<Sum>op \<leftarrow> ops. op_volume res op) < 2 ^ 63" and frugal: "frugal ops NewLedger"
    and scope: "fmlookup (accounts (perform_all ops NewLedger)) scope = Some a"
    and limited: "0 < limit res (ScopeLimits a)"
  shows "amount res (Reserved a) + amount res (Spent a) \<le> limit res (ScopeLimits a)"
proof -
  have "within_limits (perform_all ops NewLedger)"
    using perform_all_sound [of "\<lambda>_. 0" NewLedger ops] sound_new within_new volume frugal by simp
  with scope limited show ?thesis by (simp add: within_limits_def)
qed

section \<open>A small budget\<close>

definition demo_limits :: "u64 \<Rightarrow> Limits" where
  "demo_limits tokens = \<lparr>MaxTokens = tokens, MaxCostMicros = 0, MaxSlots = 0\<rparr>"

definition demo_usage :: "u64 \<Rightarrow> Usage" where
  "demo_usage tokens = \<lparr>Tokens = tokens, CostMicros = 0, Slots = 0\<rparr>"

definition demo_ops :: "ledger_op list" where
  "demo_ops = [EnsureScopeOp ''root'' [] (demo_limits 100), EnsureScopeOp ''child'' ''root'' (demo_limits 0),
     ReserveOp \<lparr>ReservationID = ''r1'', ScopeID = ''child'', Amount = demo_usage 60\<rparr>,
     SettleOp ''r1'' (demo_usage 50),
     ReserveOp \<lparr>ReservationID = ''r2'', ScopeID = ''child'', Amount = demo_usage 40\<rparr>]"

lemmas ledger_eval = demo_limits_def demo_usage_def NewLedger_def EnsureScope_def Reserve_def Settle_def
  close_reservation_def pathLocked.simps at_scope_def reserve_error_def scope_error_def budgetExhaustion_def
  addUsage_def subtractUsage_def no_usage_def word_sless_alt Let_def

lemma demo_volume: "(\<Sum>op \<leftarrow> demo_ops. op_volume res op) < 2 ^ 63"
  by (cases res) (simp_all add: demo_ops_def demo_usage_def)

lemma demo_frugal: "frugal demo_ops NewLedger"
proof -
  have "\<forall>r. amount r (demo_usage 50) \<le> amount r (demo_usage 60)"
    by (rule allI, rule Resource.induct) (simp_all add: demo_usage_def)
  then show ?thesis by (simp add: demo_ops_def ledger_eval affordable_def)
qed

lemma demo_root:
  "fmlookup (accounts (perform_all demo_ops NewLedger)) ''root'' =
     Some \<lparr>ID = ''root'', ParentID = [], ScopeLimits = demo_limits 100,
       Reserved = demo_usage 40, Spent = demo_usage 50\<rparr>"
  by (simp add: demo_ops_def ledger_eval)

theorem budget_books_balance_witness:
  "held ResourceTokens ''root'' (perform_all demo_ops NewLedger) = 40"
  using budget_books_balance [OF demo_volume, THEN conjunct1, rule_format, OF demo_root, of ResourceTokens]
  by (simp add: demo_usage_def)

theorem budget_never_exceeded_witness:
  "amount ResourceTokens (demo_usage 40) + amount ResourceTokens (demo_usage 50) \<le> limit ResourceTokens (demo_limits 100)"
  using budget_never_exceeded [OF demo_volume demo_frugal demo_root, of ResourceTokens]
  by (simp add: demo_limits_def)

text \<open>
  Beyond the bound the sum wraps around: with 50 of 100 tokens reserved, a reservation of
  \<open>2 ^ 64 - 10\<close> tokens is admitted and lowers what the scope has reserved.
\<close>

lemma wrapped_reservation_admitted:
  fixes l defines "l \<equiv> perform_all [EnsureScopeOp ''s'' [] (demo_limits 100),
    ReserveOp \<lparr>ReservationID = ''r1'', ScopeID = ''s'', Amount = demo_usage 50\<rparr>] NewLedger"
  shows "fst (Reserve \<lparr>ReservationID = ''r2'', ScopeID = ''s'', Amount = demo_usage (- 10)\<rparr> l) = None \<and>
    map_option Reserved (fmlookup (accounts (snd
      (Reserve \<lparr>ReservationID = ''r2'', ScopeID = ''s'', Amount = demo_usage (- 10)\<rparr> l))) ''s'') = Some (demo_usage 40)"
  by (simp add: l_def ledger_eval)

end
