(* ===== verification/ToolBudget.thy ===== *)
theory ToolBudget
  imports Prelude
begin

text \<open>
  The execution budget that bounds how many tools of a turn run at once,
  \<open>src/internal/adapter/tool/execution_budget.go\<close>, behind the scheduler of
  \<open>src/internal/runtime/agent/turnkernel/tool_scheduler.go\<close>. The operations below are the
  sections of the source that hold its mutex; a waiter is named by the caller it belongs to, and
  closing its channel is returning its name. The system around them interleaves any number of
  callers at those sections: one that acquires, waits, is served, gives up while it waits or just
  after it was served, or releases its lease.
\<close>

section \<open>The budget\<close>

record ExecutionBudget =
  capacity :: int
  in_use :: int
  queue :: "nat list"

definition NewExecutionBudget :: "int \<Rightarrow> ExecutionBudget" where
  "NewExecutionBudget n = \<lparr>capacity = (if n < 1 then 1 else n), in_use = 0, queue = []\<rparr>"

definition defaultMaxToolConcurrent :: int where
  "defaultMaxToolConcurrent = 8"

definition NewToolScheduler :: "int \<Rightarrow> ExecutionBudget" where
  "NewToolScheduler maxConcurrent =
     NewExecutionBudget (if maxConcurrent \<le> 0 then defaultMaxToolConcurrent else maxConcurrent)"

text \<open>The loop that serves waiters; it returns the waiters whose channel it closed.\<close>

fun dispatch_queue :: "int \<Rightarrow> int \<Rightarrow> nat list \<Rightarrow> nat list \<times> int \<times> nat list" where
  "dispatch_queue cap used [] = ([], used, [])"
| "dispatch_queue cap used (waiter # waiters) =
     (if used < cap then
        let (served, used', rest) = dispatch_queue cap (used + 1) waiters in (waiter # served, used', rest)
      else ([], used, waiter # waiters))"

definition dispatchLocked :: "ExecutionBudget \<Rightarrow> nat list \<times> ExecutionBudget" where
  "dispatchLocked b =
     (let (served, used, rest) = dispatch_queue (capacity b) (in_use b) (queue b)
      in (served, b\<lparr>in_use := used, queue := rest\<rparr>))"

text \<open>The first section of \<open>Acquire\<close>: a lease at once, or a place in the queue.\<close>

definition acquire_locked :: "nat \<Rightarrow> ExecutionBudget \<Rightarrow> bool \<times> ExecutionBudget" where
  "acquire_locked waiter b =
     (if in_use b < capacity b \<and> queue b = [] then (True, b\<lparr>in_use := in_use b + 1\<rparr>)
      else (False, b\<lparr>queue := queue b @ [waiter]\<rparr>))"

fun removeBudgetWaiter :: "nat list \<Rightarrow> nat \<Rightarrow> nat list option" where
  "removeBudgetWaiter [] target = None"
| "removeBudgetWaiter (waiter # waiters) target =
     (if waiter = target then Some waiters else map_option ((#) waiter) (removeBudgetWaiter waiters target))"

text \<open>The section a cancelled waiter runs; it reports whether it was still in the queue.\<close>

definition cancel_locked :: "nat \<Rightarrow> ExecutionBudget \<Rightarrow> bool \<times> nat list \<times> ExecutionBudget" where
  "cancel_locked waiter b =
     (case removeBudgetWaiter (queue b) waiter of
        Some rest \<Rightarrow> (True, dispatchLocked (b\<lparr>queue := rest\<rparr>))
      | None \<Rightarrow> (False, [], b))"

definition release :: "ExecutionBudget \<Rightarrow> nat list \<times> ExecutionBudget" where
  "release b = dispatchLocked (if in_use b > 0 then b\<lparr>in_use := in_use b - 1\<rparr> else b)"

definition Active :: "ExecutionBudget \<Rightarrow> int" where
  "Active b = in_use b"

definition Waiting :: "ExecutionBudget \<Rightarrow> nat" where
  "Waiting b = length (queue b)"

section \<open>Callers\<close>

text \<open>
  Where a caller is: outside, waiting for its channel, served but not yet running again, holding
  its lease, or about to give a lease back that it was served while it was cancelled.
\<close>

datatype caller = Outside | Queued | Served | Holding | Leaving

record tool_system =
  tool_budget :: ExecutionBudget
  callers :: "nat \<Rightarrow> caller"

definition serve :: "nat list \<Rightarrow> (nat \<Rightarrow> caller) \<Rightarrow> nat \<Rightarrow> caller" where
  "serve served who w = (if w \<in> set served then Served else who w)"

inductive tool_step :: "tool_system \<Rightarrow> tool_system \<Rightarrow> bool" where
  enter: "callers s w = Outside \<Longrightarrow> acquire_locked w (tool_budget s) = (True, b) \<Longrightarrow>
     tool_step s \<lparr>tool_budget = b, callers = (callers s)(w := Holding)\<rparr>"
| enqueue: "callers s w = Outside \<Longrightarrow> acquire_locked w (tool_budget s) = (False, b) \<Longrightarrow>
     tool_step s \<lparr>tool_budget = b, callers = (callers s)(w := Queued)\<rparr>"
| resume: "callers s w = Served \<Longrightarrow> tool_step s (s\<lparr>callers := (callers s)(w := Holding)\<rparr>)"
| give_up: "callers s w \<in> {Queued, Served} \<Longrightarrow> cancel_locked w (tool_budget s) = (True, served, b) \<Longrightarrow>
     tool_step s \<lparr>tool_budget = b, callers = serve served ((callers s)(w := Outside))\<rparr>"
| too_late: "callers s w \<in> {Queued, Served} \<Longrightarrow> cancel_locked w (tool_budget s) = (False, served, b) \<Longrightarrow>
     tool_step s \<lparr>tool_budget = b, callers = (callers s)(w := Leaving)\<rparr>"
| leave: "callers s w \<in> {Holding, Leaving} \<Longrightarrow> release (tool_budget s) = (served, b) \<Longrightarrow>
     tool_step s \<lparr>tool_budget = b, callers = serve served ((callers s)(w := Outside))\<rparr>"

definition new_tools :: "int \<Rightarrow> tool_system" where
  "new_tools maxConcurrent = \<lparr>tool_budget = NewToolScheduler maxConcurrent, callers = \<lambda>_. Outside\<rparr>"

inductive tools_reach :: "int \<Rightarrow> tool_system \<Rightarrow> bool" for maxConcurrent where
  start: "tools_reach maxConcurrent (new_tools maxConcurrent)"
| step: "tools_reach maxConcurrent s \<Longrightarrow> tool_step s s' \<Longrightarrow> tools_reach maxConcurrent s'"

section \<open>Serving\<close>

lemma dispatch_queue_spec:
  assumes "dispatch_queue cap used waiters = (served, used', rest)" and "used \<le> cap"
  shows "waiters = served @ rest \<and> used' = used + int (length served) \<and> used' \<le> cap \<and> (rest \<noteq> [] \<longrightarrow> used' = cap)"
  using assms
proof (induction cap used waiters arbitrary: served rule: dispatch_queue.induct)
  case (2 cap used waiter waiters)
  then show ?case by (auto split: if_splits prod.splits)
qed simp

lemma removeBudgetWaiter_Some:
  "removeBudgetWaiter ws w = Some rest \<Longrightarrow> w \<in> set ws \<and> rest = remove1 w ws"
  by (induction ws arbitrary: rest) (auto split: if_splits)

lemma removeBudgetWaiter_None: "removeBudgetWaiter ws w = None \<Longrightarrow> w \<notin> set ws"
  by (induction ws) (auto split: if_splits)

definition lease_holders :: "(nat \<Rightarrow> caller) \<Rightarrow> nat set" where
  "lease_holders who = {w. who w \<in> {Served, Holding, Leaving}}"

text \<open>
  The invariant: the budget counts the callers that have a lease, within its capacity; the queue
  holds the waiting callers, once each; and nobody waits while a lease is free.
\<close>

definition tools_ok :: "tool_system \<Rightarrow> bool" where
  "tools_ok s \<longleftrightarrow>
     finite (lease_holders (callers s)) \<and>
     in_use (tool_budget s) = int (card (lease_holders (callers s))) \<and>
     in_use (tool_budget s) \<le> capacity (tool_budget s) \<and> 1 \<le> capacity (tool_budget s) \<and>
     distinct (queue (tool_budget s)) \<and> set (queue (tool_budget s)) = {w. callers s w = Queued} \<and>
     (queue (tool_budget s) \<noteq> [] \<longrightarrow> in_use (tool_budget s) = capacity (tool_budget s))"

text \<open>Serving the head of the queue keeps the invariant, whatever made room for it.\<close>

lemma tools_ok_dispatch:
  assumes "dispatchLocked b = (served, b')" and "finite (lease_holders who)"
    and "in_use b = int (card (lease_holders who))" and "in_use b \<le> capacity b" and "1 \<le> capacity b"
    and "distinct (queue b)" and "set (queue b) = {w. who w = Queued}"
  shows "tools_ok \<lparr>tool_budget = b', callers = serve served who\<rparr> \<and> capacity b' = capacity b \<and>
    queue b = served @ queue b'"
proof -
  obtain used rest where d: "dispatch_queue (capacity b) (in_use b) (queue b) = (served, used, rest)"
      and b': "b' = b\<lparr>in_use := used, queue := rest\<rparr>"
    using assms(1) by (auto simp: dispatchLocked_def split: prod.splits)
  from dispatch_queue_spec [OF d assms(4)]
  have q: "queue b = served @ rest" "used = in_use b + int (length served)" "used \<le> capacity b"
      "rest \<noteq> [] \<longrightarrow> used = capacity b" by auto
  have split: "lease_holders (serve served who) = lease_holders who \<union> set served"
    by (auto simp: lease_holders_def serve_def)
  have waits: "who w = Queued" if "w \<in> set served \<or> w \<in> set rest" for w
    using assms(7) q(1) that by auto
  have apart: "lease_holders who \<inter> set served = {}"
    using waits by (auto simp: lease_holders_def)
  have "card (lease_holders (serve served who)) = card (lease_holders who) + length served"
    using assms(2,6) q(1) apart by (simp add: split card_Un_disjoint distinct_card)
  moreover have "set rest = {w. serve served who w = Queued}"
    using assms(6,7) q(1) waits by (auto simp: serve_def)
  moreover have "finite (lease_holders (serve served who))" using assms(2) split by simp
  ultimately show ?thesis using q assms b' by (simp add: tools_ok_def)
qed

lemma lease_holders_upd:
  "lease_holders (who(w := c)) =
     (if c \<in> {Served, Holding, Leaving} then insert w (lease_holders who) else lease_holders who - {w})"
  by (auto simp: lease_holders_def)

lemma lease_holder_iff: "w \<in> lease_holders who \<longleftrightarrow> who w \<in> {Served, Holding, Leaving}"
  by (simp add: lease_holders_def)

lemma acquire_lockedD:
  "acquire_locked w b = (True, b') \<Longrightarrow> in_use b < capacity b \<and> queue b = [] \<and> b' = b\<lparr>in_use := in_use b + 1\<rparr>"
  "acquire_locked w b = (False, b') \<Longrightarrow> (in_use b < capacity b \<longrightarrow> queue b \<noteq> []) \<and> b' = b\<lparr>queue := queue b @ [w]\<rparr>"
  by (auto simp: acquire_locked_def split: if_splits)

lemma tools_okD:
  assumes "tools_ok s"
  shows "finite (lease_holders (callers s))" "in_use (tool_budget s) = int (card (lease_holders (callers s)))"
    "in_use (tool_budget s) \<le> capacity (tool_budget s)" "1 \<le> capacity (tool_budget s)"
    "distinct (queue (tool_budget s))" "set (queue (tool_budget s)) = {w. callers s w = Queued}"
    "queue (tool_budget s) \<noteq> [] \<Longrightarrow> in_use (tool_budget s) = capacity (tool_budget s)"
  using assms by (simp_all add: tools_ok_def)

text \<open>What the two sections that end in a dispatch do to a system that keeps the invariant.\<close>

lemma give_up_serves:
  assumes ok: "tools_ok s" and c: "cancel_locked w (tool_budget s) = (True, served, b)"
  shows "callers s w = Queued \<and> tools_ok \<lparr>tool_budget = b, callers = serve served ((callers s)(w := Outside))\<rparr> \<and>
    capacity b = capacity (tool_budget s) \<and> remove1 w (queue (tool_budget s)) = served @ queue b"
proof -
  let ?b = "tool_budget s"
  obtain rest where r: "removeBudgetWaiter (queue ?b) w = Some rest"
      and d: "dispatchLocked (?b\<lparr>queue := rest\<rparr>) = (served, b)"
    using c by (auto simp: cancel_locked_def split: option.splits)
  from removeBudgetWaiter_Some [OF r] have w: "w \<in> set (queue ?b)" and rest: "rest = remove1 w (queue ?b)" by auto
  have q: "callers s w = Queued" using ok w by (auto simp: tools_ok_def)
  then have h: "lease_holders ((callers s)(w := Outside)) = lease_holders (callers s)"
    by (auto simp: lease_holders_def)
  have "set rest = {v. ((callers s)(w := Outside)) v = Queued}"
    using ok rest by (auto simp: tools_ok_def)
  moreover have "distinct rest" using ok rest by (simp add: tools_ok_def)
  ultimately show ?thesis
    using tools_ok_dispatch [OF d, of "(callers s)(w := Outside)"] tools_okD [OF ok] h q rest by simp
qed

lemma leave_serves:
  assumes ok: "tools_ok s" and w: "callers s w \<in> {Holding, Leaving}" and c: "release (tool_budget s) = (served, b)"
  shows "tools_ok \<lparr>tool_budget = b, callers = serve served ((callers s)(w := Outside))\<rparr> \<and>
    capacity b = capacity (tool_budget s) \<and> queue (tool_budget s) = served @ queue b"
proof -
  let ?b = "tool_budget s" and ?who = "(callers s)(w := Outside)"
  have mem: "w \<in> lease_holders (callers s)" using w by (auto simp: lease_holder_iff)
  have fin: "finite (lease_holders (callers s))" and use: "in_use ?b = int (card (lease_holders (callers s)))"
    using ok by (simp_all add: tools_ok_def)
  have pos: "0 < card (lease_holders (callers s))" using fin mem by (auto simp: card_gt_0_iff)
  have h: "lease_holders ?who = lease_holders (callers s) - {w}" by (simp add: lease_holders_upd)
  have n: "card (lease_holders ?who) = card (lease_holders (callers s)) - 1"
    using mem fin h by simp
  have d: "dispatchLocked (?b\<lparr>in_use := in_use ?b - 1\<rparr>) = (served, b)"
    using c use pos by (simp add: release_def)
  have "set (queue ?b) = {v. ?who v = Queued}" using ok w by (auto simp: tools_ok_def)
  then show ?thesis
    using tools_ok_dispatch [OF d, of ?who] tools_okD [OF ok] h n pos by simp
qed

section \<open>Every step keeps the invariant\<close>

lemma tool_step_ok:
  assumes "tool_step s s'" and ok: "tools_ok s"
  shows "tools_ok s' \<and> capacity (tool_budget s') = capacity (tool_budget s)"
  using assms(1)
proof cases
  case (enter w b)
  then have out: "w \<notin> lease_holders (callers s)" by (simp add: lease_holder_iff)
  have none: "v = w \<or> callers s v \<noteq> Queued" for v
    using acquire_lockedD(1) [OF enter(3)] ok by (auto simp: tools_ok_def)
  show ?thesis
    using enter acquire_lockedD(1) [OF enter(3)] ok out none by (auto simp: tools_ok_def lease_holders_upd)
next
  case (enqueue w b)
  have "w \<notin> set (queue (tool_budget s))" using enqueue(2) ok by (auto simp: tools_ok_def)
  moreover have "lease_holders ((callers s)(w := Queued)) = lease_holders (callers s)"
    using enqueue(2) by (auto simp: lease_holders_def)
  moreover have "in_use (tool_budget s) = capacity (tool_budget s)"
    using acquire_lockedD(2) [OF enqueue(3)] ok by (auto simp: tools_ok_def)
  ultimately show ?thesis
    using enqueue acquire_lockedD(2) [OF enqueue(3)] ok by (auto simp: tools_ok_def)
next
  case (resume w)
  have "lease_holders ((callers s)(w := Holding)) = lease_holders (callers s)"
    using resume(2) by (auto simp: lease_holders_def)
  moreover have "{v. ((callers s)(w := Holding)) v = Queued} = {v. callers s v = Queued}" using resume(2) by auto
  ultimately show ?thesis using resume tools_okD [OF ok] by (auto simp: tools_ok_def)
next
  case (give_up w served b)
  then show ?thesis using give_up_serves [OF ok give_up(3)] by simp
next
  case (too_late w served b)
  have none: "w \<notin> set (queue (tool_budget s))" and b: "b = tool_budget s"
    using too_late(3) by (auto simp: cancel_locked_def removeBudgetWaiter_None split: option.splits prod.splits)
  then have served: "callers s w = Served" using too_late(2) ok by (auto simp: tools_ok_def)
  then have "lease_holders ((callers s)(w := Leaving)) = lease_holders (callers s)"
    by (auto simp: lease_holders_def)
  moreover have "{v. ((callers s)(w := Leaving)) v = Queued} = {v. callers s v = Queued}" using served by auto
  ultimately show ?thesis using too_late(1) b tools_okD [OF ok] by (auto simp: tools_ok_def)
next
  case (leave w served b)
  then show ?thesis using leave_serves [OF ok leave(2,3)] by simp
qed

lemma tools_reach_ok:
  "tools_reach n s \<Longrightarrow> tools_ok s \<and> capacity (tool_budget s) = (if n \<le> 0 then 8 else n)"
proof (induction rule: tools_reach.induct)
  case start
  then show ?case
    by (simp add: new_tools_def NewToolScheduler_def NewExecutionBudget_def defaultMaxToolConcurrent_def
        tools_ok_def lease_holders_def)
next
  case (step s s')
  then show ?case using tool_step_ok by metis
qed

section \<open>Fairness\<close>

text \<open>While callers wait, every lease is taken: a lease that is given back serves exactly the first of them.\<close>

lemma dispatch_queue_full [simp]: "dispatch_queue cap cap ws = ([], cap, ws)"
  by (cases ws) simp_all




section \<open>The guarantees\<close>

text \<open>C37: However callers enter, wait, are cancelled and leave, the number of tools that hold a
  lease is the active count of the budget and never exceeds the configured concurrency (eight when
  none is configured); the queue names every waiting caller exactly once, and nobody waits while a
  lease is free.\<close>

theorem tool_budget_bounded:
  assumes "tools_reach maxConcurrent s"
  shows "finite (lease_holders (callers s)) \<and> Active (tool_budget s) = int (card (lease_holders (callers s))) \<and>
    Active (tool_budget s) \<le> (if maxConcurrent \<le> 0 then 8 else maxConcurrent) \<and>
    distinct (queue (tool_budget s)) \<and> Waiting (tool_budget s) = card {w. callers s w = Queued} \<and>
    (0 < Waiting (tool_budget s) \<longrightarrow> Active (tool_budget s) = (if maxConcurrent \<le> 0 then 8 else maxConcurrent))"
proof -
  from tools_reach_ok [OF assms] have ok: "tools_ok s"
    and cap: "capacity (tool_budget s) = (if maxConcurrent \<le> 0 then 8 else maxConcurrent)" by auto
  note k = tools_okD [OF ok]
  have "Waiting (tool_budget s) = card {w. callers s w = Queued}"
    using k(5,6) distinct_card [of "queue (tool_budget s)"] by (simp add: Waiting_def)
  moreover have "in_use (tool_budget s) = capacity (tool_budget s)" if "0 < Waiting (tool_budget s)"
    using k(7) that by (simp add: Waiting_def)
  ultimately show ?thesis using k(1-5) unfolding Active_def cap [symmetric] by blast
qed

text \<open>A budget of one lease: caller 7 holds it and caller 9 waits.\<close>

definition busy_tools :: tool_system where
  "busy_tools = \<lparr>tool_budget = \<lparr>capacity = 1, in_use = 1, queue = [9]\<rparr>, callers = (\<lambda>_. Outside)(7 := Holding, 9 := Queued)\<rparr>"

lemma busy_tools_reach: "tools_reach 1 busy_tools"
proof -
  have a: "acquire_locked 7 (tool_budget (new_tools 1)) = (True, \<lparr>capacity = 1, in_use = 1, queue = []\<rparr>)"
    by (simp add: acquire_locked_def new_tools_def NewToolScheduler_def NewExecutionBudget_def)
  have "callers (new_tools 1) 7 = Outside" by (simp add: new_tools_def)
  from tools_reach.step [OF tools_reach.start tool_step.enter [OF this a]]
  have one: "tools_reach 1 \<lparr>tool_budget = \<lparr>capacity = 1, in_use = 1, queue = []\<rparr>, callers = (\<lambda>_. Outside)(7 := Holding)\<rparr>"
    (is "tools_reach 1 ?s") by (simp add: new_tools_def)
  have b: "acquire_locked 9 (tool_budget ?s) = (False, \<lparr>capacity = 1, in_use = 1, queue = [9]\<rparr>)"
    by (simp add: acquire_locked_def)
  have "callers ?s 9 = Outside" by simp
  from tools_reach.step [OF one tool_step.enqueue [OF this b]] show ?thesis by (simp add: busy_tools_def)
qed


theorem tool_budget_bounded_witness:
  "tools_reach 1 busy_tools \<and> Active (tool_budget busy_tools) = int (card (lease_holders (callers busy_tools)))"
  using tool_budget_bounded [OF busy_tools_reach] busy_tools_reach by blast



end
