(* ===== verification/ToolClaims.thy ===== *)
theory ToolClaims
  imports GoPath
begin

text \<open>
  The claims that keep tools with conflicting resources apart,
  \<open>src/internal/adapter/tool/tool.go\<close>: the resources a tool declares, when two of them overlap,
  and the manager that grants claims, queues the calls that conflict and serves the queue. As for
  the execution budget the operations are the sections of the source that hold its mutex, a waiter
  is named by its caller, and sending an identity on its channel is returning the pair of both.
\<close>

section \<open>Resources\<close>

record ToolResource =
  rsKind :: string
  rsPath :: string
  rsID :: string
  rsAccess :: string
  rsTree :: bool
  rsProtocol :: string
  rsPort :: "16 word"
  rsMethods :: "string list"
  rsAllowPrivate :: bool

definition AccessRead :: string where
  "AccessRead = ''read''"

definition AccessWrite :: string where
  "AccessWrite = ''write''"

fun Join :: "string \<Rightarrow> string list \<Rightarrow> string" where
  "Join sep [] = []"
| "Join sep [x] = x"
| "Join sep (x # y # ys) = x @ sep @ Join sep (y # ys)"

definition sprint_bool :: "bool \<Rightarrow> string" where
  "sprint_bool b = (if b then ''true'' else ''false'')"

definition nul :: char where
  "nul = CHR 0x00"

definition Key :: "ToolResource \<Rightarrow> string" where
  "Key r = Join [nul] [rsKind r, rsPath r, rsID r, rsAccess r, sprint_bool (rsTree r),
     rsProtocol r, decimal (unat (rsPort r)), Join '','' (rsMethods r), sprint_bool (rsAllowPrivate r)]"

text \<open>
  \<open>sort.Slice\<close> leaves the order of elements with equal keys open; the model keeps it. Two
  resources with equal keys agree in what a conflict looks at, as shown below.
\<close>

fun unique_after :: "ToolResource list \<Rightarrow> ToolResource list \<Rightarrow> ToolResource list" where
  "unique_after result [] = result"
| "unique_after result (value # values) =
     unique_after
       (if rsKind value \<noteq> [] \<and> (result = [] \<or> Key value \<noteq> Key (last result)) then result @ [value] else result)
       values"

definition uniqueResources :: "ToolResource list \<Rightarrow> ToolResource list" where
  "uniqueResources values = unique_after [] (sort_key Key values)"

fun unique_strings_after :: "string list \<Rightarrow> string list \<Rightarrow> string list" where
  "unique_strings_after result [] = result"
| "unique_strings_after result (value # values) =
     unique_strings_after (if value \<noteq> [] \<and> (result = [] \<or> value \<noteq> last result) then result @ [value] else result) values"

definition uniqueSorted :: "string list \<Rightarrow> string list" where
  "uniqueSorted values = unique_strings_after [] (sort values)"

definition isPathKind :: "string \<Rightarrow> bool" where
  "isPathKind kind \<longleftrightarrow> kind = ''file'' \<or> kind = ''directory'' \<or> kind = ''repo'' \<or> kind = ''workspace''"

definition pathContains :: "string \<Rightarrow> string \<Rightarrow> bool" where
  "pathContains parent child =
     (case Rel parent child of
        None \<Rightarrow> False
      | Some relative \<Rightarrow> relative \<noteq> ''..'' \<and> \<not> prefix ''../'' relative)"

definition idContains :: "string \<Rightarrow> string \<Rightarrow> bool" where
  "idContains parent child =
     (let parent = (if parent \<noteq> [] \<and> last parent = CHR ''/'' then butlast parent else parent)
      in child = parent \<or> prefix (parent @ ''/'') child)"

definition resourcesOverlap :: "ToolResource \<Rightarrow> ToolResource \<Rightarrow> bool" where
  "resourcesOverlap left right =
     (if isPathKind (rsKind left) \<and> isPathKind (rsKind right) then
        let leftPath = Clean (rsPath left); rightPath = Clean (rsPath right) in
        leftPath = rightPath \<or> rsTree left \<and> pathContains leftPath rightPath \<or>
        rsTree right \<and> pathContains rightPath leftPath
      else if rsKind left \<noteq> rsKind right then False
      else
        let leftID = (if rsID left = [] then rsPath left else rsID left);
            rightID = (if rsID right = [] then rsPath right else rsID right) in
        leftID = rightID \<or> rsTree left \<and> idContains leftID rightID \<or> rsTree right \<and> idContains rightID leftID)"

definition resourceSetsConflict :: "ToolResource list \<Rightarrow> ToolResource list \<Rightarrow> bool" where
  "resourceSetsConflict left right =
     list_ex (\<lambda>requested. list_ex (\<lambda>held.
       resourcesOverlap requested held \<and> (rsAccess requested = AccessWrite \<or> rsAccess held = AccessWrite)) right) left"

section \<open>The claims\<close>

type_synonym claim_waiter = "nat \<times> ToolResource list"
type_synonym active_claims = "(u64, ToolResource list) fmap"

record Claims =
  clActive :: active_claims
  clQueue :: "claim_waiter list"
  clNext :: u64

definition NewClaims :: Claims where
  "NewClaims = \<lparr>clActive = fmempty, clQueue = [], clNext = 0\<rparr>"

definition conflictsActive :: "active_claims \<Rightarrow> ToolResource list \<Rightarrow> bool" where
  "conflictsActive active requested = fBex (fmran active) (resourceSetsConflict requested)"

text \<open>The same loop for the whole queue and for the part of it before an index.\<close>

definition conflictsQueued :: "claim_waiter list \<Rightarrow> ToolResource list \<Rightarrow> bool" where
  "conflictsQueued waiters requested = list_ex (\<lambda>(_, resources). resourceSetsConflict requested resources) waiters"

definition grantLocked :: "ToolResource list \<Rightarrow> Claims \<Rightarrow> u64 \<times> Claims" where
  "grantLocked resources c =
     (let id = clNext c + 1 in (id, c\<lparr>clNext := id, clActive := fmupd id resources (clActive c)\<rparr>))"

text \<open>
  The loop over the queue: the waiters before the index are the ones it has passed over, the
  granted ones are returned with their identities.
\<close>

fun dispatch_claims :: "claim_waiter list \<Rightarrow> claim_waiter list \<Rightarrow> Claims \<Rightarrow> (nat \<times> u64) list \<times> Claims" where
  "dispatch_claims passed [] c = ([], c\<lparr>clQueue := passed\<rparr>)"
| "dispatch_claims passed (waiter # waiters) c =
     (if conflictsActive (clActive c) (snd waiter) \<or> conflictsQueued passed (snd waiter)
      then dispatch_claims (passed @ [waiter]) waiters c
      else
        let (id, c') = grantLocked (snd waiter) c;
            (granted, c'') = dispatch_claims passed waiters c'
        in ((fst waiter, id) # granted, c''))"

definition Claims_dispatchLocked :: "Claims \<Rightarrow> (nat \<times> u64) list \<times> Claims" where
  "Claims_dispatchLocked c = dispatch_claims [] (clQueue c) c"

text \<open>The first section of \<open>AcquireResources\<close>: an identity at once, or a place in the queue.\<close>

definition claim_locked :: "nat \<Rightarrow> ToolResource list \<Rightarrow> Claims \<Rightarrow> u64 option \<times> Claims" where
  "claim_locked waiter resources c =
     (if \<not> conflictsActive (clActive c) resources \<and> \<not> conflictsQueued (clQueue c) resources
      then let (id, c') = grantLocked resources c in (Some id, c')
      else (None, c\<lparr>clQueue := clQueue c @ [(waiter, resources)]\<rparr>))"

fun removeClaimWaiter :: "claim_waiter list \<Rightarrow> nat \<Rightarrow> claim_waiter list option" where
  "removeClaimWaiter [] target = None"
| "removeClaimWaiter (waiter # waiters) target =
     (if fst waiter \<noteq> target then map_option ((#) waiter) (removeClaimWaiter waiters target) else Some waiters)"

text \<open>The section of a cancelled call; it reports whether the call was still waiting.\<close>

definition cancel_claim :: "nat \<Rightarrow> Claims \<Rightarrow> bool \<times> (nat \<times> u64) list \<times> Claims" where
  "cancel_claim waiter c =
     (case removeClaimWaiter (clQueue c) waiter of
        Some rest \<Rightarrow> (True, Claims_dispatchLocked (c\<lparr>clQueue := rest\<rparr>))
      | None \<Rightarrow> (False, [], c))"

definition releaseID :: "u64 \<Rightarrow> Claims \<Rightarrow> (nat \<times> u64) list \<times> Claims" where
  "releaseID claimID c =
     (if fmlookup (clActive c) claimID \<noteq> None
      then Claims_dispatchLocked (c\<lparr>clActive := fmdrop claimID (clActive c)\<rparr>)
      else ([], c))"

definition Claims_Active :: "Claims \<Rightarrow> nat" where
  "Claims_Active c = fcard (fmdom (clActive c))"

definition Claims_Waiting :: "Claims \<Rightarrow> nat" where
  "Claims_Waiting c = length (clQueue c)"

text \<open>The resources of a call that names them in one string each, \<open>kind:id\<close>.\<close>

definition named_resource :: "string \<Rightarrow> ToolResource" where
  "named_resource value =
     (let (kind, name) =
        (if CHR '':'' \<in> set value
         then (takeWhile (\<lambda>c. c \<noteq> CHR '':'') value, tl (dropWhile (\<lambda>c. c \<noteq> CHR '':'') value))
         else (''opaque'', value))
      in \<lparr>rsKind = kind, rsPath = [], rsID = name, rsAccess = AccessWrite, rsTree = False,
          rsProtocol = [], rsPort = 0, rsMethods = [], rsAllowPrivate = False\<rparr>)"

definition Acquire_resources :: "string list \<Rightarrow> ToolResource list" where
  "Acquire_resources resources = map named_resource (uniqueSorted resources)"

section \<open>Callers\<close>

text \<open>
  A caller of \<open>AcquireResources\<close> is outside, waiting, granted an identity it has not received
  yet, holding its claim, or returning a claim that was granted while it was cancelled. The
  resources are the ones it asked for. The calls are counted, to say how far the identities go.
\<close>

datatype claimant =
    Idle
  | Asking "ToolResource list"
  | Granted "ToolResource list" u64
  | Claiming "ToolResource list" u64
  | Returning "ToolResource list" u64

fun claim_of :: "claimant \<Rightarrow> (ToolResource list \<times> u64) option" where
  "claim_of (Granted rs i) = Some (rs, i)"
| "claim_of (Claiming rs i) = Some (rs, i)"
| "claim_of (Returning rs i) = Some (rs, i)"
| "claim_of Idle = None"
| "claim_of (Asking rs) = None"

record claims_system =
  claims :: Claims
  claimants :: "nat \<Rightarrow> claimant"
  calls :: nat

fun receive :: "claimant \<Rightarrow> u64 \<Rightarrow> claimant" where
  "receive (Asking rs) i = Granted rs i"
| "receive c i = c"

fun grant :: "(nat \<times> u64) list \<Rightarrow> (nat \<Rightarrow> claimant) \<Rightarrow> nat \<Rightarrow> claimant" where
  "grant [] who = who"
| "grant ((w, i) # granted) who = grant granted (who(w := receive (who w) i))"

inductive claim_step :: "claims_system \<Rightarrow> claims_system \<Rightarrow> bool" where
  enter: "claimants s w = Idle \<Longrightarrow> claim_locked w (uniqueResources rs) (claims s) = (Some i, c) \<Longrightarrow>
     claim_step s \<lparr>claims = c, claimants = (claimants s)(w := Claiming rs i), calls = Suc (calls s)\<rparr>"
| enqueue: "claimants s w = Idle \<Longrightarrow> claim_locked w (uniqueResources rs) (claims s) = (None, c) \<Longrightarrow>
     claim_step s \<lparr>claims = c, claimants = (claimants s)(w := Asking rs), calls = Suc (calls s)\<rparr>"
| resume: "claimants s w = Granted rs i \<Longrightarrow>
     claim_step s (s\<lparr>claimants := (claimants s)(w := Claiming rs i)\<rparr>)"
| give_up: "claimants s w \<in> {Asking rs, Granted rs i} \<Longrightarrow> cancel_claim w (claims s) = (True, granted, c) \<Longrightarrow>
     claim_step s \<lparr>claims = c, claimants = grant granted ((claimants s)(w := Idle)), calls = calls s\<rparr>"
| too_late: "claimants s w = Granted rs i \<Longrightarrow> cancel_claim w (claims s) = (False, granted, c) \<Longrightarrow>
     claim_step s \<lparr>claims = c, claimants = (claimants s)(w := Returning rs i), calls = calls s\<rparr>"
| leave: "claimants s w \<in> {Claiming rs i, Returning rs i} \<Longrightarrow> releaseID i (claims s) = (granted, c) \<Longrightarrow>
     claim_step s \<lparr>claims = c, claimants = grant granted ((claimants s)(w := Idle)), calls = calls s\<rparr>"

definition no_claims :: claims_system where
  "no_claims = \<lparr>claims = NewClaims, claimants = \<lambda>_. Idle, calls = 0\<rparr>"

inductive claims_reach :: "claims_system \<Rightarrow> bool" where
  start: "claims_reach no_claims"
| step: "claims_reach s \<Longrightarrow> claim_step s s' \<Longrightarrow> claims_reach s'"

end
