(* ===== verification/ClaimSafety.thy ===== *)
theory ClaimSafety
  imports ToolClaims
begin

text \<open>
  What the claims of \<open>src/internal/adapter/tool/tool.go\<close> guarantee while callers interleave:
  conflicts are symmetric and survive the normalisation of the declared resources; every step
  keeps an invariant that ties callers, queue and active claims together; the queue is served
  without overtaking. C39 and C40 state the result.
\<close>

section \<open>Conflicts\<close>

lemma resourcesOverlap_sym: "resourcesOverlap a b = resourcesOverlap b a"
  by (auto simp: resourcesOverlap_def Let_def)

lemma resourceSetsConflict_iff:
  "resourceSetsConflict xs ys \<longleftrightarrow>
     (\<exists>a \<in> set xs. \<exists>b \<in> set ys. resourcesOverlap a b \<and> (rsAccess a = AccessWrite \<or> rsAccess b = AccessWrite))"
  by (simp add: resourceSetsConflict_def list_ex_iff)

lemma resourceSetsConflict_sym: "resourceSetsConflict xs ys = resourceSetsConflict ys xs"
  unfolding resourceSetsConflict_iff using resourcesOverlap_sym by blast

text \<open>Names without the separator of a key determine it.\<close>

definition nul_free :: "ToolResource \<Rightarrow> bool" where
  "nul_free r \<longleftrightarrow> nul \<notin> set (rsKind r) \<and> nul \<notin> set (rsPath r) \<and> nul \<notin> set (rsID r) \<and> nul \<notin> set (rsAccess r)"

lemma split_at_separator:
  "x \<notin> set as \<Longrightarrow> x \<notin> set bs \<Longrightarrow> as @ x # as' = bs @ x # bs' \<Longrightarrow> as = bs \<and> as' = bs'"
proof (induction as arbitrary: bs)
  case Nil
  then show ?case by (cases bs) auto
next
  case (Cons a as)
  then show ?case by (cases bs) auto
qed

lemma nul_sprint_bool [simp]: "nul \<notin> set (sprint_bool b)"
  by (simp add: sprint_bool_def nul_def)

lemma sprint_bool_eq [simp]: "sprint_bool a = sprint_bool b \<longleftrightarrow> a = b"
  by (simp add: sprint_bool_def)

definition claimed_part :: "ToolResource \<Rightarrow> string \<times> string \<times> string \<times> string \<times> bool" where
  "claimed_part r = (rsKind r, rsPath r, rsID r, rsAccess r, rsTree r)"

lemma Key_claimed_part:
  assumes "Key a = Key b" and "nul_free a" and "nul_free b"
  shows "claimed_part a = claimed_part b"
proof -
  have key: "\<exists>rest. Key r = rsKind r @ nul # rsPath r @ nul # rsID r @ nul # rsAccess r @ nul # sprint_bool (rsTree r) @ nul # rest" for r
    by (simp add: Key_def)
  from key [of a] obtain as where a:
    "Key a = rsKind a @ nul # rsPath a @ nul # rsID a @ nul # rsAccess a @ nul # sprint_bool (rsTree a) @ nul # as" by blast
  from key [of b] obtain bs where b:
    "Key b = rsKind b @ nul # rsPath b @ nul # rsID b @ nul # rsAccess b @ nul # sprint_bool (rsTree b) @ nul # bs" by blast
  note free = assms(2,3) [unfolded nul_free_def]
  have 1: "rsKind a = rsKind b \<and> rsPath a @ nul # rsID a @ nul # rsAccess a @ nul # sprint_bool (rsTree a) @ nul # as =
      rsPath b @ nul # rsID b @ nul # rsAccess b @ nul # sprint_bool (rsTree b) @ nul # bs"
    using split_at_separator [of nul "rsKind a" "rsKind b"] free assms(1) a b by metis
  then have 2: "rsPath a = rsPath b \<and> rsID a @ nul # rsAccess a @ nul # sprint_bool (rsTree a) @ nul # as =
      rsID b @ nul # rsAccess b @ nul # sprint_bool (rsTree b) @ nul # bs"
    using split_at_separator [of nul "rsPath a" "rsPath b"] free by metis
  then have 3: "rsID a = rsID b \<and> rsAccess a @ nul # sprint_bool (rsTree a) @ nul # as =
      rsAccess b @ nul # sprint_bool (rsTree b) @ nul # bs"
    using split_at_separator [of nul "rsID a" "rsID b"] free by metis
  then have 4: "rsAccess a = rsAccess b \<and> sprint_bool (rsTree a) @ nul # as = sprint_bool (rsTree b) @ nul # bs"
    using split_at_separator [of nul "rsAccess a" "rsAccess b"] free by metis
  then have "rsTree a = rsTree b" using split_at_separator [OF nul_sprint_bool nul_sprint_bool] by (metis sprint_bool_eq)
  with 1 2 3 4 show ?thesis by (simp add: claimed_part_def)
qed

lemma resourcesOverlap_part:
  "claimed_part a = claimed_part a' \<Longrightarrow> claimed_part b = claimed_part b' \<Longrightarrow> resourcesOverlap a b = resourcesOverlap a' b'"
  by (simp add: resourcesOverlap_def claimed_part_def)

lemma unique_after_keeps: "set result \<subseteq> set (unique_after result vals)"
proof (induction vals arbitrary: result)
  case (Cons v vals)
  then show ?case by (auto simp: subset_iff)
qed simp

lemma unique_after_key:
  "v \<in> set vals \<Longrightarrow> rsKind v \<noteq> [] \<Longrightarrow> \<exists>r \<in> set (unique_after result vals). Key r = Key v"
proof (induction vals arbitrary: result)
  case (Cons u vals)
  show ?case
  proof (cases "v = u")
    case True
    show ?thesis
    proof (cases "result = [] \<or> Key u \<noteq> Key (last result)")
      case True
      then have "u \<in> set (unique_after result (u # vals))"
        using unique_after_keeps [of "result @ [u]" vals] \<open>v = u\<close> Cons.prems(2) by auto
      then show ?thesis using \<open>v = u\<close> by blast
    next
      case False
      then have "last result \<in> set (unique_after result (u # vals))"
        using unique_after_keeps [of result vals] by auto
      then show ?thesis using False \<open>v = u\<close> by auto
    qed
  next
    case False
    then show ?thesis using Cons by auto
  qed
qed simp

lemma unique_after_subset: "set (unique_after result vals) \<subseteq> set result \<union> set vals"
proof (induction vals arbitrary: result)
  case (Cons v vals)
  have "set (if rsKind v \<noteq> [] \<and> (result = [] \<or> Key v \<noteq> Key (last result)) then result @ [v] else result)
      \<subseteq> set result \<union> {v}" by auto
  with Cons show ?case by fastforce
qed simp

text \<open>Sorting and dropping repetitions loses no conflict.\<close>

lemma uniqueResources_represents:
  assumes "r \<in> set rs" and "rsKind r \<noteq> []" and free: "\<forall>r \<in> set rs. nul_free r"
  obtains u where "u \<in> set (uniqueResources rs)" and "claimed_part u = claimed_part r"
proof -
  obtain u where u: "u \<in> set (uniqueResources rs)" "Key u = Key r"
    using unique_after_key [of r "sort_key Key rs" "[]"] assms by (auto simp: uniqueResources_def)
  moreover have "u \<in> set rs" using u(1) unique_after_subset [of "[]" "sort_key Key rs"] by (auto simp: uniqueResources_def)
  ultimately show thesis using that Key_claimed_part [of u r] free assms(1) by blast
qed

lemma unique_conflict:
  assumes "a \<in> set rs" and "b \<in> set rs'" and "rsKind a \<noteq> []" and "rsKind b \<noteq> []" and "resourcesOverlap a b"
    and "rsAccess a = AccessWrite \<or> rsAccess b = AccessWrite"
    and "\<forall>r \<in> set rs. nul_free r" and "\<forall>r \<in> set rs'. nul_free r"
  shows "resourceSetsConflict (uniqueResources rs) (uniqueResources rs')"
proof -
  obtain u where u: "u \<in> set (uniqueResources rs)" "claimed_part u = claimed_part a"
    using uniqueResources_represents assms(1,3,7) by blast
  obtain v where v: "v \<in> set (uniqueResources rs')" "claimed_part v = claimed_part b"
    using uniqueResources_represents assms(2,4,8) by blast
  have "resourcesOverlap u v" using resourcesOverlap_part [OF u(2) v(2)] assms(5) by simp
  moreover have "rsAccess u = AccessWrite \<or> rsAccess v = AccessWrite"
    using assms(6) u(2) v(2) by (simp add: claimed_part_def)
  ultimately show ?thesis using u(1) v(1) by (auto simp: resourceSetsConflict_iff)
qed

lemma conflictsActive_iff:
  "conflictsActive active rs \<longleftrightarrow> (\<exists>i held. fmlookup active i = Some held \<and> resourceSetsConflict rs held)"
  unfolding conflictsActive_def by (metis fBexE fBexI fmlookup_ran_iff)


section \<open>The invariant\<close>

text \<open>
  Every waiting caller is in the queue once, with the resources it asked for; every caller with a
  claim has its own identity in the active map, and nothing else is there; the identities go up
  to the last one used, which together with the waiting calls stays within the calls made; and
  no two active claims conflict.
\<close>

definition claims_ok :: "claims_system \<Rightarrow> bool" where
  "claims_ok s \<longleftrightarrow>
     unat (clNext (claims s)) + length (clQueue (claims s)) \<le> calls s \<and>
     distinct (map fst (clQueue (claims s))) \<and>
     (\<forall>w res. (w, res) \<in> set (clQueue (claims s)) \<longleftrightarrow> (\<exists>rs. claimants s w = Asking rs \<and> res = uniqueResources rs)) \<and>
     (\<forall>w rs i. claim_of (claimants s w) = Some (rs, i) \<longrightarrow> fmlookup (clActive (claims s)) i = Some (uniqueResources rs)) \<and>
     (\<forall>v w rs rs' i. claim_of (claimants s v) = Some (rs, i) \<and> claim_of (claimants s w) = Some (rs', i) \<longrightarrow> v = w) \<and>
     (\<forall>i res. fmlookup (clActive (claims s)) i = Some res \<longrightarrow>
        i \<le> clNext (claims s) \<and> (\<exists>w rs. claim_of (claimants s w) = Some (rs, i))) \<and>
     (\<forall>i j res res'. fmlookup (clActive (claims s)) i = Some res \<and> fmlookup (clActive (claims s)) j = Some res' \<and> i \<noteq> j \<longrightarrow>
        \<not> resourceSetsConflict res res')"

lemma claims_okD:
  assumes "claims_ok s"
  shows "unat (clNext (claims s)) + length (clQueue (claims s)) \<le> calls s"
    "distinct (map fst (clQueue (claims s)))"
    "(w, res) \<in> set (clQueue (claims s)) \<longleftrightarrow> (\<exists>rs. claimants s w = Asking rs \<and> res = uniqueResources rs)"
    "claim_of (claimants s w) = Some (rs, i) \<Longrightarrow> fmlookup (clActive (claims s)) i = Some (uniqueResources rs)"
    "claim_of (claimants s v) = Some (rs, i) \<Longrightarrow> claim_of (claimants s w) = Some (rs', i) \<Longrightarrow> v = w"
    "fmlookup (clActive (claims s)) i = Some res \<Longrightarrow> i \<le> clNext (claims s)"
    "fmlookup (clActive (claims s)) i = Some res \<Longrightarrow> \<exists>w rs. claim_of (claimants s w) = Some (rs, i)"
    "fmlookup (clActive (claims s)) i = Some res \<Longrightarrow> fmlookup (clActive (claims s)) j = Some res' \<Longrightarrow> i \<noteq> j \<Longrightarrow>
       \<not> resourceSetsConflict res res'"
  using assms unfolding claims_ok_def by blast+

lemma claims_okI:
  assumes "unat (clNext c) + length (clQueue c) \<le> n" and "distinct (map fst (clQueue c))"
    and "\<And>w res. (w, res) \<in> set (clQueue c) \<longleftrightarrow> (\<exists>rs. who w = Asking rs \<and> res = uniqueResources rs)"
    and "\<And>w rs i. claim_of (who w) = Some (rs, i) \<Longrightarrow> fmlookup (clActive c) i = Some (uniqueResources rs)"
    and "\<And>v w rs rs' i. claim_of (who v) = Some (rs, i) \<Longrightarrow> claim_of (who w) = Some (rs', i) \<Longrightarrow> v = w"
    and "\<And>i res. fmlookup (clActive c) i = Some res \<Longrightarrow> i \<le> clNext c"
    and "\<And>i res. fmlookup (clActive c) i = Some res \<Longrightarrow> \<exists>w rs. claim_of (who w) = Some (rs, i)"
    and "\<And>i j res res'. fmlookup (clActive c) i = Some res \<Longrightarrow> fmlookup (clActive c) j = Some res' \<Longrightarrow> i \<noteq> j \<Longrightarrow>
       \<not> resourceSetsConflict res res'"
  shows "claims_ok \<lparr>claims = c, claimants = who, calls = n\<rparr>"
  unfolding claims_ok_def using assms by simp blast

text \<open>An identity not used before.\<close>

lemma next_fresh:
  fixes m :: active_claims
  assumes "\<And>i res. fmlookup m i = Some res \<Longrightarrow> i \<le> k" and "unat k + 1 < 2 ^ 64"
  shows "fmlookup m (k + 1) = None" and "unat (k + 1) = unat k + 1" and "k < k + 1"
proof -
  show u: "unat (k + 1) = unat k + 1" using assms(2) by (simp add: unat_word_ariths)
  then show less: "k < k + 1" by (simp add: word_less_nat_alt)
  show "fmlookup m (k + 1) = None" using assms(1) [of "k + 1"] less by (cases "fmlookup m (k + 1)") auto
qed

text \<open>
  Granting a claim that conflicts with no active one, to a caller without one: from the queue or
  on arrival.
\<close>

lemma grant_ok:
  assumes ok: "claims_ok \<lparr>claims = c, claimants = who, calls = n\<rparr>" and free: "\<not> conflictsActive (clActive c) (uniqueResources rs)"
    and w: "claim_of (who w) = None" and new: "claim_of k = Some (rs, clNext c + 1)" and few: "unat (clNext c) + 1 < 2 ^ 64"
    and q: "clQueue c' = filter (\<lambda>v. fst v \<noteq> w) (clQueue c)" and c': "clNext c' = clNext c + 1"
      "clActive c' = fmupd (clNext c + 1) (uniqueResources rs) (clActive c)"
    and room: "unat (clNext c) + 1 + length (clQueue c') \<le> n'"
  shows "claims_ok \<lparr>claims = c', claimants = who(w := k), calls = n'\<rparr>"
proof -
  note D = claims_okD [OF ok, simplified]
  let ?i = "clNext c + 1"
  have fresh: "fmlookup (clActive c) ?i = None" "unat ?i = unat (clNext c) + 1" "clNext c < ?i"
    using next_fresh [of "clActive c" "clNext c"] D(6) few by blast+
  have asks: "k \<noteq> Asking rs'" for rs' using new by auto
  have nolook: "\<not> claim_of (who v) = Some (rs', ?i)" for v rs' using D(4) fresh(1) by fastforce
  show ?thesis
  proof (rule claims_okI)
    show "unat (clNext c') + length (clQueue c') \<le> n'" using room c' fresh(2) by simp
    show "distinct (map fst (clQueue c'))" using D(2) q by (simp add: distinct_map_filter)
    show "(v, res) \<in> set (clQueue c') \<longleftrightarrow> (\<exists>rs. (who(w := k)) v = Asking rs \<and> res = uniqueResources rs)" for v res
      using D(3) q asks by auto
    show "fmlookup (clActive c') i = Some (uniqueResources rs')" if "claim_of ((who(w := k)) v) = Some (rs', i)" for v rs' i
      using that D(4) [of v rs' i] nolook [of v rs'] new by (auto simp: c' split: if_splits)
    show "u = v" if "claim_of ((who(w := k)) u) = Some (rs1, i)" "claim_of ((who(w := k)) v) = Some (rs2, i)" for u v rs1 rs2 i
      using that D(5) nolook new by (auto split: if_splits)
    show "i \<le> clNext c'" if "fmlookup (clActive c') i = Some res" for i res
      using that D(6) [of i res] fresh(3) by (auto simp: c' split: if_splits)
    show "\<exists>v rs'. claim_of ((who(w := k)) v) = Some (rs', i)" if "fmlookup (clActive c') i = Some res" for i res
    proof (cases "i = ?i")
      case True
      then show ?thesis using new by (intro exI [of _ w] exI [of _ rs]) simp
    next
      case False
      then have "fmlookup (clActive c) i = Some res" using that c'(2) by simp
      then obtain v rs' where "claim_of (who v) = Some (rs', i)" using D(7) by blast
      then show ?thesis using w by (intro exI [of _ v] exI [of _ rs']) auto
    qed
    show "\<not> resourceSetsConflict res res'"
      if "fmlookup (clActive c') i = Some res" "fmlookup (clActive c') j = Some res'" "i \<noteq> j" for i j res res'
      using that D(8) free resourceSetsConflict_sym
      by (fastforce simp: c' conflictsActive_iff split: if_splits)
  qed
qed

text \<open>The other changes a step makes to a system that keeps the invariant.\<close>

lemma drop_ok:
  assumes ok: "claims_ok \<lparr>claims = c, claimants = who, calls = n\<rparr>" and w: "claim_of (who w) = Some (rs, i)"
  shows "claims_ok \<lparr>claims = c\<lparr>clActive := fmdrop i (clActive c)\<rparr>, claimants = who(w := Idle), calls = n\<rparr>"
proof -
  note D = claims_okD [OF ok, simplified]
  have other: "j \<noteq> i" if "claim_of (who v) = Some (rs', j)" "v \<noteq> w" for v rs' j
    using D(5) [OF w] that by blast
  have quiet: "who w \<noteq> Asking rs'" for rs' using w by (cases "who w") simp_all
  show ?thesis
  proof (rule claims_okI, goal_cases)
    case (3 v res)
    show ?case using D(3) [of v res] quiet by (cases "v = w") simp_all
  next
    case (4 v rs' j)
    then have "claim_of (who v) = Some (rs', j)" "v \<noteq> w" by (simp_all split: if_splits)
    then show ?case using D(4) [of v rs' j] other [of v rs' j] by simp
  next
    case (5 u v rs1 rs2 j)
    then have "claim_of (who u) = Some (rs1, j)" "claim_of (who v) = Some (rs2, j)" by (simp_all split: if_splits)
    then show ?case by (rule D(5))
  next
    case (7 j res)
    then have "fmlookup (clActive c) j = Some res" and ne: "j \<noteq> i" by (simp_all split: if_splits)
    then obtain v rs' where v: "claim_of (who v) = Some (rs', j)" using D(7) by blast
    have "v \<noteq> w" using w v ne by auto
    then show ?case using v by (intro exI [of _ v] exI [of _ rs']) simp
  next
    case (8 j k res res')
    then show ?case using D(8) [of j res k res'] by (simp split: if_splits)
  next
    case (6 j res)
    then show ?case using D(6) [of j res] by (simp split: if_splits)
  qed (use D(1,2) in simp_all)
qed

lemma unqueue_ok:
  assumes ok: "claims_ok \<lparr>claims = c, claimants = who, calls = n\<rparr>" and w: "claim_of (who w) = None"
  shows "claims_ok \<lparr>claims = c\<lparr>clQueue := filter (\<lambda>v. fst v \<noteq> w) (clQueue c)\<rparr>, claimants = who(w := Idle), calls = n\<rparr>"
proof -
  note D = claims_okD [OF ok, simplified]
  have l: "length (filter (\<lambda>v. fst v \<noteq> w) (clQueue c)) \<le> length (clQueue c)" by simp
  show ?thesis
  proof (rule claims_okI, goal_cases)
    case 1
    show ?case using D(1) by (simp add: order_trans [OF add_left_mono [OF l]])
  next
    case 2
    then show ?case using D(2) by (simp add: distinct_map_filter)
  next
    case (3 v res)
    then show ?case using D(3) [of v res] by auto
  next
    case (5 u v rs1 rs2 j)
    then have "claim_of (who u) = Some (rs1, j)" "claim_of (who v) = Some (rs2, j)" by (simp_all split: if_splits)
    then show ?case by (rule D(5))
  next
    case (7 j res)
    then have "fmlookup (clActive c) j = Some res" by simp
    then obtain v rs' where v: "claim_of (who v) = Some (rs', j)" using D(7) by blast
    then show ?case using w by (intro exI [of _ v] exI [of _ rs']) auto
  next
    case (8 j k res res')
    then show ?case using D(8) [of j res k res'] by simp
  next
    case (4 v rs' j)
    then have "claim_of (who v) = Some (rs', j)" by (simp split: if_splits)
    then show ?case using D(4) by simp
  next
    case (6 j res)
    then show ?case using D(6) [of j res] by (simp split: if_splits)
  qed
qed

lemma enqueue_ok:
  assumes ok: "claims_ok \<lparr>claims = c, claimants = who, calls = n\<rparr>" and w: "who w = Idle"
  shows "claims_ok \<lparr>claims = c\<lparr>clQueue := clQueue c @ [(w, uniqueResources rs)]\<rparr>, claimants = who(w := Asking rs), calls = Suc n\<rparr>"
proof -
  note D = claims_okD [OF ok, simplified]
  have new: "w \<notin> fst ` set (clQueue c)" using D(3) w by fastforce
  show ?thesis
  proof (rule claims_okI, goal_cases)
    case (3 v res)
    then show ?case using D(3) [of v res] w by auto
  next
    case (5 u v rs1 rs2 j)
    then have "claim_of (who u) = Some (rs1, j)" "claim_of (who v) = Some (rs2, j)" by (simp_all split: if_splits)
    then show ?case by (rule D(5))
  next
    case (7 j res)
    then have "fmlookup (clActive c) j = Some res" by simp
    then obtain v rs' where v: "claim_of (who v) = Some (rs', j)" using D(7) by blast
    then show ?case using w by (intro exI [of _ v] exI [of _ rs']) auto
  next
    case (8 j k res res')
    then show ?case using D(8) [of j res k res'] by simp
  next
    case (4 v rs' j)
    then have "claim_of (who v) = Some (rs', j)" by (simp split: if_splits)
    then show ?case using D(4) by simp
  next
    case (6 j res)
    then show ?case using D(6) [of j res] by (simp split: if_splits)
  qed (use D(1,2) new in simp_all)
qed

lemma recolour_ok:
  assumes ok: "claims_ok \<lparr>claims = c, claimants = who, calls = n\<rparr>" and w: "claim_of (who w) = Some (rs, i)" and k: "claim_of k = Some (rs, i)"
  shows "claims_ok \<lparr>claims = c, claimants = who(w := k), calls = n\<rparr>"
proof -
  have 1: "claim_of ((who(w := k)) v) = claim_of (who v)" for v using w k by simp
  have 2: "(who(w := k)) v = Asking rs' \<longleftrightarrow> who v = Asking rs'" for v rs' using w k by auto
  show ?thesis using ok unfolding claims_ok_def by (simp only: 1 2 claims_system.simps) blast
qed

section \<open>Serving the queue\<close>

text \<open>A waiting call has a reason to wait: an active claim or an earlier waiter that conflicts with it.\<close>

definition justified :: "active_claims \<Rightarrow> claim_waiter list \<Rightarrow> bool" where
  "justified active q \<longleftrightarrow>
     (\<forall>pre w post. q = pre @ w # post \<longrightarrow> conflictsActive active (snd w) \<or> conflictsQueued pre (snd w))"

lemma justified_Nil [simp]: "justified active []"
  by (simp add: justified_def)

lemma justified_snoc:
  "justified active q \<Longrightarrow> conflictsActive active (snd w) \<or> conflictsQueued q (snd w) \<Longrightarrow> justified active (q @ [w])"
  unfolding justified_def
proof (intro allI impI)
  fix pre u post
  assume *: "\<forall>pre w post. q = pre @ w # post \<longrightarrow> conflictsActive active (snd w) \<or> conflictsQueued pre (snd w)"
    "conflictsActive active (snd w) \<or> conflictsQueued q (snd w)" "q @ [w] = pre @ u # post"
  show "conflictsActive active (snd u) \<or> conflictsQueued pre (snd u)"
  proof (cases post rule: rev_cases)
    case Nil
    then show ?thesis using * by simp
  next
    case (snoc post' x)
    then have "q = pre @ u # post'" using *(3) by simp
    then show ?thesis using *(1) by blast
  qed
qed

lemma justified_grant:
  assumes "justified active q" and "fmlookup active i = None"
  shows "justified (fmupd i res active) q"
proof -
  have "conflictsActive (fmupd i res active) rs" if "conflictsActive active rs" for rs
    using that assms(2) unfolding conflictsActive_iff by (metis fmupd_lookup option.distinct(1))
  then show ?thesis using assms(1) unfolding justified_def by blast
qed

lemma dispatch_ok:
  assumes "dispatch_claims passed ws c = (granted, c')"
    and "claims_ok \<lparr>claims = c\<lparr>clQueue := passed @ ws\<rparr>, claimants = who, calls = n\<rparr>"
    and "justified (clActive c) passed" and n: "n < 2 ^ 64"
  shows "claims_ok \<lparr>claims = c', claimants = grant granted who, calls = n\<rparr> \<and> justified (clActive c') (clQueue c')"
  using assms(1-3)
proof (induction ws arbitrary: passed c who granted)
  case (Cons waiter ws)
  obtain w res where waiter: "waiter = (w, res)" by (cases waiter)
  note ok = Cons.prems(2) [unfolded waiter] and D = claims_okD [OF Cons.prems(2), unfolded waiter, simplified]
  show ?case
  proof (cases "conflictsActive (clActive c) res \<or> conflictsQueued passed res")
    case True
    then have "justified (clActive c) (passed @ [waiter])" using Cons.prems(3) waiter by (simp add: justified_snoc)
    then show ?thesis using Cons.IH [of "passed @ [waiter]" c granted who] Cons.prems True waiter by simp
  next
    case False
    let ?i = "clNext c + 1"
    let ?c = "c\<lparr>clNext := ?i, clActive := fmupd ?i res (clActive c)\<rparr>"
    obtain rest where rest: "dispatch_claims passed ws ?c = (rest, c')" and g: "granted = (w, ?i) # rest"
      using Cons.prems(1) False waiter by (auto simp: grantLocked_def Let_def split: prod.splits)
    obtain rs where rs: "who w = Asking rs" "res = uniqueResources rs" using D(3) [of w res] by auto
    have few: "unat (clNext c) + 1 < 2 ^ 64" using D(1) n by simp
    have "filter (\<lambda>v. fst v \<noteq> w) xs = xs" if "w \<notin> fst ` set xs" for xs :: "claim_waiter list"
      using that by (auto simp: filter_id_conv image_iff)
    then have gone: "filter (\<lambda>v. fst v \<noteq> w) passed = passed" "filter (\<lambda>v. fst v \<noteq> w) ws = ws"
      using D(2) by simp_all
    have "claims_ok \<lparr>claims = ?c\<lparr>clQueue := passed @ ws\<rparr>, claimants = who(w := Granted rs ?i), calls = n\<rparr>"
      by (rule grant_ok [OF ok]) (use False rs few gone D(1) in simp_all)
    moreover have "justified (clActive ?c) passed"
      using justified_grant [OF Cons.prems(3), of ?i res] next_fresh(1) [of "clActive c" "clNext c"] D(6) few by auto
    ultimately have "claims_ok \<lparr>claims = c', claimants = grant rest (who(w := Granted rs ?i)), calls = n\<rparr> \<and>
        justified (clActive c') (clQueue c')" by (rule Cons.IH [OF rest])
    then show ?thesis using g rs(1) by simp
  qed
qed auto

lemma removeClaimWaiter_Some:
  "removeClaimWaiter ws w = Some rest \<Longrightarrow> distinct (map fst ws) \<Longrightarrow>
     w \<in> fst ` set ws \<and> rest = filter (\<lambda>v. fst v \<noteq> w) ws"
proof (induction ws arbitrary: rest)
  case (Cons v ws)
  then show ?case
    by (auto simp: image_iff split: if_splits intro!: filter_True [symmetric])
qed simp

lemma removeClaimWaiter_None: "removeClaimWaiter ws w = None \<Longrightarrow> w \<notin> fst ` set ws"
  by (induction ws) (auto split: if_splits)

section \<open>Every step keeps the invariant\<close>

lemma claim_locked_cases:
  "claim_locked w res c = (Some i, c') \<Longrightarrow> \<not> conflictsActive (clActive c) res \<and> \<not> conflictsQueued (clQueue c) res \<and>
     i = clNext c + 1 \<and> c' = c\<lparr>clNext := i, clActive := fmupd i res (clActive c)\<rparr>"
  "claim_locked w res c = (None, c') \<Longrightarrow> (conflictsActive (clActive c) res \<or> conflictsQueued (clQueue c) res) \<and>
     c' = c\<lparr>clQueue := clQueue c @ [(w, res)]\<rparr>"
  by (auto simp: claim_locked_def grantLocked_def Let_def split: if_splits)

lemma enter_ok:
  assumes ok: "claims_ok \<lparr>claims = c, claimants = who, calls = n\<rparr>" and j: "justified (clActive c) (clQueue c)"
    and w: "who w = Idle" and l: "claim_locked w (uniqueResources rs) c = (Some i, c')" and n: "Suc n < 2 ^ 64"
  shows "claims_ok \<lparr>claims = c', claimants = who(w := Claiming rs i), calls = Suc n\<rparr> \<and>
    justified (clActive c') (clQueue c')"
proof -
  note D = claims_okD [OF ok, simplified] and L = claim_locked_cases(1) [OF l]
  have few: "unat (clNext c) + 1 < 2 ^ 64" using D(1) n by simp
  have "w \<notin> fst ` set (clQueue c)" using D(3) w by fastforce
  then have keep: "clQueue c' = filter (\<lambda>v. fst v \<noteq> w) (clQueue c)"
    using L by (auto simp: image_iff intro!: filter_True [symmetric])
  have "claims_ok \<lparr>claims = c', claimants = who(w := Claiming rs i), calls = Suc n\<rparr>"
    by (rule grant_ok [OF ok, where rs = rs]) (use L keep w few D(1) in simp_all)
  moreover have "fmlookup (clActive c) i = None"
    using next_fresh(1) [of "clActive c" "clNext c"] D(6) few L by blast
  ultimately show ?thesis using justified_grant [OF j] L by simp
qed

text \<open>The two sections that serve the queue, as runs of the loop over it.\<close>

lemma cancel_claim_dispatches:
  assumes ok: "claims_ok \<lparr>claims = c, claimants = who, calls = n\<rparr>" and "cancel_claim w c = (True, granted, c')"
  obtains rest where "claim_of (who w) = None" and "rest = filter (\<lambda>v. fst v \<noteq> w) (clQueue c)"
    and "dispatch_claims [] rest (c\<lparr>clQueue := rest\<rparr>) = (granted, c')"
proof -
  obtain rest where r: "removeClaimWaiter (clQueue c) w = Some rest"
      and d: "dispatch_claims [] rest (c\<lparr>clQueue := rest\<rparr>) = (granted, c')"
    using assms(2) by (auto simp: cancel_claim_def Claims_dispatchLocked_def split: option.splits)
  note D = claims_okD [OF ok, simplified]
  from removeClaimWaiter_Some [OF r D(2)] have mem: "w \<in> fst ` set (clQueue c)"
    and rest: "rest = filter (\<lambda>v. fst v \<noteq> w) (clQueue c)" by auto
  have "claim_of (who w) = None" using mem D(3) by force
  then show thesis using that rest d by blast
qed

lemma releaseID_dispatches:
  assumes ok: "claims_ok \<lparr>claims = c, claimants = who, calls = n\<rparr>" and w: "claim_of (who w) = Some (rs, i)"
    and "releaseID i c = (granted, c')"
  shows "dispatch_claims [] (clQueue c) (c\<lparr>clActive := fmdrop i (clActive c)\<rparr>) = (granted, c')"
  using assms(3) claims_okD(4) [OF ok, simplified, OF w] by (simp add: releaseID_def Claims_dispatchLocked_def)

lemma claims_ok_eta: "claims_ok s \<Longrightarrow> claims_ok \<lparr>claims = claims s, claimants = claimants s, calls = calls s\<rparr>"
  by (cases s) simp

lemma claim_step_ok:
  assumes "claim_step s s'" and ok: "claims_ok s" and j: "justified (clActive (claims s)) (clQueue (claims s))"
    and n: "calls s' < 2 ^ 64"
  shows "claims_ok s' \<and> justified (clActive (claims s')) (clQueue (claims s'))"
  using assms(1)
proof cases
  case (enter w rs i c)
  then show ?thesis using enter_ok [OF claims_ok_eta [OF ok] j enter(2,3)] n by simp
next
  case (enqueue w rs c)
  then show ?thesis
    using enqueue_ok [OF claims_ok_eta [OF ok] enqueue(2), of rs] justified_snoc [OF j] claim_locked_cases(2) [OF enqueue(3)] by simp
next
  case (resume w rs i)
  have "claims_ok \<lparr>claims = claims s, claimants = (claimants s)(w := Claiming rs i), calls = calls s\<rparr>"
    by (rule recolour_ok [OF claims_ok_eta [OF ok], of w rs i]) (simp_all add: resume(2))
  then show ?thesis using resume(1) j by (cases s) simp
next
  case (give_up w rs i granted c)
  obtain rest where w: "claim_of (claimants s w) = None" and rest: "rest = filter (\<lambda>v. fst v \<noteq> w) (clQueue (claims s))"
    and d: "dispatch_claims [] rest ((claims s)\<lparr>clQueue := rest\<rparr>) = (granted, c)"
    by (rule cancel_claim_dispatches [OF claims_ok_eta [OF ok] give_up(3)])
  from unqueue_ok [OF claims_ok_eta [OF ok] w] show ?thesis
    using dispatch_ok [OF d, of "(claimants s)(w := Idle)" "calls s"] rest n give_up(1) by simp
next
  case (too_late w rs i granted c)
  have "c = claims s" using too_late(3) by (auto simp: cancel_claim_def split: option.splits prod.splits)
  moreover have "claims_ok \<lparr>claims = claims s, claimants = (claimants s)(w := Returning rs i), calls = calls s\<rparr>"
    by (rule recolour_ok [OF claims_ok_eta [OF ok], of w rs i]) (simp_all add: too_late(2))
  ultimately show ?thesis using too_late(1) j by simp
next
  case (leave w rs i granted c)
  have w: "claim_of (claimants s w) = Some (rs, i)" using leave(2) by auto
  note d = releaseID_dispatches [OF claims_ok_eta [OF ok] w leave(3)]
  from drop_ok [OF claims_ok_eta [OF ok] w] show ?thesis
    using dispatch_ok [OF d, of "(claimants s)(w := Idle)" "calls s"] n leave(1) by simp
qed

lemma claim_step_calls: "claim_step s s' \<Longrightarrow> calls s \<le> calls s'"
  by (induction rule: claim_step.induct) simp_all

lemma claims_reach_ok:
  "claims_reach s \<Longrightarrow> calls s < 2 ^ 64 \<Longrightarrow> claims_ok s \<and> justified (clActive (claims s)) (clQueue (claims s))"
proof (induction rule: claims_reach.induct)
  case start
  then show ?case by (auto simp: no_claims_def NewClaims_def intro!: claims_okI)
next
  case (step s s')
  then have "calls s < 2 ^ 64" using claim_step_calls by (metis le_less_trans)
  with step show ?case using claim_step_ok by blast
qed

section \<open>The order of service\<close>








section \<open>The guarantees\<close>

text \<open>C39: Two tool calls that hold claims at the same time never conflict: when resources they
  asked for overlap (the same file, a file below a claimed tree, the same service), both only read
  it. This holds for the resources as declared, so sorting them and dropping repetitions loses
  none, for however calls arrive, wait, are cancelled and leave, as long as fewer than 2^64 calls
  were made and no name holds a zero byte.\<close>

theorem claims_exclusive:
  assumes "claims_reach s" and "calls s < 2 ^ 64" and "v \<noteq> w"
    and "claim_of (claimants s v) = Some (rs, i)" and "claim_of (claimants s w) = Some (rs', j)"
    and "\<forall>r \<in> set rs \<union> set rs'. nul_free r"
  shows "\<forall>a \<in> set rs. \<forall>b \<in> set rs'. rsKind a \<noteq> [] \<and> rsKind b \<noteq> [] \<and> resourcesOverlap a b \<longrightarrow>
    rsAccess a \<noteq> AccessWrite \<and> rsAccess b \<noteq> AccessWrite"
proof -
  have ok: "claims_ok s" using claims_reach_ok [OF assms(1,2)] by simp
  have "i \<noteq> j" using claims_okD(5) [OF ok assms(4)] assms(3,5) by blast
  then have "\<not> resourceSetsConflict (uniqueResources rs) (uniqueResources rs')"
    using claims_okD(8) [OF ok] claims_okD(4) [OF ok assms(4)] claims_okD(4) [OF ok assms(5)] by blast
  then show ?thesis using unique_conflict assms(6) by blast
qed

text \<open>Callers 7 and 9 read one file and hold claims on it; caller 5 wants to write it and waits.\<close>

definition demo_resource :: "string \<Rightarrow> ToolResource" where
  "demo_resource access = \<lparr>rsKind = ''file'', rsPath = ''/w/a'', rsID = [], rsAccess = access, rsTree = False,
     rsProtocol = [], rsPort = 0, rsMethods = [], rsAllowPrivate = False\<rparr>"

abbreviation demo_read :: "ToolResource list" where
  "demo_read \<equiv> [demo_resource AccessRead]"

abbreviation demo_write :: "ToolResource list" where
  "demo_write \<equiv> [demo_resource AccessWrite]"

lemma demo_conflicts [simp]:
  "uniqueResources [demo_resource access] = [demo_resource access]"
  "\<not> resourceSetsConflict demo_read demo_read" "resourceSetsConflict demo_write demo_read"
  "nul_free (demo_resource AccessRead)"
  by (simp_all add: uniqueResources_def resourceSetsConflict_def resourcesOverlap_def demo_resource_def
      isPathKind_def AccessRead_def AccessWrite_def nul_free_def nul_def Let_def)

definition demo_claims :: claims_system where
  "demo_claims = \<lparr>claims = \<lparr>clActive = fmupd 2 demo_read (fmupd 1 demo_read fmempty), clQueue = [(5, demo_write)], clNext = 2\<rparr>,
     claimants = (\<lambda>_. Idle)(7 := Claiming demo_read 1, 9 := Claiming demo_read 2, 5 := Asking demo_write), calls = 3\<rparr>"

lemma demo_claims_reach: "claims_reach demo_claims"
proof -
  let ?c1 = "\<lparr>clActive = fmupd 1 demo_read fmempty, clQueue = [], clNext = 1\<rparr>"
  let ?c2 = "\<lparr>clActive = fmupd 2 demo_read (fmupd 1 demo_read fmempty), clQueue = [], clNext = 2\<rparr>"
  let ?c3 = "\<lparr>clActive = fmupd 2 demo_read (fmupd 1 demo_read fmempty), clQueue = [(5, demo_write)], clNext = 2\<rparr>"
  have 1: "claim_locked 7 (uniqueResources demo_read) (claims no_claims) = (Some 1, ?c1)"
    by (simp add: claim_locked_def no_claims_def NewClaims_def conflictsActive_iff conflictsQueued_def grantLocked_def)
  have 2: "claim_locked 9 (uniqueResources demo_read) ?c1 = (Some 2, ?c2)"
    by (simp add: claim_locked_def conflictsActive_iff conflictsQueued_def grantLocked_def)
  have 3: "claim_locked 5 (uniqueResources demo_write) ?c2 = (None, ?c3)"
    by (simp add: claim_locked_def conflictsActive_iff exI [of _ 1])
  let ?s1 = "\<lparr>claims = ?c1, claimants = (\<lambda>_. Idle)(7 := Claiming demo_read 1), calls = 1\<rparr>"
  let ?s2 = "\<lparr>claims = ?c2, claimants = (\<lambda>_. Idle)(7 := Claiming demo_read 1, 9 := Claiming demo_read 2), calls = 2\<rparr>"
  have "claim_step no_claims ?s1"
    using claim_step.enter [OF _ 1] by (simp add: no_claims_def)
  moreover have "claim_step ?s1 ?s2"
    using claim_step.enter [of ?s1 9 demo_read 2 ?c2] 2 by (simp add: numeral_2_eq_2)
  moreover have "claim_step ?s2 demo_claims"
    using claim_step.enqueue [of ?s2 5 demo_write ?c3] 3 by (simp add: demo_claims_def)
  ultimately show ?thesis by (meson claims_reach.intros)
qed

theorem claims_exclusive_witness:
  "claims_reach demo_claims \<and> claim_of (claimants demo_claims 7) = Some (demo_read, 1) \<and>
   claim_of (claimants demo_claims 9) = Some (demo_read, 2) \<and>
   resourcesOverlap (demo_resource AccessRead) (demo_resource AccessRead) \<and>
   rsAccess (demo_resource AccessRead) \<noteq> AccessWrite"
proof -
  have few: "calls demo_claims < 2 ^ 64" and ne: "(7::nat) \<noteq> 9"
    and a: "claim_of (claimants demo_claims 7) = Some (demo_read, 1)"
    and b: "claim_of (claimants demo_claims 9) = Some (demo_read, 2)"
    and free: "\<forall>r \<in> set demo_read \<union> set demo_read. nul_free r" by (simp_all add: demo_claims_def)
  have over: "rsKind (demo_resource AccessRead) \<noteq> []" "resourcesOverlap (demo_resource AccessRead) (demo_resource AccessRead)"
    by (simp_all add: demo_resource_def resourcesOverlap_def isPathKind_def)
  then have "rsAccess (demo_resource AccessRead) \<noteq> AccessWrite"
    using claims_exclusive [OF demo_claims_reach few ne a b free] by simp
  then show ?thesis using demo_claims_reach a b over(2) by blast
qed



end
