(* ===== verification/Spec2Isabelle.thy ===== *)
theory Spec2Isabelle
  imports TurnControl EffectGuarantees Restore RuntimeControl TerminalCommit PatchRoundtrip
    ApplyTransaction BudgetSafety ToolBudget ClaimSafety
begin

text \<open>
  QCode runs one turn of a coding agent as a durable state machine. This development models the
  parts of it that decide what a turn may do, and proves what they promise.

  \<^bold>\<open>The program.\<close> The \<^emph>\<open>turn kernel\<close> (\<open>src/internal/runtime/agent/turnkernel\<close>) owns the state of
  a turn. A host submits \<^emph>\<open>commands\<close>; the \<^emph>\<open>reducer\<close> is a pure function that accepts or refuses a
  command and answers with the next state, the events and the requested \<^emph>\<open>effects\<close> (a provider
  sample, a tool execution, an approval, a verification, the journal, the final persistence). The
  \<^emph>\<open>coordinator\<close> makes every accepted command durable as domain facts before it takes effect, and
  hands the effects to the \<^emph>\<open>dispatcher\<close>, a registry that sees to it that each effect is run and
  resolved once. A turn ends with a \<^emph>\<open>terminal envelope\<close> that seals it, and an interrupted turn is
  \<^emph>\<open>restored\<close> from its facts. Tools change files through a \<^emph>\<open>transaction\<close>, which becomes a plan the
  \<^emph>\<open>file broker\<close> commits or rolls back, and show the change as a \<^emph>\<open>text diff\<close>. How many tools run
  at once is bounded by the \<^emph>\<open>execution budget\<close>, what they may touch at once by the \<^emph>\<open>claims\<close>, and
  what sub-agents may spend by the \<^emph>\<open>work budget\<close>.

  \<^bold>\<open>Conventions.\<close> A Go struct is a record with the fields of the source, prefixed where two structs
  share a name; a map is an \<open>fmap\<close>; \<open>string\<close> and \<open>[]byte\<close> are lists of 8-bit characters; unsigned
  and signed integers whose overflow can matter are words. A \<open>nil\<close> slice or map is the empty one. An
  \<open>error\<close> is a value of an error datatype, one constructor per place that makes one; a function that
  returns a value and an error is a sum, one that changes its receiver returns it. A loop over a map
  that stops at an error visits the keys in ascending order, and no statement depends on the order.
  Every loop of the models ends: the definitions are total and there is no fuel. Code outside the
  repository or the standard library's encoders are parameters: the JSON and SHA-256 functions
  of the kernel (\<open>codec\<close>), the encoding of a file plan, path resolution and read freshness of
  the file tools, the fact marshalling. Their assumptions are named where they are used and
  instantiated by concrete functions for the witnesses. Operating system calls of the file broker
  end as an outcome oracle says. Concurrent code is split at its locks: a step is one critical
  section of one caller, and the properties hold for every interleaving.

  \<^bold>\<open>Shared theories.\<close> \<open>Prelude\<close> holds Go's integers, dictionaries and the pieces of its standard
  library; \<open>GoPath\<close> the part of \<open>path/filepath\<close>; \<open>RunSystem\<close> the locale \<open>run_system\<close> of step
  relations and their runs, interpreted for the reducer, the coordinator, the effect system and the
  mailbox; \<open>FactStore\<close> the locale \<open>fact_store\<close> of durable stores, interpreted for the memory store.

  \<^bold>\<open>The turn kernel.\<close>
  \<^item> \<open>ProviderTypes\<close> (\<open>provider/types.go\<close>, \<open>failure.go\<close>, \<open>replay.go\<close>): content, stream events, usage
    and its merging. \<open>Assembly\<close> (\<open>provider/assembly/response_assembly.go\<close>): transport segments,
    event admission, fragments, validation and the durable extension check.
  \<^item> \<open>KernelState\<close> (\<open>state.go\<close>), \<open>Commands\<close> (\<open>command.go\<close>, \<open>command_matrix.go\<close>), \<open>KernelEffects\<close>
    (\<open>reducer_common.go\<close>, \<open>reducer_effect.go\<close>), \<open>WorkItems\<close> (\<open>work_item.go\<close>), \<open>KernelValidate\<close>
    (\<open>invariants.go\<close>): the state, the vocabulary of the reducer and its invariant \<open>Validate\<close>.
  \<^item> \<open>ReducerTools\<close>, \<open>ReducerSampling\<close>, \<open>ReducerVerification\<close>, \<open>Reducer\<close> (\<open>reducer*.go\<close>): one
    definition per handler, and \<open>Apply\<close> with its checks before and after the handler.
  \<^item> \<open>Frames\<close>, \<open>ValidState\<close>, \<open>HandlerStates\<close>, \<open>Evolution\<close>, \<open>Trace\<close>, \<open>Ownership\<close>, \<open>TurnRuns\<close>: what
    each helper and handler changes, what one accepted command may do to every part of the state, and
    what follows for runs. \<open>DemoTurn\<close> is a complete turn on which the witnesses evaluate.
  \<^item> \<open>TurnSafety\<close> (C1 to C8): a turn that must be verified completes only verified; calls are
    answered and effects accounted for; phases follow the graph; a committing turn is frozen.
    \<open>TurnControl\<close> (C9 to C15): cancellation, approvals, journal, continuations, convergence.

  \<^bold>\<open>Durability and effects.\<close>
  \<^item> \<open>FactStore\<close> (\<open>terminal_envelope.go\<close>, \<open>coordinator.go\<close>), \<open>Coordinator\<close> (\<open>coordinator.go\<close>),
    \<open>Dispatcher\<close> (\<open>effect_dispatcher.go\<close>), \<open>EffectSystem\<close> (both with their callers).
  \<^item> \<open>EffectResults\<close>, \<open>EffectSafety\<close>, \<open>EffectGuarantees\<close> (C16 to C20): under every interleaving no
    effect is lost, one resolution runs at a time, the first result counts and is accepted once, and
    no lifecycle call waits for its own lock. \<open>Durability\<close> (C21, C22): the log gives the turn back, and
    the durable turn is the reducer's turn. \<open>Restore\<close> (C23): a restored turn continues it.
  \<^item> \<open>RuntimeControl\<close> (\<open>runtime_control.go\<close>; C24, C25): the mailbox is a bounded queue, the request
    ledger refines one machine per request.
  \<^item> \<open>TerminalEnvelope\<close> (\<open>measurement.go\<close>, \<open>terminal_envelope.go\<close>), \<open>TerminalCommit\<close> (C26 to C28):
    the terminal commit seals a turn, is all or nothing, and its outbox is handed out until published.

  \<^bold>\<open>Files.\<close>
  \<^item> \<open>TextDiff\<close> (\<open>platform/textdiff/textdiff.go\<close>), \<open>DiffScript\<close> (C29): the script is a correct and,
    within the table's bound, minimal diff. \<open>FilePatch\<close> (\<open>adapter/tool/file/patch.go\<close>),
    \<open>PatchRoundtrip\<close> (C30): a rendered diff applies to give the new text.
  \<^item> \<open>FileBroker\<close> (\<open>security/filebroker/broker.go\<close>, \<open>security/sandbox/workspace.go\<close>,
    \<open>workspace_fs_unix.go\<close>), \<open>BrokerSafety\<close> (C31, C32): a commit is all or nothing or says it is not.
  \<^item> \<open>FileApply\<close> (\<open>adapter/tool/file/apply.go\<close>), \<open>ApplyTransaction\<close> (C33, C34): a transaction refines
    running its requests one by one, down to what the workspace holds afterwards.

  \<^bold>\<open>Budgets and claims.\<close>
  \<^item> \<open>BudgetLedger\<close> (\<open>orchestration/budget/ledger.go\<close>), \<open>BudgetSafety\<close> (C35, C36): the books balance
    at every scope and no limit is exceeded.
  \<^item> \<open>ToolBudget\<close> (\<open>adapter/tool/execution_budget.go\<close>, \<open>turnkernel/tool_scheduler.go\<close>; C37, C38): the
    leases in use never exceed the capacity and are granted in the order of arrival.
  \<^item> \<open>ToolClaims\<close> (\<open>Claims\<close> and the resources of \<open>adapter/tool/tool.go\<close>), \<open>ClaimSafety\<close> (C39, C40):
    no two holders conflict, nobody waits without a conflict, and no conflicting call is overtaken.

  \<^bold>\<open>Bounds.\<close> Identities of effects and of claims are 64-bit counters: their uniqueness is stated for at
  most \<open>2 ^ 64\<close> of them. The balance of the work budget is stated for a total volume below \<open>2 ^ 63\<close>,
  because sums of the source wrap around beyond it; \<open>wrapped_reservation_admitted\<close> shows what happens
  then. The diff's table holds 32-bit lengths and is only used below \<open>maxCells\<close>, so they do not
  overflow.

  \<^bold>\<open>Where the code falls short.\<close> Besides C7 (an undiscarded output blocks a failed turn), three lemmas
  show behaviour outside the hypotheses of a property: \<open>unsynced_write_kept\<close> and
  \<open>umask_blocks_creation\<close> for the file broker, \<open>zero_context_misplaced\<close> for diffs without context.

  \<^bold>\<open>Not modelled.\<close> The runtime kernel facade (locking and forwarding around the coordinator), the
  observer of the coordinator and the dispatcher's \<open>Abort\<close>; projections of the kernel to
  diagnostics and protocol events; the agent engine, which drives the kernel with goroutines, streams
  and timers; the provider adapters and their HTTP; the tool implementations and their guard beyond
  files, budgets and claims; the lease authority around the file broker's commit; the diff reader,
  which is a library outside the repository; hosts, databases and the operating system sandboxes. They
  are input and output, wire formats of external services, or rest on code that is not in the
  repository.
\<close>

end
